(* ===== verification/Go_Prelude.thy ===== *)
theory Go_Prelude
  imports Main "HOL-Library.Sublist"
begin

text \<open>
  Prelude of the development: what the operator's Go code takes from the language and its
  standard library, and the calculus in which the components are written and proved.

  \<^item> Effects. A Go function that talks to Kubernetes, to the RabbitMQ management API or to the
    event recorder is a value of type \<open>('n, 'e, 'a) io\<close>: it maps the environment \<open>'n\<close>
    (how every outside party answers) and the history of calls made so far to an outcome and
    the extended history. An answer may depend on the whole history, so an arbitrary
    environment covers every behaviour of the outside world. A Go panic is an outcome of its
    own, never a value.
  \<^item> Errors. A Go \<open>(T, error)\<close> is \<open>go_error + 'a\<close>.
  \<^item> \<open>emits P m\<close>: whatever the environment, \<open>m\<close> only appends to the history, and
    every appended call satisfies \<open>P\<close>. The rules in \<open>emits_intros\<close> prove it for a
    composed program from its parts.
  \<^item> The pieces of the packages strings and strconv that the sources use.
\<close>

named_theorems emits_intros "compositional rules for what a program may emit"
named_theorems io_defs "definitions of the effect combinators"
named_theorems guarded_intros "compositional rules for the history in front of each call"
named_theorems returns_intros "compositional rules for the absence of a panic"


section \<open>Outcomes and effects\<close>

datatype 'a outcome = Ret 'a | Panicked string

type_synonym ('n, 'e, 'a) io = "'n \<Rightarrow> 'e list \<Rightarrow> 'a outcome \<times> 'e list"

definition io_return :: "'a \<Rightarrow> ('n, 'e, 'a) io" where
  "io_return x = (\<lambda>n t. (Ret x, t))"

definition io_panic :: "string \<Rightarrow> ('n, 'e, 'a) io" where
  "io_panic s = (\<lambda>n t. (Panicked s, t))"

definition io_bind :: "('n, 'e, 'a) io \<Rightarrow> ('a \<Rightarrow> ('n, 'e, 'b) io) \<Rightarrow> ('n, 'e, 'b) io" where
  "io_bind m f = (\<lambda>n t. case m n t of (Ret x, t') \<Rightarrow> f x n t' | (Panicked s, t') \<Rightarrow> (Panicked s, t'))"

text \<open>A call: the environment answers it from the history, and the history records it.\<close>

definition io_call :: "'e \<Rightarrow> ('n \<Rightarrow> 'e list \<Rightarrow> 'a) \<Rightarrow> ('n, 'e, 'a) io" where
  "io_call e q = (\<lambda>n t. (Ret (q n t), t @ [e]))"

text \<open>A read of the environment that is no call: the clock, the random source.\<close>

definition io_ask :: "('n \<Rightarrow> 'e list \<Rightarrow> 'a) \<Rightarrow> ('n, 'e, 'a) io" where
  "io_ask q = (\<lambda>n t. (Ret (q n t), t))"

text \<open>\<open>if err != nil { return err }\<close>: run the rest only when there is no error.\<close>

definition io_try :: "('n, 'e, 'x + 'a) io \<Rightarrow> ('a \<Rightarrow> ('n, 'e, 'x + 'b) io) \<Rightarrow> ('n, 'e, 'x + 'b) io" where
  "io_try m f = io_bind m (\<lambda>r. case r of Inl e \<Rightarrow> io_return (Inl e) | Inr x \<Rightarrow> f x)"

lemmas [io_defs] = io_return_def io_panic_def io_bind_def io_call_def io_ask_def io_try_def

lemma io_return_run [simp]: "io_return x n t = (Ret x, t)"
  by (simp add: io_return_def)

lemma io_panic_run [simp]: "io_panic s n t = (Panicked s, t)"
  by (simp add: io_panic_def)

lemma io_call_run [simp]: "io_call e q n t = (Ret (q n t), t @ [e])"
  by (simp add: io_call_def)

lemma io_ask_run [simp]: "io_ask q n t = (Ret (q n t), t)"
  by (simp add: io_ask_def)

lemma io_bind_run [simp]:
  "io_bind m f n t = (case m n t of (Ret x, t') \<Rightarrow> f x n t' | (Panicked s, t') \<Rightarrow> (Panicked s, t'))"
  by (simp add: io_bind_def)

lemma io_try_run [simp]:
  "io_try m f n t =
     (case m n t of
        (Ret (Inr x), t') \<Rightarrow> f x n t'
      | (Ret (Inl e), t') \<Rightarrow> (Ret (Inl e), t')
      | (Panicked s, t') \<Rightarrow> (Panicked s, t'))"
  by (auto simp: io_try_def split: prod.splits outcome.splits sum.splits)

lemma io_bind_return_left: "io_bind (io_return x) f = f x"
  by (simp add: fun_eq_iff)

lemma io_bind_return_right: "io_bind m io_return = m"
  by (simp add: fun_eq_iff split: prod.splits outcome.splits)

lemma io_bind_assoc: "io_bind (io_bind m f) g = io_bind m (\<lambda>x. io_bind (f x) g)"
  by (simp add: fun_eq_iff split: prod.splits outcome.splits)


section \<open>What a program may emit\<close>

definition emits :: "('e \<Rightarrow> bool) \<Rightarrow> ('n, 'e, 'a) io \<Rightarrow> bool" where
  "emits P m \<longleftrightarrow> (\<forall>n t. \<exists>r es. m n t = (r, t @ es) \<and> list_all P es)"

lemma emitsI: "(\<And>n t. \<exists>r es. m n t = (r, t @ es) \<and> list_all P es) \<Longrightarrow> emits P m"
  by (auto simp: emits_def)

lemma emitsE:
  assumes "emits P m"
  obtains r es where "m n t = (r, t @ es)" and "list_all P es"
  using assms unfolding emits_def by blast

lemma emits_mono: "emits P m \<Longrightarrow> (\<And>e. P e \<Longrightarrow> Q e) \<Longrightarrow> emits Q m"
  by (fastforce simp: emits_def list_all_iff)

lemma emits_return [emits_intros]: "emits P (io_return x)"
  by (simp add: emits_def)

lemma emits_panic [emits_intros]: "emits P (io_panic s)"
  by (simp add: emits_def)

lemma emits_ask [emits_intros]: "emits P (io_ask q)"
  by (simp add: emits_def)

lemma emits_call [emits_intros]: "P e \<Longrightarrow> emits P (io_call e q)"
  by (simp add: emits_def)

lemma emits_bind [emits_intros]:
  assumes m: "emits P m" and f: "\<And>x. emits P (f x)"
  shows "emits P (io_bind m f)"
proof (rule emitsI)
  fix n t
  obtain r es where 1: "m n t = (r, t @ es)" "list_all P es"
    using m by (rule emitsE)
  show "\<exists>r es. io_bind m f n t = (r, t @ es) \<and> list_all P es"
  proof (cases r)
    case (Ret x)
    obtain r' es' where "f x n (t @ es) = (r', (t @ es) @ es')" "list_all P es'"
      using f by (rule emitsE)
    with 1 Ret show ?thesis by (intro exI [of _ r'] exI [of _ "es @ es'"]) simp
  next
    case (Panicked s)
    with 1 show ?thesis by simp
  qed
qed

lemma emits_try [emits_intros]:
  assumes "emits P m" and "\<And>x. emits P (f x)"
  shows "emits P (io_try m f)"
  unfolding io_try_def
  by (rule emits_bind [OF assms(1)]) (auto intro: assms emits_return split: sum.splits)

lemma emits_if [emits_intros]:
  "(b \<Longrightarrow> emits P m) \<Longrightarrow> (\<not> b \<Longrightarrow> emits P m') \<Longrightarrow> emits P (if b then m else m')"
  by simp

lemma emits_option [emits_intros]:
  "(x = None \<Longrightarrow> emits P m) \<Longrightarrow> (\<And>y. x = Some y \<Longrightarrow> emits P (f y)) \<Longrightarrow>
     emits P (case x of None \<Rightarrow> m | Some y \<Rightarrow> f y)"
  by (simp split: option.splits)

lemma emits_sum [emits_intros]:
  "(\<And>y. x = Inl y \<Longrightarrow> emits P (f y)) \<Longrightarrow> (\<And>y. x = Inr y \<Longrightarrow> emits P (g y)) \<Longrightarrow>
     emits P (case x of Inl y \<Rightarrow> f y | Inr y \<Rightarrow> g y)"
  by (simp split: sum.splits)

lemma emits_prod [emits_intros]:
  "(\<And>a b. x = (a, b) \<Longrightarrow> emits P (f a b)) \<Longrightarrow> emits P (case x of (a, b) \<Rightarrow> f a b)"
  by (simp split: prod.splits)

lemma emits_let [emits_intros]: "(\<And>x. x = a \<Longrightarrow> emits P (f x)) \<Longrightarrow> emits P (let x = a in f x)"
  by simp

text \<open>The history only grows: what a program has emitted is the part after the old history.\<close>

lemma emits_run:
  assumes "emits P m" and "m n t = (r, t')"
  obtains es where "t' = t @ es" and "list_all P es"
  using assms(1) emitsE [of P m n t] assms(2) by (metis prod.inject)

lemma emits_drop: "emits P m \<Longrightarrow> m n t = (r, t') \<Longrightarrow> list_all P (drop (length t) t')"
  by (erule (1) emits_run) simp


section \<open>What has happened before a call\<close>

text \<open>
  \<open>guarded n Q m h\<close>: run on the history \<open>h\<close>, the program only extends it, and each
  call \<open>e\<close> it makes satisfies \<open>Q\<close> with the history in front of it.
\<close>

definition guarded :: "'n \<Rightarrow> ('e list \<Rightarrow> 'e \<Rightarrow> bool) \<Rightarrow> ('n, 'e, 'a) io \<Rightarrow> 'e list \<Rightarrow> bool" where
  "guarded n Q m h \<longleftrightarrow>
     (\<exists>r es. m n h = (r, h @ es) \<and> (\<forall>es1 e es2. es = es1 @ e # es2 \<longrightarrow> Q (h @ es1) e))"

lemma guardedE:
  assumes "guarded n Q m h"
  obtains r es where "m n h = (r, h @ es)" and "\<forall>es1 e es2. es = es1 @ e # es2 \<longrightarrow> Q (h @ es1) e"
  using assms unfolding guarded_def by blast

lemma guarded_run:
  assumes "guarded n Q m h" and "m n h = (r, h')"
  obtains es where "h' = h @ es" and "\<forall>es1 e es2. es = es1 @ e # es2 \<longrightarrow> Q (h @ es1) e"
  using assms unfolding guarded_def by fastforce

lemma guarded_mono: "guarded n Q m h \<Longrightarrow> (\<And>h e. Q h e \<Longrightarrow> Q' h e) \<Longrightarrow> guarded n Q' m h"
  unfolding guarded_def by blast

lemma guarded_extends: "guarded n Q m h \<Longrightarrow> guarded n (\<lambda>h' e. \<exists>es. h' = h @ es) m h"
  unfolding guarded_def by blast

lemma guarded_emits: "emits P m \<Longrightarrow> (\<And>h e. P e \<Longrightarrow> Q h e) \<Longrightarrow> guarded n Q m h"
  by (erule emitsE [of P m n h]) (auto simp: guarded_def)

lemma guarded_return [guarded_intros]: "guarded n Q (io_return x) h"
  by (simp add: guarded_def)

lemma guarded_panic [guarded_intros]: "guarded n Q (io_panic s) h"
  by (simp add: guarded_def)

lemma guarded_ask [guarded_intros]: "guarded n Q (io_ask q) h"
  by (simp add: guarded_def)

lemma guarded_call [guarded_intros]: "Q h e \<Longrightarrow> guarded n Q (io_call e q) h"
  by (auto simp: guarded_def Cons_eq_append_conv)

lemma guarded_bind [guarded_intros]:
  assumes m: "guarded n Q m h" and f: "\<And>x h'. m n h = (Ret x, h') \<Longrightarrow> guarded n Q (f x) h'"
  shows "guarded n Q (io_bind m f) h"
proof -
  obtain r es where 1: "m n h = (r, h @ es)" "\<forall>es1 e es2. es = es1 @ e # es2 \<longrightarrow> Q (h @ es1) e"
    using m by (rule guardedE)
  show ?thesis
  proof (cases r)
    case (Ret x)
    with 1 have "guarded n Q (f x) (h @ es)" by (intro f) simp
    then obtain r' es' where 2: "f x n (h @ es) = (r', (h @ es) @ es')"
        "\<forall>es1 e es2. es' = es1 @ e # es2 \<longrightarrow> Q ((h @ es) @ es1) e"
      by (rule guardedE)
    have "Q (h @ es1) e" if eq: "es @ es' = es1 @ e # es2" for es1 e es2
    proof -
      consider us where "es = es1 @ e # us" | us where "es1 = es @ us" "es' = us @ e # es2"
        using eq by (auto simp: append_eq_append_conv2 append_eq_Cons_conv)
      then show ?thesis
      proof cases
        case 1
        then show ?thesis using \<open>\<forall>es1 e es2. es = es1 @ e # es2 \<longrightarrow> Q (h @ es1) e\<close> by blast
      next
        case 2
        then show ?thesis using \<open>\<forall>es1 e es2. es' = es1 @ e # es2 \<longrightarrow> Q ((h @ es) @ es1) e\<close> by auto
      qed
    qed
    with 1(1) 2(1) Ret show ?thesis
      by (auto simp: guarded_def intro!: exI [of _ r'] exI [of _ "es @ es'"])
  next
    case (Panicked s)
    with 1 show ?thesis by (auto simp: guarded_def)
  qed
qed

lemma guarded_try [guarded_intros]:
  assumes "guarded n Q m h" and "\<And>x h'. m n h = (Ret (Inr x), h') \<Longrightarrow> guarded n Q (f x) h'"
  shows "guarded n Q (io_try m f) h"
  unfolding io_try_def using assms by (auto intro!: guarded_bind guarded_return split: sum.splits)

lemma guarded_if [guarded_intros]:
  "(b \<Longrightarrow> guarded n Q m h) \<Longrightarrow> (\<not> b \<Longrightarrow> guarded n Q m' h) \<Longrightarrow> guarded n Q (if b then m else m') h"
  by simp

lemma guarded_option [guarded_intros]:
  "(x = None \<Longrightarrow> guarded n Q m h) \<Longrightarrow> (\<And>y. x = Some y \<Longrightarrow> guarded n Q (f y) h) \<Longrightarrow>
   guarded n Q (case x of None \<Rightarrow> m | Some y \<Rightarrow> f y) h"
  by (cases x) simp_all

lemma guarded_sum [guarded_intros]:
  "(\<And>e. x = Inl e \<Longrightarrow> guarded n Q (f e) h) \<Longrightarrow> (\<And>y. x = Inr y \<Longrightarrow> guarded n Q (g y) h) \<Longrightarrow>
   guarded n Q (case x of Inl e \<Rightarrow> f e | Inr y \<Rightarrow> g y) h"
  by (cases x) simp_all

lemma guarded_prod [guarded_intros]:
  "(\<And>a b. x = (a, b) \<Longrightarrow> guarded n Q (f a b) h) \<Longrightarrow> guarded n Q (case x of (a, b) \<Rightarrow> f a b) h"
  by (cases x) simp


section \<open>Folds over a history\<close>

text \<open>
  What the calls of a history add up to: each call is booked together with the history in front of
  it, which decides how it was answered.
\<close>

definition history_fold :: "('e list \<Rightarrow> 'e \<Rightarrow> 's \<Rightarrow> 's) \<Rightarrow> 's \<Rightarrow> 'e list \<Rightarrow> 's" where
  "history_fold f s h = snd (foldl (\<lambda>(t, s) e. (t @ [e], f t e s)) ([], s) h)"

lemma history_fold_simps [simp]:
  "history_fold f s [] = s"
  "history_fold f s (h @ [e]) = f h e (history_fold f s h)"
proof -
  have "fst (foldl (\<lambda>(t, s) e. (t @ [e], f t e s)) ([], s) h) = h"
    by (induction h rule: rev_induct) (auto split: prod.splits)
  then show "history_fold f s (h @ [e]) = f h e (history_fold f s h)"
    by (auto simp: history_fold_def split: prod.splits)
qed (simp add: history_fold_def)

text \<open>What none of the further calls changes stays as it was.\<close>

lemma history_fold_unchanged:
  assumes "list_all P es" and "\<And>t e s. P e \<Longrightarrow> g (f t e s) = g s"
  shows "g (history_fold f s (h @ es)) = g (history_fold f s h)"
  using assms(1)
  by (induction es rule: rev_induct) (simp_all add: assms(2) flip: append_assoc)


section \<open>Absence of panics\<close>

definition returns :: "'n \<Rightarrow> ('n, 'e, 'a) io \<Rightarrow> 'e list \<Rightarrow> bool" where
  "returns n m h \<longleftrightarrow> (\<exists>x h'. m n h = (Ret x, h'))"

lemma returnsE:
  assumes "returns n m h"
  obtains x h' where "m n h = (Ret x, h')"
  using assms by (auto simp: returns_def)

lemma returns_simple [returns_intros]:
  "returns n (io_return x) h" "returns n (io_ask q) h" "returns n (io_call e p) h"
  by (simp_all add: returns_def)

lemma returns_bind [returns_intros]:
  "returns n m h \<Longrightarrow> (\<And>x h'. m n h = (Ret x, h') \<Longrightarrow> returns n (f x) h') \<Longrightarrow> returns n (io_bind m f) h"
  by (auto simp: returns_def)

lemma returns_try [returns_intros]:
  "returns n m h \<Longrightarrow> (\<And>x h'. m n h = (Ret (Inr x), h') \<Longrightarrow> returns n (f x) h') \<Longrightarrow> returns n (io_try m f) h"
  unfolding io_try_def by (auto intro!: returns_bind returns_simple split: sum.splits)

lemma returns_if [returns_intros]:
  "(b \<Longrightarrow> returns n m h) \<Longrightarrow> (\<not> b \<Longrightarrow> returns n m' h) \<Longrightarrow> returns n (if b then m else m') h"
  by simp

lemma returns_option [returns_intros]:
  "(x = None \<Longrightarrow> returns n m h) \<Longrightarrow> (\<And>y. x = Some y \<Longrightarrow> returns n (f y) h) \<Longrightarrow>
   returns n (case x of None \<Rightarrow> m | Some y \<Rightarrow> f y) h"
  by (cases x) simp_all

lemma returns_sum [returns_intros]:
  "(\<And>e. x = Inl e \<Longrightarrow> returns n (f e) h) \<Longrightarrow> (\<And>y. x = Inr y \<Longrightarrow> returns n (g y) h) \<Longrightarrow>
   returns n (case x of Inl e \<Rightarrow> f e | Inr y \<Rightarrow> g y) h"
  by (cases x) simp_all

lemma returns_prod [returns_intros]:
  "(\<And>a b. x = (a, b) \<Longrightarrow> returns n (f a b) h) \<Longrightarrow> returns n (case x of (a, b) \<Rightarrow> f a b) h"
  by (cases x) simp


section \<open>Package strings\<close>

text \<open>\<open>strings.Split(s, sep)\<close> for a separator of one byte.\<close>

fun strings_Split :: "char \<Rightarrow> string \<Rightarrow> string list" where
  "strings_Split c [] = [[]]"
| "strings_Split c (x # xs) =
     (if x = c then [] # strings_Split c xs
      else case strings_Split c xs of [] \<Rightarrow> [[x]] | y # ys \<Rightarrow> (x # y) # ys)"

fun strings_Join :: "char \<Rightarrow> string list \<Rightarrow> string" where
  "strings_Join c [] = []"
| "strings_Join c [x] = x"
| "strings_Join c (x # y # ys) = x @ c # strings_Join c (y # ys)"

lemma strings_Split_nonempty [simp]: "strings_Split c s \<noteq> []"
  by (induction s) (auto split: list.splits)

lemma strings_Join_Cons: "ys \<noteq> [] \<Longrightarrow> strings_Join c (x # ys) = x @ c # strings_Join c ys"
  by (cases ys) auto

lemma strings_Join_push:
  "ys \<noteq> [] \<Longrightarrow> strings_Join c ((x # hd ys) # tl ys) = x # strings_Join c ys"
  by (cases ys; cases "tl ys") auto

text \<open>Splitting loses nothing, and no part holds the separator.\<close>

lemma strings_Join_Split: "strings_Join c (strings_Split c s) = s"
proof (induction s)
  case (Cons x xs)
  show ?case
  proof (cases "x = c")
    case True
    with Cons show ?thesis by (simp add: strings_Join_Cons)
  next
    case False
    obtain y ys where y: "strings_Split c xs = y # ys"
      by (meson strings_Split_nonempty neq_Nil_conv)
    with Cons strings_Join_push [of "y # ys" c x] False show ?thesis by simp
  qed
qed simp

lemma strings_Split_no_sep: "p \<in> set (strings_Split c s) \<Longrightarrow> c \<notin> set p"
  by (induction s arbitrary: p) (auto split: if_splits list.splits)

lemma length_strings_Split: "length (strings_Split c s) = Suc (count_list s c)"
proof (induction s)
  case (Cons x xs)
  then show ?case by (cases "strings_Split c xs") auto
qed simp

definition strings_HasPrefix :: "string \<Rightarrow> string \<Rightarrow> bool" where
  "strings_HasPrefix s p \<longleftrightarrow> prefix p s"

definition strings_TrimPrefix :: "string \<Rightarrow> string \<Rightarrow> string" where
  "strings_TrimPrefix s p = (if prefix p s then drop (length p) s else s)"

lemma strings_TrimPrefix_append [simp]: "strings_TrimPrefix (p @ s) p = s"
  by (simp add: strings_TrimPrefix_def)

text \<open>\<open>strings.ReplaceAll(s, old, new)\<close> for an \<open>old\<close> of one byte.\<close>

definition strings_ReplaceAll :: "string \<Rightarrow> char \<Rightarrow> string \<Rightarrow> string" where
  "strings_ReplaceAll s c r = concat (map (\<lambda>x. if x = c then r else [x]) s)"

lemma strings_ReplaceAll_simps [simp]:
  "strings_ReplaceAll [] c r = []"
  "strings_ReplaceAll (x # xs) c r = (if x = c then r else [x]) @ strings_ReplaceAll xs c r"
  by (simp_all add: strings_ReplaceAll_def)

text \<open>\<open>strings.ToLower\<close> on ASCII, all that the resource kinds use.\<close>

definition char_to_lower :: "char \<Rightarrow> char" where
  "char_to_lower c =
     (if 65 \<le> (of_char c :: nat) \<and> (of_char c :: nat) \<le> 90 then char_of ((of_char c :: nat) + 32) else c)"

definition strings_ToLower :: "string \<Rightarrow> string" where
  "strings_ToLower s = map char_to_lower s"


section \<open>Package strconv\<close>

definition digit_char :: "nat \<Rightarrow> char" where
  "digit_char d = char_of (48 + d)"

fun nat_to_string :: "nat \<Rightarrow> string" where
  "nat_to_string n =
     (if n < 10 then [digit_char n] else nat_to_string (n div 10) @ [digit_char (n mod 10)])"

declare nat_to_string.simps [simp del]

text \<open>\<open>strconv.Itoa\<close> and the verb \<open>%d\<close>.\<close>

definition strconv_Itoa :: "int \<Rightarrow> string" where
  "strconv_Itoa i = (if i < 0 then CHR ''-'' # nat_to_string (nat (- i)) else nat_to_string (nat i))"

text \<open>
  \<open>strconv.Quote\<close> and the verb \<open>%q\<close>, for text whose characters beyond ASCII are printable.
\<close>

definition quote_char :: "char \<Rightarrow> string" where
  "quote_char c =
     (let b = CHR 0x5C; k = (of_char c :: nat) in
      if c = CHR 0x22 \<or> c = b then [b, c]
      else if 32 \<le> k \<and> k \<noteq> 127 then [c]
      else case map_of [(CHR 0x07, CHR ''a''), (CHR 0x08, CHR ''b''), (CHR 0x09, CHR ''t''), (CHR 0x0A, CHR ''n''),
                        (CHR 0x0B, CHR ''v''), (CHR 0x0C, CHR ''f''), (CHR 0x0D, CHR ''r'')] c of
             Some e \<Rightarrow> [b, e]
           | None \<Rightarrow> [b, CHR ''x'', ''0123456789abcdef'' ! (k div 16), ''0123456789abcdef'' ! (k mod 16)])"

definition strconv_Quote :: "string \<Rightarrow> string" where
  "strconv_Quote s = [CHR 0x22] @ concat (map quote_char s) @ [CHR 0x22]"

definition is_digit :: "char \<Rightarrow> bool" where
  "is_digit c \<longleftrightarrow> 48 \<le> (of_char c :: nat) \<and> (of_char c :: nat) \<le> 57"

definition digit_value :: "char \<Rightarrow> nat" where
  "digit_value c = of_char c - 48"

definition digits_value :: "string \<Rightarrow> nat" where
  "digits_value s = foldl (\<lambda>acc c. 10 * acc + digit_value c) 0 s"

lemma of_char_digit_char: "d < 10 \<Longrightarrow> (of_char (digit_char d) :: nat) = 48 + d"
  by (simp add: digit_char_def)

lemma is_digit_digit_char [simp]: "d < 10 \<Longrightarrow> is_digit (digit_char d)"
  by (simp add: is_digit_def of_char_digit_char)

lemma digit_value_digit_char [simp]: "d < 10 \<Longrightarrow> digit_value (digit_char d) = d"
  by (simp add: digit_value_def of_char_digit_char)

lemma nat_to_string_nonempty [simp]: "nat_to_string n \<noteq> []"
  by (subst nat_to_string.simps) simp

lemma nat_to_string_digits: "list_all is_digit (nat_to_string n)"
proof (induction n rule: nat_to_string.induct)
  case (1 n)
  then show ?case by (subst nat_to_string.simps) auto
qed

lemma digits_value_snoc: "digits_value (s @ [c]) = 10 * digits_value s + digit_value c"
  by (simp add: digits_value_def)

text \<open>Printing a number and reading its digits back gives the number.\<close>

lemma digits_value_nat_to_string [simp]: "digits_value (nat_to_string n) = n"
proof (induction n rule: nat_to_string.induct)
  case (1 n)
  show ?case
  proof (cases "n < 10")
    case True
    then show ?thesis by (subst nat_to_string.simps) (simp add: digits_value_def)
  next
    case False
    with 1 show ?thesis by (subst nat_to_string.simps) (simp add: digits_value_snoc)
  qed
qed

lemma nat_to_string_inject [simp]: "nat_to_string m = nat_to_string n \<longleftrightarrow> m = n"
  by (metis digits_value_nat_to_string)

lemma minus_not_digit: "\<not> is_digit (CHR ''-'')"
  by (simp add: is_digit_def)

lemma strconv_Itoa_inject [simp]: "strconv_Itoa i = strconv_Itoa j \<longleftrightarrow> i = j"
proof -
  have "nat_to_string m \<noteq> CHR ''-'' # s" for m s
    using nat_to_string_digits [of m] minus_not_digit by auto
  then show ?thesis
    by (auto simp: strconv_Itoa_def split: if_splits) (metis | linarith)+
qed


section \<open>Fixed-width integers\<close>

text \<open>The conversions \<open>int32(x)\<close> and \<open>int64(x)\<close> keep the low bits, read as two's complement.\<close>

definition wrap_signed :: "nat \<Rightarrow> int \<Rightarrow> int" where
  "wrap_signed w x = (x + 2 ^ (w - 1)) mod 2 ^ w - 2 ^ (w - 1)"

lemma wrap_signed_range:
  assumes "0 < w"
  shows "- (2 ^ (w - 1)) \<le> wrap_signed w x" and "wrap_signed w x < 2 ^ (w - 1)"
proof -
  have w: "(2::int) ^ w = 2 * 2 ^ (w - 1)" using assms by (cases w) auto
  have "0 \<le> (x + 2 ^ (w - 1)) mod 2 ^ w" "(x + 2 ^ (w - 1)) mod 2 ^ w < 2 ^ w" by simp_all
  with w show "- (2 ^ (w - 1)) \<le> wrap_signed w x" and "wrap_signed w x < 2 ^ (w - 1)"
    by (auto simp: wrap_signed_def)
qed

lemma wrap_signed_id:
  assumes "0 < w" and "- (2 ^ (w - 1)) \<le> x" and "x < 2 ^ (w - 1)"
  shows "wrap_signed w x = x"
proof -
  have "(2::int) ^ w = 2 * 2 ^ (w - 1)" using assms(1) by (cases w) auto
  with assms have "(x + 2 ^ (w - 1)) mod 2 ^ w = x + 2 ^ (w - 1)"
    by (intro mod_pos_pos_trivial) auto
  then show ?thesis by (simp add: wrap_signed_def)
qed

lemma wrap_signed_eq_iff:
  assumes "0 < w"
  shows "wrap_signed w x = x \<longleftrightarrow> - (2 ^ (w - 1)) \<le> x \<and> x < 2 ^ (w - 1)"
  using wrap_signed_range [OF assms, of x] wrap_signed_id [OF assms, of x] by auto

end
