(* ===== verification/Go_Json.thy ===== *)
theory Go_Json
  imports Go_Prelude "HOL-Library.Char_ord" "HOL-Library.List_Lexorder" "HOL-Library.Log_Nat"
    Complex_Main
begin

text \<open>
  The part of the package encoding/json that the operator uses: \<open>json.Unmarshal\<close> of the
  bytes of a \<open>runtime.RawExtension\<close> into a \<open>map[string]any\<close>. Numbers become
  \<open>float64\<close> (round to nearest, ties to even, overflow is an error), the last of two equal
  keys wins, \<open>null\<close> gives the nil map, anything but an object is a type error.

  An object is kept as the list of its members sorted by key without repetitions, so that two
  objects are \<open>reflect.DeepEqual\<close> exactly when the values are equal. A float64 is kept as
  the rational number it denotes (JSON has neither NaN nor infinities, and Go compares \<open>-0\<close>
  and \<open>0\<close> as equal). Bytes above 127 inside a string literal are copied as they are, which
  is what Go does on well-formed UTF-8.
\<close>

datatype json = JNull | JBool bool | JNum rat | JStr string | JArr "json list" | JObj "(string \<times> json) list"

type_synonym json_object = "(string \<times> json) list"


section \<open>float64\<close>

definition div_half_even :: "int \<Rightarrow> int \<Rightarrow> int" where
  "div_half_even p q =
     (let d = p div q; r = p mod q
      in if 2 * r < q then d else if q < 2 * r then d + 1 else if even d then d else d + 1)"

text \<open>
  The double nearest to \<open>p / q\<close>: the exponent \<open>e\<close> is chosen so that the significand has
  53 bits, or is the exponent of the subnormal numbers.
\<close>

definition float64_exponent :: "int \<Rightarrow> int \<Rightarrow> int" where
  "float64_exponent p q =
     (let e = bitlen p - bitlen q - 53;
          big = (if 0 \<le> e then q * 2 ^ nat e * 2 ^ 53 \<le> p else q * 2 ^ 53 \<le> p * 2 ^ nat (- e))
      in max (-1074) (if big then e + 1 else e))"

definition float64_of_ratio :: "int \<Rightarrow> int \<Rightarrow> rat option" where
  "float64_of_ratio p q =
     (if p = 0 then Some 0
      else let e = float64_exponent p q
           in if 0 \<le> e
              then let v = div_half_even p (q * 2 ^ nat e) * 2 ^ nat e
                   in if 2 ^ 1024 \<le> v then None else Some (of_int v)
              else Some (of_int (div_half_even (p * 2 ^ nat (- e)) q) / 2 ^ nat (- e)))"

definition float64_of_decimal :: "bool \<Rightarrow> int \<Rightarrow> int \<Rightarrow> rat option" where
  "float64_of_decimal neg m e =
     map_option (\<lambda>v. if neg then - v else v)
       (if 0 \<le> e then float64_of_ratio (m * 10 ^ nat e) 1 else float64_of_ratio m (10 ^ nat (- e)))"


section \<open>Lexical elements\<close>

definition json_space :: "char \<Rightarrow> bool" where
  "json_space c \<longleftrightarrow> c = CHR '' '' \<or> c = CHR 0x09 \<or> c = CHR 0x0A \<or> c = CHR 0x0D"

definition skip_space :: "string \<Rightarrow> string" where
  "skip_space s = dropWhile json_space s"

definition hex_value :: "char \<Rightarrow> nat option" where
  "hex_value c =
     (let n = of_char c :: nat
      in if 48 \<le> n \<and> n \<le> 57 then Some (n - 48)
         else if 65 \<le> n \<and> n \<le> 70 then Some (n - 55)
         else if 97 \<le> n \<and> n \<le> 102 then Some (n - 87) else None)"

fun hex4 :: "string \<Rightarrow> nat option" where
  "hex4 (a # b # c # d # r) =
     (case (hex_value a, hex_value b, hex_value c, hex_value d) of
        (Some w, Some x, Some y, Some z) \<Rightarrow> Some (4096 * w + 256 * x + 16 * y + z)
      | _ \<Rightarrow> None)"
| "hex4 _ = None"

definition utf8 :: "nat \<Rightarrow> string" where
  "utf8 u =
     (if u < 128 then [char_of u]
      else if u < 2048 then [char_of (192 + u div 64), char_of (128 + u mod 64)]
      else if u < 65536 then [char_of (224 + u div 4096), char_of (128 + u div 64 mod 64), char_of (128 + u mod 64)]
      else [char_of (240 + u div 262144), char_of (128 + u div 4096 mod 64),
            char_of (128 + u div 64 mod 64), char_of (128 + u mod 64)])"

definition simple_escape :: "char \<Rightarrow> char option" where
  "simple_escape c =
     map_of [(CHR 0x22, CHR 0x22), (CHR 0x5C, CHR 0x5C), (CHR ''/'', CHR ''/''), (CHR ''b'', CHR 0x08),
             (CHR ''f'', CHR 0x0C), (CHR ''n'', CHR 0x0A), (CHR ''r'', CHR 0x0D), (CHR ''t'', CHR 0x09)] c"

text \<open>
  The rune of a \<open>\u\<close> escape whose four digits have been read: a high surrogate followed by
  an escaped low one is one rune, any other surrogate is U+FFFD. The second component says how
  many further characters the rune takes.
\<close>

definition escaped_rune :: "nat \<Rightarrow> string \<Rightarrow> nat \<times> nat" where
  "escaped_rune u r =
     (if 55296 \<le> u \<and> u < 57344
      then if u < 56320 \<and> take 2 r = [CHR 0x5C, CHR ''u'']
           then case hex4 (drop 2 r) of
                  Some l \<Rightarrow> if 56320 \<le> l \<and> l < 57344 then (65536 + (u - 55296) * 1024 + (l - 56320), 6) else (65533, 0)
                | None \<Rightarrow> (65533, 0)
           else (65533, 0)
      else (u, 0))"

function json_string :: "string \<Rightarrow> (string \<times> string) option" where
  "json_string s =
     (case s of
        [] \<Rightarrow> None
      | c # cs \<Rightarrow>
          if c = CHR 0x22 then Some ([], cs)
          else if c = CHR 0x5C then
            (case cs of
               [] \<Rightarrow> None
             | e # r \<Rightarrow>
                 if e = CHR ''u'' then
                   (case hex4 r of
                      None \<Rightarrow> None
                    | Some u \<Rightarrow>
                        let (rune, k) = escaped_rune u (drop 4 r)
                        in map_option (\<lambda>(v, rest). (utf8 rune @ v, rest)) (json_string (drop k (drop 4 r))))
                 else
                   (case simple_escape e of
                      None \<Rightarrow> None
                    | Some x \<Rightarrow> map_option (\<lambda>(v, rest). (x # v, rest)) (json_string r)))
          else if (of_char c :: nat) < 32 then None
          else map_option (\<lambda>(v, rest). (c # v, rest)) (json_string cs))"
  by pat_completeness auto
termination
  by (relation "measure length") auto

declare json_string.simps [simp del]

text \<open>A number: optional minus, integer part without a leading zero, fraction, exponent.\<close>

definition json_int_part :: "string \<Rightarrow> (string \<times> string) option" where
  "json_int_part s =
     (let ip = takeWhile is_digit s
      in if ip = [] \<or> (hd ip = CHR ''0'' \<and> length ip \<noteq> 1) then None else Some (ip, dropWhile is_digit s))"

definition json_frac_part :: "string \<Rightarrow> (string \<times> string) option" where
  "json_frac_part s =
     (case s of
        [] \<Rightarrow> Some ([], s)
      | c # cs \<Rightarrow>
          if c \<noteq> CHR ''.'' then Some ([], s)
          else let fp = takeWhile is_digit cs in if fp = [] then None else Some (fp, dropWhile is_digit cs))"

definition json_exp_digits :: "bool \<Rightarrow> string \<Rightarrow> (int \<times> string) option" where
  "json_exp_digits neg s =
     (let ep = takeWhile is_digit s; x = int (digits_value ep)
      in if ep = [] then None else Some (if neg then - x else x, dropWhile is_digit s))"

definition json_exp_part :: "string \<Rightarrow> (int \<times> string) option" where
  "json_exp_part s =
     (case s of
        [] \<Rightarrow> Some (0, s)
      | c # cs \<Rightarrow>
          if c \<noteq> CHR ''e'' \<and> c \<noteq> CHR ''E'' then Some (0, s)
          else (case cs of
                  [] \<Rightarrow> None
                | d # ds \<Rightarrow>
                    if d = CHR ''-'' then json_exp_digits True ds
                    else if d = CHR ''+'' then json_exp_digits False ds
                    else json_exp_digits False cs))"

definition json_unsigned :: "bool \<Rightarrow> string \<Rightarrow> (rat \<times> string) option" where
  "json_unsigned neg s =
     (case json_int_part s of
        None \<Rightarrow> None
      | Some (ip, s1) \<Rightarrow>
          (case json_frac_part s1 of
             None \<Rightarrow> None
           | Some (fp, s2) \<Rightarrow>
               (case json_exp_part s2 of
                  None \<Rightarrow> None
                | Some (x, s3) \<Rightarrow>
                    map_option (\<lambda>v. (v, s3))
                      (float64_of_decimal neg (int (digits_value (ip @ fp))) (x - int (length fp))))))"

definition json_number :: "string \<Rightarrow> (rat \<times> string) option" where
  "json_number s =
     (case s of
        [] \<Rightarrow> None
      | c # cs \<Rightarrow> if c = CHR ''-'' then json_unsigned True cs else json_unsigned False s)"


section \<open>Values\<close>

text \<open>Storing a member: the list stays sorted by key, and a later member replaces an earlier one.\<close>

fun obj_put :: "string \<Rightarrow> json \<Rightarrow> json_object \<Rightarrow> json_object" where
  "obj_put k v [] = [(k, v)]"
| "obj_put k v ((k', v') # kvs) =
     (if k < k' then (k, v) # (k', v') # kvs
      else if k = k' then (k, v) # kvs
      else (k', v') # obj_put k v kvs)"

definition json_literals :: "(string \<times> json) list" where
  "json_literals = [(''null'', JNull), (''true'', JBool True), (''false'', JBool False)]"

fun json_literal :: "(string \<times> json) list \<Rightarrow> string \<Rightarrow> (json \<times> string) option" where
  "json_literal [] s = None"
| "json_literal ((l, v) # ls) s = (if prefix l s then Some (v, drop (length l) s) else json_literal ls s)"

text \<open>A member's key with its colon, and what follows a member or an element: the closing
  bracket (\<open>True\<close>) or a comma.\<close>

definition json_key :: "string \<Rightarrow> (string \<times> string) option" where
  "json_key s =
     (case skip_space s of
        [] \<Rightarrow> None
      | c # cs \<Rightarrow>
          if c \<noteq> CHR 0x22 then None
          else (case json_string cs of
                  None \<Rightarrow> None
                | Some (k, r) \<Rightarrow>
                    (case skip_space r of
                       [] \<Rightarrow> None
                     | c' # r' \<Rightarrow> if c' = CHR '':'' then Some (k, r') else None)))"

definition json_sep :: "char \<Rightarrow> string \<Rightarrow> (bool \<times> string) option" where
  "json_sep close s =
     (case skip_space s of
        [] \<Rightarrow> None
      | c # cs \<Rightarrow> if c = close then Some (True, cs) else if c = CHR '','' then Some (False, cs) else None)"

definition json_scalar :: "string \<Rightarrow> (json \<times> string) option" where
  "json_scalar s =
     (case s of
        [] \<Rightarrow> None
      | c # cs \<Rightarrow>
          if c = CHR 0x22 then map_option (\<lambda>(v, r). (JStr v, r)) (json_string cs)
          else (case json_literal json_literals s of
                  Some x \<Rightarrow> Some x
                | None \<Rightarrow> map_option (\<lambda>(q, r). (JNum q, r)) (json_number s)))"

text \<open>The first argument is fuel; the second bounds the nesting as \<open>maxNestingDepth\<close> does.\<close>

fun json_value :: "nat \<Rightarrow> nat \<Rightarrow> string \<Rightarrow> (json \<times> string) option"
  and json_members :: "nat \<Rightarrow> nat \<Rightarrow> string \<Rightarrow> json_object \<Rightarrow> (json_object \<times> string) option"
  and json_elements :: "nat \<Rightarrow> nat \<Rightarrow> string \<Rightarrow> (json list \<times> string) option"
where
  "json_value 0 d s = None"
| "json_value (Suc f) d s =
     (case skip_space s of
        [] \<Rightarrow> None
      | c # cs \<Rightarrow>
          if c = CHR ''{'' then
            if d = 0 then None
            else if prefix ''}'' (skip_space cs) then Some (JObj [], tl (skip_space cs))
            else map_option (\<lambda>(m, r). (JObj m, r)) (json_members f (d - 1) cs [])
          else if c = CHR ''['' then
            if d = 0 then None
            else if prefix '']'' (skip_space cs) then Some (JArr [], tl (skip_space cs))
            else map_option (\<lambda>(vs, r). (JArr vs, r)) (json_elements f (d - 1) cs)
          else json_scalar (c # cs))"
| "json_members 0 d s acc = None"
| "json_members (Suc f) d s acc =
     (case json_key s of
        None \<Rightarrow> None
      | Some (k, r) \<Rightarrow>
          (case json_value f d r of
             None \<Rightarrow> None
           | Some (v, r') \<Rightarrow>
               (case json_sep (CHR ''}'') r' of
                  None \<Rightarrow> None
                | Some (close, r'') \<Rightarrow>
                    if close then Some (obj_put k v acc, r'') else json_members f d r'' (obj_put k v acc))))"
| "json_elements 0 d s = None"
| "json_elements (Suc f) d s =
     (case json_value f d s of
        None \<Rightarrow> None
      | Some (v, r) \<Rightarrow>
          (case json_sep (CHR '']'') r of
             None \<Rightarrow> None
           | Some (close, r') \<Rightarrow>
               if close then Some ([v], r')
               else map_option (\<lambda>(vs, r''). (v # vs, r'')) (json_elements f d r')))"

definition json_fuel :: "string \<Rightarrow> nat" where
  "json_fuel s = 2 * length s + 2"

text \<open>
  \<open>json.Unmarshal(raw, &m)\<close> for \<open>m\<close> a fresh \<open>map[string]any\<close>: \<open>None\<close> is an
  error, \<open>Some None\<close> the nil map, \<open>Some (Some o)\<close> the map \<open>o\<close>.
\<close>

definition json_Unmarshal :: "string \<Rightarrow> json_object option option" where
  "json_Unmarshal raw =
     (case json_value (json_fuel raw) 10000 raw of
        None \<Rightarrow> None
      | Some (v, r) \<Rightarrow>
          if skip_space r \<noteq> [] then None
          else (case v of JObj kvs \<Rightarrow> Some (Some kvs) | JNull \<Rightarrow> Some None | _ \<Rightarrow> None))"

definition json_get :: "json_object \<Rightarrow> string \<Rightarrow> json option" where
  "json_get kvs k = map_of kvs k"


section \<open>Every reader consumes input, and the fuel suffices\<close>

lemma skip_space_length [simp]: "length (skip_space s) \<le> length s"
  by (simp add: skip_space_def length_dropWhile_le)

lemma skip_space_Cons_length: "skip_space s = c # r \<Longrightarrow> length r < length s"
  using skip_space_length [of s] by simp

lemma length_dropWhile_less: "takeWhile P s \<noteq> [] \<Longrightarrow> length (dropWhile P s) < length s"
  by (cases s) (auto simp: length_dropWhile_le le_imp_less_Suc split: if_splits)

lemma json_literal_decreases:
  "json_literal ls s = Some (v, r) \<Longrightarrow> list_all (\<lambda>(l, _). l \<noteq> []) ls \<Longrightarrow> length r < length s"
  by (induction ls s rule: json_literal.induct) (auto simp: prefix_def split: if_splits)

lemma json_int_part_decreases: "json_int_part s = Some (v, r) \<Longrightarrow> length r < length s"
  by (auto simp: json_int_part_def Let_def length_dropWhile_less split: if_splits)

lemma json_frac_part_decreases: "json_frac_part s = Some (v, r) \<Longrightarrow> length r \<le> length s"
  by (auto simp: json_frac_part_def Let_def length_dropWhile_le le_SucI split: if_splits list.splits)

lemma json_exp_digits_decreases: "json_exp_digits b s = Some (v, r) \<Longrightarrow> length r \<le> length s"
  by (auto simp: json_exp_digits_def Let_def length_dropWhile_le split: if_splits)

lemma json_exp_part_decreases: "json_exp_part s = Some (v, r) \<Longrightarrow> length r \<le> length s"
  by (auto simp: json_exp_part_def split: if_splits list.splits dest!: json_exp_digits_decreases)

lemma json_unsigned_decreases: "json_unsigned b s = Some (v, r) \<Longrightarrow> length r < length s"
  by (fastforce simp: json_unsigned_def split: option.splits
      dest: json_int_part_decreases json_frac_part_decreases json_exp_part_decreases)

lemma json_number_decreases: "json_number s = Some (v, r) \<Longrightarrow> length r < length s"
  by (auto simp: json_number_def split: list.splits if_splits dest!: json_unsigned_decreases)

lemma json_string_decreases: "json_string s = Some (v, r) \<Longrightarrow> length r < length s"
proof (induction s arbitrary: v r rule: length_induct)
  case (1 s)
  have IH: "length r' < length s" if "json_string s' = Some (v', r')" "length s' < length s" for s' v' r'
    using 1 that by (metis less_trans)
  show ?case
    using "1.prems"
    by (subst (asm) json_string.simps)
      (auto split: list.splits if_splits option.splits prod.splits dest!: IH)
qed

lemma json_scalar_decreases: "json_scalar s = Some (v, r) \<Longrightarrow> length r < length s"
proof -
  have lits: "list_all (\<lambda>(l, _). l \<noteq> []) json_literals" by (simp add: json_literals_def)
  assume "json_scalar s = Some (v, r)"
  then show ?thesis
    by (fastforce simp: json_scalar_def split: list.splits if_splits option.splits
        dest: json_string_decreases json_number_decreases json_literal_decreases [OF _ lits])
qed

lemma json_key_decreases: "json_key s = Some (k, r) \<Longrightarrow> length r + 1 < length s"
  by (fastforce simp: json_key_def split: list.splits if_splits option.splits
      dest: skip_space_Cons_length json_string_decreases)

lemma json_sep_decreases: "json_sep c s = Some (b, r) \<Longrightarrow> length r < length s"
  by (auto simp: json_sep_def split: list.splits if_splits dest: skip_space_Cons_length)

lemma length_tl_skip_space: "length s < n \<Longrightarrow> length (tl (skip_space s)) < n"
  using skip_space_length [of s] by (cases "skip_space s") auto

lemma json_decreases:
  "json_value f d s = Some (v, r) \<Longrightarrow> length r < length s"
  "json_members f d s acc = Some (m, r) \<Longrightarrow> length r < length s"
  "json_elements f d s = Some (vs, r) \<Longrightarrow> length r < length s"
proof (induction f d s and f d s acc and f d s arbitrary: v r and m r and vs r
    rule: json_value_json_members_json_elements.induct)
  case (2 f d s)
  show ?case
  proof (cases "skip_space s")
    case (Cons c cs)
    with 2 skip_space_Cons_length [OF Cons] skip_space_length [of s] show ?thesis
      by (auto split: if_splits intro: length_tl_skip_space simp del: length_tl
          dest: json_scalar_decreases) (meson less_trans)+
  qed (use 2 in simp)
next
  case (4 f d s acc)
  then show ?case
    by (fastforce split: if_splits option.splits dest: json_key_decreases json_sep_decreases)
next
  case (6 f d s)
  then show ?case
    by (fastforce split: if_splits option.splits dest: json_sep_decreases)
qed auto

lemma json_fuel_step:
  "2 * length s < f \<Longrightarrow> json_value (Suc f) d s = json_value f d s"
  "2 * length s < f \<Longrightarrow> json_members (Suc f) d s acc = json_members f d s acc"
  "2 * length s + 1 < f \<Longrightarrow> json_elements (Suc f) d s = json_elements f d s"
proof (induction f d s and f d s acc and f d s
    rule: json_value_json_members_json_elements.induct)
  case (2 f d s)
  show ?case
  proof (cases "skip_space s")
    case (Cons c cs)
    with 2 skip_space_Cons_length [OF Cons] show ?thesis
      by (subst (1 2) json_value.simps(2)) simp
  qed simp
next
  case (4 f d s acc)
  show ?case
  proof (cases "json_key s")
    case (Some kr)
    obtain k r where k: "json_key s = Some (k, r)" using Some by (cases kr) simp
    with 4 json_key_decreases [OF k] have v: "json_value (Suc f) d r = json_value f d r" by simp
    show ?thesis
    proof (cases "json_value f d r")
      case (Some vr)
      then obtain x r' where x: "json_value f d r = Some (x, r')" by (cases vr) simp
      have "json_members (Suc f) d r'' (obj_put k x acc) = json_members f d r'' (obj_put k x acc)"
        if "json_sep (CHR ''}'') r' = Some (False, r'')" for r''
        using "4.IH"(2) [OF k refl x refl that refl] "4.prems" json_key_decreases [OF k]
          json_decreases(1) [OF x] json_sep_decreases [OF that] by simp
      with k v x show ?thesis
        by (subst (1 2) json_members.simps(2)) (auto simp del: json_value.simps json_members.simps split: option.split)
    qed (use k v in \<open>simp del: json_value.simps\<close>)
  qed simp
next
  case (6 f d s)
  then have v: "json_value (Suc f) d s = json_value f d s" by simp
  show ?case
  proof (cases "json_value f d s")
    case (Some vr)
    then obtain x r where x: "json_value f d s = Some (x, r)" by (cases vr) simp
    have "json_elements (Suc f) d r' = json_elements f d r'"
      if "json_sep (CHR '']'') r = Some (False, r')" for r'
      using "6.IH"(2) [OF x refl that refl] "6.prems" json_decreases(1) [OF x] json_sep_decreases [OF that]
      by simp
    with v x show ?thesis
      by (subst (1 2) json_elements.simps(2)) (auto simp del: json_value.simps json_elements.simps split: option.split)
  qed (use v in \<open>simp del: json_value.simps\<close>)
qed auto

text \<open>The fuel of \<open>json.Unmarshal\<close> is enough: more of it never changes the result.\<close>

lemma json_value_fuel: "json_value (json_fuel s + k) d s = json_value (json_fuel s) d s"
  by (induction k) (simp_all add: json_fuel_step(1) json_fuel_def del: json_value.simps)

lemma json_value_more_fuel:
  assumes "json_fuel s \<le> f"
  shows "json_value f d s = json_value (json_fuel s) d s"
  using json_value_fuel [of s "f - json_fuel s" d] assms by simp


subsection \<open>Objects\<close>

definition sorted_object :: "json_object \<Rightarrow> bool" where
  "sorted_object kvs \<longleftrightarrow> sorted_wrt (<) (map fst kvs)"

lemma set_keys_obj_put: "set (map fst (obj_put k v kvs)) = insert k (set (map fst kvs))"
  by (induction k v kvs rule: obj_put.induct) auto

lemma sorted_obj_put: "sorted_object kvs \<Longrightarrow> sorted_object (obj_put k v kvs)"
proof (induction k v kvs rule: obj_put.induct)
  case (2 k v k' v' kvs)
  have s: "sorted_wrt (<) (map fst kvs)" and l: "\<forall>x \<in> set (map fst kvs). k' < x"
    using "2.prems" by (auto simp: sorted_object_def)
  consider "k < k'" | "k = k'" | "k' < k" by fastforce
  then show ?case
  proof cases
    case 1
    with s l show ?thesis by (auto simp: sorted_object_def dest: less_trans)
  next
    case 2
    with s l show ?thesis by (auto simp: sorted_object_def)
  next
    case 3
    with 2 s have "sorted_object (obj_put k v kvs)" by (auto simp: sorted_object_def)
    with 3 l set_keys_obj_put [of k v kvs] show ?thesis by (auto simp: sorted_object_def)
  qed
qed (simp add: sorted_object_def)

lemma json_get_obj_put:
  "sorted_object kvs \<Longrightarrow> json_get (obj_put k v kvs) k' = (if k' = k then Some v else json_get kvs k')"
proof (induction k v kvs rule: obj_put.induct)
  case (2 k v k1 v' kvs)
  then have "sorted_object kvs" by (simp add: sorted_object_def)
  with 2 show ?case by (auto simp: json_get_def)
qed (simp add: json_get_def)

lemma json_members_sorted:
  "sorted_object acc \<Longrightarrow> json_members f d s acc = Some (m, r) \<Longrightarrow> sorted_object m"
proof (induction f arbitrary: s acc)
  case (Suc f)
  note put = sorted_obj_put [OF Suc.prems(1)]
  show ?case
    using Suc.prems(2) by (auto split: if_splits option.splits) (rule put, rule Suc.IH [OF put])
qed simp

text \<open>Sorted member lists are equal exactly when they hold the same members.\<close>

lemma sorted_object_ext:
  assumes "sorted_object a" and "sorted_object b" and get: "json_get a = json_get b"
  shows "a = b"
proof -
  have d: "distinct (map fst a)" "distinct (map fst b)" and s: "sorted (map fst a)" "sorted (map fst b)"
    using assms(1,2) unfolding sorted_object_def strict_sorted_iff by blast+
  have "set a = {(k, v). json_get a k = Some v}" "set b = {(k, v). json_get b k = Some v}"
    using d by (simp_all only: json_get_def set_map_of_compr)
  then have eq: "set a = set b" using get by simp
  moreover have "inj_on fst (set a \<union> set b)"
    using d(1) eq by (simp add: distinct_map)
  ultimately show ?thesis
    using d s by (metis map_sorted_distinct_set_unique)
qed

lemma json_literal_in: "json_literal ls s = Some (v, r) \<Longrightarrow> v \<in> snd ` set ls"
  by (induction ls s rule: json_literal.induct) (auto split: if_splits)

lemma json_scalar_no_object: "json_scalar s \<noteq> Some (JObj m, r)"
  by (auto simp: json_scalar_def json_literals_def split: list.splits option.splits if_splits dest: json_literal_in)

lemma json_value_object_sorted: "json_value f d s = Some (JObj m, r) \<Longrightarrow> sorted_object m"
proof (cases f)
  case (Suc f')
  have nil: "sorted_object []" by (simp add: sorted_object_def)
  assume "json_value f d s = Some (JObj m, r)"
  with Suc json_members_sorted [OF nil] show ?thesis
    by (auto simp: json_scalar_no_object nil split: list.splits if_splits)
qed simp

lemma json_Unmarshal_sorted: "json_Unmarshal s = Some (Some kvs) \<Longrightarrow> sorted_object kvs"
  by (auto simp: json_Unmarshal_def dest!: json_value_object_sorted split: option.splits if_splits json.splits)


subsection \<open>Reading back what the operator prints\<close>

lemma json_string_plain:
  "list_all (\<lambda>c. c \<noteq> CHR 0x22 \<and> c \<noteq> CHR 0x5C \<and> 32 \<le> (of_char c :: nat)) k \<Longrightarrow>
     json_string (k @ CHR 0x22 # r) = Some (k, r)"
  by (induction k) (auto simp: json_string.simps)

lemma div_half_even_1 [simp]: "div_half_even p 1 = p"
  by (simp add: div_half_even_def)

lemma float64_of_nat_exact:
  assumes "n < 2 ^ 53"
  shows "float64_of_ratio (int n) 1 = Some (of_nat n)"
proof (cases "n = 0")
  case False
  have b1: "bitlen 1 = 1" by (simp add: bitlen_def floorlog_def)
  have 53: "bitlen (int n) \<le> 53"
  proof (rule ccontr)
    assume "\<not> ?thesis"
    then have "(2::int) ^ 53 \<le> 2 ^ nat (bitlen (int n) - 1)" by (intro power_increasing) auto
    also have "\<dots> \<le> int n" using bitlen_bounds [of "int n"] False by simp
    finally show False using assms by simp
  qed
  have pos: "1 \<le> bitlen (int n)"
    using bitlen_bounds [of "int n"] False bitlen_eq_zero_iff [of "int n"] bitlen_nonneg [of "int n"] by auto
  have lo: "2 ^ nat (bitlen (int n) - 1) \<le> int n" using bitlen_bounds [of "int n"] False by simp
  have "(2::int) ^ 53 = 2 ^ nat (bitlen (int n) - 1) * 2 ^ nat (54 - bitlen (int n))"
    using 53 pos by (simp flip: power_add nat_add_distrib)
  also have "\<dots> \<le> int n * 2 ^ nat (54 - bitlen (int n))" using lo by simp
  finally have "float64_exponent (int n) 1 = bitlen (int n) - 53"
    using 53 pos by (simp add: float64_exponent_def b1 Let_def)
  with 53 False assms show ?thesis
    by (cases "bitlen (int n) = 53") (auto simp: float64_of_ratio_def Let_def)
qed (simp add: float64_of_ratio_def)
lemma float64_of_decimal_exact [simp]:
  "n < 2 ^ 53 \<Longrightarrow> float64_of_decimal False (int n) 0 = Some (of_nat n)"
  by (simp add: float64_of_decimal_def float64_of_nat_exact)

lemma hd_nat_to_string: "hd (nat_to_string n) = CHR ''0'' \<longleftrightarrow> n = 0"
proof (induction n rule: nat_to_string.induct)
  case (1 n)
  show ?case
  proof (cases "n < 10")
    case True
    have "digit_char n = CHR ''0'' \<longleftrightarrow> n = 0"
      using True by (simp add: digit_char_def char_of_eq_iff take_bit_eq_mod)
    with True show ?thesis by (subst nat_to_string.simps) simp
  next
    case False
    with 1 show ?thesis by (subst nat_to_string.simps) auto
  qed
qed

lemma nat_to_string_0: "nat_to_string 0 = ''0''"
  by (subst nat_to_string.simps) (simp add: digit_char_def char_of_eq_iff)

lemma json_int_part_nat:
  assumes "r = [] \<or> \<not> is_digit (hd r)"
  shows "json_int_part (nat_to_string n @ r) = Some (nat_to_string n, r)"
proof -
  have all: "\<forall>c \<in> set (nat_to_string n). is_digit c"
    using nat_to_string_digits by (simp add: list_all_iff)
  with assms have "takeWhile is_digit (nat_to_string n @ r) = nat_to_string n"
    and "dropWhile is_digit (nat_to_string n @ r) = r"
    by (cases r; simp)+
  then show ?thesis
    by (cases "n = 0") (simp_all add: json_int_part_def hd_nat_to_string nat_to_string_0)
qed

definition json_ends_number :: "string \<Rightarrow> bool" where
  "json_ends_number r \<longleftrightarrow> (case r of [] \<Rightarrow> True | c # _ \<Rightarrow> \<not> is_digit c \<and> c \<noteq> CHR ''.'' \<and> c \<noteq> CHR ''e'' \<and> c \<noteq> CHR ''E'')"

lemma json_unsigned_nat:
  assumes "json_ends_number r" and "n < 2 ^ 53"
  shows "json_unsigned False (nat_to_string n @ r) = Some (of_nat n, r)"
proof -
  have "json_int_part (nat_to_string n @ r) = Some (nat_to_string n, r)"
    using assms(1) by (intro json_int_part_nat) (auto simp: json_ends_number_def split: list.splits)
  moreover have "json_frac_part r = Some ([], r)" "json_exp_part r = Some (0, r)"
    using assms(1) by (auto simp: json_frac_part_def json_exp_part_def json_ends_number_def split: list.splits)
  ultimately show ?thesis using assms(2) by (simp add: json_unsigned_def)
qed

lemma nat_to_string_Cons:
  obtains c cs where "nat_to_string n = c # cs" and "is_digit c"
  using nat_to_string_digits [of n] by (cases "nat_to_string n") auto

lemma json_scalar_nat:
  assumes "json_ends_number r" and "n < 2 ^ 53"
  shows "json_scalar (nat_to_string n @ r) = Some (JNum (of_nat n), r)"
proof -
  obtain c cs where c: "nat_to_string n = c # cs" and d: "is_digit c" by (rule nat_to_string_Cons)
  from d have ne: "c \<noteq> CHR 0x22" "c \<noteq> CHR ''-''" "c \<noteq> CHR ''n''" "c \<noteq> CHR ''t''" "c \<noteq> CHR ''f''"
    by (auto simp: is_digit_def)
  with c have "json_literal json_literals (nat_to_string n @ r) = None"
    by (simp add: json_literals_def)
  with c ne json_unsigned_nat [OF assms] show ?thesis
    by (simp add: json_scalar_def json_number_def)
qed

lemma json_value_nat:
  assumes "json_ends_number r" and "n < 2 ^ 53"
  shows "json_value (Suc f) d ('' '' @ nat_to_string n @ r) = Some (JNum (of_nat n), r)"
proof -
  obtain c cs where c: "nat_to_string n = c # cs" and d: "is_digit c" by (rule nat_to_string_Cons)
  from d have ne: "\<not> json_space c" "c \<noteq> CHR ''{''" "c \<noteq> CHR ''[''"
    by (auto simp: is_digit_def json_space_def)
  with c have s: "skip_space ('' '' @ nat_to_string n @ r) = nat_to_string n @ r"
    by (simp add: skip_space_def json_space_def)
  with c ne json_scalar_nat [OF assms] show ?thesis by simp
qed

text \<open>An object with one integer member, printed as the operator prints it, is read back.\<close>

lemma json_Unmarshal_single_nat:
  assumes k: "list_all (\<lambda>c. c \<noteq> CHR 0x22 \<and> c \<noteq> CHR 0x5C \<and> 32 \<le> (of_char c :: nat)) k"
    and n: "n < 2 ^ 53"
  shows "json_Unmarshal (''{'' @ [CHR 0x22] @ k @ [CHR 0x22] @ '': '' @ nat_to_string n @ ''}'') =
           Some (Some [(k, JNum (of_nat n))])"
proof -
  let ?v = "'' '' @ nat_to_string n @ ''}''"
  let ?m = "[CHR 0x22] @ k @ [CHR 0x22] @ '':'' @ ?v"
  have key: "json_key ?m = Some (k, ?v)"
    using json_string_plain [OF k, of "'':'' @ ?v"] by (simp add: json_key_def skip_space_def json_space_def)
  have val: "json_value (Suc f) d ?v = Some (JNum (of_nat n), ''}'')" for f d
    by (rule json_value_nat) (use n in \<open>simp_all add: json_ends_number_def is_digit_def\<close>)
  have mem: "json_members (Suc (Suc f)) d ?m [] = Some ([(k, JNum (of_nat n))], [])" for f d
    using key val [of f d] by (simp add: json_sep_def skip_space_def json_space_def del: json_value.simps)
  obtain f where f: "json_fuel (''{'' @ ?m) = Suc (Suc (Suc f))"
    by (simp add: json_fuel_def)
  have "json_value (json_fuel (''{'' @ ?m)) 10000 (''{'' @ ?m) = Some (JObj [(k, JNum (of_nat n))], [])"
    unfolding f using mem [of f] by (simp add: skip_space_def json_space_def del: json_members.simps)
  then show ?thesis
    by (simp add: json_Unmarshal_def skip_space_def)
qed

end
