(* ===== verification/Errors.thy ===== *)
theory Errors
  imports Go_Prelude
begin

text \<open>
  The error values of the operator. A Go \<open>error\<close> is a value of \<open>go_error\<close>: the
  sentinels of \<open>rabbitmqclient/cluster_reference.go\<close> and \<open>internal/controller/utils.go\<close>,
  the API error of \<open>utils.go\<close>, errors of the libraries the operator calls (which carry the
  text the library gives them), plain texts, and texts that wrap another error (the verb
  \<open>%w\<close>). \<open>errors_Is\<close> follows the wrapping chain as \<open>errors.Is\<close> does.
\<close>

datatype status_reason = StatusReasonNotFound | StatusReasonConflict | StatusReasonOther

datatype go_error =
    ErrNoSuchRabbitmqCluster
  | ErrResourceNotAllowed
  | ErrNoServiceReferenceSet
  | ErrClusterScaledToZero
  | ErrNotFound
  | RabbitmqAPIError int string
  | RabbitholeError int string string
  | StatusError status_reason string
  | LibraryError string
  | ErrText string
  | ErrWrap string go_error string

text \<open>The sentinel errors compare by identity, the structured ones of rabbit-hole by their fields.\<close>

fun errors_Is :: "go_error \<Rightarrow> go_error \<Rightarrow> bool" where
  "errors_Is (ErrWrap p e s) target = (ErrWrap p e s = target \<or> errors_Is e target)"
| "errors_Is e target = (e = target)"

definition rabbithole404 :: go_error where
  "rabbithole404 = RabbitholeError 404 ''Object Not Found'' ''Not Found''"

text \<open>\<open>apierrors.IsNotFound\<close>: the reason of the first API status error on the chain.\<close>

fun IsNotFound :: "go_error \<Rightarrow> bool" where
  "IsNotFound (StatusError r m) = (r = StatusReasonNotFound)"
| "IsNotFound (ErrWrap p e s) = IsNotFound e"
| "IsNotFound _ = False"

text \<open>\<open>client.IgnoreNotFound\<close>.\<close>

definition IgnoreNotFound :: "go_error \<Rightarrow> go_error option" where
  "IgnoreNotFound e = (if IsNotFound e then None else Some e)"

text \<open>
  \<open>err.Error()\<close>. The text of an error made inside rabbit-hole is not part of the
  repository; it stands as its three fields.
\<close>

fun err_Error :: "go_error \<Rightarrow> string" where
  "err_Error ErrNoSuchRabbitmqCluster = ''RabbitmqCluster object does not exist''"
| "err_Error ErrResourceNotAllowed =
     ''resource is not allowed to reference defined cluster reference. Check the namespace of the resource is allowed as part of the cluster's `rabbitmq.com/topology-allowed-namespaces` annotation''"
| "err_Error ErrNoServiceReferenceSet = ''RabbitmqCluster has no ServiceReference set in status.defaultUser''"
| "err_Error ErrClusterScaledToZero = ''RabbitmqCluster is scaled to zero replicas''"
| "err_Error ErrNotFound = ''not found''"
| "err_Error (RabbitmqAPIError code body) =
     ''RabbitMQ management API request failed with status code '' @ strconv_Itoa code"
| "err_Error (RabbitholeError code msg reason) = strconv_Itoa code @ '' '' @ msg @ '' '' @ reason"
| "err_Error (StatusError r m) = m"
| "err_Error (LibraryError m) = m"
| "err_Error (ErrText m) = m"
| "err_Error (ErrWrap p e s) = p @ err_Error e @ s"

lemma errors_Is_wrap [simp]:
  "target \<noteq> ErrWrap p e s \<Longrightarrow> errors_Is (ErrWrap p e s) target \<longleftrightarrow> errors_Is e target"
  by simp

lemma errors_Is_refl: "errors_Is e e"
  by (cases e) auto

end
