(* ===== verification/Api_Types.thy ===== *)
theory Api_Types
  imports Go_Json Errors
begin

text \<open>
  The data model of the operator (\<open>api/v1beta1\<close>, \<open>api/v1alpha1\<close>): conditions, the
  cluster reference, and the thirteen custom resources.

  A resource is a \<open>kobject\<close>: group and kind of its \<open>TypeMeta\<close>, its
  \<open>ObjectMeta\<close>, its spec and its status. A pointer field is an option, a
  \<open>corev1.LocalObjectReference\<close> is its name, a \<open>runtime.RawExtension\<close> its raw bytes, a
  \<open>metav1.Time\<close> an integer with 0 for the zero time, a Go map a partial function. Field
  names carry a prefix for their struct. The interface \<open>TopologyResource\<close> is the datatype
  \<open>tobj\<close> with one constructor per type that implements it.
\<close>

section \<open>Object metadata\<close>

type_synonym go_time = int
type_synonym raw_extension = string
type_synonym LocalObjectReference = string

record owner_reference =
  or_Kind :: string
  or_Name :: string
  or_Controller :: "bool option"
  or_BlockOwnerDeletion :: "bool option"

record object_meta =
  om_Name :: string
  om_Namespace :: string
  om_Generation :: int
  om_DeletionTimestamp :: "go_time option"
  om_Finalizers :: "string list"
  om_Labels :: "string \<rightharpoonup> string"
  om_Annotations :: "string \<rightharpoonup> string"
  om_OwnerReferences :: "owner_reference list"

text \<open>\<open>obj.GetDeletionTimestamp().IsZero()\<close> on a pointer that may be nil.\<close>

fun Time_IsZero :: "go_time option \<Rightarrow> bool" where
  "Time_IsZero None = True"
| "Time_IsZero (Some t) = (t = 0)"

record ('sp, 'st) kobject =
  obj_Group :: string
  obj_Kind :: string
  obj_Meta :: object_meta
  obj_Spec :: 'sp
  obj_Status :: 'st

text \<open>A list of resources, as the API server returns it.\<close>

record list_meta =
  lm_ResourceVersion :: string
  lm_Continue :: string
  lm_RemainingItemCount :: "int option"

record 'o klist =
  kl_Group :: string
  kl_Kind :: string
  kl_Meta :: list_meta
  kl_Items :: "'o list"

record GroupResource =
  gr_Group :: string
  gr_Resource :: string


section \<open>Conditions\<close>

type_synonym ConditionType = string

definition ready :: ConditionType where
  "ready = ''Ready''"

definition passwordSynced :: ConditionType where
  "passwordSynced = ''PasswordSynced''"

definition ConditionTrue :: string where
  "ConditionTrue = ''True''"

definition ConditionFalse :: string where
  "ConditionFalse = ''False''"

record Condition =
  cond_Type :: ConditionType
  cond_Status :: string
  cond_LastTransitionTime :: go_time
  cond_Reason :: string
  cond_Message :: string

text \<open>The clock (\<open>metav1.Now()\<close>) is the first argument of the functions that may read it.\<close>

fun lastTransitionTime :: "go_time \<Rightarrow> ConditionType \<Rightarrow> string \<Rightarrow> Condition list \<Rightarrow> go_time" where
  "lastTransitionTime now ty st [] = now"
| "lastTransitionTime now ty st (c # cs) =
     (if cond_Type c = ty \<and> cond_Status c = st then cond_LastTransitionTime c
      else lastTransitionTime now ty st cs)"

definition Ready :: "go_time \<Rightarrow> Condition list \<Rightarrow> Condition" where
  "Ready now lastConditions =
     \<lparr>cond_Type = ready, cond_Status = ConditionTrue,
      cond_LastTransitionTime = lastTransitionTime now ready ConditionTrue lastConditions,
      cond_Reason = ''SuccessfulCreateOrUpdate'', cond_Message = ''''\<rparr>"

definition NotReady :: "go_time \<Rightarrow> string \<Rightarrow> Condition list \<Rightarrow> Condition" where
  "NotReady now msg lastConditions =
     \<lparr>cond_Type = ready, cond_Status = ConditionFalse,
      cond_LastTransitionTime = lastTransitionTime now ready ConditionFalse lastConditions,
      cond_Reason = ''FailedCreateOrUpdate'', cond_Message = msg\<rparr>"

definition PasswordSynced :: "go_time \<Rightarrow> Condition list \<Rightarrow> Condition" where
  "PasswordSynced now lastConditions =
     \<lparr>cond_Type = passwordSynced, cond_Status = ConditionTrue,
      cond_LastTransitionTime = lastTransitionTime now passwordSynced ConditionTrue lastConditions,
      cond_Reason = ''SuccessfulPasswordSync'', cond_Message = ''''\<rparr>"

fun upsertCondition :: "Condition list \<Rightarrow> Condition \<Rightarrow> Condition list" where
  "upsertCondition [] new = [new]"
| "upsertCondition (c # cs) new =
     (if cond_Type c = cond_Type new then new # cs else c # upsertCondition cs new)"


section \<open>The cluster reference\<close>

record RabbitmqClusterReference =
  ref_Name :: string
  ref_Namespace :: string
  ref_ConnectionSecret :: "LocalObjectReference option"

definition Matches :: "RabbitmqClusterReference \<Rightarrow> RabbitmqClusterReference \<Rightarrow> bool" where
  "Matches r new =
     (if ref_Name new \<noteq> ref_Name r \<or> ref_Namespace new \<noteq> ref_Namespace r then False
      else if ref_ConnectionSecret new \<noteq> None \<and> ref_ConnectionSecret r \<noteq> None \<and>
              the (ref_ConnectionSecret new) \<noteq> the (ref_ConnectionSecret r) then False
      else if ref_ConnectionSecret new = None \<and> ref_ConnectionSecret r \<noteq> None then False
      else if ref_ConnectionSecret new \<noteq> None \<and> ref_ConnectionSecret r = None then False
      else True)"

definition ConnectionSecretNamespace :: "RabbitmqClusterReference \<Rightarrow> string \<Rightarrow> string" where
  "ConnectionSecretNamespace r resourceNamespace =
     (if ref_Namespace r = '''' then resourceNamespace else ref_Namespace r)"

definition ref_validate :: "RabbitmqClusterReference \<Rightarrow> go_error + unit" where
  "ref_validate r =
     (if ref_Name r \<noteq> '''' \<and> ref_ConnectionSecret r \<noteq> None
      then Inl (ErrText ''invalid RabbitmqClusterReference: do not provide both name and connectionSecret'')
      else if ref_Name r = '''' \<and> ref_ConnectionSecret r = None
      then Inl (ErrText ''invalid RabbitmqClusterReference: must provide either name or connectionSecret'')
      else Inr ())"

definition ValidateOnCreate :: "RabbitmqClusterReference \<Rightarrow> GroupResource \<Rightarrow> string \<Rightarrow> go_error + unit" where
  "ValidateOnCreate r gr name = ref_validate r"

definition TopologyOperatorLabel :: string where
  "TopologyOperatorLabel = ''rabbitmq.com/topology-operator''"

definition TopologyOperatorLabelValue :: string where
  "TopologyOperatorLabelValue = ''true''"


section \<open>Specs\<close>

record VhostLimits =
  vl_Connections :: "int option"
  vl_Queues :: "int option"

type_synonym UserTag = string

record UserLimits =
  ul_Connections :: "int option"
  ul_Channels :: "int option"

record VhostPermissions =
  vp_Configure :: string
  vp_Write :: string
  vp_Read :: string

record TopicPermissionConfig =
  tpc_Exchange :: string
  tpc_Read :: string
  tpc_Write :: string

record VaultSpec =
  v_SecretPath :: string

record SecretBackend =
  sb_Vault :: "VaultSpec option"


record BindingSpec =
  b_Vhost :: string
  b_Source :: string
  b_Destination :: string
  b_DestinationType :: string
  b_RoutingKey :: string
  b_Arguments :: "raw_extension option"
  b_RabbitmqClusterReference :: RabbitmqClusterReference

record ExchangeSpec =
  ex_Name :: string
  ex_Vhost :: string
  ex_Type :: string
  ex_Durable :: bool
  ex_AutoDelete :: bool
  ex_Arguments :: "raw_extension option"
  ex_RabbitmqClusterReference :: RabbitmqClusterReference

record QueueSpec =
  q_Name :: string
  q_Vhost :: string
  q_Type :: string
  q_Durable :: "bool option"
  q_AutoDelete :: bool
  q_DeleteIfEmpty :: bool
  q_DeleteIfUnused :: bool
  q_Arguments :: "raw_extension option"
  q_RabbitmqClusterReference :: RabbitmqClusterReference
  q_DeletionPolicy :: string

record VhostSpec =
  vh_Name :: string
  vh_Tracing :: bool
  vh_Tags :: "string list"
  vh_DefaultQueueType :: string
  vh_RabbitmqClusterReference :: RabbitmqClusterReference
  vh_DeletionPolicy :: string
  vh_VhostLimits :: "VhostLimits option"

record UserSpec =
  u_Tags :: "UserTag list"
  u_RabbitmqClusterReference :: RabbitmqClusterReference
  u_ImportCredentialsSecret :: "LocalObjectReference option"
  u_UsernameFromMeta :: bool
  u_UserLimits :: "UserLimits option"

record PermissionSpec =
  p_User :: string
  p_UserReference :: "LocalObjectReference option"
  p_Vhost :: string
  p_Permissions :: VhostPermissions
  p_RabbitmqClusterReference :: RabbitmqClusterReference

record TopicPermissionSpec =
  tp_User :: string
  tp_UserReference :: "LocalObjectReference option"
  tp_Vhost :: string
  tp_Permissions :: TopicPermissionConfig
  tp_RabbitmqClusterReference :: RabbitmqClusterReference

record PolicySpec =
  pol_Name :: string
  pol_Vhost :: string
  pol_Pattern :: string
  pol_ApplyTo :: string
  pol_Priority :: int
  pol_Definition :: "raw_extension option"
  pol_RabbitmqClusterReference :: RabbitmqClusterReference

record OperatorPolicySpec =
  op_Name :: string
  op_Vhost :: string
  op_Pattern :: string
  op_ApplyTo :: string
  op_Priority :: int
  op_Definition :: "raw_extension option"
  op_RabbitmqClusterReference :: RabbitmqClusterReference

record FederationSpec =
  f_Name :: string
  f_Vhost :: string
  f_RabbitmqClusterReference :: RabbitmqClusterReference
  f_UriSecret :: "LocalObjectReference option"
  f_PrefetchCount :: int
  f_AckMode :: string
  f_Expires :: int
  f_MessageTTL :: int
  f_MaxHops :: int
  f_ReconnectDelay :: "int option"
  f_TrustUserId :: bool
  f_Exchange :: string
  f_Queue :: string
  f_DeletionPolicy :: string
  f_QueueType :: string
  f_ResourceCleanupMode :: string

record ShovelSpec =
  s_Name :: string
  s_Vhost :: string
  s_RabbitmqClusterReference :: RabbitmqClusterReference
  s_UriSecret :: "LocalObjectReference option"
  s_AckMode :: string
  s_PrefetchCount :: int
  s_ReconnectDelay :: int
  s_AddForwardHeaders :: bool
  s_DeleteAfter :: string
  s_SourceDeleteAfter :: string
  s_SourcePrefetchCount :: int
  s_DestinationAddForwardHeaders :: bool
  s_DestinationAddTimestampHeader :: bool
  s_SourceQueueArgs :: "raw_extension option"
  s_DestinationQueueArgs :: "raw_extension option"
  s_DestinationProtocol :: string
  s_DestinationQueue :: string
  s_DestinationExchange :: string
  s_DestinationExchangeKey :: string
  s_DestinationPublishProperties :: "raw_extension option"
  s_DestinationAddress :: string
  s_DestinationApplicationProperties :: "raw_extension option"
  s_DestinationProperties :: "raw_extension option"
  s_DestinationMessageAnnotations :: "raw_extension option"
  s_SourceProtocol :: string
  s_SourceQueue :: string
  s_SourceExchange :: string
  s_SourceExchangeKey :: string
  s_SourceConsumerArgs :: "raw_extension option"
  s_SourceAddress :: string
  s_DeletionPolicy :: string

record SchemaReplicationSpec =
  sr_RabbitmqClusterReference :: RabbitmqClusterReference
  sr_UpstreamSecret :: "LocalObjectReference option"
  sr_Endpoints :: string
  sr_SecretBackend :: SecretBackend

record SuperStreamSpec =
  ss_Name :: string
  ss_Vhost :: string
  ss_Partitions :: int
  ss_RoutingKeys :: "string list"
  ss_RabbitmqClusterReference :: RabbitmqClusterReference


section \<open>Statuses\<close>

text \<open>Eleven of the statuses are the same struct; the other two add fields to it.\<close>

record topology_status =
  ObservedGeneration :: int
  Conditions :: "Condition list"

record UserStatus = topology_status +
  us_Credentials :: "LocalObjectReference option"
  us_Username :: string

record SuperStreamStatus = topology_status +
  sss_Partitions :: "string list"

type_synonym BindingStatus = topology_status
type_synonym ExchangeStatus = topology_status
type_synonym QueueStatus = topology_status
type_synonym VhostStatus = topology_status
type_synonym PermissionStatus = topology_status
type_synonym TopicPermissionStatus = topology_status
type_synonym PolicyStatus = topology_status
type_synonym OperatorPolicyStatus = topology_status
type_synonym FederationStatus = topology_status
type_synonym ShovelStatus = topology_status
type_synonym SchemaReplicationStatus = topology_status


section \<open>Resources\<close>

type_synonym Binding = "(BindingSpec, BindingStatus) kobject"
type_synonym Exchange = "(ExchangeSpec, ExchangeStatus) kobject"
type_synonym Queue = "(QueueSpec, QueueStatus) kobject"
type_synonym Vhost = "(VhostSpec, VhostStatus) kobject"
type_synonym User = "(UserSpec, UserStatus) kobject"
type_synonym Permission = "(PermissionSpec, PermissionStatus) kobject"
type_synonym TopicPermission = "(TopicPermissionSpec, TopicPermissionStatus) kobject"
type_synonym Policy = "(PolicySpec, PolicyStatus) kobject"
type_synonym OperatorPolicy = "(OperatorPolicySpec, OperatorPolicyStatus) kobject"
type_synonym Federation = "(FederationSpec, FederationStatus) kobject"
type_synonym Shovel = "(ShovelSpec, ShovelStatus) kobject"
type_synonym SchemaReplication = "(SchemaReplicationSpec, SchemaReplicationStatus) kobject"
type_synonym SuperStream = "(SuperStreamSpec, SuperStreamStatus) kobject"

definition Binding_GroupResource :: "Binding \<Rightarrow> GroupResource" where
  "Binding_GroupResource o' = \<lparr>gr_Group = obj_Group o', gr_Resource = obj_Kind o'\<rparr>"

definition Binding_RabbitReference :: "Binding \<Rightarrow> RabbitmqClusterReference" where
  "Binding_RabbitReference o' = b_RabbitmqClusterReference (obj_Spec o')"

definition Binding_SetStatusConditions :: "Binding \<Rightarrow> Condition list \<Rightarrow> Binding" where
  "Binding_SetStatusConditions o' c = o'\<lparr>obj_Status := (obj_Status o')\<lparr>Conditions := c\<rparr>\<rparr>"

definition Exchange_GroupResource :: "Exchange \<Rightarrow> GroupResource" where
  "Exchange_GroupResource o' = \<lparr>gr_Group = obj_Group o', gr_Resource = obj_Kind o'\<rparr>"

definition Exchange_RabbitReference :: "Exchange \<Rightarrow> RabbitmqClusterReference" where
  "Exchange_RabbitReference o' = ex_RabbitmqClusterReference (obj_Spec o')"

definition Exchange_SetStatusConditions :: "Exchange \<Rightarrow> Condition list \<Rightarrow> Exchange" where
  "Exchange_SetStatusConditions o' c = o'\<lparr>obj_Status := (obj_Status o')\<lparr>Conditions := c\<rparr>\<rparr>"

definition Queue_GroupResource :: "Queue \<Rightarrow> GroupResource" where
  "Queue_GroupResource o' = \<lparr>gr_Group = obj_Group o', gr_Resource = obj_Kind o'\<rparr>"

definition Queue_RabbitReference :: "Queue \<Rightarrow> RabbitmqClusterReference" where
  "Queue_RabbitReference o' = q_RabbitmqClusterReference (obj_Spec o')"

definition Queue_SetStatusConditions :: "Queue \<Rightarrow> Condition list \<Rightarrow> Queue" where
  "Queue_SetStatusConditions o' c = o'\<lparr>obj_Status := (obj_Status o')\<lparr>Conditions := c\<rparr>\<rparr>"

definition Vhost_GroupResource :: "Vhost \<Rightarrow> GroupResource" where
  "Vhost_GroupResource o' = \<lparr>gr_Group = obj_Group o', gr_Resource = obj_Kind o'\<rparr>"

definition Vhost_RabbitReference :: "Vhost \<Rightarrow> RabbitmqClusterReference" where
  "Vhost_RabbitReference o' = vh_RabbitmqClusterReference (obj_Spec o')"

definition Vhost_SetStatusConditions :: "Vhost \<Rightarrow> Condition list \<Rightarrow> Vhost" where
  "Vhost_SetStatusConditions o' c = o'\<lparr>obj_Status := (obj_Status o')\<lparr>Conditions := c\<rparr>\<rparr>"

definition User_GroupResource :: "User \<Rightarrow> GroupResource" where
  "User_GroupResource o' = \<lparr>gr_Group = obj_Group o', gr_Resource = obj_Kind o'\<rparr>"

definition User_RabbitReference :: "User \<Rightarrow> RabbitmqClusterReference" where
  "User_RabbitReference o' = u_RabbitmqClusterReference (obj_Spec o')"

text \<open>A User keeps the conditions of other types; every other resource replaces the list.\<close>

definition User_SetStatusConditions :: "User \<Rightarrow> Condition list \<Rightarrow> User" where
  "User_SetStatusConditions o' c =
     o'\<lparr>obj_Status := (obj_Status o')\<lparr>Conditions := foldl upsertCondition (Conditions (obj_Status o')) c\<rparr>\<rparr>"

definition Permission_GroupResource :: "Permission \<Rightarrow> GroupResource" where
  "Permission_GroupResource o' = \<lparr>gr_Group = obj_Group o', gr_Resource = obj_Kind o'\<rparr>"

definition Permission_RabbitReference :: "Permission \<Rightarrow> RabbitmqClusterReference" where
  "Permission_RabbitReference o' = p_RabbitmqClusterReference (obj_Spec o')"

definition Permission_SetStatusConditions :: "Permission \<Rightarrow> Condition list \<Rightarrow> Permission" where
  "Permission_SetStatusConditions o' c = o'\<lparr>obj_Status := (obj_Status o')\<lparr>Conditions := c\<rparr>\<rparr>"

definition TopicPermission_GroupResource :: "TopicPermission \<Rightarrow> GroupResource" where
  "TopicPermission_GroupResource o' = \<lparr>gr_Group = obj_Group o', gr_Resource = obj_Kind o'\<rparr>"

definition TopicPermission_RabbitReference :: "TopicPermission \<Rightarrow> RabbitmqClusterReference" where
  "TopicPermission_RabbitReference o' = tp_RabbitmqClusterReference (obj_Spec o')"

definition TopicPermission_SetStatusConditions :: "TopicPermission \<Rightarrow> Condition list \<Rightarrow> TopicPermission" where
  "TopicPermission_SetStatusConditions o' c = o'\<lparr>obj_Status := (obj_Status o')\<lparr>Conditions := c\<rparr>\<rparr>"

definition Policy_GroupResource :: "Policy \<Rightarrow> GroupResource" where
  "Policy_GroupResource o' = \<lparr>gr_Group = obj_Group o', gr_Resource = obj_Kind o'\<rparr>"

definition Policy_RabbitReference :: "Policy \<Rightarrow> RabbitmqClusterReference" where
  "Policy_RabbitReference o' = pol_RabbitmqClusterReference (obj_Spec o')"

definition Policy_SetStatusConditions :: "Policy \<Rightarrow> Condition list \<Rightarrow> Policy" where
  "Policy_SetStatusConditions o' c = o'\<lparr>obj_Status := (obj_Status o')\<lparr>Conditions := c\<rparr>\<rparr>"

definition OperatorPolicy_GroupResource :: "OperatorPolicy \<Rightarrow> GroupResource" where
  "OperatorPolicy_GroupResource o' = \<lparr>gr_Group = obj_Group o', gr_Resource = obj_Kind o'\<rparr>"

definition OperatorPolicy_RabbitReference :: "OperatorPolicy \<Rightarrow> RabbitmqClusterReference" where
  "OperatorPolicy_RabbitReference o' = op_RabbitmqClusterReference (obj_Spec o')"

definition OperatorPolicy_SetStatusConditions :: "OperatorPolicy \<Rightarrow> Condition list \<Rightarrow> OperatorPolicy" where
  "OperatorPolicy_SetStatusConditions o' c = o'\<lparr>obj_Status := (obj_Status o')\<lparr>Conditions := c\<rparr>\<rparr>"

definition Federation_GroupResource :: "Federation \<Rightarrow> GroupResource" where
  "Federation_GroupResource o' = \<lparr>gr_Group = obj_Group o', gr_Resource = obj_Kind o'\<rparr>"

definition Federation_RabbitReference :: "Federation \<Rightarrow> RabbitmqClusterReference" where
  "Federation_RabbitReference o' = f_RabbitmqClusterReference (obj_Spec o')"

definition Federation_SetStatusConditions :: "Federation \<Rightarrow> Condition list \<Rightarrow> Federation" where
  "Federation_SetStatusConditions o' c = o'\<lparr>obj_Status := (obj_Status o')\<lparr>Conditions := c\<rparr>\<rparr>"

definition Shovel_GroupResource :: "Shovel \<Rightarrow> GroupResource" where
  "Shovel_GroupResource o' = \<lparr>gr_Group = obj_Group o', gr_Resource = obj_Kind o'\<rparr>"

definition Shovel_RabbitReference :: "Shovel \<Rightarrow> RabbitmqClusterReference" where
  "Shovel_RabbitReference o' = s_RabbitmqClusterReference (obj_Spec o')"

definition Shovel_SetStatusConditions :: "Shovel \<Rightarrow> Condition list \<Rightarrow> Shovel" where
  "Shovel_SetStatusConditions o' c = o'\<lparr>obj_Status := (obj_Status o')\<lparr>Conditions := c\<rparr>\<rparr>"

definition SchemaReplication_GroupResource :: "SchemaReplication \<Rightarrow> GroupResource" where
  "SchemaReplication_GroupResource o' = \<lparr>gr_Group = obj_Group o', gr_Resource = obj_Kind o'\<rparr>"

definition SchemaReplication_RabbitReference :: "SchemaReplication \<Rightarrow> RabbitmqClusterReference" where
  "SchemaReplication_RabbitReference o' = sr_RabbitmqClusterReference (obj_Spec o')"

definition SchemaReplication_SetStatusConditions :: "SchemaReplication \<Rightarrow> Condition list \<Rightarrow> SchemaReplication" where
  "SchemaReplication_SetStatusConditions o' c = o'\<lparr>obj_Status := (obj_Status o')\<lparr>Conditions := c\<rparr>\<rparr>"

definition SuperStream_GroupResource :: "SuperStream \<Rightarrow> GroupResource" where
  "SuperStream_GroupResource o' = \<lparr>gr_Group = obj_Group o', gr_Resource = obj_Kind o'\<rparr>"


section \<open>The interface TopologyResource\<close>

datatype tkind = KBinding | KExchange | KQueue | KVhost | KUser | KPermission | KTopicPermission | KPolicy | KOperatorPolicy | KFederation | KShovel | KSchemaReplication

datatype tobj =
    OBinding Binding
  | OExchange Exchange
  | OQueue Queue
  | OVhost Vhost
  | OUser User
  | OPermission Permission
  | OTopicPermission TopicPermission
  | OPolicy Policy
  | OOperatorPolicy OperatorPolicy
  | OFederation Federation
  | OShovel Shovel
  | OSchemaReplication SchemaReplication

fun tkind_of :: "tobj \<Rightarrow> tkind" where
  "tkind_of (OBinding x) = KBinding"
| "tkind_of (OExchange x) = KExchange"
| "tkind_of (OQueue x) = KQueue"
| "tkind_of (OVhost x) = KVhost"
| "tkind_of (OUser x) = KUser"
| "tkind_of (OPermission x) = KPermission"
| "tkind_of (OTopicPermission x) = KTopicPermission"
| "tkind_of (OPolicy x) = KPolicy"
| "tkind_of (OOperatorPolicy x) = KOperatorPolicy"
| "tkind_of (OFederation x) = KFederation"
| "tkind_of (OShovel x) = KShovel"
| "tkind_of (OSchemaReplication x) = KSchemaReplication"

fun kind_name :: "tkind \<Rightarrow> string" where
  "kind_name KBinding = ''Binding''"
| "kind_name KExchange = ''Exchange''"
| "kind_name KQueue = ''Queue''"
| "kind_name KVhost = ''Vhost''"
| "kind_name KUser = ''User''"
| "kind_name KPermission = ''Permission''"
| "kind_name KTopicPermission = ''TopicPermission''"
| "kind_name KPolicy = ''Policy''"
| "kind_name KOperatorPolicy = ''OperatorPolicy''"
| "kind_name KFederation = ''Federation''"
| "kind_name KShovel = ''Shovel''"
| "kind_name KSchemaReplication = ''SchemaReplication''"

fun tobj_Kind :: "tobj \<Rightarrow> string" where
  "tobj_Kind (OBinding x) = obj_Kind x"
| "tobj_Kind (OExchange x) = obj_Kind x"
| "tobj_Kind (OQueue x) = obj_Kind x"
| "tobj_Kind (OVhost x) = obj_Kind x"
| "tobj_Kind (OUser x) = obj_Kind x"
| "tobj_Kind (OPermission x) = obj_Kind x"
| "tobj_Kind (OTopicPermission x) = obj_Kind x"
| "tobj_Kind (OPolicy x) = obj_Kind x"
| "tobj_Kind (OOperatorPolicy x) = obj_Kind x"
| "tobj_Kind (OFederation x) = obj_Kind x"
| "tobj_Kind (OShovel x) = obj_Kind x"
| "tobj_Kind (OSchemaReplication x) = obj_Kind x"

fun tobj_Meta :: "tobj \<Rightarrow> object_meta" where
  "tobj_Meta (OBinding x) = obj_Meta x"
| "tobj_Meta (OExchange x) = obj_Meta x"
| "tobj_Meta (OQueue x) = obj_Meta x"
| "tobj_Meta (OVhost x) = obj_Meta x"
| "tobj_Meta (OUser x) = obj_Meta x"
| "tobj_Meta (OPermission x) = obj_Meta x"
| "tobj_Meta (OTopicPermission x) = obj_Meta x"
| "tobj_Meta (OPolicy x) = obj_Meta x"
| "tobj_Meta (OOperatorPolicy x) = obj_Meta x"
| "tobj_Meta (OFederation x) = obj_Meta x"
| "tobj_Meta (OShovel x) = obj_Meta x"
| "tobj_Meta (OSchemaReplication x) = obj_Meta x"

fun map_Meta :: "(object_meta \<Rightarrow> object_meta) \<Rightarrow> tobj \<Rightarrow> tobj" where
  "map_Meta f (OBinding x) = OBinding (x\<lparr>obj_Meta := f (obj_Meta x)\<rparr>)"
| "map_Meta f (OExchange x) = OExchange (x\<lparr>obj_Meta := f (obj_Meta x)\<rparr>)"
| "map_Meta f (OQueue x) = OQueue (x\<lparr>obj_Meta := f (obj_Meta x)\<rparr>)"
| "map_Meta f (OVhost x) = OVhost (x\<lparr>obj_Meta := f (obj_Meta x)\<rparr>)"
| "map_Meta f (OUser x) = OUser (x\<lparr>obj_Meta := f (obj_Meta x)\<rparr>)"
| "map_Meta f (OPermission x) = OPermission (x\<lparr>obj_Meta := f (obj_Meta x)\<rparr>)"
| "map_Meta f (OTopicPermission x) = OTopicPermission (x\<lparr>obj_Meta := f (obj_Meta x)\<rparr>)"
| "map_Meta f (OPolicy x) = OPolicy (x\<lparr>obj_Meta := f (obj_Meta x)\<rparr>)"
| "map_Meta f (OOperatorPolicy x) = OOperatorPolicy (x\<lparr>obj_Meta := f (obj_Meta x)\<rparr>)"
| "map_Meta f (OFederation x) = OFederation (x\<lparr>obj_Meta := f (obj_Meta x)\<rparr>)"
| "map_Meta f (OShovel x) = OShovel (x\<lparr>obj_Meta := f (obj_Meta x)\<rparr>)"
| "map_Meta f (OSchemaReplication x) = OSchemaReplication (x\<lparr>obj_Meta := f (obj_Meta x)\<rparr>)"

fun RabbitReference :: "tobj \<Rightarrow> RabbitmqClusterReference" where
  "RabbitReference (OBinding x) = Binding_RabbitReference x"
| "RabbitReference (OExchange x) = Exchange_RabbitReference x"
| "RabbitReference (OQueue x) = Queue_RabbitReference x"
| "RabbitReference (OVhost x) = Vhost_RabbitReference x"
| "RabbitReference (OUser x) = User_RabbitReference x"
| "RabbitReference (OPermission x) = Permission_RabbitReference x"
| "RabbitReference (OTopicPermission x) = TopicPermission_RabbitReference x"
| "RabbitReference (OPolicy x) = Policy_RabbitReference x"
| "RabbitReference (OOperatorPolicy x) = OperatorPolicy_RabbitReference x"
| "RabbitReference (OFederation x) = Federation_RabbitReference x"
| "RabbitReference (OShovel x) = Shovel_RabbitReference x"
| "RabbitReference (OSchemaReplication x) = SchemaReplication_RabbitReference x"

fun SetStatusConditions :: "tobj \<Rightarrow> Condition list \<Rightarrow> tobj" where
  "SetStatusConditions (OBinding x) c = OBinding (Binding_SetStatusConditions x c)"
| "SetStatusConditions (OExchange x) c = OExchange (Exchange_SetStatusConditions x c)"
| "SetStatusConditions (OQueue x) c = OQueue (Queue_SetStatusConditions x c)"
| "SetStatusConditions (OVhost x) c = OVhost (Vhost_SetStatusConditions x c)"
| "SetStatusConditions (OUser x) c = OUser (User_SetStatusConditions x c)"
| "SetStatusConditions (OPermission x) c = OPermission (Permission_SetStatusConditions x c)"
| "SetStatusConditions (OTopicPermission x) c = OTopicPermission (TopicPermission_SetStatusConditions x c)"
| "SetStatusConditions (OPolicy x) c = OPolicy (Policy_SetStatusConditions x c)"
| "SetStatusConditions (OOperatorPolicy x) c = OOperatorPolicy (OperatorPolicy_SetStatusConditions x c)"
| "SetStatusConditions (OFederation x) c = OFederation (Federation_SetStatusConditions x c)"
| "SetStatusConditions (OShovel x) c = OShovel (Shovel_SetStatusConditions x c)"
| "SetStatusConditions (OSchemaReplication x) c = OSchemaReplication (SchemaReplication_SetStatusConditions x c)"

fun tobj_Conditions :: "tobj \<Rightarrow> Condition list" where
  "tobj_Conditions (OBinding x) = Conditions (obj_Status x)"
| "tobj_Conditions (OExchange x) = Conditions (obj_Status x)"
| "tobj_Conditions (OQueue x) = Conditions (obj_Status x)"
| "tobj_Conditions (OVhost x) = Conditions (obj_Status x)"
| "tobj_Conditions (OUser x) = Conditions (obj_Status x)"
| "tobj_Conditions (OPermission x) = Conditions (obj_Status x)"
| "tobj_Conditions (OTopicPermission x) = Conditions (obj_Status x)"
| "tobj_Conditions (OPolicy x) = Conditions (obj_Status x)"
| "tobj_Conditions (OOperatorPolicy x) = Conditions (obj_Status x)"
| "tobj_Conditions (OFederation x) = Conditions (obj_Status x)"
| "tobj_Conditions (OShovel x) = Conditions (obj_Status x)"
| "tobj_Conditions (OSchemaReplication x) = Conditions (obj_Status x)"

fun tobj_ObservedGeneration :: "tobj \<Rightarrow> int" where
  "tobj_ObservedGeneration (OBinding x) = ObservedGeneration (obj_Status x)"
| "tobj_ObservedGeneration (OExchange x) = ObservedGeneration (obj_Status x)"
| "tobj_ObservedGeneration (OQueue x) = ObservedGeneration (obj_Status x)"
| "tobj_ObservedGeneration (OVhost x) = ObservedGeneration (obj_Status x)"
| "tobj_ObservedGeneration (OUser x) = ObservedGeneration (obj_Status x)"
| "tobj_ObservedGeneration (OPermission x) = ObservedGeneration (obj_Status x)"
| "tobj_ObservedGeneration (OTopicPermission x) = ObservedGeneration (obj_Status x)"
| "tobj_ObservedGeneration (OPolicy x) = ObservedGeneration (obj_Status x)"
| "tobj_ObservedGeneration (OOperatorPolicy x) = ObservedGeneration (obj_Status x)"
| "tobj_ObservedGeneration (OFederation x) = ObservedGeneration (obj_Status x)"
| "tobj_ObservedGeneration (OShovel x) = ObservedGeneration (obj_Status x)"
| "tobj_ObservedGeneration (OSchemaReplication x) = ObservedGeneration (obj_Status x)"

fun set_ObservedGeneration :: "tobj \<Rightarrow> int \<Rightarrow> tobj" where
  "set_ObservedGeneration (OBinding x) g = OBinding (x\<lparr>obj_Status := (obj_Status x)\<lparr>ObservedGeneration := g\<rparr>\<rparr>)"
| "set_ObservedGeneration (OExchange x) g = OExchange (x\<lparr>obj_Status := (obj_Status x)\<lparr>ObservedGeneration := g\<rparr>\<rparr>)"
| "set_ObservedGeneration (OQueue x) g = OQueue (x\<lparr>obj_Status := (obj_Status x)\<lparr>ObservedGeneration := g\<rparr>\<rparr>)"
| "set_ObservedGeneration (OVhost x) g = OVhost (x\<lparr>obj_Status := (obj_Status x)\<lparr>ObservedGeneration := g\<rparr>\<rparr>)"
| "set_ObservedGeneration (OUser x) g = OUser (x\<lparr>obj_Status := (obj_Status x)\<lparr>ObservedGeneration := g\<rparr>\<rparr>)"
| "set_ObservedGeneration (OPermission x) g = OPermission (x\<lparr>obj_Status := (obj_Status x)\<lparr>ObservedGeneration := g\<rparr>\<rparr>)"
| "set_ObservedGeneration (OTopicPermission x) g = OTopicPermission (x\<lparr>obj_Status := (obj_Status x)\<lparr>ObservedGeneration := g\<rparr>\<rparr>)"
| "set_ObservedGeneration (OPolicy x) g = OPolicy (x\<lparr>obj_Status := (obj_Status x)\<lparr>ObservedGeneration := g\<rparr>\<rparr>)"
| "set_ObservedGeneration (OOperatorPolicy x) g = OOperatorPolicy (x\<lparr>obj_Status := (obj_Status x)\<lparr>ObservedGeneration := g\<rparr>\<rparr>)"
| "set_ObservedGeneration (OFederation x) g = OFederation (x\<lparr>obj_Status := (obj_Status x)\<lparr>ObservedGeneration := g\<rparr>\<rparr>)"
| "set_ObservedGeneration (OShovel x) g = OShovel (x\<lparr>obj_Status := (obj_Status x)\<lparr>ObservedGeneration := g\<rparr>\<rparr>)"
| "set_ObservedGeneration (OSchemaReplication x) g = OSchemaReplication (x\<lparr>obj_Status := (obj_Status x)\<lparr>ObservedGeneration := g\<rparr>\<rparr>)"


section \<open>Laws of the condition list\<close>

text \<open>The invariant of a condition list: at most one condition of each type.\<close>

definition wf_conditions :: "Condition list \<Rightarrow> bool" where
  "wf_conditions cs \<longleftrightarrow> distinct (map cond_Type cs)"

definition condition_of :: "ConditionType \<Rightarrow> Condition list \<Rightarrow> Condition option" where
  "condition_of ty cs = find (\<lambda>c. cond_Type c = ty) cs"

lemma condition_of_simps [simp]:
  "condition_of ty [] = None"
  "condition_of ty (c # cs) = (if cond_Type c = ty then Some c else condition_of ty cs)"
  by (simp_all add: condition_of_def)

lemma types_upsertCondition: "cond_Type ` set (upsertCondition cs c) = insert (cond_Type c) (cond_Type ` set cs)"
  by (induction cs) auto

lemma wf_upsertCondition: "wf_conditions cs \<Longrightarrow> wf_conditions (upsertCondition cs c)"
  by (induction cs) (auto simp: wf_conditions_def types_upsertCondition)

lemma condition_of_upsertCondition:
  "condition_of ty (upsertCondition cs c) = (if ty = cond_Type c then Some c else condition_of ty cs)"
  by (induction cs) auto

lemma lastTransitionTime_absent:
  "st \<notin> cond_Status ` {c \<in> set cs. cond_Type c = ty} \<Longrightarrow> lastTransitionTime now ty st cs = now"
  by (induction cs) auto

lemma lastTransitionTime_of:
  assumes "wf_conditions cs" and "condition_of ty cs = Some c"
  shows "lastTransitionTime now ty st cs = (if cond_Status c = st then cond_LastTransitionTime c else now)"
  using assms
proof (induction cs)
  case (Cons d ds)
  show ?case
  proof (cases "cond_Type d = ty")
    case True
    with Cons.prems have "c = d" and "ty \<notin> cond_Type ` set ds"
      by (auto simp: wf_conditions_def)
    moreover from this have "st \<notin> cond_Status ` {c \<in> set ds. cond_Type c = ty}"
      by blast
    ultimately show ?thesis using True by (auto simp: lastTransitionTime_absent)
  next
    case False
    with Cons show ?thesis by (auto simp: wf_conditions_def)
  qed
qed simp

lemma cond_fields [simp]:
  "cond_Type (Ready now cs) = ready" "cond_Status (Ready now cs) = ConditionTrue"
  "cond_Type (NotReady now m cs) = ready" "cond_Status (NotReady now m cs) = ConditionFalse"
  "cond_Message (NotReady now m cs) = m"
  "cond_Type (PasswordSynced now cs) = passwordSynced" "cond_Status (PasswordSynced now cs) = ConditionTrue"
  by (simp_all add: Ready_def NotReady_def PasswordSynced_def)

lemma condition_constants [simp]:
  "ready \<noteq> passwordSynced" "passwordSynced \<noteq> ready" "ConditionTrue \<noteq> ConditionFalse" "ConditionFalse \<noteq> ConditionTrue"
  by (simp_all add: ready_def passwordSynced_def ConditionTrue_def ConditionFalse_def)


section \<open>Laws of the interface\<close>

lemma tobj_Meta_map_Meta [simp]: "tobj_Meta (map_Meta f x) = f (tobj_Meta x)"
  by (cases x) simp_all

lemma map_Meta_same [simp]: "map_Meta (\<lambda>m. m) x = x"
  by (cases x) simp_all

lemma map_Meta_comp: "map_Meta f (map_Meta g x) = map_Meta (f \<circ> g) x"
  by (cases x) simp_all

lemma map_Meta_untouched [simp]:
  "tkind_of (map_Meta f x) = tkind_of x"
  "tobj_Kind (map_Meta f x) = tobj_Kind x"
  "RabbitReference (map_Meta f x) = RabbitReference x"
  "tobj_Conditions (map_Meta f x) = tobj_Conditions x"
  "tobj_ObservedGeneration (map_Meta f x) = tobj_ObservedGeneration x"
  by (cases x; simp add: Binding_RabbitReference_def Exchange_RabbitReference_def
      Queue_RabbitReference_def Vhost_RabbitReference_def User_RabbitReference_def
      Permission_RabbitReference_def TopicPermission_RabbitReference_def Policy_RabbitReference_def
      OperatorPolicy_RabbitReference_def Federation_RabbitReference_def Shovel_RabbitReference_def
      SchemaReplication_RabbitReference_def)+

lemmas SetStatusConditions_defs =
  Binding_SetStatusConditions_def Exchange_SetStatusConditions_def Queue_SetStatusConditions_def
  Vhost_SetStatusConditions_def User_SetStatusConditions_def Permission_SetStatusConditions_def
  TopicPermission_SetStatusConditions_def Policy_SetStatusConditions_def
  OperatorPolicy_SetStatusConditions_def Federation_SetStatusConditions_def
  Shovel_SetStatusConditions_def SchemaReplication_SetStatusConditions_def

lemma status_untouched [simp]:
  "tobj_Meta (SetStatusConditions x cs) = tobj_Meta x"
  "tkind_of (SetStatusConditions x cs) = tkind_of x"
  "tobj_ObservedGeneration (SetStatusConditions x cs) = tobj_ObservedGeneration x"
  "tobj_Meta (set_ObservedGeneration x g) = tobj_Meta x"
  "tkind_of (set_ObservedGeneration x g) = tkind_of x"
  "tobj_Conditions (set_ObservedGeneration x g) = tobj_Conditions x"
  "tobj_ObservedGeneration (set_ObservedGeneration x g) = g"
  by (cases x; simp add: SetStatusConditions_defs)+

text \<open>Whatever the type, the conditions set are the ones found afterwards.\<close>

lemma condition_of_SetStatusConditions:
  "condition_of (cond_Type c) (tobj_Conditions (SetStatusConditions x [c])) = Some c"
  by (cases x) (simp_all add: SetStatusConditions_defs condition_of_upsertCondition)

lemma wf_SetStatusConditions:
  "wf_conditions (tobj_Conditions x) \<Longrightarrow> wf_conditions (tobj_Conditions (SetStatusConditions x [c]))"
  by (cases x) (simp_all add: SetStatusConditions_defs wf_upsertCondition, simp_all add: wf_conditions_def)


section \<open>The cluster reference: laws\<close>

lemma Matches_eq: "Matches r new \<longleftrightarrow> new = r"
  by (cases r; cases new) (auto simp: Matches_def)

lemma ref_validate_iff:
  "ref_validate r = Inr () \<longleftrightarrow> (ref_Name r = '''' \<longleftrightarrow> ref_ConnectionSecret r \<noteq> None)"
  by (auto simp: ref_validate_def)

section \<open>Properties\<close>

text \<open>
  Setting a condition keeps at most one condition of each type, replaces the one of its own
  type and leaves the others as they are.
\<close>

theorem conditions_upserted:
  assumes "wf_conditions cs"
  shows "wf_conditions (upsertCondition cs c) \<and>
    (\<forall>ty. condition_of ty (upsertCondition cs c) = (if ty = cond_Type c then Some c else condition_of ty cs))"
  using assms by (simp add: wf_upsertCondition condition_of_upsertCondition)

theorem conditions_upserted_witness:
  "condition_of ready (upsertCondition [PasswordSynced 1 [], Ready 2 []] (NotReady 5 ''m'' [])) = Some (NotReady 5 ''m'' [])"
proof -
  have "wf_conditions [PasswordSynced 1 [], Ready 2 []]" by (simp add: wf_conditions_def)
  from conditions_upserted [OF this] show ?thesis by simp
qed

text \<open>
  The transition time of the condition Ready moves only when its status changes: reporting the
  status an object already has keeps the time, reporting the other status takes the clock.
\<close>

theorem transition_time_moves_on_change:
  assumes "wf_conditions cs" and "condition_of ready cs = Some c"
  shows "cond_LastTransitionTime (Ready now cs) =
      (if cond_Status c = ConditionTrue then cond_LastTransitionTime c else now) \<and>
    cond_LastTransitionTime (NotReady now msg cs) =
      (if cond_Status c = ConditionFalse then cond_LastTransitionTime c else now)"
  using lastTransitionTime_of [OF assms] by (simp add: Ready_def NotReady_def)

theorem transition_time_moves_on_change_witness:
  "cond_LastTransitionTime (Ready 9 [Ready 2 []]) = 2 \<and> cond_LastTransitionTime (NotReady 9 ''m'' [Ready 2 []]) = 9"
proof -
  have "wf_conditions [Ready 2 []]" "condition_of ready [Ready 2 []] = Some (Ready 2 [])"
    by (simp_all add: wf_conditions_def)
  from transition_time_moves_on_change [OF this, of 9 "''m''"] show ?thesis by (simp add: Ready_def)
qed

end
