(* ===== verification/Settings.thy ===== *)
theory Settings
  imports Api_Types
begin

text \<open>
  The translators of \<open>internal/*.go\<close> from a custom resource to the structures that the
  management API takes, and \<open>random.go\<close>.

  Only the fields that the sources set are kept of the rabbit-hole structs. A JSON argument
  map is a \<open>json_object option\<close>: \<open>None\<close> is the nil map, which \<open>json.Unmarshal\<close>
  stores for the document \<open>null\<close>. The message of a failed decode keeps its prefix; the
  text of the decoder is left out. The salted hash of rabbit-hole is an argument.
\<close>

named_theorems settings_defs "the translators from a resource to a request body"

section \<open>Request bodies\<close>

record BindingInfo =
  bi_Vhost :: string
  bi_Source :: string
  bi_Destination :: string
  bi_DestinationType :: string
  bi_RoutingKey :: string
  bi_PropertiesKey :: string
  bi_Arguments :: "json_object option"

record ExchangeSettings =
  es_Durable :: bool
  es_AutoDelete :: bool
  es_Type :: string
  es_Arguments :: "json_object option"

record QueueSettings =
  qs_Type :: string
  qs_Durable :: bool
  qs_AutoDelete :: bool
  qs_Arguments :: "json_object option"

record QueueDeleteOptions =
  qd_IfEmpty :: bool
  qd_IfUnused :: bool

record VhostSettings =
  vs_Tracing :: bool
  vs_Tags :: "string list"
  vs_DefaultQueueType :: string

type_synonym limits_values = "string \<rightharpoonup> int"

datatype HashingAlgorithm = HashingAlgorithmSHA512

record UserSettings =
  uss_Name :: string
  uss_Tags :: "string list"
  uss_PasswordHash :: string
  uss_HashingAlgorithm :: HashingAlgorithm

record Permissions =
  pm_Configure :: string
  pm_Write :: string
  pm_Read :: string

record TopicPermissions =
  tpm_Exchange :: string
  tpm_Write :: string
  tpm_Read :: string

record PolicyBody =
  pb_Vhost :: string
  pb_Pattern :: string
  pb_ApplyTo :: string
  pb_Name :: string
  pb_Priority :: int
  pb_Definition :: "json_object option"

record FederationDefinition =
  fd_Uri :: "string list"
  fd_Expires :: int
  fd_MessageTTL :: int
  fd_MaxHops :: int
  fd_PrefetchCount :: int
  fd_ReconnectDelay :: int
  fd_AckMode :: string
  fd_TrustUserId :: bool
  fd_Exchange :: string
  fd_Queue :: string
  fd_QueueType :: string
  fd_ResourceCleanupMode :: string

record ShovelDefinition =
  sd_SourceURI :: "string list"
  sd_DestinationURI :: "string list"
  sd_AckMode :: string
  sd_AddForwardHeaders :: bool
  sd_DeleteAfter :: string
  sd_DestinationAddForwardHeaders :: bool
  sd_DestinationAddTimestampHeader :: bool
  sd_DestinationAddress :: string
  sd_DestinationApplicationProperties :: "json_object option"
  sd_DestinationExchange :: string
  sd_DestinationExchangeKey :: string
  sd_DestinationProperties :: "json_object option"
  sd_DestinationProtocol :: string
  sd_DestinationPublishProperties :: "json_object option"
  sd_DestinationQueue :: string
  sd_DestinationQueueArgs :: "json_object option"
  sd_DestinationMessageAnnotations :: "json_object option"
  sd_PrefetchCount :: int
  sd_ReconnectDelay :: int
  sd_SourceAddress :: string
  sd_SourceDeleteAfter :: string
  sd_SourceExchange :: string
  sd_SourceExchangeKey :: string
  sd_SourcePrefetchCount :: int
  sd_SourceProtocol :: string
  sd_SourceQueue :: string
  sd_SourceQueueArgs :: "json_object option"
  sd_SourceConsumerArgs :: "json_object option"

record UpstreamEndpoints =
  ue_Username :: string
  ue_Password :: string
  ue_Endpoints :: "string list"

text \<open>A \<open>corev1.Secret\<close>.\<close>

record secret =
  sec_Meta :: object_meta
  sec_Data :: "string \<rightharpoonup> string"
  sec_Type :: string

text \<open>\<open>string(secret.Data[key])\<close>: a missing key reads as the empty string.\<close>

definition data_string :: "secret \<Rightarrow> string \<Rightarrow> string" where
  "data_string s key = (case sec_Data s key of None \<Rightarrow> '''' | Some v \<Rightarrow> v)"


section \<open>Decoding of the raw arguments\<close>

text \<open>
  The block that eight of the translators share: a fresh map, replaced by the decoded document
  when the raw argument is present.
\<close>

definition unmarshal_arguments :: "string \<Rightarrow> raw_extension option \<Rightarrow> go_error + json_object option" where
  "unmarshal_arguments msg raw =
     (case raw of
        None \<Rightarrow> Inr (Some [])
      | Some r \<Rightarrow> (case json_Unmarshal r of None \<Rightarrow> Inl (ErrText msg) | Some m \<Rightarrow> Inr m))"

definition err_bind :: "'x + 'a \<Rightarrow> ('a \<Rightarrow> 'x + 'b) \<Rightarrow> 'x + 'b" where
  "err_bind m f = (case m of Inl e \<Rightarrow> Inl e | Inr x \<Rightarrow> f x)"

lemma err_bind_simps [simp]:
  "err_bind (Inl e) f = Inl e"
  "err_bind (Inr x) f = f x"
  by (simp_all add: err_bind_def)

lemma err_bind_Inr_iff: "err_bind m f = Inr y \<longleftrightarrow> (\<exists>x. m = Inr x \<and> f x = Inr y)"
  by (cases m) auto

lemma unmarshal_arguments_None [simp]: "unmarshal_arguments msg None = Inr (Some [])"
  by (simp add: unmarshal_arguments_def)


section \<open>Bindings\<close>

definition GenerateBindingInfo :: "Binding \<Rightarrow> go_error + BindingInfo" where
  "GenerateBindingInfo b =
     err_bind (unmarshal_arguments ''failed to unmarshall binding arguments: '' (b_Arguments (obj_Spec b)))
       (\<lambda>arguments. Inr
         \<lparr>bi_Vhost = b_Vhost (obj_Spec b), bi_Source = b_Source (obj_Spec b),
          bi_Destination = b_Destination (obj_Spec b),
          bi_DestinationType = b_DestinationType (obj_Spec b),
          bi_RoutingKey = b_RoutingKey (obj_Spec b), bi_PropertiesKey = '''',
          bi_Arguments = arguments\<rparr>)"

definition GeneratePropertiesKey :: "Binding \<Rightarrow> string" where
  "GeneratePropertiesKey b =
     (if b_RoutingKey (obj_Spec b) = '''' then ''~''
      else if b_Arguments (obj_Spec b) = None
      then strings_ReplaceAll (b_RoutingKey (obj_Spec b)) (CHR ''~'') ''%7E''
      else '''')"


section \<open>Exchanges, queues, virtual hosts\<close>

definition GenerateExchangeSettings :: "Exchange \<Rightarrow> go_error + ExchangeSettings" where
  "GenerateExchangeSettings e =
     err_bind (unmarshal_arguments ''failed to unmarshall exchange arguments: '' (ex_Arguments (obj_Spec e)))
       (\<lambda>arguments. Inr
         \<lparr>es_Durable = ex_Durable (obj_Spec e), es_AutoDelete = ex_AutoDelete (obj_Spec e),
          es_Type = ex_Type (obj_Spec e), es_Arguments = arguments\<rparr>)"

definition GenerateQueueSettings :: "Queue \<Rightarrow> go_error + QueueSettings" where
  "GenerateQueueSettings q =
     err_bind (unmarshal_arguments ''failed to unmarshall queue arguments: '' (q_Arguments (obj_Spec q)))
       (\<lambda>arguments. Inr
         \<lparr>qs_Type = q_Type (obj_Spec q),
          qs_Durable = (case q_Durable (obj_Spec q) of None \<Rightarrow> False | Some d \<Rightarrow> d),
          qs_AutoDelete = q_AutoDelete (obj_Spec q), qs_Arguments = arguments\<rparr>)"

definition GenerateQueueDeleteOptions :: "Queue \<Rightarrow> QueueDeleteOptions" where
  "GenerateQueueDeleteOptions q =
     \<lparr>qd_IfEmpty = (q_Type (obj_Spec q) \<noteq> ''quorum'' \<and> q_DeleteIfEmpty (obj_Spec q)),
      qd_IfUnused = (q_Type (obj_Spec q) \<noteq> ''quorum'' \<and> q_DeleteIfUnused (obj_Spec q))\<rparr>"

definition GenerateVhostSettings :: "Vhost \<Rightarrow> VhostSettings" where
  "GenerateVhostSettings v =
     \<lparr>vs_Tracing = vh_Tracing (obj_Spec v), vs_Tags = vh_Tags (obj_Spec v),
      vs_DefaultQueueType = vh_DefaultQueueType (obj_Spec v)\<rparr>"

text \<open>\<open>if p != nil { m[key] = int( *p ) }\<close>, the step both limit translators repeat.\<close>

definition put_limit :: "string \<Rightarrow> int option \<Rightarrow> limits_values \<Rightarrow> limits_values" where
  "put_limit k v m = (case v of None \<Rightarrow> m | Some i \<Rightarrow> m(k \<mapsto> i))"

definition GenerateVhostLimits :: "VhostLimits option \<Rightarrow> limits_values" where
  "GenerateVhostLimits limits =
     (case limits of
        None \<Rightarrow> Map.empty
      | Some l \<Rightarrow> put_limit ''max-queues'' (vl_Queues l)
                   (put_limit ''max-connections'' (vl_Connections l) Map.empty))"


section \<open>Users\<close>

record UserCredentials =
  uc_Username :: string
  uc_PasswordHash :: "string option"
  uc_Password :: string

definition GenerateUserSettings ::
  "(string \<Rightarrow> string) \<Rightarrow> UserCredentials \<Rightarrow> UserTag list \<Rightarrow> go_error + UserSettings" where
  "GenerateUserSettings hash credentials tags =
     (if uc_Username credentials = ''''
      then Inl (ErrText ''username is required in credentials'')
      else err_bind
        (case uc_PasswordHash credentials of
           Some h \<Rightarrow> Inr h
         | None \<Rightarrow>
             if uc_Password credentials = ''''
             then Inl (ErrText ''neither passwordHash nor password is set in credentials'')
             else Inr (hash (uc_Password credentials)))
        (\<lambda>passwordHash. Inr
           \<lparr>uss_Name = uc_Username credentials, uss_Tags = tags,
            uss_PasswordHash = passwordHash, uss_HashingAlgorithm = HashingAlgorithmSHA512\<rparr>))"

definition GenerateUserLimits :: "UserLimits option \<Rightarrow> limits_values" where
  "GenerateUserLimits limits =
     (case limits of
        None \<Rightarrow> Map.empty
      | Some l \<Rightarrow> put_limit ''max-channels'' (ul_Channels l)
                   (put_limit ''max-connections'' (ul_Connections l) Map.empty))"


section \<open>Permissions and policies\<close>

definition GeneratePermissions :: "Permission \<Rightarrow> Permissions" where
  "GeneratePermissions p =
     \<lparr>pm_Configure = vp_Configure (p_Permissions (obj_Spec p)),
      pm_Write = vp_Write (p_Permissions (obj_Spec p)),
      pm_Read = vp_Read (p_Permissions (obj_Spec p))\<rparr>"

definition GenerateTopicPermissions :: "TopicPermission \<Rightarrow> TopicPermissions" where
  "GenerateTopicPermissions p =
     \<lparr>tpm_Exchange = tpc_Exchange (tp_Permissions (obj_Spec p)),
      tpm_Write = tpc_Write (tp_Permissions (obj_Spec p)),
      tpm_Read = tpc_Read (tp_Permissions (obj_Spec p))\<rparr>"

text \<open>Both policies read \<open>Spec.Definition.Raw\<close> without a test for nil.\<close>

definition GeneratePolicy :: "Policy \<Rightarrow> (go_error + PolicyBody) outcome" where
  "GeneratePolicy p =
     (case pol_Definition (obj_Spec p) of
        None \<Rightarrow> Panicked ''nil pointer dereference: Spec.Definition''
      | Some raw \<Rightarrow> Ret
          (err_bind (unmarshal_arguments ''failed to unmarshall policy definition: '' (Some raw))
            (\<lambda>definition'. Inr
              \<lparr>pb_Vhost = pol_Vhost (obj_Spec p), pb_Pattern = pol_Pattern (obj_Spec p),
               pb_ApplyTo = pol_ApplyTo (obj_Spec p), pb_Name = pol_Name (obj_Spec p),
               pb_Priority = pol_Priority (obj_Spec p), pb_Definition = definition'\<rparr>)))"

definition GenerateOperatorPolicy :: "OperatorPolicy \<Rightarrow> (go_error + PolicyBody) outcome" where
  "GenerateOperatorPolicy p =
     (case op_Definition (obj_Spec p) of
        None \<Rightarrow> Panicked ''nil pointer dereference: Spec.Definition''
      | Some raw \<Rightarrow> Ret
          (err_bind (unmarshal_arguments ''failed to unmarshall policy definition: '' (Some raw))
            (\<lambda>definition'. Inr
              \<lparr>pb_Vhost = op_Vhost (obj_Spec p), pb_Pattern = op_Pattern (obj_Spec p),
               pb_ApplyTo = op_ApplyTo (obj_Spec p), pb_Name = op_Name (obj_Spec p),
               pb_Priority = op_Priority (obj_Spec p), pb_Definition = definition'\<rparr>)))"


section \<open>Federation upstreams, shovels, schema replication\<close>

definition GenerateFederationDefinition :: "Federation \<Rightarrow> string \<Rightarrow> FederationDefinition" where
  "GenerateFederationDefinition f uri =
     (let reconnectDelay = (case f_ReconnectDelay (obj_Spec f) of None \<Rightarrow> 1 | Some d \<Rightarrow> d) in
      \<lparr>fd_Uri = strings_Split (CHR '','') uri, fd_Expires = f_Expires (obj_Spec f),
       fd_MessageTTL = wrap_signed 32 (f_MessageTTL (obj_Spec f)),
       fd_MaxHops = f_MaxHops (obj_Spec f), fd_PrefetchCount = f_PrefetchCount (obj_Spec f),
       fd_ReconnectDelay = reconnectDelay, fd_AckMode = f_AckMode (obj_Spec f),
       fd_TrustUserId = f_TrustUserId (obj_Spec f), fd_Exchange = f_Exchange (obj_Spec f),
       fd_Queue = f_Queue (obj_Spec f), fd_QueueType = f_QueueType (obj_Spec f),
       fd_ResourceCleanupMode = f_ResourceCleanupMode (obj_Spec f)\<rparr>)"

definition GenerateShovelDefinition :: "Shovel \<Rightarrow> string \<Rightarrow> string \<Rightarrow> go_error + ShovelDefinition" where
  "GenerateShovelDefinition s srcUri destUri =
     err_bind (unmarshal_arguments ''failed to unmarshall source consumer args: '' (s_SourceConsumerArgs (obj_Spec s))) (\<lambda>srcConArgs.
     err_bind (unmarshal_arguments ''failed to unmarshall destination application properties: '' (s_DestinationApplicationProperties (obj_Spec s))) (\<lambda>appProperties.
     err_bind (unmarshal_arguments ''failed to unmarshall destination properties: '' (s_DestinationProperties (obj_Spec s))) (\<lambda>destProperties.
     err_bind (unmarshal_arguments ''failed to unmarshall destination publish properties: '' (s_DestinationPublishProperties (obj_Spec s))) (\<lambda>destPubProperties.
     err_bind (unmarshal_arguments ''failed to unmarshall destination message annotations: '' (s_DestinationMessageAnnotations (obj_Spec s))) (\<lambda>destMsgAnnotations.
     err_bind (unmarshal_arguments ''failed to unmarshall source queue args: '' (s_SourceQueueArgs (obj_Spec s))) (\<lambda>srcQueueArgs.
     err_bind (unmarshal_arguments ''failed to unmarshall destination queue args: '' (s_DestinationQueueArgs (obj_Spec s))) (\<lambda>destQueueArgs.
     Inr \<lparr>sd_SourceURI = strings_Split (CHR '','') srcUri,
          sd_DestinationURI = strings_Split (CHR '','') destUri,
          sd_AckMode = s_AckMode (obj_Spec s),
          sd_AddForwardHeaders = s_AddForwardHeaders (obj_Spec s),
          sd_DeleteAfter = s_DeleteAfter (obj_Spec s),
          sd_DestinationAddForwardHeaders = s_DestinationAddForwardHeaders (obj_Spec s),
          sd_DestinationAddTimestampHeader = s_DestinationAddTimestampHeader (obj_Spec s),
          sd_DestinationAddress = s_DestinationAddress (obj_Spec s),
          sd_DestinationApplicationProperties = appProperties,
          sd_DestinationExchange = s_DestinationExchange (obj_Spec s),
          sd_DestinationExchangeKey = s_DestinationExchangeKey (obj_Spec s),
          sd_DestinationProperties = destProperties,
          sd_DestinationProtocol = s_DestinationProtocol (obj_Spec s),
          sd_DestinationPublishProperties = destPubProperties,
          sd_DestinationQueue = s_DestinationQueue (obj_Spec s),
          sd_DestinationQueueArgs = destQueueArgs,
          sd_DestinationMessageAnnotations = destMsgAnnotations,
          sd_PrefetchCount = s_PrefetchCount (obj_Spec s),
          sd_ReconnectDelay = s_ReconnectDelay (obj_Spec s),
          sd_SourceAddress = s_SourceAddress (obj_Spec s),
          sd_SourceDeleteAfter = s_SourceDeleteAfter (obj_Spec s),
          sd_SourceExchange = s_SourceExchange (obj_Spec s),
          sd_SourceExchangeKey = s_SourceExchangeKey (obj_Spec s),
          sd_SourcePrefetchCount = s_SourcePrefetchCount (obj_Spec s),
          sd_SourceProtocol = s_SourceProtocol (obj_Spec s),
          sd_SourceQueue = s_SourceQueue (obj_Spec s),
          sd_SourceQueueArgs = srcQueueArgs,
          sd_SourceConsumerArgs = srcConArgs\<rparr>)))))))"

definition GenerateSchemaReplicationParameters :: "secret \<Rightarrow> string \<Rightarrow> go_error + UpstreamEndpoints" where
  "GenerateSchemaReplicationParameters s endpoints =
     (case sec_Data s ''username'' of
        None \<Rightarrow> Inl (ErrText (''could not find username in secret '' @ om_Name (sec_Meta s)))
      | Some username \<Rightarrow>
     (case sec_Data s ''password'' of
        None \<Rightarrow> Inl (ErrText (''could not find password in secret '' @ om_Name (sec_Meta s)))
      | Some password \<Rightarrow>
      err_bind
        (if endpoints = ''''
         then (case sec_Data s ''endpoints'' of
                 None \<Rightarrow> Inl (ErrText (''could not find endpoints in secret '' @ om_Name (sec_Meta s) @
                                       '' or from spec.endpoints''))
               | Some e \<Rightarrow> Inr e)
         else Inr endpoints)
        (\<lambda>endpoints'. Inr \<lparr>ue_Username = username, ue_Password = password,
                           ue_Endpoints = strings_Split (CHR '','') endpoints'\<rparr>)))"

lemmas [settings_defs] =
  GenerateBindingInfo_def GenerateExchangeSettings_def GenerateQueueSettings_def
  GeneratePolicy_def GenerateOperatorPolicy_def

section \<open>Random strings\<close>

text \<open>\<open>base64.URLEncoding\<close>: groups of three bytes as four digits, with padding.\<close>

definition base64_alphabet :: string where
  "base64_alphabet = ''ABCDEFGHIJKLMNOPQRSTUVWXYZabcdefghijklmnopqrstuvwxyz0123456789-_''"

definition base64_digit :: "nat \<Rightarrow> char" where
  "base64_digit n = base64_alphabet ! n"

fun base64_URLEncoding :: "string \<Rightarrow> string" where
  "base64_URLEncoding [] = []"
| "base64_URLEncoding [a] =
     (let x = of_char a in
      [base64_digit (x div 4), base64_digit (x mod 4 * 16), CHR ''='', CHR ''=''])"
| "base64_URLEncoding [a, b] =
     (let x = of_char a; y = of_char b in
      [base64_digit (x div 4), base64_digit (x mod 4 * 16 + y div 16),
       base64_digit (y mod 16 * 4), CHR ''=''])"
| "base64_URLEncoding (a # b # c # r) =
     (let x = of_char a; y = of_char b; z = of_char c in
      base64_digit (x div 4) # base64_digit (x mod 4 * 16 + y div 16) #
      base64_digit (y mod 16 * 4 + z div 64) # base64_digit (z mod 64) # base64_URLEncoding r)"

text \<open>The answer of \<open>rand.Read\<close> for a buffer of \<open>dataLen\<close> bytes is the argument.\<close>

definition RandomEncodedString :: "(nat \<Rightarrow> go_error + string) \<Rightarrow> nat \<Rightarrow> go_error + string" where
  "RandomEncodedString read dataLen =
     err_bind (read dataLen) (\<lambda>randomBytes. Inr (base64_URLEncoding randomBytes))"

text \<open>The reference decoder.\<close>

definition base64_value :: "char \<Rightarrow> nat" where
  "base64_value c = length (takeWhile (\<lambda>d. d \<noteq> c) base64_alphabet)"

fun base64_decode :: "string \<Rightarrow> string" where
  "base64_decode (p # q # r # s # t) =
     (let w = base64_value p; x = base64_value q; y = base64_value r; z = base64_value s;
          a = char_of (w * 4 + x div 16); b = char_of (x mod 16 * 16 + y div 4);
          c = char_of (y mod 4 * 64 + z) in
      if r = CHR ''='' then [a] else if s = CHR ''='' then [a, b] else a # b # c # base64_decode t)"
| "base64_decode _ = []"

lemma base64_table:
  "\<forall>n \<in> set [0..<64]. base64_value (base64_digit n) = n \<and> base64_digit n \<noteq> CHR ''=''"
  by code_simp

lemma base64_value_digit [simp]: "n < 64 \<Longrightarrow> base64_value (base64_digit n) = n"
  using base64_table by simp

lemma base64_digit_no_padding [simp]: "n < 64 \<Longrightarrow> base64_digit n \<noteq> CHR ''=''"
  using base64_table by simp

lemma base64_digit_in_alphabet: "n < 64 \<Longrightarrow> base64_digit n \<in> set base64_alphabet"
  unfolding base64_digit_def by (rule nth_mem) (simp add: base64_alphabet_def)

lemma base64_bounds:
  fixes x y z :: nat
  assumes "x < 256" "y < 256" "z < 256"
  shows "x div 4 < 64" "y div 16 < 16" "z div 64 < 4"
  using assms by (simp_all add: less_mult_imp_div_less)

lemma base64_split:
  fixes p q :: nat
  assumes "p < m" "q < n"
  shows "p * n + q < m * n" "(p * n + q) div n = p" "(p * n + q) mod n = q"
proof -
  have "p * n + q < Suc p * n" using assms by simp
  also have "\<dots> \<le> m * n" using assms by (intro mult_le_mono1) simp
  finally show "p * n + q < m * n" .
qed (use assms in simp_all)

lemma base64_group:
  fixes x y z :: nat
  assumes x: "x < 256" and y: "y < 256" and z: "z < 256"
  shows "x div 4 < 64" "x mod 4 * 16 + y div 16 < 64" "y mod 16 * 4 + z div 64 < 64"
    and "x div 4 * 4 + (x mod 4 * 16 + y div 16) div 16 = x"
    and "(x mod 4 * 16 + y div 16) mod 16 * 16 + (y mod 16 * 4 + z div 64) div 4 = y"
    and "(y mod 16 * 4 + z div 64) mod 4 * 64 + z mod 64 = z"
    and "x mod 4 * 16 < 64" "y mod 16 * 4 < 64"
  using base64_bounds [OF assms] base64_split [of "x mod 4" 4 "y div 16" 16]
    base64_split [of "y mod 16" 16 "z div 64" 4]
    base64_split [of "x mod 4" 4 0 16] base64_split [of "y mod 16" 16 0 4]
  by simp_all

lemmas base64_arith = base64_bounds [OF nat_of_char_less_256 nat_of_char_less_256 nat_of_char_less_256]
  base64_group [OF nat_of_char_less_256 nat_of_char_less_256 nat_of_char_less_256]

lemma base64_decode_encode: "base64_decode (base64_URLEncoding s) = s"
  by (induction s rule: base64_URLEncoding.induct) (simp_all add: Let_def base64_arith)

lemma length_base64: "length (base64_URLEncoding s) = (length s + 2) div 3 * 4"
proof (induction s rule: base64_URLEncoding.induct)
  case (4 a b c r)
  have "(length (a # b # c # r) + 2) div 3 = (length r + 2 + 3) div 3" by simp
  also have "\<dots> = Suc ((length r + 2) div 3)" by simp
  finally show ?case using 4 by (simp only: base64_URLEncoding.simps Let_def list.size mult_Suc)
qed (simp_all add: Let_def)

lemma base64_no_padding:
  "length s mod 3 = 0 \<Longrightarrow> set (base64_URLEncoding s) \<subseteq> set base64_alphabet"
proof (induction s rule: base64_URLEncoding.induct)
  case (4 a b c r)
  have "length (a # b # c # r) = length r + 3" by simp
  with 4(2) have "length r mod 3 = 0" by (simp only: mod_add_self2)
  then have "set (base64_URLEncoding r) \<subseteq> set base64_alphabet" by (rule 4(1) [OF refl refl refl])
  then show ?case
    by (simp only: base64_URLEncoding.simps Let_def list.set insert_subset)
      (simp add: base64_digit_in_alphabet base64_arith)
qed simp_all


section \<open>Laws of the translators\<close>

lemma put_limit_apply: "put_limit k v m k' = (if k' = k \<and> v \<noteq> None then v else m k')"
  by (simp add: put_limit_def split: option.splits)

lemma dom_put_limit: "dom (put_limit k v m) \<subseteq> insert k (dom m)"
  by (auto simp: put_limit_def split: option.splits)

lemma limit_keys:
  "dom (GenerateVhostLimits l) \<subseteq> {''max-connections'', ''max-queues''}"
  "dom (GenerateUserLimits l') \<subseteq> {''max-connections'', ''max-channels''}"
  by (auto simp: GenerateVhostLimits_def GenerateUserLimits_def put_limit_def split: option.splits if_splits)

lemma ReplaceAll_no_sep: "c \<notin> set r \<Longrightarrow> c \<notin> set (strings_ReplaceAll s c r)"
  by (induction s) auto

text \<open>Text without the escape character determines the escaped text.\<close>

lemma ReplaceAll_inject:
  assumes "e \<noteq> c" and "e \<notin> set s" and "e \<notin> set s'"
  shows "strings_ReplaceAll s c (e # r) = strings_ReplaceAll s' c (e # r) \<longleftrightarrow> s = s'"
  using assms
proof (induction s arbitrary: s')
  case Nil
  then show ?case by (cases s') auto
next
  case (Cons a s)
  then show ?case by (cases s') auto
qed

lemma ReplaceAll_Nil [simp]: "r \<noteq> [] \<Longrightarrow> strings_ReplaceAll s c r = [] \<longleftrightarrow> s = []"
  by (cases s) auto


section \<open>Properties\<close>

text \<open>
  C36. A user name or password made from 24 random bytes has 32 characters, all from the URL-safe
  alphabet, and the bytes can be read back from it: no entropy is lost in the encoding.
\<close>

theorem random_string_faithful:
  assumes "RandomEncodedString read 24 = Inr s" and "\<And>k b. read k = Inr b \<Longrightarrow> length b = k"
  shows "length s = 32 \<and> set s \<subseteq> set base64_alphabet \<and> read 24 = Inr (base64_decode s)"
proof -
  obtain b where b: "read 24 = Inr b" "s = base64_URLEncoding b"
    using assms(1) by (auto simp: RandomEncodedString_def err_bind_Inr_iff)
  then have "length b = 24" using assms(2) by blast
  then show ?thesis using b base64_no_padding [of b] by (simp add: length_base64 base64_decode_encode)
qed

theorem random_string_faithful_witness:
  "\<exists>s. RandomEncodedString (\<lambda>k. Inr (replicate k (CHR ''x''))) 24 = Inr s \<and> length s = 32"
  using random_string_faithful [of "\<lambda>k. Inr (replicate k (CHR ''x''))"
      "base64_URLEncoding (replicate 24 (CHR ''x''))"]
  by (simp add: RandomEncodedString_def err_bind_def)

text \<open>
  C35. Bindings without arguments whose routing keys contain no percent sign have the same
  properties key only when they have the same routing key: deleting one cannot hit the other.
\<close>

theorem properties_key_injective:
  assumes "b_Arguments (obj_Spec b) = None" and "b_Arguments (obj_Spec b') = None"
    and "CHR ''%'' \<notin> set (b_RoutingKey (obj_Spec b))" and "CHR ''%'' \<notin> set (b_RoutingKey (obj_Spec b'))"
  shows "GeneratePropertiesKey b = GeneratePropertiesKey b' \<longleftrightarrow>
    b_RoutingKey (obj_Spec b) = b_RoutingKey (obj_Spec b')"
proof -
  have "strings_ReplaceAll k (CHR ''~'') ''%7E'' \<noteq> ''~''" for k
    using ReplaceAll_no_sep [of "CHR ''~''" "''%7E''" k] by auto
  then show ?thesis
    using assms ReplaceAll_inject [of "CHR ''%''" "CHR ''~''"] by (simp add: GeneratePropertiesKey_def) metis
qed

text \<open>A sample binding for the witnesses.\<close>

definition key_binding :: "string \<Rightarrow> Binding" where
  "key_binding k =
     \<lparr>obj_Group = '''', obj_Kind = ''Binding'',
      obj_Meta = \<lparr>om_Name = ''b'', om_Namespace = ''ns'', om_Generation = 1, om_DeletionTimestamp = None,
        om_Finalizers = [], om_Labels = Map.empty, om_Annotations = Map.empty, om_OwnerReferences = []\<rparr>,
      obj_Spec = \<lparr>b_Vhost = ''/'', b_Source = ''s'', b_Destination = ''d'', b_DestinationType = ''queue'',
        b_RoutingKey = k, b_Arguments = None,
        b_RabbitmqClusterReference = \<lparr>ref_Name = ''r'', ref_Namespace = '''', ref_ConnectionSecret = None\<rparr>\<rparr>,
      obj_Status = \<lparr>ObservedGeneration = 0, Conditions = []\<rparr>\<rparr>"

theorem properties_key_injective_witness:
  "GeneratePropertiesKey (key_binding ''a~b'') \<noteq> GeneratePropertiesKey (key_binding '''')"
  using properties_key_injective [of "key_binding ''a~b''" "key_binding ''''"] by (simp add: key_binding_def)

text \<open>
  C37. The message TTL of a federation upstream is cut to 32 bits: the sent value is always in the
  range of an int32, and it is the value of the spec exactly when that one is in the range. The
  list of addresses joins back to the text of the secret.
\<close>

theorem federation_definition_bounds:
  "- (2 ^ 31) \<le> fd_MessageTTL (GenerateFederationDefinition f uri) \<and>
   fd_MessageTTL (GenerateFederationDefinition f uri) < 2 ^ 31 \<and>
   (fd_MessageTTL (GenerateFederationDefinition f uri) = f_MessageTTL (obj_Spec f) \<longleftrightarrow>
      - (2 ^ 31) \<le> f_MessageTTL (obj_Spec f) \<and> f_MessageTTL (obj_Spec f) < 2 ^ 31) \<and>
   strings_Join (CHR '','') (fd_Uri (GenerateFederationDefinition f uri)) = uri"
  using wrap_signed_range [of 32 "f_MessageTTL (obj_Spec f)"] wrap_signed_eq_iff [of 32 "f_MessageTTL (obj_Spec f)"]
  by (simp add: GenerateFederationDefinition_def Let_def strings_Join_Split)

text \<open>
  The definition of a shovel is refused exactly when one of its seven JSON fields is set and does
  not decode into an object.
\<close>

theorem shovel_definition_errors:
  "(\<exists>d. GenerateShovelDefinition s srcUri destUri = Inr d) \<longleftrightarrow>
   \<not> (\<exists>raw. json_Unmarshal raw = None \<and>
        Some raw \<in> {s_SourceConsumerArgs (obj_Spec s), s_DestinationApplicationProperties (obj_Spec s),
          s_DestinationProperties (obj_Spec s), s_DestinationPublishProperties (obj_Spec s),
          s_DestinationMessageAnnotations (obj_Spec s), s_SourceQueueArgs (obj_Spec s),
          s_DestinationQueueArgs (obj_Spec s)})"
proof -
  have decodes: "(\<exists>m. unmarshal_arguments msg a = Inr m) \<longleftrightarrow> \<not> (\<exists>raw. json_Unmarshal raw = None \<and> Some raw = a)" for msg a
    by (auto simp: unmarshal_arguments_def split: option.splits)
  have bind: "(\<exists>d. err_bind x f = Inr d) \<longleftrightarrow> (\<exists>y. x = Inr y \<and> (\<exists>d. f y = Inr d))" for x :: "'x + 'a" and f :: "'a \<Rightarrow> 'x + 'b"
    by (auto simp: err_bind_Inr_iff)
  show ?thesis
    unfolding GenerateShovelDefinition_def bind
    by (simp only: sum.inject simp_thms ex_simps decodes insert_iff empty_iff conj_disj_distribL ex_disj_distrib de_Morgan_disj)
qed

end
