(* ===== verification/Environment.thy ===== *)
theory Environment
  imports Settings
begin

text \<open>
  The outside world of the operator: the calls it makes and how they are answered.

  \<^item> \<open>broker_call\<close> has one constructor per method of the interface \<open>Client\<close> of
    \<open>rabbitmqclient/rabbitmq_client_factory.go\<close>.
  \<^item> \<open>event\<close> is an entry of the history: a call to a broker through a client, a call to the
    Kubernetes API, a read of Vault, a read of the random source, a recorded event. Log lines
    are left out.
  \<^item> \<open>env\<close> answers the calls. It holds everything that is not code of the repository: the
    RabbitMQ management API behind rabbit-hole, the API server behind the controller-runtime
    client (with the retry on conflict of client-go folded into the status update and into
    \<open>CreateOrUpdate\<close>), the helpers of controllerutil, Vault, the clock, the random source.
    An answer may depend on the whole history.

  The laws of the helpers that some theorems need are the predicates at the end.
\<close>

section \<open>Calls\<close>

record rabbit_client =
  rc_uri :: string
  rc_username :: string
  rc_password :: string
  rc_tls :: bool

datatype broker_call =
    PutUser string UserSettings
  | DeleteUser string
  | PutUserLimits string limits_values
  | GetUserLimits string
  | DeleteUserLimits string "string list"
  | DeclareBinding string BindingInfo
  | DeleteBinding string BindingInfo
  | ListQueueBindingsBetween string string string
  | ListExchangeBindingsBetween string string string
  | UpdatePermissionsIn string string Permissions
  | ClearPermissionsIn string string
  | PutPolicy string string PolicyBody
  | DeletePolicy string string
  | DeclareQueue string string QueueSettings
  | DeleteQueue string string QueueDeleteOptions
  | GetQueue string string
  | DeclareExchange string string ExchangeSettings
  | DeleteExchange string string
  | PutVhost string VhostSettings
  | DeleteVhost string
  | PutVhostLimits string limits_values
  | GetVhostLimits string
  | DeleteVhostLimits string "string list"
  | PutGlobalParameter string UpstreamEndpoints
  | DeleteGlobalParameter string
  | PutFederationUpstream string string FederationDefinition
  | DeleteFederationUpstream string string
  | DeclareShovel string string ShovelDefinition
  | DeleteShovel string string
  | GetVhost string
  | PutOperatorPolicy string string PolicyBody
  | DeleteOperatorPolicy string string
  | UpdateTopicPermissionsIn string string TopicPermissions
  | DeleteTopicPermissionsIn string string string

fun is_query :: "broker_call \<Rightarrow> bool" where
  "is_query (GetUserLimits u) = True"
| "is_query (ListQueueBindingsBetween v s d) = True"
| "is_query (ListExchangeBindingsBetween v s d) = True"
| "is_query (GetQueue v q) = True"
| "is_query (GetVhostLimits v) = True"
| "is_query (GetVhost v) = True"
| "is_query _ = False"

fun is_removal :: "broker_call \<Rightarrow> bool" where
  "is_removal (DeleteUser u) = True"
| "is_removal (DeleteBinding v i) = True"
| "is_removal (ClearPermissionsIn v u) = True"
| "is_removal (DeletePolicy v p) = True"
| "is_removal (DeleteQueue v q opts) = True"
| "is_removal (DeleteExchange v e) = True"
| "is_removal (DeleteVhost v) = True"
| "is_removal (DeleteGlobalParameter p) = True"
| "is_removal (DeleteFederationUpstream v f) = True"
| "is_removal (DeleteShovel v s) = True"
| "is_removal (DeleteOperatorPolicy v p) = True"
| "is_removal (DeleteTopicPermissionsIn v u e) = True"
| "is_removal _ = False"

datatype event =
    Broker rabbit_client broker_call
  | KubeGet tkind string string
  | KubeList tkind
  | KubeListUsersImporting string string
  | KubeUpdate tobj
  | KubeStatusUpdate tobj
  | KubeGetSecret string string
  | KubeGetUncachedSecret string string
  | KubeGetCluster string string
  | KubeGetService string string
  | KubeWriteSecret secret
  | KubeGetSuperStream string string
  | KubeUpdateSuperStream SuperStream
  | KubeStatusUpdateSuperStream SuperStream
  | KubeWriteExchange Exchange
  | KubeWriteQueue Queue
  | KubeWriteBinding Binding
  | VaultRead string
  | RandRead nat
  | Recorded string string string string


section \<open>Answers\<close>

record http_response =
  res_StatusCode :: int
  res_Body :: string

record DetailedQueueInfo =
  qi_Messages :: int
  qi_Consumers :: int

text \<open>
  The parts of a \<open>RabbitmqCluster\<close> of the cluster operator that the sources read.
  \<open>cl_DefaultUser\<close> is nil, or a struct whose service reference is nil or a name.
\<close>

record RabbitmqCluster =
  cl_Meta :: object_meta
  cl_Replicas :: "int option"
  cl_VaultDefaultUserPath :: "string option"
  cl_DefaultUser :: "string option option"
  cl_Binding :: "string option"
  cl_AdditionalConfig :: string
  cl_TLSEnabled :: bool
  cl_DisableNonTLSListeners :: bool

record Service =
  svc_Meta :: object_meta
  svc_Ports :: "(string \<times> int) list"

record vault_auth =
  va_ClientToken :: string
  va_Renewable :: bool

record vault_secret =
  vsec_Warnings :: "string list"
  vsec_Data :: "json_object option"
  vsec_Auth :: "vault_auth option"

text \<open>The object that becomes the controller: its kind and name.\<close>

type_synonym owner = "string \<times> string"

record env =
  broker_http :: "event list \<Rightarrow> rabbit_client \<Rightarrow> broker_call \<Rightarrow> http_response option \<times> go_error option"
  broker_queue :: "event list \<Rightarrow> rabbit_client \<Rightarrow> broker_call \<Rightarrow> go_error + DetailedQueueInfo"
  broker_bindings :: "event list \<Rightarrow> rabbit_client \<Rightarrow> broker_call \<Rightarrow> go_error + BindingInfo list"
  broker_limits :: "event list \<Rightarrow> rabbit_client \<Rightarrow> broker_call \<Rightarrow> go_error + limits_values list"
  new_client :: "rabbit_client \<Rightarrow> go_error option"
  kube_get :: "event list \<Rightarrow> tkind \<Rightarrow> string \<Rightarrow> string \<Rightarrow> go_error + tobj"
  kube_list :: "event list \<Rightarrow> tkind \<Rightarrow> go_error + tobj list"
  kube_users_importing :: "event list \<Rightarrow> string \<Rightarrow> string \<Rightarrow> go_error + User list"
  kube_update :: "event list \<Rightarrow> tobj \<Rightarrow> go_error + tobj"
  kube_status_update :: "event list \<Rightarrow> tobj \<Rightarrow> go_error + tobj"
  kube_secret :: "event list \<Rightarrow> string \<Rightarrow> string \<Rightarrow> go_error + secret"
  kube_uncached_secret :: "event list \<Rightarrow> string \<Rightarrow> string \<Rightarrow> go_error + secret"
  kube_cluster :: "event list \<Rightarrow> string \<Rightarrow> string \<Rightarrow> go_error + RabbitmqCluster"
  kube_service :: "event list \<Rightarrow> string \<Rightarrow> string \<Rightarrow> go_error + Service"
  write_secret :: "event list \<Rightarrow> secret \<Rightarrow> (secret \<Rightarrow> go_error + secret) \<Rightarrow> go_error + secret"
  kube_superstream :: "event list \<Rightarrow> string \<Rightarrow> string \<Rightarrow> go_error + SuperStream"
  kube_update_superstream :: "event list \<Rightarrow> SuperStream \<Rightarrow> go_error + SuperStream"
  kube_status_update_superstream :: "event list \<Rightarrow> SuperStream \<Rightarrow> go_error + SuperStream"
  write_exchange :: "event list \<Rightarrow> Exchange \<Rightarrow> (Exchange \<Rightarrow> go_error + Exchange) \<Rightarrow> go_error + Exchange"
  write_queue :: "event list \<Rightarrow> Queue \<Rightarrow> (Queue \<Rightarrow> go_error + Queue) \<Rightarrow> go_error + Queue"
  write_binding :: "event list \<Rightarrow> Binding \<Rightarrow> (Binding \<Rightarrow> go_error + Binding) \<Rightarrow> go_error + Binding"
  SetControllerReference :: "owner \<Rightarrow> object_meta \<Rightarrow> go_error + object_meta"
  GetControllerOf :: "owner_reference list \<Rightarrow> owner_reference option"
  ContainsFinalizer :: "string list \<Rightarrow> string \<Rightarrow> bool"
  AddFinalizer :: "string list \<Rightarrow> string \<Rightarrow> string list"
  RemoveFinalizer :: "string list \<Rightarrow> string \<Rightarrow> string list"
  secret_store_error :: "event list \<Rightarrow> go_error option"
  vault_read :: "event list \<Rightarrow> string \<Rightarrow> go_error + vault_secret option"
  system_cert_pool :: "event list \<Rightarrow> go_error option"
  now :: "event list \<Rightarrow> go_time"
  rand_read :: "event list \<Rightarrow> nat \<Rightarrow> go_error + string"
  password_hash :: "event list \<Rightarrow> string \<Rightarrow> string"
  ini_Load :: "string \<Rightarrow> go_error + (string \<rightharpoonup> string)"
  url_rest_error :: "string \<Rightarrow> go_error option"

type_synonym 'a prog = "(env, event, 'a) io"


section \<open>The calls as programs\<close>

definition call_http :: "rabbit_client \<Rightarrow> broker_call \<Rightarrow> (http_response option \<times> go_error option) prog" where
  "call_http c q = io_call (Broker c q) (\<lambda>n h. broker_http n h c q)"

definition call_GetQueue :: "rabbit_client \<Rightarrow> string \<Rightarrow> string \<Rightarrow> (go_error + DetailedQueueInfo) prog" where
  "call_GetQueue c v q = io_call (Broker c (GetQueue v q)) (\<lambda>n h. broker_queue n h c (GetQueue v q))"

definition call_bindings :: "rabbit_client \<Rightarrow> broker_call \<Rightarrow> (go_error + BindingInfo list) prog" where
  "call_bindings c q = io_call (Broker c q) (\<lambda>n h. broker_bindings n h c q)"

definition call_limits :: "rabbit_client \<Rightarrow> broker_call \<Rightarrow> (go_error + limits_values list) prog" where
  "call_limits c q = io_call (Broker c q) (\<lambda>n h. broker_limits n h c q)"

text \<open>
  An object is decoded into the Go value the caller passes in, so an answer of another kind is
  a decoding error.
\<close>

definition decode_as :: "tkind \<Rightarrow> go_error + tobj \<Rightarrow> go_error + tobj" where
  "decode_as k r =
     err_bind r (\<lambda>x. if tkind_of x = k then Inr x else Inl (LibraryError ''cannot decode into the given type''))"

definition call_get :: "tkind \<Rightarrow> string \<Rightarrow> string \<Rightarrow> (go_error + tobj) prog" where
  "call_get k ns name = io_call (KubeGet k ns name) (\<lambda>n h. decode_as k (kube_get n h k ns name))"

definition call_update :: "tobj \<Rightarrow> (go_error + tobj) prog" where
  "call_update x = io_call (KubeUpdate x) (\<lambda>n h. decode_as (tkind_of x) (kube_update n h x))"

definition call_status_update :: "tobj \<Rightarrow> (go_error + tobj) prog" where
  "call_status_update x =
     io_call (KubeStatusUpdate x) (\<lambda>n h. decode_as (tkind_of x) (kube_status_update n h x))"

definition call_secret :: "string \<Rightarrow> string \<Rightarrow> (go_error + secret) prog" where
  "call_secret ns name = io_call (KubeGetSecret ns name) (\<lambda>n h. kube_secret n h ns name)"

definition call_record :: "string \<Rightarrow> string \<Rightarrow> string \<Rightarrow> string \<Rightarrow> unit prog" where
  "call_record ty reason action note = io_call (Recorded ty reason action note) (\<lambda>n h. ())"

definition call_now :: "go_time prog" where
  "call_now = io_ask now"

lemmas call_defs =
  call_http_def call_GetQueue_def call_bindings_def call_limits_def call_get_def call_update_def
  call_status_update_def call_secret_def call_record_def call_now_def

lemma emits_calls [emits_intros]:
  "P (Broker c q) \<Longrightarrow> emits P (call_http c q)"
  "P (Broker c (GetQueue v nm)) \<Longrightarrow> emits P (call_GetQueue c v nm)"
  "P (Broker c q) \<Longrightarrow> emits P (call_bindings c q)"
  "P (Broker c q) \<Longrightarrow> emits P (call_limits c q)"
  "P (KubeGet k ns nm) \<Longrightarrow> emits P (call_get k ns nm)"
  "P (KubeUpdate x) \<Longrightarrow> emits P (call_update x)"
  "P (KubeStatusUpdate x) \<Longrightarrow> emits P (call_status_update x)"
  "P (KubeGetSecret ns nm) \<Longrightarrow> emits P (call_secret ns nm)"
  "P (Recorded a b d e) \<Longrightarrow> emits P (call_record a b d e)"
  "emits P call_now"
  by (auto simp: call_defs intro: emits_intros)

lemma guarded_calls [guarded_intros]:
  "Q h (Broker c q) \<Longrightarrow> guarded n Q (call_http c q) h"
  "Q h (Broker c (GetQueue v nm)) \<Longrightarrow> guarded n Q (call_GetQueue c v nm) h"
  "Q h (Broker c q) \<Longrightarrow> guarded n Q (call_bindings c q) h"
  "Q h (Broker c q) \<Longrightarrow> guarded n Q (call_limits c q) h"
  "Q h (KubeGet k ns nm) \<Longrightarrow> guarded n Q (call_get k ns nm) h"
  "Q h (KubeUpdate x) \<Longrightarrow> guarded n Q (call_update x) h"
  "Q h (KubeStatusUpdate x) \<Longrightarrow> guarded n Q (call_status_update x) h"
  "Q h (KubeGetSecret ns nm) \<Longrightarrow> guarded n Q (call_secret ns nm) h"
  "Q h (Recorded a b d e) \<Longrightarrow> guarded n Q (call_record a b d e) h"
  "guarded n Q call_now h"
  by (simp_all add: call_defs guarded_intros)

lemma returns_calls [returns_intros]:
  "returns n (call_http c q) h" "returns n (call_GetQueue c v nm) h" "returns n (call_bindings c q) h"
  "returns n (call_limits c q) h" "returns n (call_get k ns nm) h" "returns n (call_update x) h"
  "returns n (call_status_update x) h" "returns n (call_secret ns nm) h"
  "returns n (call_record a b d e) h" "returns n call_now h"
  by (simp_all add: call_defs returns_intros)

lemma decode_as_Inr: "decode_as k r = Inr x \<longleftrightarrow> r = Inr x \<and> tkind_of x = k"
  by (auto simp: decode_as_def err_bind_Inr_iff split: if_splits)

lemma decode_as_kind: "decode_as k r = Inr x \<Longrightarrow> tkind_of x = k"
  by (simp add: decode_as_Inr)


section \<open>Laws of the helpers\<close>

text \<open>The documented behaviour of the finalizer helpers of controllerutil.\<close>

definition finalizer_laws :: "env \<Rightarrow> bool" where
  "finalizer_laws n \<longleftrightarrow>
     (\<forall>fs f. ContainsFinalizer n fs f = (f \<in> set fs)) \<and>
     (\<forall>fs f. set (AddFinalizer n fs f) = insert f (set fs)) \<and>
     (\<forall>fs f. set (RemoveFinalizer n fs f) = set fs - {f})"

text \<open>
  \<open>controllerutil.CreateOrUpdate\<close> reads the object, or takes the given one when there is
  none, applies the function and writes the result. The object then holds the answer of the API
  server, which may have filled in fields that were empty: \<open>view\<close> gives the fields that it
  leaves as they were sent.
\<close>

definition create_or_update_law ::
  "('o \<Rightarrow> object_meta) \<Rightarrow> ('o \<Rightarrow> 'v) \<Rightarrow> (event list \<Rightarrow> 'o \<Rightarrow> ('o \<Rightarrow> go_error + 'o) \<Rightarrow> go_error + 'o) \<Rightarrow> bool" where
  "create_or_update_law meta view w \<longleftrightarrow>
     (\<forall>h x f y. w h x f = Inr y \<longrightarrow>
        (\<exists>b z. om_Name (meta b) = om_Name (meta x) \<and> om_Namespace (meta b) = om_Namespace (meta x) \<and>
             f b = Inr z \<and> view y = view z))"

text \<open>\<open>SetControllerReference\<close> changes the owner references only.\<close>

definition controller_reference_law :: "env \<Rightarrow> bool" where
  "controller_reference_law n \<longleftrightarrow>
     (\<forall>ow m m'. SetControllerReference n ow m = Inr m' \<longrightarrow>
        m' = m\<lparr>om_OwnerReferences := om_OwnerReferences m'\<rparr>)"

end
