(* ===== verification/Reconcile_Utils.thy ===== *)
theory Reconcile_Utils
  imports Environment
begin

text \<open>
  \<open>internal/controller/utils.go\<close>: the reading of HTTP responses, the finalizers, the
  deletion policy. A function that changes the object it is given returns it next to its error.
\<close>

section \<open>Responses\<close>

definition validateResponse :: "http_response option \<times> go_error option \<Rightarrow> go_error + unit" where
  "validateResponse r =
     (case snd r of
        Some err \<Rightarrow> Inl err
      | None \<Rightarrow>
          (case fst r of
             None \<Rightarrow> Inl (ErrText ''failed to validate empty HTTP response'')
           | Some res \<Rightarrow>
               if res_StatusCode res \<ge> 300 then Inl (RabbitmqAPIError (res_StatusCode res) (res_Body res))
               else Inr ()))"

definition validateResponseForDeletion :: "http_response option \<times> go_error option \<Rightarrow> go_error + unit" where
  "validateResponseForDeletion r =
     (case fst r of
        Some res \<Rightarrow> if res_StatusCode res = 404 then Inl ErrNotFound else validateResponse r
      | None \<Rightarrow> validateResponse r)"

text \<open>The error handling every \<open>DeleteFunc\<close> ends with: an object that is gone already is no error.\<close>

definition ignore_missing :: "go_error + unit \<Rightarrow> go_error + unit" where
  "ignore_missing r = (case r of Inl e \<Rightarrow> if errors_Is e ErrNotFound then Inr () else Inl e | Inr u \<Rightarrow> Inr ())"

definition send :: "rabbit_client \<Rightarrow> broker_call \<Rightarrow> (go_error + unit) prog" where
  "send c q = io_bind (call_http c q) (\<lambda>r. io_return (validateResponse r))"

definition send_removal :: "rabbit_client \<Rightarrow> broker_call \<Rightarrow> (go_error + unit) prog" where
  "send_removal c q =
     io_bind (call_http c q) (\<lambda>r. io_return (ignore_missing (validateResponseForDeletion r)))"

lemma emits_send [emits_intros]:
  "P (Broker c q) \<Longrightarrow> emits P (send c q)"
  "P (Broker c q) \<Longrightarrow> emits P (send_removal c q)"
  by (simp_all add: send_def send_removal_def emits_intros)

lemma guarded_send [guarded_intros]:
  "Q h (Broker c q) \<Longrightarrow> guarded n Q (send c q) h"
  "Q h (Broker c q) \<Longrightarrow> guarded n Q (send_removal c q) h"
  by (simp_all add: send_def send_removal_def guarded_intros)

lemma returns_send [returns_intros]: "returns n (send c q) h" "returns n (send_removal c q) h"
  by (simp_all add: send_def send_removal_def returns_intros)

lemma send_run [simp]:
  "send c q n h = (Ret (validateResponse (broker_http n h c q)), h @ [Broker c q])"
  "send_removal c q n h =
     (Ret (ignore_missing (validateResponseForDeletion (broker_http n h c q))), h @ [Broker c q])"
  by (simp_all add: send_def send_removal_def call_http_def)


section \<open>Programs that change an object\<close>

text \<open>The sequence of two such programs: the second runs on the changed object when there is no error.\<close>

definition io_then ::
  "('n, 'e, 'o \<times> ('x + unit)) io \<Rightarrow> ('o \<Rightarrow> ('n, 'e, 'o \<times> ('x + 'b)) io) \<Rightarrow> ('n, 'e, 'o \<times> ('x + 'b)) io" where
  "io_then m f =
     io_bind m (\<lambda>r. case r of (x, Inl e) \<Rightarrow> io_return (x, Inl e) | (x, Inr u) \<Rightarrow> f x)"

text \<open>A program that leaves the object as it is.\<close>

definition io_keep :: "'o \<Rightarrow> ('n, 'e, 'x + 'b) io \<Rightarrow> ('n, 'e, 'o \<times> ('x + 'b)) io" where
  "io_keep x m = io_bind m (\<lambda>r. io_return (x, r))"

lemma emits_then [emits_intros]:
  "emits P m \<Longrightarrow> (\<And>x. emits P (f x)) \<Longrightarrow> emits P (io_then m f)"
  unfolding io_then_def by (auto intro!: emits_intros split: prod.splits sum.splits)

lemma emits_keep [emits_intros]: "emits P m \<Longrightarrow> emits P (io_keep x m)"
  unfolding io_keep_def by (auto intro!: emits_intros)

lemma guarded_then [guarded_intros]:
  assumes "guarded n Q m h" and "\<And>x u h'. m n h = (Ret (x, Inr u), h') \<Longrightarrow> guarded n Q (f x) h'"
  shows "guarded n Q (io_then m f) h"
  unfolding io_then_def using assms by (auto intro!: guarded_intros)

lemma guarded_keep [guarded_intros]: "guarded n Q m h \<Longrightarrow> guarded n Q (io_keep x m) h"
  unfolding io_keep_def by (intro guarded_intros)

lemma returns_then [returns_intros]:
  assumes "returns n m h" and "\<And>x u h'. m n h = (Ret (x, Inr u), h') \<Longrightarrow> returns n (f x) h'"
  shows "returns n (io_then m f) h"
  unfolding io_then_def using assms by (auto intro!: returns_intros)

lemma returns_keep [returns_intros]: "returns n m h \<Longrightarrow> returns n (io_keep x m) h"
  unfolding io_keep_def by (intro returns_intros)

lemma io_then_run [simp]:
  "io_then m f n t =
     (case m n t of
        (Ret (x, Inr u), t') \<Rightarrow> f x n t'
      | (Ret (x, Inl e), t') \<Rightarrow> (Ret (x, Inl e), t')
      | (Panicked s, t') \<Rightarrow> (Panicked s, t'))"
  by (auto simp: io_then_def split: prod.splits outcome.splits sum.splits)

lemma io_keep_run [simp]:
  "io_keep x m n t =
     (case m n t of (Ret r, t') \<Rightarrow> (Ret (x, r), t') | (Panicked s, t') \<Rightarrow> (Panicked s, t'))"
  by (auto simp: io_keep_def split: prod.splits outcome.splits)


section \<open>Finalizers\<close>

definition deletionFinalizer :: "string \<Rightarrow> string" where
  "deletionFinalizer kind =
     (let plural =
        (if kind = ''Policy'' then ''policies''
         else if kind = ''OperatorPolicy'' then ''operatorpolicies''
         else strings_ToLower kind @ ''s'')
      in ''deletion.finalizers.'' @ plural @ ''.'' @ ''rabbitmq.com'')"

definition addFinalizerIfNeeded :: "tobj \<Rightarrow> (tobj \<times> (go_error + unit)) prog" where
  "addFinalizerIfNeeded obj =
     (let finalizer = deletionFinalizer (tobj_Kind obj) in
      io_bind (io_ask (\<lambda>n h. (ContainsFinalizer n (om_Finalizers (tobj_Meta obj)) finalizer,
                              AddFinalizer n (om_Finalizers (tobj_Meta obj)) finalizer)))
        (\<lambda>(contains, added).
          if Time_IsZero (om_DeletionTimestamp (tobj_Meta obj)) \<and> \<not> contains
          then let obj' = map_Meta (\<lambda>m. m\<lparr>om_Finalizers := added\<rparr>) obj in
               io_bind (call_update obj')
                 (\<lambda>r. io_return (case r of
                    Inl err \<Rightarrow> (obj', Inl (ErrWrap ''failed to add deletionFinalizer: '' err ''''))
                  | Inr new \<Rightarrow> (new, Inr ())))
          else io_return (obj, Inr ())))"

definition removeFinalizer :: "tobj \<Rightarrow> (tobj \<times> (go_error + unit)) prog" where
  "removeFinalizer obj =
     (let finalizer = deletionFinalizer (tobj_Kind obj) in
      io_bind (io_ask (\<lambda>n h. RemoveFinalizer n (om_Finalizers (tobj_Meta obj)) finalizer))
        (\<lambda>removed.
          let obj' = map_Meta (\<lambda>m. m\<lparr>om_Finalizers := removed\<rparr>) obj in
          io_bind (call_update obj')
            (\<lambda>r. io_return (case r of
               Inl err \<Rightarrow> (obj', Inl (ErrWrap ''failed to delete finalizer: '' err ''''))
             | Inr new \<Rightarrow> (new, Inr ())))))"

definition shouldSkipDeletion :: "string \<Rightarrow> bool" where
  "shouldSkipDeletion deletionPolicy = (deletionPolicy = ''retain'')"


section \<open>Laws\<close>

lemma validateResponse_Inr:
  "validateResponse r = Inr () \<longleftrightarrow> snd r = None \<and> (\<exists>res. fst r = Some res \<and> res_StatusCode res < 300)"
  by (auto simp: validateResponse_def split: option.splits)

text \<open>
  A removal is acknowledged when the broker answers 404, whatever error comes with it, or a code
  below 300 without an error.
\<close>

definition removal_acknowledged :: "http_response option \<times> go_error option \<Rightarrow> bool" where
  "removal_acknowledged r \<longleftrightarrow>
     (\<exists>res. fst r = Some res \<and> (res_StatusCode res = 404 \<or> snd r = None \<and> res_StatusCode res < 300))"

lemma ignore_missing_Inr:
  "ignore_missing r = Inr () \<longleftrightarrow> r = Inr () \<or> (\<exists>e. r = Inl e \<and> errors_Is e ErrNotFound)"
  by (auto simp: ignore_missing_def split: sum.splits)

text \<open>An error of the transport is not the sentinel of the package, which only the package makes.\<close>

definition foreign_errors :: "env \<Rightarrow> bool" where
  "foreign_errors n \<longleftrightarrow>
     (\<forall>h c q e. snd (broker_http n h c q) = Some e \<longrightarrow> \<not> errors_Is e ErrNotFound)"

lemma removal_acknowledged_iff:
  assumes "foreign_errors n"
  shows "ignore_missing (validateResponseForDeletion (broker_http n h c q)) = Inr () \<longleftrightarrow>
         removal_acknowledged (broker_http n h c q)"
proof -
  obtain res err where r: "broker_http n h c q = (res, err)" by fastforce
  have "\<not> errors_Is e ErrNotFound" if "err = Some e" for e
    using assms r that unfolding foreign_errors_def by (metis snd_conv)
  then show ?thesis
    by (auto simp: r ignore_missing_def validateResponseForDeletion_def validateResponse_def
        removal_acknowledged_def split: option.splits)
qed

lemma strings_ToLower_simps [simp]:
  "strings_ToLower [] = []"
  "strings_ToLower (c # s) = char_to_lower c # strings_ToLower s"
  by (simp_all add: strings_ToLower_def)

text \<open>Distinct kinds have distinct finalizers.\<close>

lemma deletionFinalizer_kind_name: "map (deletionFinalizer \<circ> kind_name)
    [KBinding, KExchange, KQueue, KVhost, KUser, KPermission, KTopicPermission, KPolicy, KOperatorPolicy,
     KFederation, KShovel, KSchemaReplication] =
  map (\<lambda>p. ''deletion.finalizers.'' @ p @ ''.rabbitmq.com'')
    [''bindings'', ''exchanges'', ''queues'', ''vhosts'', ''users'', ''permissions'', ''topicpermissions'',
     ''policies'', ''operatorpolicies'', ''federations'', ''shovels'', ''schemareplications'']"
  by code_simp

lemma deletionFinalizer_inj: "inj (deletionFinalizer \<circ> kind_name)"
proof (rule injI)
  fix k k' assume "(deletionFinalizer \<circ> kind_name) k = (deletionFinalizer \<circ> kind_name) k'"
  then show "k = k'"
    using deletionFinalizer_kind_name by (cases k; cases k') simp_all
qed

lemma emits_removeFinalizer:
  assumes "\<And>x. tkind_of x = tkind_of obj \<Longrightarrow> P (KubeUpdate x)"
  shows "emits P (removeFinalizer obj)"
  unfolding removeFinalizer_def Let_def by (intro emits_intros assms) simp

lemma emits_addFinalizer:
  assumes "\<And>x. tkind_of x = tkind_of obj \<Longrightarrow> P (KubeUpdate x)"
  shows "emits P (addFinalizerIfNeeded obj)"
  unfolding addFinalizerIfNeeded_def Let_def by (intro emits_intros assms) simp

lemma returns_finalizers [returns_intros]:
  "returns n (removeFinalizer obj) h" "returns n (addFinalizerIfNeeded obj) h"
  unfolding removeFinalizer_def addFinalizerIfNeeded_def Let_def by (intro returns_intros)+

text \<open>
  The API server answers an update with the object as it was sent; only the status, which is a
  subresource, may differ.
\<close>

definition zero_status :: topology_status where
  "zero_status = \<lparr>ObservedGeneration = 0, Conditions = []\<rparr>"

definition zero_user_status :: UserStatus where
  "zero_user_status = \<lparr>ObservedGeneration = 0, Conditions = [], us_Credentials = None, us_Username = ''''\<rparr>"

fun erase_status :: "tobj \<Rightarrow> tobj" where
  "erase_status (OBinding x) = OBinding (x\<lparr>obj_Status := zero_status\<rparr>)"
| "erase_status (OExchange x) = OExchange (x\<lparr>obj_Status := zero_status\<rparr>)"
| "erase_status (OQueue x) = OQueue (x\<lparr>obj_Status := zero_status\<rparr>)"
| "erase_status (OVhost x) = OVhost (x\<lparr>obj_Status := zero_status\<rparr>)"
| "erase_status (OUser x) = OUser (x\<lparr>obj_Status := zero_user_status\<rparr>)"
| "erase_status (OPermission x) = OPermission (x\<lparr>obj_Status := zero_status\<rparr>)"
| "erase_status (OTopicPermission x) = OTopicPermission (x\<lparr>obj_Status := zero_status\<rparr>)"
| "erase_status (OPolicy x) = OPolicy (x\<lparr>obj_Status := zero_status\<rparr>)"
| "erase_status (OOperatorPolicy x) = OOperatorPolicy (x\<lparr>obj_Status := zero_status\<rparr>)"
| "erase_status (OFederation x) = OFederation (x\<lparr>obj_Status := zero_status\<rparr>)"
| "erase_status (OShovel x) = OShovel (x\<lparr>obj_Status := zero_status\<rparr>)"
| "erase_status (OSchemaReplication x) = OSchemaReplication (x\<lparr>obj_Status := zero_status\<rparr>)"

definition update_echo :: "env \<Rightarrow> bool" where
  "update_echo n \<longleftrightarrow> (\<forall>h x y. kube_update n h x = Inr y \<longrightarrow> erase_status y = erase_status x)"

lemma erase_status_Meta [simp]:
  "tobj_Meta (erase_status x) = tobj_Meta x" "tobj_Kind (erase_status x) = tobj_Kind x"
  "tkind_of (erase_status x) = tkind_of x"
  by (cases x; simp)+

lemma erase_status_eqD:
  assumes "erase_status y = erase_status x"
  shows "tobj_Meta y = tobj_Meta x" "tobj_Kind y = tobj_Kind x" "tkind_of y = tkind_of x"
  using assms by (metis erase_status_Meta)+

lemma update_echoD:
  assumes "update_echo n" and "kube_update n h x = Inr y"
  shows "erase_status y = erase_status x" "tobj_Meta y = tobj_Meta x" "tobj_Kind y = tobj_Kind x" "tkind_of y = tkind_of x"
  using assms erase_status_eqD [of y x] by (auto simp: update_echo_def)

text \<open>The documented behaviour of the libraries that the theorems on the reconciler rely on.\<close>

definition lawful :: "env \<Rightarrow> bool" where
  "lawful n \<longleftrightarrow> finalizer_laws n \<and> update_echo n \<and> controller_reference_law n \<and> foreign_errors n"

lemma lawfulD:
  "lawful n \<Longrightarrow> finalizer_laws n" "lawful n \<Longrightarrow> update_echo n"
  "lawful n \<Longrightarrow> controller_reference_law n" "lawful n \<Longrightarrow> foreign_errors n"
  by (simp_all add: lawful_def)

end
