(* ===== verification/Sample_World.thy ===== *)
theory Sample_World
  imports Reconcile_Utils
begin

text \<open>
  One concrete environment, in which the laws of the libraries hold, and a few objects: the
  witnesses of the properties are evaluated in it.
\<close>

definition sample_meta :: "string \<Rightarrow> object_meta" where
  "sample_meta name =
     \<lparr>om_Name = name, om_Namespace = ''ns'', om_Generation = 3, om_DeletionTimestamp = None,
      om_Finalizers = [], om_Labels = Map.empty, om_Annotations = Map.empty, om_OwnerReferences = []\<rparr>"

definition sample_ref :: RabbitmqClusterReference where
  "sample_ref = \<lparr>ref_Name = '''', ref_Namespace = '''', ref_ConnectionSecret = Some ''conn''\<rparr>"

definition sample_secret :: secret where
  "sample_secret =
     \<lparr>sec_Meta = sample_meta ''conn'',
      sec_Data = [''uri'' \<mapsto> ''https://rabbit'', ''username'' \<mapsto> ''u'', ''password'' \<mapsto> ''p''],
      sec_Type = ''Opaque''\<rparr>"

definition sample_client :: rabbit_client where
  "sample_client = \<lparr>rc_uri = ''https://rabbit'', rc_username = ''u'', rc_password = ''p'', rc_tls = True\<rparr>"

definition sample_status :: topology_status where
  "sample_status = \<lparr>ObservedGeneration = 2, Conditions = []\<rparr>"

definition sample_exchange :: Exchange where
  "sample_exchange =
     \<lparr>obj_Group = ''rabbitmq.com'', obj_Kind = ''Exchange'', obj_Meta = sample_meta ''ex'',
      obj_Spec = \<lparr>ex_Name = ''ex'', ex_Vhost = ''/'', ex_Type = ''fanout'', ex_Durable = True, ex_AutoDelete = False,
                  ex_Arguments = None, ex_RabbitmqClusterReference = sample_ref\<rparr>,
      obj_Status = sample_status\<rparr>"

text \<open>The same exchange with its finalizer, marked for deletion.\<close>

definition deleted_exchange :: Exchange where
  "deleted_exchange =
     sample_exchange\<lparr>obj_Meta := (sample_meta ''ex'')\<lparr>om_DeletionTimestamp := Some 7,
       om_Finalizers := [''deletion.finalizers.exchanges.rabbitmq.com'']\<rparr>\<rparr>"

definition sample_owner_reference :: "owner \<Rightarrow> owner_reference" where
  "sample_owner_reference ow =
     \<lparr>or_Kind = fst ow, or_Name = snd ow, or_Controller = Some True, or_BlockOwnerDeletion = Some True\<rparr>"

definition sample_env :: env where
  "sample_env =
     \<lparr>broker_http = \<lambda>h c q. (Some \<lparr>res_StatusCode = 204, res_Body = ''''\<rparr>, None),
      broker_queue = \<lambda>h c q. Inr \<lparr>qi_Messages = 0, qi_Consumers = 0\<rparr>,
      broker_bindings = \<lambda>h c q. Inr [],
      broker_limits = \<lambda>h c q. Inr [],
      new_client = \<lambda>c. None,
      kube_get = \<lambda>h k ns name. Inl (StatusError StatusReasonNotFound ''not found''),
      kube_list = \<lambda>h k. Inr [],
      kube_users_importing = \<lambda>h ns name. Inr [],
      kube_update = \<lambda>h x. Inr x,
      kube_status_update = \<lambda>h x. Inr x,
      kube_secret = \<lambda>h ns name. Inr sample_secret,
      kube_uncached_secret = \<lambda>h ns name. Inr sample_secret,
      kube_cluster = \<lambda>h ns name. Inl (StatusError StatusReasonNotFound ''not found''),
      kube_service = \<lambda>h ns name. Inl (StatusError StatusReasonNotFound ''not found''),
      write_secret = \<lambda>h s f. f s,
      kube_superstream = \<lambda>h ns name. Inl (StatusError StatusReasonNotFound ''not found''),
      kube_update_superstream = \<lambda>h x. Inr x,
      kube_status_update_superstream = \<lambda>h x. Inr x,
      write_exchange = \<lambda>h x f. f x,
      write_queue = \<lambda>h x f. f x,
      write_binding = \<lambda>h x f. f x,
      SetControllerReference = \<lambda>ow m. Inr (m\<lparr>om_OwnerReferences := om_OwnerReferences m @ [sample_owner_reference ow]\<rparr>),
      GetControllerOf = find (\<lambda>r. or_Controller r = Some True),
      ContainsFinalizer = \<lambda>fs f. f \<in> set fs,
      AddFinalizer = \<lambda>fs f. if f \<in> set fs then fs else fs @ [f],
      RemoveFinalizer = \<lambda>fs f. filter (\<lambda>g. g \<noteq> f) fs,
      secret_store_error = \<lambda>h. None,
      vault_read = \<lambda>h p. Inr None,
      system_cert_pool = \<lambda>h. None,
      now = \<lambda>h. int (length h) + 100,
      rand_read = \<lambda>h k. Inr (replicate k (CHR ''x'')),
      password_hash = \<lambda>h p. ''hash-of-'' @ p,
      ini_Load = \<lambda>s. Inr Map.empty,
      url_rest_error = \<lambda>s. None\<rparr>"

lemma sample_env_simps [simp]:
  "broker_http sample_env = (\<lambda>h c q. (Some \<lparr>res_StatusCode = 204, res_Body = ''''\<rparr>, None))"
  "broker_queue sample_env = (\<lambda>h c q. Inr \<lparr>qi_Messages = 0, qi_Consumers = 0\<rparr>)"
  "broker_bindings sample_env = (\<lambda>h c q. Inr [])"
  "broker_limits sample_env = (\<lambda>h c q. Inr [])"
  "new_client sample_env = (\<lambda>c. None)"
  "kube_get sample_env = (\<lambda>h k ns name. Inl (StatusError StatusReasonNotFound ''not found''))"
  "kube_list sample_env = (\<lambda>h k. Inr [])"
  "kube_users_importing sample_env = (\<lambda>h ns name. Inr [])"
  "kube_update sample_env = (\<lambda>h x. Inr x)"
  "kube_status_update sample_env = (\<lambda>h x. Inr x)"
  "kube_secret sample_env = (\<lambda>h ns name. Inr sample_secret)"
  "kube_uncached_secret sample_env = (\<lambda>h ns name. Inr sample_secret)"
  "kube_cluster sample_env = (\<lambda>h ns name. Inl (StatusError StatusReasonNotFound ''not found''))"
  "kube_service sample_env = (\<lambda>h ns name. Inl (StatusError StatusReasonNotFound ''not found''))"
  "write_secret sample_env = (\<lambda>h s f. f s)"
  "kube_superstream sample_env = (\<lambda>h ns name. Inl (StatusError StatusReasonNotFound ''not found''))"
  "kube_update_superstream sample_env = (\<lambda>h x. Inr x)"
  "kube_status_update_superstream sample_env = (\<lambda>h x. Inr x)"
  "write_exchange sample_env = (\<lambda>h x f. f x)"
  "write_queue sample_env = (\<lambda>h x f. f x)"
  "write_binding sample_env = (\<lambda>h x f. f x)"
  "SetControllerReference sample_env = (\<lambda>ow m. Inr (m\<lparr>om_OwnerReferences := om_OwnerReferences m @ [sample_owner_reference ow]\<rparr>))"
  "GetControllerOf sample_env = (find (\<lambda>r. or_Controller r = Some True))"
  "ContainsFinalizer sample_env = (\<lambda>fs f. f \<in> set fs)"
  "AddFinalizer sample_env = (\<lambda>fs f. if f \<in> set fs then fs else fs @ [f])"
  "RemoveFinalizer sample_env = (\<lambda>fs f. filter (\<lambda>g. g \<noteq> f) fs)"
  "secret_store_error sample_env = (\<lambda>h. None)"
  "vault_read sample_env = (\<lambda>h p. Inr None)"
  "system_cert_pool sample_env = (\<lambda>h. None)"
  "now sample_env = (\<lambda>h. int (length h) + 100)"
  "rand_read sample_env = (\<lambda>h k. Inr (replicate k (CHR ''x'')))"
  "password_hash sample_env = (\<lambda>h p. ''hash-of-'' @ p)"
  "ini_Load sample_env = (\<lambda>s. Inr Map.empty)"
  "url_rest_error sample_env = (\<lambda>s. None)"
  by (simp_all add: sample_env_def)

text \<open>The laws do not depend on what the world holds.\<close>

lemma lawful_sample [simp]:
  "lawful sample_env" "lawful (sample_env\<lparr>kube_get := g\<rparr>)" "lawful (sample_env\<lparr>kube_get := g, kube_cluster := cl\<rparr>)"
  by (auto simp: lawful_def finalizer_laws_def update_echo_def controller_reference_law_def foreign_errors_def
      sample_env_def)

lemmas sample_defs = sample_meta_def sample_ref_def sample_secret_def sample_client_def
  sample_status_def sample_exchange_def deleted_exchange_def

end
