(* ===== verification/Limit_Controllers.thy ===== *)
theory Limit_Controllers
  imports Sample_World
begin

text \<open>
  The reconciliation of the limits of a virtual host (\<open>vhost_controller.go\<close>) and of a user
  (\<open>user_controller.go\<close>), and the rest of the virtual host controller.

  The locale \<open>limits_api\<close> is the contract of the part of the management API both use: a
  store of limits per name, with a query, an update that overrides and a removal of keys. The
  client code is the one program \<open>reconcile\<close>; its convergence to the desired limits is
  proved once and holds for both controllers by interpretation.
\<close>

section \<open>Reading and comparing limits\<close>

text \<open>
  The answer of the query as both controllers read it: rabbit-hole's 404 and an empty list are
  no limits, and of a list the first entry counts.
\<close>

definition read_limits :: "go_error + limits_values list \<Rightarrow> go_error + limits_values" where
  "read_limits r =
     (case r of
        Inl err \<Rightarrow> if errors_Is err rabbithole404 then Inr Map.empty else Inl err
      | Inr infos \<Rightarrow> (case infos of [] \<Rightarrow> Inr Map.empty | info # rest \<Rightarrow> Inr info))"

definition getVhostLimits :: "rabbit_client \<Rightarrow> string \<Rightarrow> (go_error + limits_values) prog" where
  "getVhostLimits c vhost = io_bind (call_limits c (GetVhostLimits vhost)) (\<lambda>r. io_return (read_limits r))"

definition vhostLimitsToDelete :: "limits_values \<Rightarrow> limits_values \<Rightarrow> string list" where
  "vhostLimitsToDelete existingVhostLimits newVhostLimits =
     filter (\<lambda>limit. existingVhostLimits limit \<noteq> None \<and> newVhostLimits limit = None)
       [''max-connections'', ''max-queues'']"

definition getUserLimits :: "rabbit_client \<Rightarrow> string \<Rightarrow> (go_error + limits_values) prog" where
  "getUserLimits c username = io_bind (call_limits c (GetUserLimits username)) (\<lambda>r. io_return (read_limits r))"

definition userLimitsToDelete :: "limits_values \<Rightarrow> limits_values \<Rightarrow> string list" where
  "userLimitsToDelete existingUserLimits newUserLimits =
     filter (\<lambda>limit. existingUserLimits limit \<noteq> None \<and> newUserLimits limit = None)
       [''max-connections'', ''max-channels'']"


section \<open>The two controllers\<close>

definition reconcileVhostLimits :: "rabbit_client \<Rightarrow> string \<Rightarrow> limits_values \<Rightarrow> (go_error + unit) prog" where
  "reconcileVhostLimits c vhost newVhostLimits =
     io_try (getVhostLimits c vhost) (\<lambda>existingVhostLimits.
       let limitsToDelete = vhostLimitsToDelete existingVhostLimits newVhostLimits in
       io_try
         (if limitsToDelete \<noteq> [] then send_removal c (DeleteVhostLimits vhost limitsToDelete)
          else io_return (Inr ()))
         (\<lambda>u. if newVhostLimits \<noteq> Map.empty then send c (PutVhostLimits vhost newVhostLimits)
              else io_return (Inr ())))"

definition Vhost_DeclareFunc :: "rabbit_client \<Rightarrow> Vhost \<Rightarrow> (go_error + unit) prog" where
  "Vhost_DeclareFunc c vhost =
     io_try (send c (PutVhost (vh_Name (obj_Spec vhost)) (GenerateVhostSettings vhost)))
       (\<lambda>u. reconcileVhostLimits c (vh_Name (obj_Spec vhost)) (GenerateVhostLimits (vh_VhostLimits (obj_Spec vhost))))"

definition Vhost_DeleteFunc :: "rabbit_client \<Rightarrow> Vhost \<Rightarrow> (go_error + unit) prog" where
  "Vhost_DeleteFunc c vhost =
     (if shouldSkipDeletion (vh_DeletionPolicy (obj_Spec vhost)) then io_return (Inr ())
      else send_removal c (DeleteVhost (vh_Name (obj_Spec vhost))))"

definition reconcileUserLimits :: "rabbit_client \<Rightarrow> User \<Rightarrow> string \<Rightarrow> (go_error + unit) prog" where
  "reconcileUserLimits c user username =
     (let newUserLimits = GenerateUserLimits (u_UserLimits (obj_Spec user)) in
      io_try (getUserLimits c username) (\<lambda>existingUserLimits.
        let limitsToDelete = userLimitsToDelete existingUserLimits newUserLimits in
        io_try
          (if limitsToDelete \<noteq> [] then send_removal c (DeleteUserLimits username limitsToDelete)
           else io_return (Inr ()))
          (\<lambda>u. if newUserLimits \<noteq> Map.empty then send c (PutUserLimits username newUserLimits)
               else io_return (Inr ()))))"


section \<open>The contract of the limits API\<close>

text \<open>The program both controllers run, over the calls of the contract.\<close>

definition limits_program ::
  "string list \<Rightarrow> (string \<Rightarrow> broker_call) \<Rightarrow> (string \<Rightarrow> string list \<Rightarrow> broker_call) \<Rightarrow>
   (string \<Rightarrow> limits_values \<Rightarrow> broker_call) \<Rightarrow> rabbit_client \<Rightarrow> string \<Rightarrow> limits_values \<Rightarrow> (go_error + unit) prog" where
  "limits_program keys get del put c x new =
     io_try (io_bind (call_limits c (get x)) (\<lambda>r. io_return (read_limits r))) (\<lambda>old.
       let stale = filter (\<lambda>k. old k \<noteq> None \<and> new k = None) keys in
       io_try (if stale \<noteq> [] then send_removal c (del x stale) else io_return (Inr ()))
         (\<lambda>u. if new \<noteq> Map.empty then send c (put x new) else io_return (Inr ())))"

text \<open>
  A store of limits: \<open>effect\<close> says what a call does to the limits of one name when the broker
  carries it out, \<open>limits_after\<close> is what the calls of a history have left of them, and the query
  is truthful when it answers that. A removal that the broker answers with 404 counts as carried
  out: there was nothing to remove.
\<close>

fun removes_limits :: "broker_call \<Rightarrow> bool" where
  "removes_limits (DeleteVhostLimits v ks) = True"
| "removes_limits (DeleteUserLimits u ks) = True"
| "removes_limits _ = False"

definition carried_out :: "env \<Rightarrow> event list \<Rightarrow> rabbit_client \<Rightarrow> broker_call \<Rightarrow> bool" where
  "carried_out n h c q \<longleftrightarrow>
     (if removes_limits q then ignore_missing (validateResponseForDeletion (broker_http n h c q)) = Inr ()
      else validateResponse (broker_http n h c q) = Inr ())"

definition limits_after ::
  "(string \<Rightarrow> broker_call \<Rightarrow> limits_values \<Rightarrow> limits_values) \<Rightarrow> env \<Rightarrow> string \<Rightarrow> limits_values \<Rightarrow> event list \<Rightarrow> limits_values" where
  "limits_after effect n x m h =
     history_fold (\<lambda>h e m. case e of
         Broker c q \<Rightarrow> if carried_out n h c q then effect x q m else m
       | _ \<Rightarrow> m) m h"

definition truthful_limits ::
  "(string \<Rightarrow> broker_call \<Rightarrow> limits_values \<Rightarrow> limits_values) \<Rightarrow> (string \<Rightarrow> broker_call) \<Rightarrow> env \<Rightarrow> string \<Rightarrow> limits_values \<Rightarrow> bool" where
  "truthful_limits effect get n x m \<longleftrightarrow>
     (\<forall>h c. read_limits (broker_limits n h c (get x)) = Inr (limits_after effect n x m h))"

lemma limits_after_snoc:
  "limits_after effect n x m (h @ [Broker c q]) =
     (if carried_out n h c q then effect x q (limits_after effect n x m h) else limits_after effect n x m h)"
  by (simp add: limits_after_def)
locale limits_api =
  fixes keys :: "string list"
    and get :: "string \<Rightarrow> broker_call"
    and del :: "string \<Rightarrow> string list \<Rightarrow> broker_call"
    and put :: "string \<Rightarrow> limits_values \<Rightarrow> broker_call"
    and effect :: "string \<Rightarrow> broker_call \<Rightarrow> limits_values \<Rightarrow> limits_values"
    and reconcile :: "rabbit_client \<Rightarrow> string \<Rightarrow> limits_values \<Rightarrow> (go_error + unit) prog"
  assumes effect_get: "effect x (get x) m = m"
    and removes: "removes_limits (del x ks)" "\<not> removes_limits (put x new)"
    and effect_del: "effect x (del x ks) m = m |` (- set ks)"
    and effect_put: "effect x (put x new) m = m ++ new"
    and reconcile_eq: "reconcile c x new = limits_program keys get del put c x new"
begin

abbreviation "current \<equiv> limits_after effect"
abbreviation "truthful \<equiv> truthful_limits effect get"

lemmas current_snoc = limits_after_snoc [of effect]
lemmas truthful_def = truthful_limits_def [of effect get]

lemma override_stale:
  assumes "dom new \<subseteq> set keys"
  shows "(old |` (- set (filter (\<lambda>k. old k \<noteq> None \<and> new k = None) keys))) ++ new =
         (old |` (- set keys)) ++ new"
proof (rule ext)
  fix k
  show "((old |` (- set (filter (\<lambda>k. old k \<noteq> None \<and> new k = None) keys))) ++ new) k =
        ((old |` (- set keys)) ++ new) k"
    using assms by (cases "new k") (auto simp: map_add_def restrict_map_def dom_def)
qed

theorem converges:
  assumes "truthful n x m" and "dom new \<subseteq> set keys"
    and "reconcile c x new n h = (Ret (Inr ()), h')"
  shows "current n x m h' = (current n x m h |` (- set keys)) ++ new"
proof -
  let ?old = "current n x m h"
  let ?stale = "filter (\<lambda>k. ?old k \<noteq> None \<and> new k = None) keys"
  let ?h1 = "h @ [Broker c (get x)]"
  let ?h2 = "if ?stale \<noteq> [] then ?h1 @ [Broker c (del x ?stale)] else ?h1"
  have "read_limits (broker_limits n h c (get x)) = Inr ?old"
    using assms(1) by (simp add: truthful_def)
  then have run: "h' = (if new \<noteq> Map.empty then ?h2 @ [Broker c (put x new)] else ?h2)"
      "?stale \<noteq> [] \<longrightarrow> carried_out n ?h1 c (del x ?stale)"
      "new \<noteq> Map.empty \<longrightarrow> carried_out n ?h2 c (put x new)"
    using assms(3)
    by (auto simp: reconcile_eq limits_program_def call_limits_def Let_def carried_out_def removes
        split: if_splits sum.splits prod.splits outcome.splits)
  have 1: "current n x m ?h1 = ?old" by (simp add: current_snoc effect_get)
  have 2: "current n x m ?h2 = ?old |` (- set ?stale)"
  proof (cases "?stale = []")
    case True
    then show ?thesis using 1 by (simp add: restrict_map_def)
  next
    case False
    then show ?thesis
      using 1 run(2) current_snoc [of n x m ?h1 c "del x ?stale"] by (simp add: effect_del)
  qed
  have "current n x m h' = (?old |` (- set ?stale)) ++ new"
  proof (cases "new = Map.empty")
    case True
    then show ?thesis using run(1) 2 by simp
  next
    case False
    then show ?thesis
      using run(1,3) 2 current_snoc [of n x m ?h2 c "put x new"] by (simp add: effect_put)
  qed
  then show ?thesis using override_stale [OF assms(2)] by simp
qed

text \<open>With a broker that accepts every call, the program returns without an error.\<close>

lemma succeeds:
  assumes "truthful n x m"
    and "\<And>h c q. validateResponse (broker_http n h c q) = Inr ()"
    and "\<And>h c q. ignore_missing (validateResponseForDeletion (broker_http n h c q)) = Inr ()"
  shows "\<exists>h'. reconcile c x new n h = (Ret (Inr ()), h')"
  using assms by (simp add: reconcile_eq limits_program_def call_limits_def Let_def truthful_def)

text \<open>A second run finds nothing to remove.\<close>

lemma stable:
  assumes "truthful n x m" and "current n x m h = (old |` (- set keys)) ++ new"
    and "reconcile c x new n h = (r, h')"
  shows "h' = h @ [Broker c (get x)] \<or> h' = h @ [Broker c (get x), Broker c (put x new)]"
proof -
  have "read_limits (broker_limits n h c (get x)) = Inr (current n x m h)"
    using assms(1) by (simp add: truthful_def)
  moreover have "filter (\<lambda>k. current n x m h k \<noteq> None \<and> new k = None) keys = []"
    by (auto simp: filter_empty_conv assms(2) map_add_def restrict_map_def split: option.splits)
  ultimately show ?thesis
    using assms(3) by (auto simp: reconcile_eq limits_program_def call_limits_def Let_def
        split: if_splits)
qed

end


section \<open>The two instances\<close>

fun vhost_limits_effect :: "string \<Rightarrow> broker_call \<Rightarrow> limits_values \<Rightarrow> limits_values" where
  "vhost_limits_effect v (PutVhostLimits v' new) m = (if v' = v then m ++ new else m)"
| "vhost_limits_effect v (DeleteVhostLimits v' ks) m = (if v' = v then m |` (- set ks) else m)"
| "vhost_limits_effect v q m = m"

fun user_limits_effect :: "string \<Rightarrow> broker_call \<Rightarrow> limits_values \<Rightarrow> limits_values" where
  "user_limits_effect u (PutUserLimits u' new) m = (if u' = u then m ++ new else m)"
| "user_limits_effect u (DeleteUserLimits u' ks) m = (if u' = u then m |` (- set ks) else m)"
| "user_limits_effect u q m = m"

interpretation vhost_limits: limits_api
  "[''max-connections'', ''max-queues'']" GetVhostLimits DeleteVhostLimits PutVhostLimits
  vhost_limits_effect reconcileVhostLimits
  by unfold_locales
    (simp_all add: reconcileVhostLimits_def limits_program_def getVhostLimits_def vhostLimitsToDelete_def Let_def)

text \<open>The user controller takes the desired limits from the object.\<close>

definition user_limits_program :: "rabbit_client \<Rightarrow> string \<Rightarrow> limits_values \<Rightarrow> (go_error + unit) prog" where
  "user_limits_program = limits_program [''max-connections'', ''max-channels''] GetUserLimits DeleteUserLimits PutUserLimits"

interpretation user_limits: limits_api
  "[''max-connections'', ''max-channels'']" GetUserLimits DeleteUserLimits PutUserLimits
  user_limits_effect user_limits_program
  by unfold_locales (simp_all add: user_limits_program_def)

lemma reconcileUserLimits_eq:
  "reconcileUserLimits c user username =
     user_limits_program c username (GenerateUserLimits (u_UserLimits (obj_Spec user)))"
  by (simp add: reconcileUserLimits_def user_limits_program_def limits_program_def getUserLimits_def
      userLimitsToDelete_def Let_def)


section \<open>Properties\<close>

text \<open>
  C9. When the limits of a virtual host are reconciled without an error, the broker's limits are
  exactly the desired ones on the two keys the operator manages, and the previous ones elsewhere.
\<close>

theorem vhost_limits_converge:
  assumes "truthful_limits vhost_limits_effect GetVhostLimits n v m"
    and "reconcileVhostLimits c v (GenerateVhostLimits l) n h = (Ret (Inr ()), h')"
  shows "limits_after vhost_limits_effect n v m h' =
    (limits_after vhost_limits_effect n v m h |` (- {''max-connections'', ''max-queues''})) ++ GenerateVhostLimits l"
  using vhost_limits.converges [OF assms(1) _ assms(2)] limit_keys by simp

text \<open>
  A broker that accepts every call and answers the queries for limits with what the calls so far
  have left.
\<close>

definition limits_world :: "limits_values \<Rightarrow> env" where
  "limits_world m = sample_env\<lparr>broker_limits := \<lambda>h c q. case q of
       GetVhostLimits v \<Rightarrow> Inr [limits_after vhost_limits_effect sample_env v m h]
     | GetUserLimits u \<Rightarrow> Inr [limits_after user_limits_effect sample_env u m h]
     | _ \<Rightarrow> Inr []\<rparr>"

lemma limits_world_http [simp]: "broker_http (limits_world m) = broker_http sample_env"
  by (simp add: limits_world_def)

lemma limits_world_truthful [simp]:
  "truthful_limits vhost_limits_effect GetVhostLimits (limits_world m) v m"
  "truthful_limits user_limits_effect GetUserLimits (limits_world m) u m"
proof -
  have "carried_out (limits_world m) = carried_out sample_env"
    by (intro ext) (simp add: carried_out_def)
  then have "limits_after eff (limits_world m) x m h = limits_after eff sample_env x m h" for eff x h
    unfolding limits_after_def by (simp only:)
  then show "truthful_limits vhost_limits_effect GetVhostLimits (limits_world m) v m"
    "truthful_limits user_limits_effect GetUserLimits (limits_world m) u m"
    by (simp_all add: truthful_limits_def limits_world_def read_limits_def)
qed

lemma limits_world_accepts [simp]:
  "validateResponse (Some \<lparr>res_StatusCode = 204, res_Body = ''''\<rparr>, None) = Inr ()"
  "ignore_missing (validateResponseForDeletion (Some \<lparr>res_StatusCode = 204, res_Body = ''''\<rparr>, None)) = Inr ()"
  by (simp_all add: validateResponse_def validateResponseForDeletion_def ignore_missing_def)

theorem vhost_limits_converge_witness:
  "\<exists>h'. reconcileVhostLimits sample_client ''v'' (GenerateVhostLimits None) (limits_world [''max-queues'' \<mapsto> 5, ''x'' \<mapsto> 1]) [] =
      (Ret (Inr ()), h') \<and>
     limits_after vhost_limits_effect (limits_world [''max-queues'' \<mapsto> 5, ''x'' \<mapsto> 1]) ''v'' [''max-queues'' \<mapsto> 5, ''x'' \<mapsto> 1] h' =
      [''x'' \<mapsto> 1]"
proof -
  let ?m = "[''max-queues'' \<mapsto> 5, ''x'' \<mapsto> 1 :: int]"
  obtain h' where run: "reconcileVhostLimits sample_client ''v'' (GenerateVhostLimits None) (limits_world ?m) [] = (Ret (Inr ()), h')"
    using vhost_limits.succeeds [of "limits_world ?m" "''v''" ?m sample_client "GenerateVhostLimits None" "[]"] by auto
  from vhost_limits_converge [OF limits_world_truthful(1) run] run show ?thesis
    by (auto simp: GenerateVhostLimits_def limits_after_def history_fold_def restrict_map_def fun_eq_iff)
qed

text \<open>
  C10. With a broker that accepts every call, declaring a virtual host returns without an error,
  has created the virtual host first and leaves the limits of the spec.
\<close>

theorem vhost_declared_completely:
  assumes "truthful_limits vhost_limits_effect GetVhostLimits n (vh_Name (obj_Spec x)) m"
    and "\<And>h c q. validateResponse (broker_http n h c q) = Inr ()"
    and "\<And>h c q. ignore_missing (validateResponseForDeletion (broker_http n h c q)) = Inr ()"
  shows "\<exists>es. Vhost_DeclareFunc c x n h =
       (Ret (Inr ()), h @ Broker c (PutVhost (vh_Name (obj_Spec x)) (GenerateVhostSettings x)) # es) \<and>
     limits_after vhost_limits_effect n (vh_Name (obj_Spec x)) m
         (h @ Broker c (PutVhost (vh_Name (obj_Spec x)) (GenerateVhostSettings x)) # es) =
       (limits_after vhost_limits_effect n (vh_Name (obj_Spec x)) m h |` (- {''max-connections'', ''max-queues''}))
         ++ GenerateVhostLimits (vh_VhostLimits (obj_Spec x))"
proof -
  let ?v = "vh_Name (obj_Spec x)" and ?l = "GenerateVhostLimits (vh_VhostLimits (obj_Spec x))"
  let ?put = "Broker c (PutVhost ?v (GenerateVhostSettings x))"
  obtain h' where run: "reconcileVhostLimits c ?v ?l n (h @ [?put]) = (Ret (Inr ()), h')"
    using vhost_limits.succeeds [OF assms] by blast
  have "emits (\<lambda>e. True) (reconcileVhostLimits c ?v ?l)"
    unfolding reconcileVhostLimits_def getVhostLimits_def Let_def by (intro emits_intros) simp_all
  with run obtain es where "h' = (h @ [?put]) @ es"
    by (auto elim!: emitsE [where n = n and t = "h @ [?put]"])
  moreover have "limits_after vhost_limits_effect n ?v m (h @ [?put]) = limits_after vhost_limits_effect n ?v m h"
    by (simp add: limits_after_snoc)
  ultimately show ?thesis
    using run vhost_limits.converges [OF assms(1) _ run] limit_keys
    by (intro exI [of _ es]) (simp add: Vhost_DeclareFunc_def assms(2))
qed

definition sample_vhost :: Vhost where
  "sample_vhost =
     \<lparr>obj_Group = ''rabbitmq.com'', obj_Kind = ''Vhost'', obj_Meta = sample_meta ''v'',
      obj_Spec = \<lparr>vh_Name = ''v'', vh_Tracing = False, vh_Tags = [], vh_DefaultQueueType = ''quorum'',
                  vh_RabbitmqClusterReference = sample_ref, vh_DeletionPolicy = ''delete'',
                  vh_VhostLimits = Some \<lparr>vl_Connections = Some 10, vl_Queues = None\<rparr>\<rparr>,
      obj_Status = sample_status\<rparr>"

theorem vhost_declared_completely_witness:
  "\<exists>h'. Vhost_DeclareFunc sample_client sample_vhost (limits_world [''max-queues'' \<mapsto> 5]) [] = (Ret (Inr ()), h') \<and>
     limits_after vhost_limits_effect (limits_world [''max-queues'' \<mapsto> 5]) ''v'' [''max-queues'' \<mapsto> 5] h' = [''max-connections'' \<mapsto> 10]"
proof -
  let ?m = "[''max-queues'' \<mapsto> 5 :: int]"
  have desired: "(?m |` (- {''max-connections'', ''max-queues''})) ++ GenerateVhostLimits (vh_VhostLimits (obj_Spec sample_vhost)) =
      [''max-connections'' \<mapsto> 10]"
    by (auto simp: sample_vhost_def GenerateVhostLimits_def put_limit_def fun_eq_iff restrict_map_def)
  from vhost_declared_completely [of "limits_world ?m" sample_vhost ?m sample_client "[]"] desired
  show ?thesis by (auto simp: sample_vhost_def limits_after_def history_fold_def)
qed

text \<open>
  C11. The same for the limits of a user: reconciled without an error, they are the desired ones on
  the two managed keys and the previous ones elsewhere.
\<close>

theorem user_limits_converge:
  assumes "truthful_limits user_limits_effect GetUserLimits n username m"
    and "reconcileUserLimits c user username n h = (Ret (Inr ()), h')"
  shows "limits_after user_limits_effect n username m h' =
    (limits_after user_limits_effect n username m h |` (- {''max-connections'', ''max-channels''}))
      ++ GenerateUserLimits (u_UserLimits (obj_Spec user))"
  using user_limits.converges [OF assms(1) _ assms(2) [unfolded reconcileUserLimits_eq]] limit_keys by simp

definition limited_user :: User where
  "limited_user =
     \<lparr>obj_Group = ''rabbitmq.com'', obj_Kind = ''User'', obj_Meta = sample_meta ''u'',
      obj_Spec = \<lparr>u_Tags = [], u_RabbitmqClusterReference = sample_ref, u_ImportCredentialsSecret = None,
                  u_UsernameFromMeta = True, u_UserLimits = Some \<lparr>ul_Connections = None, ul_Channels = Some 4\<rparr>\<rparr>,
      obj_Status = \<lparr>ObservedGeneration = 0, Conditions = [], us_Credentials = None, us_Username = ''''\<rparr>\<rparr>"

theorem user_limits_converge_witness:
  "\<exists>h'. reconcileUserLimits sample_client limited_user ''u'' (limits_world [''max-connections'' \<mapsto> 5]) [] = (Ret (Inr ()), h') \<and>
     limits_after user_limits_effect (limits_world [''max-connections'' \<mapsto> 5]) ''u'' [''max-connections'' \<mapsto> 5] h' = [''max-channels'' \<mapsto> 4]"
proof -
  let ?m = "[''max-connections'' \<mapsto> 5 :: int]"
  obtain h' where run: "reconcileUserLimits sample_client limited_user ''u'' (limits_world ?m) [] = (Ret (Inr ()), h')"
    using user_limits.succeeds [of "limits_world ?m" "''u''" ?m sample_client "GenerateUserLimits (u_UserLimits (obj_Spec limited_user))" "[]"]
    by (auto simp: reconcileUserLimits_eq)
  have desired: "(?m |` (- {''max-connections'', ''max-channels''})) ++ GenerateUserLimits (u_UserLimits (obj_Spec limited_user)) =
      [''max-channels'' \<mapsto> 4]"
    by (auto simp: limited_user_def GenerateUserLimits_def put_limit_def fun_eq_iff restrict_map_def)
  from user_limits_converge [OF limits_world_truthful(2) run] desired run show ?thesis
    by (auto simp: limits_after_def history_fold_def)
qed

text \<open>
  Reconciling the limits of a virtual host again after a run without an error is idempotent: no
  limit is removed, whatever the answers of the broker are, and the desired limits, if any, are
  sent once more.
\<close>

theorem vhost_limits_idempotent:
  assumes "truthful_limits vhost_limits_effect GetVhostLimits n v m"
    and "reconcileVhostLimits c v (GenerateVhostLimits l) n h = (Ret (Inr ()), h')"
    and "reconcileVhostLimits c v (GenerateVhostLimits l) n h' = (r, h'')"
  shows "h'' \<in> {h' @ [Broker c (GetVhostLimits v)],
                h' @ [Broker c (GetVhostLimits v), Broker c (PutVhostLimits v (GenerateVhostLimits l))]}"
proof -
  have "limits_after vhost_limits_effect n v m h' =
    (limits_after vhost_limits_effect n v m h |` (- set [''max-connections'', ''max-queues''])) ++ GenerateVhostLimits l"
    using vhost_limits.converges [OF assms(1) _ assms(2)] limit_keys by simp
  from vhost_limits.stable [OF assms(1) this assms(3)] show ?thesis by simp
qed

theorem vhost_limits_idempotent_witness:
  "\<exists>h' r. reconcileVhostLimits sample_client ''v'' (GenerateVhostLimits None) (limits_world [''max-queues'' \<mapsto> 5]) [] =
      (Ret (Inr ()), h') \<and>
     reconcileVhostLimits sample_client ''v'' (GenerateVhostLimits None) (limits_world [''max-queues'' \<mapsto> 5]) h' =
      (r, h' @ [Broker sample_client (GetVhostLimits ''v'')])"
proof -
  let ?n = "limits_world [''max-queues'' \<mapsto> 5]" and ?none = "GenerateVhostLimits None"
  obtain h' where 1: "reconcileVhostLimits sample_client ''v'' ?none ?n [] = (Ret (Inr ()), h')"
    using vhost_limits.succeeds [of ?n "''v''" "[''max-queues'' \<mapsto> 5]" sample_client ?none "[]"] by auto
  obtain r h'' where 2: "reconcileVhostLimits sample_client ''v'' ?none ?n h' = (r, h'')" by fastforce
  have "h'' \<noteq> h' @ [Broker sample_client (GetVhostLimits ''v''), Broker sample_client (PutVhostLimits ''v'' ?none)]"
    using 2 by (auto simp: reconcileVhostLimits_def getVhostLimits_def call_limits_def GenerateVhostLimits_def Let_def
        split: if_splits sum.splits)
  with vhost_limits_idempotent [OF limits_world_truthful(1) 1 2] 1 2 show ?thesis by auto
qed

end
