(* ===== verification/Vault_Reader.thy ===== *)
theory Vault_Reader
  imports Reconcile_Utils
begin

text \<open>
  \<open>rabbitmqclient/vault_reader.go\<close>: the credentials read from Vault, the login, the client
  that is created once per process and the loop that renews its token.

  The Vault API client is outside the repository. A read is a call of the environment; the login
  takes the answers of the token file and of the login endpoint as arguments. The message of a
  failed type assertion leaves out the name of the dynamic type.
\<close>

section \<open>Credentials\<close>

definition getValue :: "string \<Rightarrow> json_object \<Rightarrow> go_error + string" where
  "getValue key data =
     (case json_get data key of
        Some (JStr s) \<Rightarrow> Inr s
      | _ \<Rightarrow> Inl (ErrText (''expected '' @ key @ '' to be a string'')))"

text \<open>What \<open>VaultClient.ReadCredentials\<close> makes of the answer of the reader.\<close>

definition credentials_of :: "go_error + vault_secret option \<Rightarrow> go_error + string \<times> string" where
  "credentials_of r =
     (case r of
        Inl err \<Rightarrow> Inl (ErrWrap ''unable to read Vault secret: '' err '''')
      | Inr None \<Rightarrow> Inl (ErrText ''returned Vault secret is nil'')
      | Inr (Some s) \<Rightarrow>
          if vsec_Warnings s \<noteq> [] then Inl (ErrText ''warnings were returned from Vault: '')
          else (case vsec_Data s of
             None \<Rightarrow> Inl (ErrText ''returned Vault secret has a nil Data map'')
           | Some data \<Rightarrow>
               if data = [] then Inl (ErrText ''returned Vault secret has an empty Data map'')
               else (case json_get data ''data'' of
                  None \<Rightarrow> Inl (ErrText ''returned Vault secret has a Data map that contains no value for key 'data'. Available keys are: '')
                | Some JNull \<Rightarrow> Inl (ErrText ''returned Vault secret has a Data map that contains no value for key 'data'. Available keys are: '')
                | Some (JObj d) \<Rightarrow>
                    (case getValue ''username'' d of
                       Inl err \<Rightarrow> Inl (ErrWrap ''unable to get username from Vault secret: '' err '''')
                     | Inr username \<Rightarrow>
                         (case getValue ''password'' d of
                            Inl err \<Rightarrow> Inl (ErrWrap ''unable to get password from Vault secret: '' err '''')
                          | Inr password \<Rightarrow> Inr (username, password)))
                | Some v \<Rightarrow> Inl (ErrText ''data type assertion failed for Vault secret''))))"

definition ReadCredentials :: "string \<Rightarrow> (go_error + string \<times> string) prog" where
  "ReadCredentials path =
     io_bind (io_call (VaultRead path) (\<lambda>n h. vault_read n h path)) (\<lambda>r. io_return (credentials_of r))"

lemma emits_ReadCredentials [emits_intros]: "P (VaultRead path) \<Longrightarrow> emits P (ReadCredentials path)"
  by (simp add: ReadCredentials_def emits_intros)

lemma ReadCredentials_run [simp]:
  "ReadCredentials path n h = (Ret (credentials_of (vault_read n h path)), h @ [VaultRead path])"
  by (simp add: ReadCredentials_def)

lemma getValue_Inr: "getValue key d = Inr s \<longleftrightarrow> json_get d key = Some (JStr s)"
  by (simp add: getValue_def split: option.splits json.splits)

text \<open>The one shape of a secret that gives credentials.\<close>

lemma credentials_of_Inr:
  "credentials_of r = Inr (u, p) \<longleftrightarrow>
     (\<exists>s data d. r = Inr (Some s) \<and> vsec_Warnings s = [] \<and> vsec_Data s = Some data \<and>
        json_get data ''data'' = Some (JObj d) \<and>
        json_get d ''username'' = Some (JStr u) \<and> json_get d ''password'' = Some (JStr p))"
    (is "?L \<longleftrightarrow> ?R")
proof
  show "?L \<Longrightarrow> ?R"
    by (auto simp: credentials_of_def getValue_Inr split: sum.splits option.splits if_splits json.splits)
next
  assume ?R
  then obtain s data d where *: "r = Inr (Some s)" "vsec_Warnings s = []" "vsec_Data s = Some data"
      "json_get data ''data'' = Some (JObj d)" "getValue ''username'' d = Inr u" "getValue ''password'' d = Inr p"
    by (auto simp: getValue_Inr)
  moreover have "data \<noteq> []" using *(4) by (auto simp: json_get_def)
  ultimately show ?L by (simp add: credentials_of_def)
qed


section \<open>Login\<close>

definition defaultAuthPath :: string where
  "defaultAuthPath = ''auth/kubernetes''"

definition defaultVaultRole :: string where
  "defaultVaultRole = ''messaging-topology-operator''"

definition ReadServiceAccountToken :: "(string \<Rightarrow> go_error + string) \<Rightarrow> go_error + string" where
  "ReadServiceAccountToken ReadFile =
     (let path = ''/var/run/secrets/kubernetes.io/serviceaccount/token'' in
      case ReadFile path of
        Inl err \<Rightarrow> Inl (ErrWrap (''unable to read file '' @ path @ '': '') err '''')
      | Inr token \<Rightarrow> Inr token)"

text \<open>The write of the Vault client: a path and the two parameters \<open>jwt\<close> and \<open>role\<close>.\<close>

type_synonym vault_write = "string \<Rightarrow> (string \<rightharpoonup> string) \<Rightarrow> go_error + vault_secret option"

definition LoginToVault :: "vault_write \<Rightarrow> string \<Rightarrow> (string \<rightharpoonup> string) \<Rightarrow> go_error + vault_secret option" where
  "LoginToVault write authPath params = write (authPath @ ''/login'') params"

definition ReadVaultClientSecret :: "vault_write \<Rightarrow> string \<Rightarrow> string \<Rightarrow> string \<Rightarrow> go_error + vault_secret option" where
  "ReadVaultClientSecret write jwtToken vaultRole authPath =
     LoginToVault write authPath [''jwt'' \<mapsto> jwtToken, ''role'' \<mapsto> vaultRole]"

text \<open>The client: the namespace and the token it sends.\<close>

record vault_client =
  vc_Namespace :: "string option"
  vc_Token :: "string option"

text \<open>\<open>SetNamespace\<close>, skipped for an empty name; an environment variable with a default.\<close>

definition set_namespace :: "string \<Rightarrow> vault_client \<Rightarrow> vault_client" where
  "set_namespace ns c = (if ns \<noteq> '''' then c\<lparr>vc_Namespace := Some ns\<rparr> else c)"

definition or_default :: "string \<Rightarrow> string \<Rightarrow> string" where
  "or_default v d = (if v = '''' then d else v)"

definition login ::
  "(string \<Rightarrow> string) \<Rightarrow> (string \<Rightarrow> go_error + string) \<Rightarrow> (vault_client \<Rightarrow> vault_write) \<Rightarrow> vault_client \<Rightarrow>
   vault_client \<times> (go_error + vault_secret)" where
  "login Getenv ReadFile write vaultClient =
     (case ReadServiceAccountToken ReadFile of
        Inl err \<Rightarrow> (vaultClient, Inl (ErrWrap ''unable to read file containing service account token: '' err ''''))
      | Inr jwt \<Rightarrow>
          let client = set_namespace (Getenv ''OPERATOR_VAULT_NAMESPACE'') vaultClient;
              loginAuthPath = or_default (Getenv ''OPERATOR_VAULT_AUTH_PATH'') defaultAuthPath;
              role = or_default (Getenv ''OPERATOR_VAULT_ROLE'') defaultVaultRole
          in case ReadVaultClientSecret (write client) jwt role loginAuthPath of
               Inl err \<Rightarrow> (client, Inl (ErrWrap ''unable to obtain Vault client secret: '' err ''''))
             | Inr None \<Rightarrow> (client, Inl (ErrText ''no client token found in Vault secret''))
             | Inr (Some s) \<Rightarrow>
                 (case vsec_Auth s of
                    None \<Rightarrow> (client, Inl (ErrText ''no client token found in Vault secret''))
                  | Some a \<Rightarrow>
                      if va_ClientToken a = '''' then (client, Inl (ErrText ''no client token found in Vault secret''))
                      else (client\<lparr>vc_Token := Some (va_ClientToken a)\<rparr>, Inr s)))"

text \<open>A login that succeeds has put a non-empty token into the client; one that fails leaves the token alone.\<close>

lemma login_token:
  "case login Getenv ReadFile write c of
     (c', Inr s) \<Rightarrow> (\<exists>a. vsec_Auth s = Some a \<and> va_ClientToken a \<noteq> '''' \<and> vc_Token c' = Some (va_ClientToken a))
   | (c', Inl e) \<Rightarrow> vc_Token c' = vc_Token c"
  by (simp add: login_def Let_def set_namespace_def split: sum.split option.split)


section \<open>The client that is created once\<close>

text \<open>The three package variables.\<close>

record secret_store =
  once_done :: bool
  SecretClient :: bool
  SecretClientCreationError :: "go_error option"

text \<open>
  The answers \<open>InitializeClient\<close> gets: the environment variable, the certificate pool,
  \<open>vault.NewClient\<close> and what \<open>renewToken\<close> sends on the channel after its first login.
\<close>

record vault_init =
  vi_Getenv :: "string \<Rightarrow> string"
  vi_SystemCertPool :: "go_error option"
  vi_NewClient :: "go_error option"
  vi_firstLogin :: "go_error option"

definition InitializeClient :: "vault_init \<Rightarrow> secret_store \<Rightarrow> secret_store" where
  "InitializeClient i s =
     (let vaultURL = vi_Getenv i ''VAULT_ADDR'' in
      if vaultURL = ''''
      then s\<lparr>SecretClientCreationError := Some (ErrText ''VAULT_ADDR environment variable not set; cannot initialize vault client'')\<rparr>
      else case (if strings_HasPrefix vaultURL ''https'' then vi_SystemCertPool i else None) of
        Some err \<Rightarrow> s\<lparr>SecretClientCreationError := Some (ErrWrap ''failed to retrieve system trusted certs: '' err '''')\<rparr>
      | None \<Rightarrow>
          (case vi_NewClient i of
             Some err \<Rightarrow> s\<lparr>SecretClientCreationError := Some (ErrWrap ''unable to initialize Vault client: '' err '''')\<rparr>
           | None \<Rightarrow>
               (case vi_firstLogin i of
                  Some err \<Rightarrow> s\<lparr>SecretClientCreationError := Some (ErrWrap ''unable to login to Vault: '' err '''')\<rparr>
                | None \<Rightarrow> s\<lparr>SecretClient := True\<rparr>)))"

text \<open>\<open>sync.Once\<close> runs the function on the first call only.\<close>

definition GetSecretStoreClient :: "vault_init \<Rightarrow> secret_store \<Rightarrow> secret_store \<times> (bool \<times> go_error option)" where
  "GetSecretStoreClient i s =
     (let s' = (if once_done s then s else (InitializeClient i s)\<lparr>once_done := True\<rparr>) in
      (s', (SecretClient s', SecretClientCreationError s')))"

definition initial_store :: secret_store where
  "initial_store = \<lparr>once_done = False, SecretClient = False, SecretClientCreationError = None\<rparr>"

fun run_GetSecretStoreClient :: "vault_init list \<Rightarrow> secret_store \<Rightarrow> (bool \<times> go_error option) list" where
  "run_GetSecretStoreClient [] s = []"
| "run_GetSecretStoreClient (i # is) s =
     (let (s', r) = GetSecretStoreClient i s in r # run_GetSecretStoreClient is s')"

lemma run_after_once:
  "once_done s \<Longrightarrow> r \<in> set (run_GetSecretStoreClient is s) \<Longrightarrow> r = (SecretClient s, SecretClientCreationError s)"
  by (induction "is" arbitrary: s) (auto simp: GetSecretStoreClient_def)

lemma InitializeClient_exclusive:
  "InitializeClient i initial_store = s' \<Longrightarrow> SecretClient s' \<longleftrightarrow> SecretClientCreationError s' = None"
  by (auto simp: InitializeClient_def initial_store_def Let_def split: option.splits if_splits)


section \<open>The renewal of the token\<close>

text \<open>
  \<open>renewToken\<close> and \<open>manageTokenLifecycle\<close> as a step relation. The state is the place in
  the loop and whether the result of the first login was sent; the label is what the outside
  answers. \<open>Managing t\<close> is the entry of \<open>manageTokenLifecycle\<close> with the login
  response \<open>t\<close>, \<open>Watching\<close> its inner loop.
\<close>

datatype renew_pc = LoggingIn | Managing "vault_secret option" | Watching | Sleeping | Returned

record renew_state =
  rn_pc :: renew_pc
  rn_sent :: bool
  rn_channel :: "go_error option list"

datatype renew_label =
    LoginAnswer "go_error + vault_secret"
  | WatcherAnswer "go_error option"
  | RenewCh
  | DoneCh "go_error option"
  | Tau
  | Slept

inductive renew_step :: "renew_state \<Rightarrow> renew_label \<Rightarrow> renew_state \<Rightarrow> bool" where
  first_login_failed:
    "rn_pc s = LoggingIn \<Longrightarrow> \<not> rn_sent s \<Longrightarrow>
     renew_step s (LoginAnswer (Inl err))
       (s\<lparr>rn_pc := Returned, rn_sent := True, rn_channel := rn_channel s @ [Some err]\<rparr>)"
| first_login:
    "rn_pc s = LoggingIn \<Longrightarrow> \<not> rn_sent s \<Longrightarrow>
     renew_step s (LoginAnswer (Inr t))
       (s\<lparr>rn_pc := Managing (Some t), rn_sent := True, rn_channel := rn_channel s @ [None]\<rparr>)"
| later_login_failed:
    "rn_pc s = LoggingIn \<Longrightarrow> rn_sent s \<Longrightarrow>
     renew_step s (LoginAnswer (Inl err)) (s\<lparr>rn_pc := Managing None\<rparr>)"
| later_login:
    "rn_pc s = LoggingIn \<Longrightarrow> rn_sent s \<Longrightarrow>
     renew_step s (LoginAnswer (Inr t)) (s\<lparr>rn_pc := Managing (Some t)\<rparr>)"
| not_renewable:
    "rn_pc s = Managing t \<Longrightarrow> (case t of None \<Rightarrow> True | Some v \<Rightarrow>
       (case vsec_Auth v of None \<Rightarrow> True | Some a \<Rightarrow> \<not> va_Renewable a)) \<Longrightarrow>
     renew_step s Tau (s\<lparr>rn_pc := Sleeping\<rparr>)"
| watcher_failed:
    "rn_pc s = Managing (Some v) \<Longrightarrow> vsec_Auth v = Some a \<Longrightarrow> va_Renewable a \<Longrightarrow>
     renew_step s (WatcherAnswer (Some err)) (s\<lparr>rn_pc := Sleeping\<rparr>)"
| watcher_started:
    "rn_pc s = Managing (Some v) \<Longrightarrow> vsec_Auth v = Some a \<Longrightarrow> va_Renewable a \<Longrightarrow>
     renew_step s (WatcherAnswer None) (s\<lparr>rn_pc := Watching\<rparr>)"
| renewed:
    "rn_pc s = Watching \<Longrightarrow> renew_step s RenewCh s"
| no_longer_renewed:
    "rn_pc s = Watching \<Longrightarrow> renew_step s (DoneCh err) (s\<lparr>rn_pc := Sleeping\<rparr>)"
| slept:
    "rn_pc s = Sleeping \<Longrightarrow> renew_step s Slept (s\<lparr>rn_pc := LoggingIn\<rparr>)"

inductive_cases renew_step_cases: "renew_step s l s'"

inductive renew_run :: "renew_state \<Rightarrow> renew_label list \<Rightarrow> renew_state \<Rightarrow> bool" where
  run_nil: "renew_run s [] s"
| run_step: "renew_run s ls s' \<Longrightarrow> renew_step s' l s'' \<Longrightarrow> renew_run s (ls @ [l]) s''"

definition renew_init :: renew_state where
  "renew_init = \<lparr>rn_pc = LoggingIn, rn_sent = False, rn_channel = []\<rparr>"

text \<open>
  The invariant: nothing was sent before the first login; afterwards exactly one message is on
  the channel, and the goroutine has returned exactly when that message is an error.
\<close>

definition renew_inv :: "renew_state \<Rightarrow> bool" where
  "renew_inv s \<longleftrightarrow>
     (if rn_sent s then (\<exists>m. rn_channel s = [m] \<and> (m \<noteq> None \<longleftrightarrow> rn_pc s = Returned))
      else rn_channel s = [] \<and> rn_pc s = LoggingIn)"

lemma renew_inv_init: "renew_inv renew_init"
  by (simp add: renew_inv_def renew_init_def)

lemma renew_inv_step: "renew_step s l s' \<Longrightarrow> renew_inv s \<Longrightarrow> renew_inv s'"
  by (induction rule: renew_step.induct) (auto simp: renew_inv_def split: if_splits)

lemma renew_inv_run: "renew_run s ls s' \<Longrightarrow> renew_inv s \<Longrightarrow> renew_inv s'"
  by (induction rule: renew_run.induct) (auto intro: renew_inv_step)

text \<open>Only the return stops the loop.\<close>

lemma renew_step_progress: "rn_pc s \<noteq> Returned \<Longrightarrow> \<exists>l s'. renew_step s l s'"
proof (cases "rn_pc s")
  case LoggingIn
  then show ?thesis by (cases "rn_sent s") (blast intro: first_login later_login)+
next
  case (Managing t)
  show ?thesis
  proof (cases "case t of None \<Rightarrow> True | Some v \<Rightarrow>
       (case vsec_Auth v of None \<Rightarrow> True | Some a \<Rightarrow> \<not> va_Renewable a)")
    case True
    with Managing show ?thesis by (blast intro: not_renewable)
  next
    case False
    with Managing show ?thesis by (auto split: option.splits intro: watcher_started)
  qed
qed (auto intro: renewed slept)


section \<open>Properties\<close>

text \<open>
  Credentials come from exactly one shape of Vault secret: without warnings, with an object
  under the key data that has two texts, username and password. Everything else is an error.
\<close>

theorem vault_credentials_shape:
  "fst (ReadCredentials path n h) = Ret (Inr (u, p)) \<longleftrightarrow>
     (\<exists>s data d. vault_read n h path = Inr (Some s) \<and> vsec_Warnings s = [] \<and> vsec_Data s = Some data \<and>
        json_get data ''data'' = Some (JObj d) \<and>
        json_get d ''username'' = Some (JStr u) \<and> json_get d ''password'' = Some (JStr p))"
  by (simp add: ReadCredentials_def credentials_of_Inr)

text \<open>
  C38. The client of the secret store is created once: all calls of \<open>GetSecretStoreClient\<close> in the
  life of the process get the result of the first one, whatever the environment has become, and a
  client comes without an error, an error without a client.
\<close>

theorem vault_client_created_once:
  "\<exists>ok err. set (run_GetSecretStoreClient (i # is) initial_store) = {(ok, err)} \<and>
     snd (GetSecretStoreClient i initial_store) = (ok, err) \<and> (ok \<longleftrightarrow> err = None)"
proof -
  let ?s = "(InitializeClient i initial_store)\<lparr>once_done := True\<rparr>"
  have first: "GetSecretStoreClient i initial_store = (?s, (SecretClient ?s, SecretClientCreationError ?s))"
    by (simp add: GetSecretStoreClient_def initial_store_def Let_def)
  have "set (run_GetSecretStoreClient is ?s) \<subseteq> {(SecretClient ?s, SecretClientCreationError ?s)}"
    using run_after_once [of ?s] by auto
  then show ?thesis
    using first InitializeClient_exclusive [of i] by auto
qed



text \<open>
  A login that succeeds has put the non-empty token of the answer into the client; one that
  fails leaves the token of the client as it was.
\<close>

theorem login_sets_token:
  "case login Getenv ReadFile write c of
     (c', Inr s) \<Rightarrow> (\<exists>a. vsec_Auth s = Some a \<and> va_ClientToken a \<noteq> '''' \<and> vc_Token c' = Some (va_ClientToken a))
   | (c', Inl e) \<Rightarrow> vc_Token c' = vc_Token c"
  by (rule login_token)

end
