(* ===== verification/Resource_Controllers.thy ===== *)
theory Resource_Controllers
  imports Vault_Reader Sample_World
begin

text \<open>
  The \<open>DeclareFunc\<close> and \<open>DeleteFunc\<close> of the controllers for bindings, exchanges,
  queues, policies, operator policies, federation upstreams, shovels, schema replication,
  permissions and topic permissions (\<open>internal/controller/*_controller.go\<close>).

  The first argument is the client of the broker. The functions of the two permission
  controllers change the object they are given and return it.
\<close>

section \<open>Bindings\<close>

definition Binding_DeclareFunc :: "rabbit_client \<Rightarrow> Binding \<Rightarrow> (go_error + unit) prog" where
  "Binding_DeclareFunc c binding =
     (case GenerateBindingInfo binding of
        Inl err \<Rightarrow> io_return (Inl (ErrWrap ''failed to generate binding info: '' err ''''))
      | Inr info \<Rightarrow> send c (DeclareBinding (b_Vhost (obj_Spec binding)) info))"

text \<open>The loop over the listed bindings keeps the last match.\<close>

definition last_match :: "string \<Rightarrow> json_object option \<Rightarrow> BindingInfo list \<Rightarrow> BindingInfo option" where
  "last_match routingKey arguments bindingInfos =
     foldl (\<lambda>info b. if routingKey = bi_RoutingKey b \<and> bi_Arguments b = arguments then Some b else info)
       None bindingInfos"

definition findBindingInfo :: "rabbit_client \<Rightarrow> Binding \<Rightarrow> (go_error + BindingInfo option) prog" where
  "findBindingInfo c binding =
     (let spec = obj_Spec binding in
      case unmarshal_arguments '''' (b_Arguments spec) of
        Inl err \<Rightarrow> io_return (Inl err)
      | Inr arguments \<Rightarrow>
          io_try
            (call_bindings c
              (if b_DestinationType spec = ''queue''
               then ListQueueBindingsBetween (b_Vhost spec) (b_Source spec) (b_Destination spec)
               else ListExchangeBindingsBetween (b_Vhost spec) (b_Source spec) (b_Destination spec)))
            (\<lambda>bindingInfos. io_return (Inr (last_match (b_RoutingKey spec) arguments bindingInfos))))"

definition Binding_DeleteFunc :: "rabbit_client \<Rightarrow> Binding \<Rightarrow> (go_error + unit) prog" where
  "Binding_DeleteFunc c binding =
     (if b_Arguments (obj_Spec binding) \<noteq> None
      then io_try (findBindingInfo c binding)
        (\<lambda>info. case info of
           None \<Rightarrow> io_return (Inr ())
         | Some i \<Rightarrow> send_removal c (DeleteBinding (b_Vhost (obj_Spec binding)) i))
      else
        (case GenerateBindingInfo binding of
           Inl err \<Rightarrow> io_return (Inl (ErrWrap ''failed to generate binding info: '' err ''''))
         | Inr info \<Rightarrow>
             send_removal c (DeleteBinding (b_Vhost (obj_Spec binding))
               (info\<lparr>bi_PropertiesKey := GeneratePropertiesKey binding\<rparr>))))"


section \<open>Exchanges\<close>

definition Exchange_DeclareFunc :: "rabbit_client \<Rightarrow> Exchange \<Rightarrow> (go_error + unit) prog" where
  "Exchange_DeclareFunc c exchange =
     (case GenerateExchangeSettings exchange of
        Inl err \<Rightarrow> io_return (Inl (ErrWrap ''failed to generate exchange settings: '' err ''''))
      | Inr settings \<Rightarrow>
          send c (DeclareExchange (ex_Vhost (obj_Spec exchange)) (ex_Name (obj_Spec exchange)) settings))"

definition Exchange_DeleteFunc :: "rabbit_client \<Rightarrow> Exchange \<Rightarrow> (go_error + unit) prog" where
  "Exchange_DeleteFunc c exchange =
     send_removal c (DeleteExchange (ex_Vhost (obj_Spec exchange)) (ex_Name (obj_Spec exchange)))"


section \<open>Queues\<close>

definition Queue_DeclareFunc :: "rabbit_client \<Rightarrow> Queue \<Rightarrow> (go_error + unit) prog" where
  "Queue_DeclareFunc c queue =
     (case GenerateQueueSettings queue of
        Inl err \<Rightarrow> io_return (Inl (ErrWrap ''failed to generate queue settings: '' err ''''))
      | Inr queueSettings \<Rightarrow>
          send c (DeclareQueue (q_Vhost (obj_Spec queue)) (q_Name (obj_Spec queue)) queueSettings))"

text \<open>The check that stands in for the delete options, which quorum queues do not support.\<close>

definition quorum_check :: "rabbit_client \<Rightarrow> Queue \<Rightarrow> (go_error + unit) prog" where
  "quorum_check c queue =
     (let spec = obj_Spec queue in
      if q_Type spec = ''quorum'' \<and> (q_DeleteIfEmpty spec \<or> q_DeleteIfUnused spec)
      then io_bind (call_GetQueue c (q_Vhost spec) (q_Name spec))
        (\<lambda>r. io_return (case r of
           Inl err \<Rightarrow> Inl (ErrWrap ''cannot get '' err ('' queue information to verify queue is empty/unused: '' @ q_Name spec))
         | Inr qInfo \<Rightarrow>
             if qi_Messages qInfo > 0 \<and> q_DeleteIfEmpty spec
             then Inl (ErrText (''cannot delete queue '' @ q_Name spec @ '' because it has ready messages''))
             else if qi_Consumers qInfo > 0 \<and> q_DeleteIfUnused spec
             then Inl (ErrText (''cannot delete queue '' @ q_Name spec @ '' because queue has consumers''))
             else Inr ()))
      else io_return (Inr ()))"

definition Queue_DeleteFunc :: "rabbit_client \<Rightarrow> Queue \<Rightarrow> (go_error + unit) prog" where
  "Queue_DeleteFunc c queue =
     (if shouldSkipDeletion (q_DeletionPolicy (obj_Spec queue)) then io_return (Inr ())
      else io_try (quorum_check c queue)
        (\<lambda>u. send_removal c (DeleteQueue (q_Vhost (obj_Spec queue)) (q_Name (obj_Spec queue))
                (GenerateQueueDeleteOptions queue))))"


section \<open>Policies\<close>

definition Policy_DeclareFunc :: "rabbit_client \<Rightarrow> Policy \<Rightarrow> (go_error + unit) prog" where
  "Policy_DeclareFunc c policy =
     (case GeneratePolicy policy of
        Panicked s \<Rightarrow> io_panic s
      | Ret (Inl err) \<Rightarrow> io_return (Inl (ErrWrap ''failed to generate Policy: '' err ''''))
      | Ret (Inr generatePolicy) \<Rightarrow>
          send c (PutPolicy (pol_Vhost (obj_Spec policy)) (pol_Name (obj_Spec policy)) generatePolicy))"

definition Policy_DeleteFunc :: "rabbit_client \<Rightarrow> Policy \<Rightarrow> (go_error + unit) prog" where
  "Policy_DeleteFunc c policy =
     send_removal c (DeletePolicy (pol_Vhost (obj_Spec policy)) (pol_Name (obj_Spec policy)))"

definition OperatorPolicy_DeclareFunc :: "rabbit_client \<Rightarrow> OperatorPolicy \<Rightarrow> (go_error + unit) prog" where
  "OperatorPolicy_DeclareFunc c policy =
     (case GenerateOperatorPolicy policy of
        Panicked s \<Rightarrow> io_panic s
      | Ret (Inl err) \<Rightarrow> io_return (Inl (ErrWrap ''failed to generate OperatorPolicy: '' err ''''))
      | Ret (Inr generateOperatorPolicy) \<Rightarrow>
          send c (PutOperatorPolicy (op_Vhost (obj_Spec policy)) (op_Name (obj_Spec policy)) generateOperatorPolicy))"

definition OperatorPolicy_DeleteFunc :: "rabbit_client \<Rightarrow> OperatorPolicy \<Rightarrow> (go_error + unit) prog" where
  "OperatorPolicy_DeleteFunc c policy =
     send_removal c (DeleteOperatorPolicy (op_Vhost (obj_Spec policy)) (op_Name (obj_Spec policy)))"


section \<open>Federation upstreams and shovels\<close>

definition Federation_getUri :: "Federation \<Rightarrow> (go_error + string) prog" where
  "Federation_getUri federation =
     (case f_UriSecret (obj_Spec federation) of
        None \<Rightarrow> io_return (Inl (ErrText ''no uri secret provided''))
      | Some name \<Rightarrow>
          io_try (call_secret (om_Namespace (obj_Meta federation)) name)
            (\<lambda>s. io_return (case sec_Data s ''uri'' of
               None \<Rightarrow> Inl (ErrText (''could not find key 'uri' in secret '' @ om_Name (sec_Meta s)))
             | Some uri \<Rightarrow> Inr uri)))"

text \<open>The error path reads \<open>UriSecret.Name\<close> also when the secret reference is nil.\<close>

definition Federation_DeclareFunc :: "rabbit_client \<Rightarrow> Federation \<Rightarrow> (go_error + unit) prog" where
  "Federation_DeclareFunc c federation =
     io_bind (Federation_getUri federation)
       (\<lambda>r. case r of
          Inl err \<Rightarrow>
            (case f_UriSecret (obj_Spec federation) of
               None \<Rightarrow> io_panic ''nil pointer dereference: Spec.UriSecret''
             | Some name \<Rightarrow> io_return (Inl (ErrWrap
                 (''failed to parse federation uri secret; secret name: '' @ name @ '', error: '') err '''')))
        | Inr uri \<Rightarrow>
            send c (PutFederationUpstream (f_Vhost (obj_Spec federation)) (f_Name (obj_Spec federation))
              (GenerateFederationDefinition federation uri)))"

definition Federation_DeleteFunc :: "rabbit_client \<Rightarrow> Federation \<Rightarrow> (go_error + unit) prog" where
  "Federation_DeleteFunc c federation =
     (if shouldSkipDeletion (f_DeletionPolicy (obj_Spec federation)) then io_return (Inr ())
      else send_removal c (DeleteFederationUpstream (f_Vhost (obj_Spec federation)) (f_Name (obj_Spec federation))))"

definition Shovel_getUris :: "Shovel \<Rightarrow> (go_error + string \<times> string) prog" where
  "Shovel_getUris shovel =
     (case s_UriSecret (obj_Spec shovel) of
        None \<Rightarrow> io_return (Inl (ErrText ''no uri secret provided''))
      | Some name \<Rightarrow>
          io_try (call_secret (om_Namespace (obj_Meta shovel)) name)
            (\<lambda>s. io_return (case sec_Data s ''srcUri'' of
               None \<Rightarrow> Inl (ErrText (''could not find key 'srcUri' in secret '' @ om_Name (sec_Meta s)))
             | Some srcUri \<Rightarrow>
                 (case sec_Data s ''destUri'' of
                    None \<Rightarrow> Inl (ErrText (''could not find key 'destUri' in secret '' @ om_Name (sec_Meta s)))
                  | Some destUri \<Rightarrow> Inr (srcUri, destUri)))))"

definition Shovel_DeclareFunc :: "rabbit_client \<Rightarrow> Shovel \<Rightarrow> (go_error + unit) prog" where
  "Shovel_DeclareFunc c shovel =
     io_bind (Shovel_getUris shovel)
       (\<lambda>r. case r of
          Inl err \<Rightarrow>
            (case s_UriSecret (obj_Spec shovel) of
               None \<Rightarrow> io_panic ''nil pointer dereference: Spec.UriSecret''
             | Some name \<Rightarrow> io_return (Inl (ErrWrap
                 (''failed to parse shovel uri secret; secret name: '' @ name @ '', error: '') err '''')))
        | Inr (srcUri, destUri) \<Rightarrow>
            (case GenerateShovelDefinition shovel srcUri destUri of
               Inl err \<Rightarrow> io_return (Inl (ErrWrap ''failed to generate shovel definition: '' err ''''))
             | Inr definition' \<Rightarrow>
                 send c (DeclareShovel (s_Vhost (obj_Spec shovel)) (s_Name (obj_Spec shovel)) definition')))"

definition Shovel_DeleteFunc :: "rabbit_client \<Rightarrow> Shovel \<Rightarrow> (go_error + unit) prog" where
  "Shovel_DeleteFunc c shovel =
     (if shouldSkipDeletion (s_DeletionPolicy (obj_Spec shovel)) then io_return (Inr ())
      else send_removal c (DeleteShovel (s_Vhost (obj_Spec shovel)) (s_Name (obj_Spec shovel))))"


section \<open>Schema replication\<close>

definition SchemaReplicationParameterName :: string where
  "SchemaReplicationParameterName = ''schema_definition_sync_upstream''"

text \<open>The secret that stands for the credentials read from Vault; its metadata is empty.\<close>

definition empty_meta :: object_meta where
  "empty_meta = \<lparr>om_Name = '''', om_Namespace = '''', om_Generation = 0, om_DeletionTimestamp = None,
     om_Finalizers = [], om_Labels = Map.empty, om_Annotations = Map.empty, om_OwnerReferences = []\<rparr>"

definition getUpstreamEndpoints :: "SchemaReplication \<Rightarrow> (go_error + UpstreamEndpoints) prog" where
  "getUpstreamEndpoints replication =
     (let spec = obj_Spec replication in
      io_try
        (case sb_Vault (sr_SecretBackend spec) of
           Some v \<Rightarrow>
             if v_SecretPath v \<noteq> ''''
             then io_bind (io_ask secret_store_error)
               (\<lambda>e. case e of
                  Some err \<Rightarrow> io_return (Inl (ErrWrap ''unable to create a vault client connection to secret store: '' err ''''))
                | None \<Rightarrow>
                    io_bind (ReadCredentials (v_SecretPath v))
                      (\<lambda>r. io_return (case r of
                         Inl err \<Rightarrow> Inl (ErrWrap ''unable to retrieve credentials from secret store: '' err '''')
                       | Inr (user, pass) \<Rightarrow>
                           Inr \<lparr>sec_Meta = empty_meta,
                                sec_Data = [''username'' \<mapsto> user, ''password'' \<mapsto> pass], sec_Type = ''''\<rparr>)))
             else (case sr_UpstreamSecret spec of
                None \<Rightarrow> io_return (Inl (ErrText ''no upstream secret or secretBackend provided''))
              | Some name \<Rightarrow> call_secret (om_Namespace (obj_Meta replication)) name)
         | None \<Rightarrow>
             (case sr_UpstreamSecret spec of
                None \<Rightarrow> io_return (Inl (ErrText ''no upstream secret or secretBackend provided''))
              | Some name \<Rightarrow> call_secret (om_Namespace (obj_Meta replication)) name))
        (\<lambda>s. io_return (GenerateSchemaReplicationParameters s (sr_Endpoints spec))))"

definition SchemaReplication_DeclareFunc :: "rabbit_client \<Rightarrow> SchemaReplication \<Rightarrow> (go_error + unit) prog" where
  "SchemaReplication_DeclareFunc c replication =
     io_bind (getUpstreamEndpoints replication)
       (\<lambda>r. case r of
          Inl err \<Rightarrow> io_return (Inl (ErrWrap ''failed to generate upstream endpoints: '' err ''''))
        | Inr endpoints \<Rightarrow> send c (PutGlobalParameter SchemaReplicationParameterName endpoints))"

definition SchemaReplication_DeleteFunc :: "rabbit_client \<Rightarrow> (go_error + unit) prog" where
  "SchemaReplication_DeleteFunc c = send_removal c (DeleteGlobalParameter SchemaReplicationParameterName)"


section \<open>Permissions\<close>

text \<open>
  The variable \<open>user\<close> of the Go code: the zero value it starts with, nil after a lookup that
  found nothing, or the object found.
\<close>

datatype user_pointer = ZeroUser | NilUser | FoundUser User

definition decode_User :: "go_error + tobj \<Rightarrow> go_error + User" where
  "decode_User r = err_bind r (\<lambda>x. case x of OUser u \<Rightarrow> Inr u | _ \<Rightarrow> Inl (LibraryError ''cannot decode into the given type''))"

definition getUsernameFromUser :: "string \<Rightarrow> string \<Rightarrow> (go_error + user_pointer) prog" where
  "getUsernameFromUser namespace name =
     io_bind (io_call (KubeGet KUser namespace name) (\<lambda>n h. decode_User (kube_get n h KUser namespace name)))
       (\<lambda>r. io_return (case r of
          Inl err \<Rightarrow> if IsNotFound err then Inr NilUser else Inl err
        | Inr user \<Rightarrow> Inr (FoundUser user)))"

definition pointed_user :: "LocalObjectReference option \<Rightarrow> string \<Rightarrow> (go_error + user_pointer) prog" where
  "pointed_user ref namespace =
     (case ref of None \<Rightarrow> io_return (Inr ZeroUser) | Some name \<Rightarrow> getUsernameFromUser namespace name)"

definition effective_username :: "string \<Rightarrow> user_pointer \<Rightarrow> string" where
  "effective_username specUser user =
     (case user of FoundUser u \<Rightarrow> us_Username (obj_Status u) | _ \<Rightarrow> specUser)"

text \<open>
  \<open>SetControllerReference(user, permission)\<close> followed by the update, when \<open>user.Name\<close>
  is not empty. The nil pointer panics.
\<close>

definition adopt_permission :: "user_pointer \<Rightarrow> tobj \<Rightarrow> (tobj \<times> (go_error + unit)) prog" where
  "adopt_permission user permission =
     (case user of
        NilUser \<Rightarrow> io_panic ''nil pointer dereference: user.Name''
      | ZeroUser \<Rightarrow> io_return (permission, Inr ())
      | FoundUser u \<Rightarrow>
          if om_Name (obj_Meta u) \<noteq> ''''
          then io_bind (io_ask (\<lambda>n h. SetControllerReference n (''User'', om_Name (obj_Meta u)) (tobj_Meta permission)))
            (\<lambda>r. case r of
               Inl err \<Rightarrow> io_return (permission, Inl (ErrText (''failed set controller reference: '' @ err_Error err)))
             | Inr m \<Rightarrow>
                 let permission' = map_Meta (\<lambda>_. m) permission in
                 io_bind (call_update permission')
                   (\<lambda>r. io_return (case r of
                      Inl err \<Rightarrow> (permission', Inl (ErrWrap ''failed to Update object with controller reference: '' err ''''))
                    | Inr new \<Rightarrow> (new, Inr ()))))
          else io_return (permission, Inr ()))"

text \<open>The last call of both declare functions.\<close>

fun permission_update :: "string \<Rightarrow> tobj \<Rightarrow> broker_call option" where
  "permission_update username (OPermission p) =
     Some (UpdatePermissionsIn (p_Vhost (obj_Spec p)) username (GeneratePermissions p))"
| "permission_update username (OTopicPermission p) =
     Some (UpdateTopicPermissionsIn (tp_Vhost (obj_Spec p)) username (GenerateTopicPermissions p))"
| "permission_update username _ = None"

definition send_permission :: "rabbit_client \<Rightarrow> string \<Rightarrow> tobj \<Rightarrow> (go_error + unit) prog" where
  "send_permission c username x =
     (case permission_update username x of Some q \<Rightarrow> send c q | None \<Rightarrow> io_panic ''interface conversion'')"

definition Permission_DeclareFunc :: "rabbit_client \<Rightarrow> Permission \<Rightarrow> (tobj \<times> (go_error + unit)) prog" where
  "Permission_DeclareFunc c permission =
     (let spec = obj_Spec permission in
      io_bind (pointed_user (p_UserReference spec) (om_Namespace (obj_Meta permission)))
        (\<lambda>r. case r of
           Inl err \<Rightarrow> io_return (OPermission permission, Inl err)
         | Inr user \<Rightarrow>
             let username = effective_username (p_User spec) user in
             if username = '''' then io_return (OPermission permission, Inl (ErrText ''failed create Permission, missing User''))
             else io_then (adopt_permission user (OPermission permission))
               (\<lambda>x. io_keep x (send_permission c username x))))"

definition TopicPermission_DeclareFunc :: "rabbit_client \<Rightarrow> TopicPermission \<Rightarrow> (tobj \<times> (go_error + unit)) prog" where
  "TopicPermission_DeclareFunc c permission =
     (let spec = obj_Spec permission in
      io_bind (pointed_user (tp_UserReference spec) (om_Namespace (obj_Meta permission)))
        (\<lambda>r. case r of
           Inl err \<Rightarrow> io_return (OTopicPermission permission, Inl err)
         | Inr user \<Rightarrow>
             let username = effective_username (tp_User spec) user in
             if username = '''' then io_return (OTopicPermission permission, Inl (ErrText ''failed create Permission, missing User''))
             else io_then (adopt_permission user (OTopicPermission permission))
               (\<lambda>x. io_keep x (send_permission c username x))))"

definition revokePermissions :: "rabbit_client \<Rightarrow> Permission \<Rightarrow> string \<Rightarrow> (go_error + unit) prog" where
  "revokePermissions c permission user =
     send_removal c (ClearPermissionsIn (p_Vhost (obj_Spec permission)) user)"

definition clearTopicPermission :: "rabbit_client \<Rightarrow> TopicPermission \<Rightarrow> string \<Rightarrow> (go_error + unit) prog" where
  "clearTopicPermission c permission user =
     send_removal c (DeleteTopicPermissionsIn (tp_Vhost (obj_Spec permission)) user
       (tpc_Exchange (tp_Permissions (obj_Spec permission))))"

definition Permission_DeleteFunc :: "rabbit_client \<Rightarrow> Permission \<Rightarrow> (tobj \<times> (go_error + unit)) prog" where
  "Permission_DeleteFunc c permission =
     (let spec = obj_Spec permission in
      io_bind (pointed_user (p_UserReference spec) (om_Namespace (obj_Meta permission)))
        (\<lambda>r. case r of
           Inl err \<Rightarrow> io_return (OPermission permission, Inl err)
         | Inr user \<Rightarrow>
             let username = effective_username (p_User spec) user in
             io_then
               (io_keep (OPermission permission)
                 (if username = '''' then io_return (Inr ()) else revokePermissions c permission username))
               removeFinalizer))"

definition TopicPermission_DeleteFunc :: "rabbit_client \<Rightarrow> TopicPermission \<Rightarrow> (tobj \<times> (go_error + unit)) prog" where
  "TopicPermission_DeleteFunc c permission =
     (let spec = obj_Spec permission in
      io_bind (pointed_user (tp_UserReference spec) (om_Namespace (obj_Meta permission)))
        (\<lambda>r. case r of
           Inl err \<Rightarrow> io_return (OTopicPermission permission, Inl err)
         | Inr user \<Rightarrow>
             let username = effective_username (tp_User spec) user in
             io_then
               (io_keep (OTopicPermission permission)
                 (if username = '''' then io_return (Inr ()) else clearTopicPermission c permission username))
               removeFinalizer))"


section \<open>Properties\<close>

text \<open>
  C23. A removal succeeds exactly when the broker acknowledges it: the answer is 404, whatever error
  comes with it, or a code below 300 without an error. In every other case the caller gets an error.
\<close>

theorem removal_succeeds_iff_acknowledged:
  assumes "foreign_errors n"
  shows "fst (send_removal c q n h) = Ret (Inr ()) \<longleftrightarrow>
    (\<exists>res err. broker_http n h c q = (Some res, err) \<and>
       (res_StatusCode res = 404 \<or> err = None \<and> res_StatusCode res < 300))"
  using removal_acknowledged_iff [OF assms, of h c q]
  by (cases "broker_http n h c q") (auto simp: removal_acknowledged_def)

theorem removal_succeeds_iff_acknowledged_witness:
  "foreign_errors sample_env \<and> fst (send_removal sample_client (DeleteVhost ''v'') sample_env []) = Ret (Inr ())"
  using removal_succeeds_iff_acknowledged [OF lawfulD(4) [OF lawful_sample(1)], of sample_client "DeleteVhost ''v''" "[]"]
    lawfulD(4) [OF lawful_sample(1)]
  by simp

lemma last_match_Some:
  "last_match k a xs = Some b \<Longrightarrow> b \<in> set xs \<and> bi_RoutingKey b = k \<and> bi_Arguments b = a"
  by (induction xs rule: rev_induct) (auto simp: last_match_def split: if_splits)

text \<open>
  C21. A quorum queue with \<open>deleteIfEmpty\<close> or \<open>deleteIfUnused\<close> is deleted only right after the
  broker has answered that it has no messages, or no consumers: the check that the delete options
  cannot make for this type.
\<close>

theorem quorum_queue_deletion_checked:
  assumes "q_Type (obj_Spec q) = ''quorum''" and "q_DeleteIfEmpty (obj_Spec q) \<or> q_DeleteIfUnused (obj_Spec q)"
    and "Queue_DeleteFunc c q n h = (res, h @ es)" and "Broker c (DeleteQueue v nm opts) \<in> set es"
  shows "\<exists>info es'. es = Broker c (GetQueue (q_Vhost (obj_Spec q)) (q_Name (obj_Spec q))) # es' \<and>
    broker_queue n h c (GetQueue (q_Vhost (obj_Spec q)) (q_Name (obj_Spec q))) = Inr info \<and>
    (q_DeleteIfEmpty (obj_Spec q) \<longrightarrow> qi_Messages info \<le> 0) \<and>
    (q_DeleteIfUnused (obj_Spec q) \<longrightarrow> qi_Consumers info \<le> 0)"
  using assms
  by (auto simp: Queue_DeleteFunc_def quorum_check_def Let_def call_GetQueue_def
      split: if_splits sum.splits)

definition idle_queue :: Queue where
  "idle_queue =
     \<lparr>obj_Group = ''rabbitmq.com'', obj_Kind = ''Queue'', obj_Meta = sample_meta ''q'',
      obj_Spec = \<lparr>q_Name = ''q'', q_Vhost = ''/'', q_Type = ''quorum'', q_Durable = Some True, q_AutoDelete = False,
                  q_DeleteIfEmpty = True, q_DeleteIfUnused = True, q_Arguments = None,
                  q_RabbitmqClusterReference = sample_ref, q_DeletionPolicy = ''delete''\<rparr>,
      obj_Status = sample_status\<rparr>"

theorem quorum_queue_deletion_checked_witness:
  "\<exists>res es opts info. Queue_DeleteFunc sample_client idle_queue sample_env [] = (res, es) \<and>
     Broker sample_client (DeleteQueue ''/'' ''q'' opts) \<in> set es \<and>
     broker_queue sample_env [] sample_client (GetQueue ''/'' ''q'') = Inr info \<and>
     qi_Messages info \<le> 0 \<and> qi_Consumers info \<le> 0"
proof -
  let ?r = "Queue_DeleteFunc sample_client idle_queue sample_env []" and ?o = "GenerateQueueDeleteOptions idle_queue"
  have run: "?r = (fst ?r, [] @ snd ?r)" by simp
  have "Broker sample_client (DeleteQueue ''/'' ''q'' ?o) \<in> set (snd ?r)"
    by (simp add: Queue_DeleteFunc_def quorum_check_def shouldSkipDeletion_def idle_queue_def call_GetQueue_def
        send_removal_def call_http_def Let_def)
  with quorum_queue_deletion_checked [OF _ _ run, of "''/''" "''q''" ?o] show ?thesis
    by (intro exI [of _ "fst ?r"] exI [of _ "snd ?r"] exI [of _ ?o]) (auto simp: idle_queue_def)
qed

text \<open>
  C22. For a binding with arguments, the only binding that is deleted is one that the broker lists
  between the same source and destination, with the routing key and the decoded arguments of the
  spec.
\<close>

theorem binding_deletion_matches:
  assumes "b_Arguments (obj_Spec b) = Some raw"
    and "Binding_DeleteFunc c b n h = (res, h @ es)" and "Broker c (DeleteBinding v i) \<in> set es"
  shows "v = b_Vhost (obj_Spec b) \<and> bi_RoutingKey i = b_RoutingKey (obj_Spec b) \<and>
    json_Unmarshal raw = Some (bi_Arguments i) \<and>
    (\<exists>infos. i \<in> set infos \<and>
       broker_bindings n h c
         (if b_DestinationType (obj_Spec b) = ''queue''
          then ListQueueBindingsBetween (b_Vhost (obj_Spec b)) (b_Source (obj_Spec b)) (b_Destination (obj_Spec b))
          else ListExchangeBindingsBetween (b_Vhost (obj_Spec b)) (b_Source (obj_Spec b)) (b_Destination (obj_Spec b)))
       = Inr infos)"
  using assms
  by (auto simp: Binding_DeleteFunc_def findBindingInfo_def Let_def unmarshal_arguments_def call_bindings_def
      split: if_splits sum.splits option.splits dest: last_match_Some)

definition argument_binding :: Binding where
  "argument_binding =
     (key_binding ''k'')\<lparr>obj_Spec := (obj_Spec (key_binding ''k''))\<lparr>b_Arguments := Some ''{}''\<rparr>\<rparr>"

definition listed_binding :: BindingInfo where
  "listed_binding =
     \<lparr>bi_Vhost = ''/'', bi_Source = ''s'', bi_Destination = ''d'', bi_DestinationType = ''queue'',
      bi_RoutingKey = ''k'', bi_PropertiesKey = ''k~1'', bi_Arguments = Some []\<rparr>"

lemma empty_object_decoded: "json_Unmarshal ''{}'' = Some (Some [])"
  by code_simp

theorem binding_deletion_matches_witness:
  "\<exists>res es. Binding_DeleteFunc sample_client argument_binding
       (sample_env\<lparr>broker_bindings := \<lambda>h c q. Inr [listed_binding]\<rparr>) [] = (res, es) \<and>
     Broker sample_client (DeleteBinding ''/'' listed_binding) \<in> set es \<and>
     bi_RoutingKey listed_binding = b_RoutingKey (obj_Spec argument_binding)"
proof -
  let ?n = "sample_env\<lparr>broker_bindings := \<lambda>h c q. Inr [listed_binding]\<rparr>"
  let ?r = "Binding_DeleteFunc sample_client argument_binding ?n []"
  have run: "?r = (fst ?r, [] @ snd ?r)" by simp
  have "Broker sample_client (DeleteBinding ''/'' listed_binding) \<in> set (snd ?r)"
    by (simp add: Binding_DeleteFunc_def findBindingInfo_def unmarshal_arguments_def argument_binding_def
        key_binding_def empty_object_decoded call_bindings_def last_match_def listed_binding_def send_removal_def
        call_http_def Let_def)
  with binding_deletion_matches [OF _ run, of "''{}''" "''/''" listed_binding] show ?thesis
    by (intro exI [of _ "fst ?r"] exI [of _ "snd ?r"]) (simp add: argument_binding_def)
qed

end
