(* ===== verification/User_Controller.thy ===== *)
theory User_Controller
  imports Limit_Controllers Resource_Controllers
begin

text \<open>
  \<open>internal/controller/user_controller.go\<close>: credentials that are generated or imported,
  the status of the User, its limits, and the watch on secrets.

  The functions that write the status return the changed User. The retry of
  \<open>CreateOrUpdate\<close> on conflicts is part of the environment.
\<close>

section \<open>Credentials\<close>

definition credentials_secret_name :: "User \<Rightarrow> string" where
  "credentials_secret_name user = om_Name (obj_Meta user) @ ''-user-credentials''"


definition random_string :: "nat \<Rightarrow> (go_error + string) prog" where
  "random_string dataLen =
     io_bind (io_call (RandRead dataLen) (\<lambda>n h. rand_read n h dataLen))
       (\<lambda>r. io_return (RandomEncodedString (\<lambda>_. r) dataLen))"

definition generateCredentials :: "User \<Rightarrow> (go_error + UserCredentials) prog" where
  "generateCredentials user =
     io_try
       (if u_UsernameFromMeta (obj_Spec user) then io_return (Inr (om_Name (obj_Meta user)))
        else io_bind (random_string 24)
          (\<lambda>r. io_return (case r of
             Inl err \<Rightarrow> Inl (ErrWrap ''failed to generate random username: '' err '''')
           | Inr s \<Rightarrow> Inr s)))
       (\<lambda>username.
         io_bind (random_string 24)
           (\<lambda>r. io_return (case r of
              Inl err \<Rightarrow> Inl (ErrWrap ''failed to generate random password: '' err '''')
            | Inr password \<Rightarrow> Inr \<lparr>uc_Username = username, uc_PasswordHash = None, uc_Password = password\<rparr>)))"

definition credentialSecretData :: "UserCredentials \<Rightarrow> string \<rightharpoonup> string" where
  "credentialSecretData credentials =
     (case uc_PasswordHash credentials of
        Some h \<Rightarrow> [''username'' \<mapsto> uc_Username credentials, ''passwordHash'' \<mapsto> h]
      | None \<Rightarrow> [''username'' \<mapsto> uc_Username credentials, ''password'' \<mapsto> uc_Password credentials])"

text \<open>The function given to \<open>CreateOrUpdate\<close>.\<close>

definition mutateCredentialSecret :: "env \<Rightarrow> User \<Rightarrow> secret \<Rightarrow> go_error + secret" where
  "mutateCredentialSecret n user s =
     (let m = (sec_Meta s)\<lparr>om_Labels := (om_Labels (sec_Meta s))(TopologyOperatorLabel \<mapsto> TopologyOperatorLabelValue)\<rparr> in
      case SetControllerReference n (''User'', om_Name (obj_Meta user)) m of
        Inl err \<Rightarrow> Inl (ErrText (''failed setting controller reference: '' @ err_Error err))
      | Inr m' \<Rightarrow> Inr (s\<lparr>sec_Meta := m'\<lparr>om_OwnerReferences :=
          map (\<lambda>r. if or_Kind r = obj_Kind user then r\<lparr>or_BlockOwnerDeletion := Some False\<rparr> else r)
            (om_OwnerReferences m')\<rparr>\<rparr>))"

definition declareCredentials :: "User \<Rightarrow> (go_error + string) prog" where
  "declareCredentials user =
     io_try (generateCredentials user) (\<lambda>credentials.
       let credentialSecret =
         \<lparr>sec_Meta = empty_meta\<lparr>om_Name := credentials_secret_name user, om_Namespace := om_Namespace (obj_Meta user)\<rparr>,
          sec_Data = credentialSecretData credentials, sec_Type = ''Opaque''\<rparr> in
       io_try
         (io_call (KubeWriteSecret credentialSecret)
           (\<lambda>n h. write_secret n h credentialSecret (mutateCredentialSecret n user)))
         (\<lambda>s. io_return (Inr (uc_Username credentials))))"

definition importCredentials :: "string \<Rightarrow> string \<Rightarrow> (go_error + UserCredentials) prog" where
  "importCredentials secretName secretNamespace =
     io_bind (call_secret secretNamespace secretName)
       (\<lambda>r. io_return (case r of
          Inl err \<Rightarrow> Inl (ErrWrap (''could not find password secret '' @ secretName @ '' in namespace '' @
                                   secretNamespace @ ''; Err: '') err '''')
        | Inr s \<Rightarrow>
            if data_string s ''username'' = ''''
            then Inl (ErrText (''could not find username key in credentials secret: '' @ om_Name (sec_Meta s)))
            else Inr \<lparr>uc_Username = data_string s ''username'',
                      uc_PasswordHash = sec_Data s ''passwordHash'',
                      uc_Password = data_string s ''password''\<rparr>))"

definition secretToCredentials :: "secret \<Rightarrow> UserCredentials" where
  "secretToCredentials s =
     \<lparr>uc_Username = data_string s ''username'', uc_PasswordHash = sec_Data s ''passwordHash'',
      uc_Password = data_string s ''password''\<rparr>"

definition getUserCredentials :: "User \<Rightarrow> (go_error + secret) prog" where
  "getUserCredentials user = call_secret (om_Namespace (obj_Meta user)) (credentials_secret_name user)"


section \<open>Status\<close>

definition setUserStatus :: "User \<Rightarrow> string \<Rightarrow> string \<Rightarrow> (User \<times> (go_error + unit)) prog" where
  "setUserStatus user username credentialsSecretName =
     (let user' = user\<lparr>obj_Status := (obj_Status user)\<lparr>us_Credentials := Some credentialsSecretName,
                                                      us_Username := username\<rparr>\<rparr> in
      io_bind (io_call (KubeStatusUpdate (OUser user'))
                (\<lambda>n h. decode_User (kube_status_update n h (OUser user'))))
        (\<lambda>r. io_return (case r of Inl err \<Rightarrow> (user', Inl err) | Inr new \<Rightarrow> (new, Inr ()))))"


section \<open>Declaration\<close>

text \<open>
  The end both ways of declaration share: the settings, \<open>PutUser\<close>, the condition, the event
  and the limits. The argument \<open>failure\<close> is the prefix of the error of the settings.
\<close>

definition putUser ::
  "string \<Rightarrow> rabbit_client \<Rightarrow> UserCredentials \<Rightarrow> string \<Rightarrow> User \<Rightarrow> (User \<times> (go_error + unit)) prog" where
  "putUser failure c credentials username user =
     io_bind (io_ask (\<lambda>n h. GenerateUserSettings (password_hash n h) credentials (u_Tags (obj_Spec user))))
       (\<lambda>r. case r of
          Inl err \<Rightarrow> io_return (user, Inl (ErrWrap failure err ''''))
        | Inr userSettings \<Rightarrow>
            io_then (io_keep user (send c (PutUser (uss_Name userSettings) userSettings)))
              (\<lambda>user. io_bind call_now
                (\<lambda>t. let user' = User_SetStatusConditions user [PasswordSynced t (Conditions (obj_Status user))] in
                  io_bind (call_record ''Normal'' ''PasswordUpdated'' ''update''
                             (''synced password for user '' @ strconv_Quote (us_Username (obj_Status user'))))
                    (\<lambda>_. io_keep user' (reconcileUserLimits c user' username)))))"

definition declareWithImportedCredentials ::
  "rabbit_client \<Rightarrow> User \<Rightarrow> LocalObjectReference \<Rightarrow> (User \<times> (go_error + unit)) prog" where
  "declareWithImportedCredentials c user importSecret =
     io_bind (importCredentials importSecret (om_Namespace (obj_Meta user)))
       (\<lambda>r. case r of
          Inl err \<Rightarrow> io_return (user, Inl err)
        | Inr credentials \<Rightarrow>
            if uc_PasswordHash credentials = None \<and> uc_Password credentials = ''''
            then io_return (user, Inl (ErrText
              (''neither passwordHash nor password is set in credentials secret '' @ strconv_Quote importSecret @ ''; '' @
               ''for a User created before v1.20, label the existing <name>-user-credentials secret with rabbitmq.com/topology-operator=true and remove spec.importCredentialsSecret to preserve its username and password; '' @
               ''for a new User using metadata.name as the username, remove spec.importCredentialsSecret and set spec.usernameFromMeta: true'')))
            else io_then
              (if us_Credentials (obj_Status user) \<noteq> Some importSecret \<or>
                  us_Username (obj_Status user) \<noteq> uc_Username credentials
               then setUserStatus user (uc_Username credentials) importSecret
               else io_return (user, Inr ()))
              (putUser ''failed to generate user settings from credentials: '' c credentials (uc_Username credentials)))"

definition declareWithGeneratedCredentials :: "rabbit_client \<Rightarrow> User \<Rightarrow> (User \<times> (go_error + unit)) prog" where
  "declareWithGeneratedCredentials c user =
     io_bind (declareCredentials user) (\<lambda>r. case r of
       Inl err \<Rightarrow> io_return (user, Inl err)
     | Inr _ \<Rightarrow>
     io_bind (getUserCredentials user) (\<lambda>r. case r of
       Inl err \<Rightarrow> io_return (user, Inl (ErrWrap
         ''failed to retrieve generated credentials secret (may be requeuing after label migration): '' err ''''))
     | Inr credentials \<Rightarrow>
       let actualUsername = data_string credentials ''username'' in
       if actualUsername = ''''
       then io_return (user, Inl (ErrText
         (''could not find non-empty username key in generated credentials secret: '' @ om_Name (sec_Meta credentials))))
       else if u_UsernameFromMeta (obj_Spec user) \<and> actualUsername \<noteq> om_Name (obj_Meta user)
       then io_return (user, Inl (ErrText
         (''spec.usernameFromMeta is true but the existing credentials secret '' @
          strconv_Quote (credentials_secret_name user) @
          '' has a username different from metadata.name '' @ strconv_Quote (om_Name (obj_Meta user)) @
          ''; unset spec.usernameFromMeta to preserve the existing username and password'')))
       else io_then
         (if us_Credentials (obj_Status user) \<noteq> Some (credentials_secret_name user) \<or>
             us_Username (obj_Status user) = '''' \<or> us_Username (obj_Status user) \<noteq> actualUsername
          then setUserStatus user actualUsername (credentials_secret_name user)
          else io_return (user, Inr ()))
         (putUser ''failed to generate user settings from credential: '' c (secretToCredentials credentials) actualUsername)))"

definition User_DeclareFunc :: "rabbit_client \<Rightarrow> User \<Rightarrow> (User \<times> (go_error + unit)) prog" where
  "User_DeclareFunc c user =
     (case u_ImportCredentialsSecret (obj_Spec user) of
        Some importSecret \<Rightarrow>
          if u_UsernameFromMeta (obj_Spec user)
          then io_return (user, Inl (ErrText ''spec.usernameFromMeta cannot be set together with spec.importCredentialsSecret''))
          else declareWithImportedCredentials c user importSecret
      | None \<Rightarrow> declareWithGeneratedCredentials c user)"

definition User_DeleteFunc :: "rabbit_client \<Rightarrow> User \<Rightarrow> (go_error + unit) prog" where
  "User_DeleteFunc c user =
     (if us_Username (obj_Status user) = '''' then io_return (Inr ())
      else send_removal c (DeleteUser (us_Username (obj_Status user))))"


section \<open>The watch on secrets\<close>

type_synonym request = "string \<times> string"

definition importCredentialsSecretIndex :: "User \<Rightarrow> string list" where
  "importCredentialsSecretIndex u =
     (case u_ImportCredentialsSecret (obj_Spec u) of Some name \<Rightarrow> [name] | None \<Rightarrow> [])"

definition ownerKind :: string where
  "ownerKind = ''User''"

text \<open>A request is a pair of namespace and name.\<close>

definition secretToUserRequests :: "secret \<Rightarrow> request list prog" where
  "secretToUserRequests s =
     (let ns = om_Namespace (sec_Meta s) in
      io_bind (io_ask (\<lambda>n h. GetControllerOf n (om_OwnerReferences (sec_Meta s))))
        (\<lambda>owner.
          if (case owner of Some r \<Rightarrow> or_Kind r = ownerKind | None \<Rightarrow> False)
          then io_return [(ns, or_Name (the owner))]
          else io_bind (io_call (KubeListUsersImporting ns (om_Name (sec_Meta s)))
                         (\<lambda>n h. kube_users_importing n h ns (om_Name (sec_Meta s))))
            (\<lambda>r. io_return (case r of
               Inl err \<Rightarrow> []
             | Inr us \<Rightarrow> map (\<lambda>u. (om_Namespace (obj_Meta u), om_Name (obj_Meta u))) us))))"


section \<open>Properties\<close>

text \<open>The calls after the user is put: the event and the limits.\<close>

fun on_limits :: "event \<Rightarrow> bool" where
  "on_limits (Broker c q) = (case q of
     GetUserLimits u \<Rightarrow> True | PutUserLimits u l \<Rightarrow> True | DeleteUserLimits u ks \<Rightarrow> True
   | GetVhostLimits v \<Rightarrow> True | PutVhostLimits v l \<Rightarrow> True | DeleteVhostLimits v ks \<Rightarrow> True | _ \<Rightarrow> False)"
| "on_limits (Recorded a b d e) = True"
| "on_limits _ = False"

lemma emits_on_limits:
  "emits on_limits (reconcileUserLimits c user name)"
  "emits on_limits (reconcileVhostLimits c v new)"
  unfolding reconcileUserLimits_def reconcileVhostLimits_def getUserLimits_def getVhostLimits_def Let_def
  by (intro emits_intros; simp)+

text \<open>The user that is put into the broker: its settings come from the credentials and the tags.\<close>

definition user_put ::
  "env \<Rightarrow> rabbit_client \<Rightarrow> UserCredentials \<Rightarrow> UserTag list \<Rightarrow> event list \<Rightarrow> event list \<Rightarrow> bool" where
  "user_put n c cr tags h es \<longleftrightarrow>
     (\<exists>settings es1 es2. es = es1 @ Broker c (PutUser (uc_Username cr) settings) # es2 \<and>
        GenerateUserSettings (password_hash n (h @ es1)) cr tags = Inr settings \<and>
        uss_Name settings = uc_Username cr \<and> uc_Username cr \<noteq> '''' \<and>
        validateResponse (broker_http n (h @ es1) c (PutUser (uc_Username cr) settings)) = Inr () \<and>
        list_all on_limits es2)"

lemma user_put_prefix: "user_put n c cr tags (h @ es0) es \<Longrightarrow> user_put n c cr tags h (es0 @ es)"
  unfolding user_put_def by (metis append_assoc)

lemma putUser_run:
  assumes run: "putUser failure c cr username user n h = (Ret (user', Inr ()), h')"
  shows "us_Username (obj_Status user') = us_Username (obj_Status user) \<and>
    (\<exists>es. h' = h @ es \<and> user_put n c cr (u_Tags (obj_Spec user)) h es)"
proof -
  let ?s = "GenerateUserSettings (password_hash n h) cr (u_Tags (obj_Spec user))"
  obtain settings where s: "?s = Inr settings"
    using run by (cases ?s) (simp_all add: putUser_def)
  then have name: "uss_Name settings = uc_Username cr" "uc_Username cr \<noteq> ''''"
    by (auto simp: GenerateUserSettings_def err_bind_def split: if_splits sum.splits option.splits)
  let ?put = "PutUser (uc_Username cr) settings"
  have ok: "validateResponse (broker_http n h c ?put) = Inr ()"
  proof (cases "validateResponse (broker_http n h c ?put)")
    case (Inl err)
    then show ?thesis using run s name by (simp add: putUser_def)
  qed simp
  let ?u = "User_SetStatusConditions user [PasswordSynced (now n (h @ [Broker c ?put])) (Conditions (obj_Status user))]"
  let ?e = "Recorded ''Normal'' ''PasswordUpdated'' ''update''
    (''synced password for user '' @ strconv_Quote (us_Username (obj_Status ?u)))"
  have "putUser failure c cr username user n h =
      io_keep ?u (reconcileUserLimits c ?u username) n (h @ [Broker c ?put, ?e])"
    using s name ok by (simp add: putUser_def Let_def call_now_def call_record_def)
  with run have u: "user' = ?u"
    and limits: "reconcileUserLimits c ?u username n (h @ [Broker c ?put, ?e]) = (Ret (Inr ()), h')"
    by (auto split: prod.splits outcome.splits)
  from emits_run [OF emits_on_limits(1), OF limits] obtain es where
      es: "h' = h @ Broker c ?put # ?e # es" "list_all on_limits es"
    by auto
  have "user_put n c cr (u_Tags (obj_Spec user)) h (Broker c ?put # ?e # es)"
    unfolding user_put_def
    by (rule exI [of _ settings], rule exI [of _ "[]"], rule exI [of _ "?e # es"]) (use s name ok es(2) in simp)
  then show ?thesis using es(1) by (simp add: u User_SetStatusConditions_def)
qed
text \<open>
  The API server stores the status that it is sent and answers with the object it has stored.
\<close>

definition status_echo :: "env \<Rightarrow> bool" where
  "status_echo n \<longleftrightarrow> (\<forall>h x y. kube_status_update n h x = Inr y \<longrightarrow> y = x)"

lemma setUserStatus_run:
  assumes "status_echo n" and "setUserStatus user name sec n h = (Ret (user', Inr ()), h')"
  shows "user' = user\<lparr>obj_Status := (obj_Status user)\<lparr>us_Credentials := Some sec, us_Username := name\<rparr>\<rparr> \<and>
    h' = h @ [KubeStatusUpdate (OUser user')]"
proof -
  let ?u = "user\<lparr>obj_Status := (obj_Status user)\<lparr>us_Credentials := Some sec, us_Username := name\<rparr>\<rparr>"
  have "kube_status_update n h (OUser ?u) = Inr y \<Longrightarrow> y = OUser ?u" for y
    using assms(1) by (simp add: status_echo_def)
  then show ?thesis
    using assms(2) unfolding setUserStatus_def Let_def
    by (cases "kube_status_update n h (OUser ?u)") (auto simp: decode_User_def err_bind_def)
qed

text \<open>The end of both declarations: the status first, when it differs, then the user.\<close>

lemma status_then_putUser_run:
  assumes "status_echo n"
    and run: "io_then (if b \<or> us_Username (obj_Status user) \<noteq> uc_Username cr then setUserStatus user (uc_Username cr) name
                  else io_return (user, Inr ()))
           (putUser failure c cr (uc_Username cr)) n h = (Ret (user', Inr ()), h')"
  shows "us_Username (obj_Status user') = uc_Username cr \<and>
    (\<exists>es. h' = h @ es \<and> user_put n c cr (u_Tags (obj_Spec user)) h es)"
proof -
  have "\<exists>v es. us_Username (obj_Status v) = uc_Username cr \<and> obj_Spec v = obj_Spec user \<and>
      putUser failure c cr (uc_Username cr) v n (h @ es) = (Ret (user', Inr ()), h')"
  proof (cases "b \<or> us_Username (obj_Status user) \<noteq> uc_Username cr")
    case True
    with run obtain v h1 where v: "setUserStatus user (uc_Username cr) name n h = (Ret (v, Inr ()), h1)"
        and rest: "putUser failure c cr (uc_Username cr) v n h1 = (Ret (user', Inr ()), h')"
      by (auto split: prod.splits outcome.splits sum.splits)
    from setUserStatus_run [OF assms(1) v] rest show ?thesis by (intro exI [of _ v]) auto
  next
    case False
    with run show ?thesis by (intro exI [of _ user] exI [of _ "[]"]) simp
  qed
  then obtain v es where v: "us_Username (obj_Status v) = uc_Username cr" "obj_Spec v = obj_Spec user"
      "putUser failure c cr (uc_Username cr) v n (h @ es) = (Ret (user', Inr ()), h')"
    by blast
  from putUser_run [OF v(3)] v(1,2) obtain es' where
      es': "us_Username (obj_Status user') = uc_Username cr" "h' = h @ (es @ es')"
      "user_put n c cr (u_Tags (obj_Spec user)) (h @ es) es'"
    by auto
  then show ?thesis using user_put_prefix [OF es'(3)] by blast
qed

lemma User_DeclareFunc_run:
  assumes "User_DeclareFunc c u n h = (Ret (u', Inr ()), h')"
  shows "\<exists>b h0 s cr name failure es1. kube_secret n h0 (om_Namespace (obj_Meta u)) name = Inr s \<and> cr = secretToCredentials s \<and>
      (u_UsernameFromMeta (obj_Spec u) \<longrightarrow> uc_Username cr = om_Name (obj_Meta u)) \<and>
      io_then (if b \<or> us_Username (obj_Status u) \<noteq> uc_Username cr then setUserStatus u (uc_Username cr) name
                  else io_return (u, Inr ()))
           (putUser failure c cr (uc_Username cr)) n (h @ es1) = (Ret (u', Inr ()), h')"
proof (cases "u_ImportCredentialsSecret (obj_Spec u)")
  case None
  with assms have run: "declareWithGeneratedCredentials c u n h = (Ret (u', Inr ()), h')"
    by (simp add: User_DeclareFunc_def)
  have "emits (\<lambda>e. True) (declareCredentials u)"
    unfolding declareCredentials_def generateCredentials_def random_string_def Let_def
    by (intro emits_intros) simp_all
  then obtain r es1 where r: "declareCredentials u n h = (r, h @ es1)"
    by (auto elim!: emitsE [where n = n and t = h])
  from run r obtain x s where "r = Ret (Inr x)"
      and s: "kube_secret n (h @ es1) (om_Namespace (obj_Meta u)) (credentials_secret_name u) = Inr s"
    by (auto simp: declareWithGeneratedCredentials_def getUserCredentials_def call_secret_def
        split: outcome.splits sum.splits)
  moreover have name: "data_string s ''username'' = uc_Username (secretToCredentials s)"
    by (simp add: secretToCredentials_def)
  ultimately have "u_UsernameFromMeta (obj_Spec u) \<longrightarrow> uc_Username (secretToCredentials s) = om_Name (obj_Meta u)"
    and "io_then (if (us_Credentials (obj_Status u) \<noteq> Some (credentials_secret_name u) \<or> us_Username (obj_Status u) = '''') \<or>
                us_Username (obj_Status u) \<noteq> uc_Username (secretToCredentials s)
              then setUserStatus u (uc_Username (secretToCredentials s)) (credentials_secret_name u) else io_return (u, Inr ()))
       (putUser ''failed to generate user settings from credential: '' c (secretToCredentials s)
         (uc_Username (secretToCredentials s))) n
       (h @ (es1 @ [KubeGetSecret (om_Namespace (obj_Meta u)) (credentials_secret_name u)])) = (Ret (u', Inr ()), h')"
    using run r
    by (auto simp: declareWithGeneratedCredentials_def getUserCredentials_def call_secret_def Let_def
        simp del: io_then_run split: if_splits)
  then show ?thesis using s by blast
next
  case (Some sec)
  with assms have run: "declareWithImportedCredentials c u sec n h = (Ret (u', Inr ()), h')"
    and "\<not> u_UsernameFromMeta (obj_Spec u)"
    by (auto simp: User_DeclareFunc_def split: if_splits)
  moreover from run obtain s where
    "kube_secret n h (om_Namespace (obj_Meta u)) sec = Inr s"
    "io_then (if us_Credentials (obj_Status u) \<noteq> Some sec \<or> us_Username (obj_Status u) \<noteq> uc_Username (secretToCredentials s)
              then setUserStatus u (uc_Username (secretToCredentials s)) sec else io_return (u, Inr ()))
       (putUser ''failed to generate user settings from credentials: '' c (secretToCredentials s) (uc_Username (secretToCredentials s))) n
       (h @ [KubeGetSecret (om_Namespace (obj_Meta u)) sec]) = (Ret (u', Inr ()), h')"
    unfolding declareWithImportedCredentials_def importCredentials_def call_secret_def
    by (auto simp del: io_then_run simp flip: secretToCredentials_def split: sum.splits if_splits)
  ultimately show ?thesis by blast
qed

lemma User_declared:
  assumes "status_echo n" and "User_DeclareFunc c u n h = (Ret (u', Inr ()), h')"
  shows "\<exists>h0 name s cr es. kube_secret n h0 (om_Namespace (obj_Meta u)) name = Inr s \<and> cr = secretToCredentials s \<and>
    (u_UsernameFromMeta (obj_Spec u) \<longrightarrow> uc_Username cr = om_Name (obj_Meta u)) \<and>
    us_Username (obj_Status u') = uc_Username cr \<and> h' = h @ es \<and> user_put n c cr (u_Tags (obj_Spec u)) h es"
proof -
  from User_DeclareFunc_run [OF assms(2)] obtain b h0 s cr name failure es1 where
      1: "kube_secret n h0 (om_Namespace (obj_Meta u)) name = Inr s" "cr = secretToCredentials s"
        "u_UsernameFromMeta (obj_Spec u) \<longrightarrow> uc_Username cr = om_Name (obj_Meta u)"
      and run: "io_then (if b \<or> us_Username (obj_Status u) \<noteq> uc_Username cr then setUserStatus u (uc_Username cr) name
                  else io_return (u, Inr ()))
           (putUser failure c cr (uc_Username cr)) n (h @ es1) = (Ret (u', Inr ()), h')"
    by (elim exE conjE)
  from status_then_putUser_run [OF assms(1) run] obtain es where
    es: "us_Username (obj_Status u') = uc_Username cr" "h' = (h @ es1) @ es" "user_put n c cr (u_Tags (obj_Spec u)) (h @ es1) es"
    by blast
  have "h' = h @ (es1 @ es)" "user_put n c cr (u_Tags (obj_Spec u)) h (es1 @ es)"
    using es(2) user_put_prefix [OF es(3)] by simp_all
  with 1 es(1) show ?thesis by blast
qed

text \<open>
  C16. After a User is declared without an error, the name in its status is not empty, is the name
  of the user that was put into the broker, is the name of the object when the spec asks for that,
  and is the name of the user that the deletion removes.
\<close>

theorem user_name_consistent:
  assumes "status_echo n" and "User_DeclareFunc c u n h = (Ret (u', Inr ()), h @ es)"
  shows "us_Username (obj_Status u') \<noteq> '''' \<and>
    (u_UsernameFromMeta (obj_Spec u) \<longrightarrow> us_Username (obj_Status u') = om_Name (obj_Meta u)) \<and>
    (\<exists>settings. uss_Name settings = us_Username (obj_Status u') \<and>
       Broker c (PutUser (us_Username (obj_Status u')) settings) \<in> set es) \<and>
    User_DeleteFunc c u' = send_removal c (DeleteUser (us_Username (obj_Status u')))"
proof -
  from User_declared [OF assms] obtain cr where
      "u_UsernameFromMeta (obj_Spec u) \<longrightarrow> uc_Username cr = om_Name (obj_Meta u)"
      "us_Username (obj_Status u') = uc_Username cr" "user_put n c cr (u_Tags (obj_Spec u)) h es"
    by auto
  then show ?thesis by (auto simp: User_DeleteFunc_def user_put_def)
qed

lemma sample_limits_run:
  "reconcileUserLimits c u name sample_env h =
     (Ret (Inr ()), h @ Broker c (GetUserLimits name) #
        (if GenerateUserLimits (u_UserLimits (obj_Spec u)) = Map.empty then []
         else [Broker c (PutUserLimits name (GenerateUserLimits (u_UserLimits (obj_Spec u))))]))"
  by (simp add: reconcileUserLimits_def getUserLimits_def call_limits_def read_limits_def userLimitsToDelete_def Let_def)

theorem user_name_consistent_witness:
  "\<exists>u' es. User_DeclareFunc sample_client limited_user sample_env [] = (Ret (u', Inr ()), es) \<and>
     us_Username (obj_Status u') = ''u''"
proof -
  obtain h1 where cred: "declareCredentials limited_user sample_env [] = (Ret (Inr ''u''), h1)"
    by (simp add: declareCredentials_def generateCredentials_def random_string_def RandomEncodedString_def
        mutateCredentialSecret_def limited_user_def sample_meta_def Let_def)
  obtain u' es where run: "User_DeclareFunc sample_client limited_user sample_env [] = (Ret (u', Inr ()), [] @ es)"
    using cred
    by (simp add: User_DeclareFunc_def declareWithGeneratedCredentials_def getUserCredentials_def
        call_secret_def setUserStatus_def putUser_def GenerateUserSettings_def secretToCredentials_def decode_User_def
        err_bind_def io_keep_def call_now_def call_record_def sample_limits_run data_string_def sample_secret_def
        limited_user_def sample_meta_def Let_def)
  have "status_echo sample_env" by (simp add: status_echo_def)
  from user_name_consistent [OF this run] run show ?thesis
    by (auto simp: limited_user_def sample_meta_def)
qed

text \<open>
  C17. The function that writes the generated secret never touches the credentials: the data and the
  type of a secret that exists stay as they are. It sets the label that the operator's cache selects
  secrets by, keeps the other labels, and the User that owns the secret does not block its own deletion.
\<close>

theorem credentials_never_regenerated:
  assumes "controller_reference_law n" and "mutateCredentialSecret n user s = Inr s'"
  shows "sec_Data s' = sec_Data s \<and> sec_Type s' = sec_Type s \<and> om_Name (sec_Meta s') = om_Name (sec_Meta s) \<and>
    om_Labels (sec_Meta s') = (om_Labels (sec_Meta s))(''rabbitmq.com/topology-operator'' \<mapsto> ''true'') \<and>
    (\<forall>r \<in> set (om_OwnerReferences (sec_Meta s')). or_Kind r = obj_Kind user \<longrightarrow> or_BlockOwnerDeletion r = Some False)"
proof -
  let ?m = "(sec_Meta s)\<lparr>om_Labels := (om_Labels (sec_Meta s))(TopologyOperatorLabel \<mapsto> TopologyOperatorLabelValue)\<rparr>"
  obtain m' where m': "SetControllerReference n (''User'', om_Name (obj_Meta user)) ?m = Inr m'"
    using assms(2) by (auto simp: mutateCredentialSecret_def Let_def split: sum.splits)
  then have kept: "m' = ?m\<lparr>om_OwnerReferences := om_OwnerReferences m'\<rparr>"
    using assms(1) by (simp add: controller_reference_law_def)
  have "om_Labels m' = (om_Labels (sec_Meta s))(''rabbitmq.com/topology-operator'' \<mapsto> ''true'')" "om_Name m' = om_Name (sec_Meta s)"
    by (subst kept, simp add: TopologyOperatorLabel_def TopologyOperatorLabelValue_def)+
  then show ?thesis using assms(2) m' by (auto simp: mutateCredentialSecret_def Let_def)
qed

theorem credentials_never_regenerated_witness:
  "\<exists>s'. mutateCredentialSecret sample_env limited_user sample_secret = Inr s' \<and> sec_Data s' = sec_Data sample_secret"
proof -
  have "\<exists>s'. mutateCredentialSecret sample_env limited_user sample_secret = Inr s'"
    by (simp add: mutateCredentialSecret_def Let_def)
  then obtain s' where run: "mutateCredentialSecret sample_env limited_user sample_secret = Inr s'" by blast
  from credentials_never_regenerated [OF lawfulD(3) [OF lawful_sample(1)] run] run show ?thesis by auto
qed

end
