(* ===== verification/Cluster_Reference.thy ===== *)
theory Cluster_Reference
  imports Vault_Reader Sample_World
begin

text \<open>
  \<open>rabbitmqclient/cluster_reference.go\<close>: from the reference of a resource to the
  credentials and the address of the management API, and the client factory of
  \<open>rabbitmq_client_factory.go\<close>.

  Of \<open>net/url\<close> the model has the scheme of a parsed address and the printing of an
  address with scheme, host and path; whether the rest of an address is well formed is the
  argument \<open>url_rest_error\<close> of the environment. The ini library is an argument too.
\<close>

section \<open>Package url\<close>

definition is_letter :: "char \<Rightarrow> bool" where
  "is_letter c \<longleftrightarrow> (65 \<le> (of_char c :: nat) \<and> of_char c \<le> (90 :: nat)) \<or> (97 \<le> (of_char c :: nat) \<and> of_char c \<le> (122 :: nat))"

text \<open>\<open>getScheme\<close>: letters, then also digits and the three signs, up to a colon.\<close>

fun url_getScheme :: "bool \<Rightarrow> string \<Rightarrow> go_error + string option" where
  "url_getScheme first [] = Inr None"
| "url_getScheme first (c # s) =
     (if is_letter c \<or> (\<not> first \<and> (is_digit c \<or> c \<in> set ''+-.''))
      then err_bind (url_getScheme False s) (\<lambda>r. Inr (map_option (Cons c) r))
      else if c = CHR '':''
      then (if first then Inl (LibraryError ''missing protocol scheme'') else Inr (Some ''''))
      else Inr None)"

definition url_scheme :: "string \<Rightarrow> go_error + string" where
  "url_scheme s =
     err_bind (url_getScheme True s)
       (\<lambda>r. Inr (case r of None \<Rightarrow> '''' | Some scheme \<Rightarrow> strings_ToLower scheme))"

definition url_Parse_scheme :: "env \<Rightarrow> string \<Rightarrow> go_error + string" where
  "url_Parse_scheme n s =
     err_bind (url_scheme s)
       (\<lambda>scheme. case url_rest_error n s of Some err \<Rightarrow> Inl err | None \<Rightarrow> Inr scheme)"

text \<open>\<open>escape\<close> in the two modes that the printing uses.\<close>

definition hex_digit :: "nat \<Rightarrow> char" where
  "hex_digit d = ''0123456789ABCDEF'' ! d"

definition percent_encode :: "char \<Rightarrow> string" where
  "percent_encode c = [CHR ''%'', hex_digit (of_char c div 16), hex_digit (of_char c mod 16)]"

definition url_unreserved :: "char \<Rightarrow> bool" where
  "url_unreserved c \<longleftrightarrow> is_letter c \<or> is_digit c \<or> c \<in> set ''-_.~''"

definition escape_with :: "(char \<Rightarrow> bool) \<Rightarrow> string \<Rightarrow> string" where
  "escape_with safe s = concat (map (\<lambda>c. if safe c then [c] else percent_encode c) s)"

definition host_safe :: "char \<Rightarrow> bool" where
  "host_safe c \<longleftrightarrow> url_unreserved c \<or> c \<in> set ''!$&()*+,;=:[]<>'' \<or> c = CHR 0x22 \<or> c = CHR 0x27"

definition path_safe :: "char \<Rightarrow> bool" where
  "path_safe c \<longleftrightarrow> url_unreserved c \<or> c \<in> set ''$&+,/:;=@''"

definition URL_String :: "string \<Rightarrow> string \<Rightarrow> string \<Rightarrow> string" where
  "URL_String scheme host path =
     (let p = (if path = ''*'' then ''*'' else escape_with path_safe path) in
      scheme @ ''://'' @ escape_with host_safe host @ (if p \<noteq> '''' \<and> hd p \<noteq> CHR ''/'' then ''/'' else '''') @ p)"


section \<open>Who may reference a cluster\<close>

definition allowed_annotation :: string where
  "allowed_annotation = ''rabbitmq.com/topology-allowed-namespaces''"

definition AllowedNamespace :: "RabbitmqClusterReference \<Rightarrow> string \<Rightarrow> RabbitmqCluster \<Rightarrow> bool" where
  "AllowedNamespace rmq requestNamespace cluster =
     (if ref_Namespace rmq \<noteq> '''' \<and> ref_Namespace rmq \<noteq> requestNamespace
      then (case om_Annotations (cl_Meta cluster) allowed_annotation of
              Some allowedNamespaces \<Rightarrow>
                list_ex (\<lambda>allowed. requestNamespace = allowed \<or> allowed = ''*'')
                  (strings_Split (CHR '','') allowedNamespaces)
            | None \<Rightarrow> False)
      else True)"

definition AllowedNamespaceSecret :: "RabbitmqClusterReference \<Rightarrow> string \<Rightarrow> secret \<Rightarrow> bool" where
  "AllowedNamespaceSecret rmq requestNamespace s =
     (if ref_Namespace rmq \<noteq> '''' \<and> ref_Namespace rmq \<noteq> requestNamespace
      then (case om_Annotations (sec_Meta s) allowed_annotation of
              Some allowedNamespaces \<Rightarrow>
                list_ex (\<lambda>allowed. requestNamespace = allowed \<or> allowed = ''*'')
                  (strings_Split (CHR '','') allowedNamespaces)
            | None \<Rightarrow> False)
      else True)"


section \<open>Addresses and credentials\<close>

type_synonym creds = "string \<rightharpoonup> string"

definition keyMissingErr :: "string \<Rightarrow> go_error" where
  "keyMissingErr key = ErrText (''failed to retrieve '' @ key @ '': key '' @ key @ '' missing from credentials'')"

definition extractURIandScheme :: "env \<Rightarrow> string \<Rightarrow> go_error + string \<times> bool" where
  "extractURIandScheme n uri =
     (let uri' = (if \<not> strings_HasPrefix uri ''http'' then ''http://'' @ uri else uri) in
      err_bind (url_Parse_scheme n uri') (\<lambda>scheme. Inr (uri', scheme = ''https'')))"


definition readCredentialsFromKubernetesSecret :: "env \<Rightarrow> secret \<Rightarrow> go_error + creds \<times> bool" where
  "readCredentialsFromKubernetesSecret n s =
     (case sec_Data s ''uri'' of
        None \<Rightarrow> Inl (keyMissingErr ''uri'')
      | Some uBytes \<Rightarrow>
          err_bind (extractURIandScheme n uBytes)
            (\<lambda>(uri, tlsEnabled). Inr ([''username'' \<mapsto> data_string s ''username'',
                                        ''password'' \<mapsto> data_string s ''password'', ''uri'' \<mapsto> uri], tlsEnabled)))"

definition readUsernamePassword :: "secret \<Rightarrow> string \<times> string" where
  "readUsernamePassword s = (data_string s ''username'', data_string s ''password'')"

definition readClusterAdditionalConfig :: "env \<Rightarrow> RabbitmqCluster \<Rightarrow> go_error + (string \<rightharpoonup> string)" where
  "readClusterAdditionalConfig n cluster = ini_Load n (cl_AdditionalConfig cluster)"

text \<open>The loop over the ports: the number of the first port of that name, or 0.\<close>

fun port_number :: "string \<Rightarrow> (string \<times> int) list \<Rightarrow> int" where
  "port_number portName [] = 0"
| "port_number portName ((name, port) # ports) = (if name = portName then port else port_number portName ports)"

definition managementURI :: "Service \<Rightarrow> bool \<Rightarrow> string \<Rightarrow> string \<Rightarrow> go_error + string" where
  "managementURI svc useTLS clusterDomain pathPrefix =
     (let portName = (if useTLS then ''management-tls'' else ''management'');
          managementUiPort = port_number portName (svc_Ports svc) in
      if managementUiPort = 0
      then Inl (ErrText (''failed to find '' @ portName @ '' from service '' @ om_Name (svc_Meta svc)))
      else Inr (URL_String (if useTLS then ''https'' else ''http'')
             (om_Name (svc_Meta svc) @ ''.'' @ om_Namespace (svc_Meta svc) @ ''.svc'' @ clusterDomain @ '':'' @
              strconv_Itoa managementUiPort)
             pathPrefix))"

definition uriAnnotationKey :: string where
  "uriAnnotationKey = ''rabbitmq.com/operator-connection-uri''"


section \<open>ParseReference\<close>

text \<open>User name and password: from Vault when the cluster says so, else from the default-user secret.\<close>

definition cluster_credentials :: "string \<Rightarrow> RabbitmqCluster \<Rightarrow> (go_error + string \<times> string) prog" where
  "cluster_credentials namespace cluster =
     (if (case cl_VaultDefaultUserPath cluster of Some path \<Rightarrow> path \<noteq> '''' | None \<Rightarrow> False)
      then io_bind (io_ask secret_store_error)
        (\<lambda>e. case e of
           Some err \<Rightarrow> io_return (Inl (ErrWrap ''unable to create a client connection to secret store: '' err ''''))
         | None \<Rightarrow>
             io_bind (ReadCredentials (the (cl_VaultDefaultUserPath cluster)))
               (\<lambda>r. io_return (case r of
                  Inl err \<Rightarrow> Inl (ErrWrap ''unable to retrieve credentials from secret store: '' err '''')
                | Inr up \<Rightarrow> Inr up)))
      else
        (case cl_Binding cluster of
           None \<Rightarrow> io_return (Inl (ErrText ''no status.binding set''))
         | Some name \<Rightarrow>
             io_bind (io_call (KubeGetUncachedSecret namespace name) (\<lambda>n h. kube_uncached_secret n h namespace name))
               (\<lambda>r. io_return (case r of
                  Inl err \<Rightarrow>
                    if IsNotFound err
                    then Inl (ErrWrap (''failed to get default-user secret from reference: '' @ err_Error err @ '' Error: '')
                                ErrNoSuchRabbitmqCluster '''')
                    else Inl err
                | Inr s \<Rightarrow> Inr (readUsernamePassword s)))))"

text \<open>The address: from the annotation, else from the service.\<close>

definition cluster_endpoint ::
  "string \<Rightarrow> RabbitmqCluster \<Rightarrow> string \<Rightarrow> string \<Rightarrow> bool \<Rightarrow> (go_error + string \<times> bool) prog" where
  "cluster_endpoint namespace cluster serviceName clusterDomain connectUsingHTTP =
     (case om_Annotations (cl_Meta cluster) uriAnnotationKey of
        Some uriAnnotation \<Rightarrow> io_ask (\<lambda>n h. extractURIandScheme n uriAnnotation)
      | None \<Rightarrow>
          io_bind (io_call (KubeGetService namespace serviceName) (\<lambda>n h. kube_service n h namespace serviceName))
            (\<lambda>r. case r of
               Inl err \<Rightarrow> io_return (Inl
                 (if IsNotFound err
                  then ErrWrap (''failed to get service from reference: '' @ err_Error err @ '' Error: '')
                         ErrNoSuchRabbitmqCluster ''''
                  else err))
             | Inr svc \<Rightarrow>
                 io_bind (io_ask (\<lambda>n h. readClusterAdditionalConfig n cluster))
                   (\<lambda>r. io_return (case r of
                      Inl err \<Rightarrow> Inl (ErrWrap ''unable to parse additionconfig setting from the rabbitmqcluster resource: '' err '''')
                    | Inr additionalConfig \<Rightarrow>
                        let useTLS = cl_TLSEnabled cluster \<and> (\<not> connectUsingHTTP \<or> cl_DisableNonTLSListeners cluster);
                            prefix = (case additionalConfig ''management.path_prefix'' of None \<Rightarrow> '''' | Some p \<Rightarrow> p)
                        in case managementURI svc useTLS clusterDomain prefix of
                             Inl err \<Rightarrow> Inl (ErrWrap ''failed to get endpoint from specified rabbitmqcluster: '' err '''')
                           | Inr endpoint \<Rightarrow> Inr (endpoint, useTLS)))))"

text \<open>What follows once the cluster was read and the namespace is allowed.\<close>

definition parse_cluster ::
  "string \<Rightarrow> RabbitmqCluster \<Rightarrow> string \<Rightarrow> bool \<Rightarrow> (go_error + creds \<times> bool) prog" where
  "parse_cluster namespace cluster clusterDomain connectUsingHTTP =
     (if cl_Replicas cluster = Some 0 then io_return (Inl ErrClusterScaledToZero)
      else case cl_DefaultUser cluster of
        Some (Some serviceName) \<Rightarrow>
          io_try (cluster_credentials namespace cluster) (\<lambda>(user, pass).
            io_try (cluster_endpoint namespace cluster serviceName clusterDomain connectUsingHTTP) (\<lambda>(uri, tls).
              io_return (Inr ([''username'' \<mapsto> user, ''password'' \<mapsto> pass, ''uri'' \<mapsto> uri], tls))))
      | _ \<Rightarrow> io_return (Inl ErrNoServiceReferenceSet))"

definition ParseReference ::
  "RabbitmqClusterReference \<Rightarrow> string \<Rightarrow> string \<Rightarrow> bool \<Rightarrow> (go_error + creds \<times> bool) prog" where
  "ParseReference rmq requestNamespace clusterDomain connectUsingHTTP =
     (let namespace = (if ref_Namespace rmq = '''' then requestNamespace else ref_Namespace rmq) in
      case ref_ConnectionSecret rmq of
        Some secretName \<Rightarrow>
          io_try (call_secret namespace secretName)
            (\<lambda>s. if \<not> AllowedNamespaceSecret rmq requestNamespace s then io_return (Inl ErrResourceNotAllowed)
                 else io_ask (\<lambda>n h. readCredentialsFromKubernetesSecret n s))
      | None \<Rightarrow>
          io_bind (io_call (KubeGetCluster namespace (ref_Name rmq)) (\<lambda>n h. kube_cluster n h namespace (ref_Name rmq)))
            (\<lambda>r. case r of
               Inl err \<Rightarrow> io_return (Inl (ErrWrap
                 (''failed to get cluster from reference: '' @ err_Error err @ '' Error: '') ErrNoSuchRabbitmqCluster ''''))
             | Inr cluster \<Rightarrow>
                 if \<not> AllowedNamespace rmq requestNamespace cluster then io_return (Inl ErrResourceNotAllowed)
                 else parse_cluster namespace cluster clusterDomain connectUsingHTTP))"


section \<open>The client factory\<close>

definition generateRabbitholeClient :: "env \<Rightarrow> creds \<Rightarrow> bool \<Rightarrow> go_error + rabbit_client" where
  "generateRabbitholeClient n connectionCreds tlsEnabled =
     (case connectionCreds ''username'' of
        None \<Rightarrow> Inl (keyMissingErr ''username'')
      | Some defaultUser \<Rightarrow>
     (case connectionCreds ''password'' of
        None \<Rightarrow> Inl (keyMissingErr ''password'')
      | Some defaultUserPass \<Rightarrow>
     (case connectionCreds ''uri'' of
        None \<Rightarrow> Inl (keyMissingErr ''uri'')
      | Some uri \<Rightarrow>
          let client = \<lparr>rc_uri = uri, rc_username = defaultUser, rc_password = defaultUserPass, rc_tls = tlsEnabled\<rparr> in
          case new_client n client of
            Some err \<Rightarrow> Inl (ErrText (''failed to instantiate rabbit rabbitmqClient: '' @ err_Error err))
          | None \<Rightarrow> Inr client)))"


section \<open>Laws\<close>

text \<open>Reading the reference asks the API server and Vault and changes nothing.\<close>

fun is_read :: "event \<Rightarrow> bool" where
  "is_read (KubeGetSecret ns nm) = True"
| "is_read (KubeGetUncachedSecret ns nm) = True"
| "is_read (KubeGetCluster ns nm) = True"
| "is_read (KubeGetService ns nm) = True"
| "is_read (VaultRead p) = True"
| "is_read _ = False"

lemma emits_ParseReference: "emits is_read (ParseReference rmq ns domain http)"
  unfolding ParseReference_def parse_cluster_def cluster_credentials_def cluster_endpoint_def Let_def
  by (intro emits_intros; simp)+

text \<open>The two checks of the namespace are one test on the annotations.\<close>

definition namespace_allowed :: "RabbitmqClusterReference \<Rightarrow> string \<Rightarrow> (string \<rightharpoonup> string) \<Rightarrow> bool" where
  "namespace_allowed rmq ns annotations \<longleftrightarrow>
     ref_Namespace rmq = '''' \<or> ref_Namespace rmq = ns \<or>
     (\<exists>allowed. annotations allowed_annotation = Some allowed \<and>
        {ns, ''*''} \<inter> set (strings_Split (CHR '','') allowed) \<noteq> {})"

lemma AllowedNamespace_iff:
  "AllowedNamespace rmq ns cluster \<longleftrightarrow> namespace_allowed rmq ns (om_Annotations (cl_Meta cluster))"
  "AllowedNamespaceSecret rmq ns s \<longleftrightarrow> namespace_allowed rmq ns (om_Annotations (sec_Meta s))"
  by (auto simp: AllowedNamespace_def AllowedNamespaceSecret_def namespace_allowed_def list_ex_iff
      split: option.splits)

text \<open>The transport flag that goes with an address is the scheme of the address.\<close>

lemma url_scheme_of_URL_String:
  "url_scheme (URL_String ''https'' host path) = Inr ''https''"
  "url_scheme (URL_String ''http'' host path) = Inr ''http''"
  by (simp_all add: URL_String_def Let_def url_scheme_def is_letter_def is_digit_def char_to_lower_def
      strings_ToLower_def)

lemma extractURIandScheme_tls:
  "extractURIandScheme n s = Inr (uri, tls) \<Longrightarrow> tls \<longleftrightarrow> url_scheme uri = Inr ''https''"
  by (auto simp: extractURIandScheme_def url_Parse_scheme_def err_bind_Inr_iff Let_def split: option.splits)

lemma managementURI_tls:
  "managementURI svc tls domain pre = Inr uri \<Longrightarrow> tls \<longleftrightarrow> url_scheme uri = Inr ''https''"
  by (cases tls) (auto simp: managementURI_def Let_def url_scheme_of_URL_String split: if_splits)

lemma cluster_endpoint_tls:
  "cluster_endpoint ns cluster svc domain http n h = (Ret (Inr (uri, tls)), h') \<Longrightarrow> tls \<longleftrightarrow> url_scheme uri = Inr ''https''"
  by (auto simp: cluster_endpoint_def Let_def split: option.splits sum.splits if_splits
      dest: managementURI_tls extractURIandScheme_tls)

definition good_creds :: "creds \<times> bool \<Rightarrow> bool" where
  "good_creds r \<longleftrightarrow>
     (\<exists>user pass uri. fst r = [''username'' \<mapsto> user, ''password'' \<mapsto> pass, ''uri'' \<mapsto> uri] \<and>
        (snd r \<longleftrightarrow> url_scheme uri = Inr ''https''))"

lemma good_credsI:
  "(tls \<longleftrightarrow> url_scheme uri = Inr ''https'') \<Longrightarrow>
   good_creds ([''username'' \<mapsto> user, ''password'' \<mapsto> pass, ''uri'' \<mapsto> uri], tls)"
  unfolding good_creds_def by (intro exI [of _ user] exI [of _ pass] exI [of _ uri]) simp

lemma secret_creds_good: "readCredentialsFromKubernetesSecret n s = Inr r \<Longrightarrow> good_creds r"
  by (auto simp: readCredentialsFromKubernetesSecret_def err_bind_Inr_iff split: option.splits
      intro!: good_credsI dest: extractURIandScheme_tls)

lemma parse_cluster_good:
  assumes "parse_cluster ns cluster domain http n h = (Ret (Inr r), h')"
  shows "good_creds r"
  using assms
  by (auto simp: parse_cluster_def split: if_splits option.splits prod.splits outcome.splits sum.splits
      intro!: good_credsI dest: cluster_endpoint_tls)

lemma ParseReference_good:
  assumes "ParseReference rmq ns domain http n h = (Ret (Inr r), h')"
  shows "good_creds r"
  using assms
  by (auto simp: ParseReference_def Let_def call_secret_def
      split: option.splits sum.splits if_splits prod.splits outcome.splits
      dest: secret_creds_good parse_cluster_good)

text \<open>With such credentials only the library can refuse the client.\<close>

lemma creds_inject:
  "[''username'' \<mapsto> u, ''password'' \<mapsto> p, ''uri'' \<mapsto> i] = [''username'' \<mapsto> u', ''password'' \<mapsto> p', ''uri'' \<mapsto> i'] \<longleftrightarrow>
   u = u' \<and> p = p' \<and> i = i'" (is "?m = ?m' \<longleftrightarrow> _")
proof
  assume eq: "?m = ?m'"
  show "u = u' \<and> p = p' \<and> i = i'"
    using fun_cong [OF eq, of "''username''"] fun_cong [OF eq, of "''password''"] fun_cong [OF eq, of "''uri''"] by simp
qed simp

lemma generateRabbitholeClient_good:
  assumes "good_creds r"
  shows "generateRabbitholeClient n (fst r) (snd r) = Inr c \<longleftrightarrow>
    new_client n c = None \<and> fst r = [''username'' \<mapsto> rc_username c, ''password'' \<mapsto> rc_password c, ''uri'' \<mapsto> rc_uri c] \<and>
    snd r = rc_tls c"
proof -
  obtain user pass uri where r: "fst r = [''username'' \<mapsto> user, ''password'' \<mapsto> pass, ''uri'' \<mapsto> uri]"
    using assms by (auto simp: good_creds_def)
  show ?thesis
    by (cases c) (auto simp: generateRabbitholeClient_def r creds_inject Let_def split: option.splits)
qed


section \<open>Properties\<close>

text \<open>
  C18. A reference is resolved to credentials only if the object that it names, read from the
  namespace of the reference, allows the namespace of the request; a cluster must not be scaled to
  zero. On the way the API server and Vault are read and nothing is written.
\<close>

theorem reference_resolved_only_if_allowed:
  assumes "ParseReference rmq ns domain http n h = (Ret (Inr r), h')"
  shows "(\<exists>es. h' = h @ es \<and> list_all is_read es) \<and>
    (let from = (if ref_Namespace rmq = '''' then ns else ref_Namespace rmq) in
     case ref_ConnectionSecret rmq of
       Some name \<Rightarrow> \<exists>s. kube_secret n h from name = Inr s \<and> namespace_allowed rmq ns (om_Annotations (sec_Meta s))
     | None \<Rightarrow> \<exists>cl. kube_cluster n h from (ref_Name rmq) = Inr cl \<and> cl_Replicas cl \<noteq> Some 0 \<and>
          namespace_allowed rmq ns (om_Annotations (cl_Meta cl)))"
proof
  show "\<exists>es. h' = h @ es \<and> list_all is_read es"
    using emits_run [OF emits_ParseReference assms] by blast
  show "let from = (if ref_Namespace rmq = '''' then ns else ref_Namespace rmq) in
     case ref_ConnectionSecret rmq of
       Some name \<Rightarrow> \<exists>s. kube_secret n h from name = Inr s \<and> namespace_allowed rmq ns (om_Annotations (sec_Meta s))
     | None \<Rightarrow> \<exists>cl. kube_cluster n h from (ref_Name rmq) = Inr cl \<and> cl_Replicas cl \<noteq> Some 0 \<and>
          namespace_allowed rmq ns (om_Annotations (cl_Meta cl))"
    using assms
    by (auto simp: ParseReference_def call_secret_def Let_def AllowedNamespace_iff parse_cluster_def
        split: option.splits sum.splits if_splits)
qed

definition shared_ref :: RabbitmqClusterReference where
  "shared_ref = \<lparr>ref_Name = '''', ref_Namespace = ''rabbit'', ref_ConnectionSecret = Some ''conn''\<rparr>"

definition shared_secret :: secret where
  "shared_secret = sample_secret\<lparr>sec_Meta := (sample_meta ''conn'')\<lparr>om_Namespace := ''rabbit'',
     om_Annotations := [allowed_annotation \<mapsto> ''dev,ns'']\<rparr>\<rparr>"

lemma shared_secret_resolved:
  "\<exists>r. ParseReference shared_ref ''ns'' ''d'' False (sample_env\<lparr>kube_secret := \<lambda>h ns name. Inr shared_secret\<rparr>) [] =
     (Ret (Inr r), [KubeGetSecret ''rabbit'' ''conn''])"
  by (simp add: ParseReference_def call_secret_def Let_def shared_ref_def shared_secret_def sample_defs
      AllowedNamespaceSecret_def readCredentialsFromKubernetesSecret_def extractURIandScheme_def strings_HasPrefix_def
      url_Parse_scheme_def url_scheme_def is_letter_def is_digit_def char_to_lower_def allowed_annotation_def) blast

theorem reference_resolved_only_if_allowed_witness:
  "namespace_allowed shared_ref ''ns'' (om_Annotations (sec_Meta shared_secret))"
proof -
  obtain r where "ParseReference shared_ref ''ns'' ''d'' False (sample_env\<lparr>kube_secret := \<lambda>h ns name. Inr shared_secret\<rparr>) [] =
      (Ret (Inr r), [KubeGetSecret ''rabbit'' ''conn''])"
    using shared_secret_resolved by blast
  from reference_resolved_only_if_allowed [OF this] show ?thesis by (simp add: shared_ref_def)
qed

text \<open>
  C19. A client that is made from a resolved reference has a user name, a password and an address,
  and it speaks TLS exactly when the scheme of the address is https.
\<close>

theorem client_tls_iff_https:
  assumes "ParseReference rmq ns domain http n h = (Ret (Inr (creds, tls)), h')"
    and "generateRabbitholeClient n creds tls = Inr c"
  shows "creds = [''username'' \<mapsto> rc_username c, ''password'' \<mapsto> rc_password c, ''uri'' \<mapsto> rc_uri c] \<and>
    (rc_tls c \<longleftrightarrow> url_scheme (rc_uri c) = Inr ''https'')"
  using ParseReference_good [OF assms(1)] assms(2) generateRabbitholeClient_good [of "(creds, tls)" n c]
  by (auto simp: good_creds_def creds_inject)

theorem client_tls_iff_https_witness:
  "\<exists>creds tls h'. ParseReference sample_ref ''ns'' ''d'' False sample_env [] = (Ret (Inr (creds, tls)), h') \<and>
     generateRabbitholeClient sample_env creds tls = Inr sample_client \<and> url_scheme (rc_uri sample_client) = Inr ''https''"
proof -
  let ?creds = "[''username'' \<mapsto> ''u'', ''password'' \<mapsto> ''p'', ''uri'' \<mapsto> ''https://rabbit'']"
  have 1: "ParseReference sample_ref ''ns'' ''d'' False sample_env [] = (Ret (Inr (?creds, True)), [KubeGetSecret ''ns'' ''conn''])"
    by (simp add: ParseReference_def call_secret_def Let_def sample_defs data_string_def
      AllowedNamespaceSecret_def readCredentialsFromKubernetesSecret_def extractURIandScheme_def strings_HasPrefix_def
      url_Parse_scheme_def url_scheme_def is_letter_def is_digit_def char_to_lower_def)
  have 2: "generateRabbitholeClient sample_env ?creds True = Inr sample_client"
    by (simp add: generateRabbitholeClient_def sample_client_def)
  from client_tls_iff_https [OF 1 2] 1 2 show ?thesis by (auto simp: sample_client_def)
qed

end
