(* ===== verification/Topology_Controller.thy ===== *)
theory Topology_Controller
  imports User_Controller Cluster_Reference
begin

text \<open>
  \<open>internal/controller/topology_controller.go\<close>: the reconciler that all twelve topology
  resources share, with the interface \<open>ReconcileFunc\<close> it embeds.

  The interface is a pair of functions in the record of the reconciler; \<open>DeclareFunc\<close> and
  \<open>DeleteFunc\<close> below are its twelve implementations behind one name. The locale
  \<open>reconcile_func\<close> states what the reconciler relies on, and the safety of the
  finalizer is proved in it.
\<close>

section \<open>The interface ReconcileFunc\<close>

type_synonym reconcile_fun = "rabbit_client \<Rightarrow> tobj \<Rightarrow> (tobj \<times> (go_error + unit)) prog"

fun declare_obj :: reconcile_fun where
  "declare_obj c (OBinding x) = io_keep (OBinding x) (Binding_DeclareFunc c x)"
| "declare_obj c (OExchange x) = io_keep (OExchange x) (Exchange_DeclareFunc c x)"
| "declare_obj c (OQueue x) = io_keep (OQueue x) (Queue_DeclareFunc c x)"
| "declare_obj c (OVhost x) = io_keep (OVhost x) (Vhost_DeclareFunc c x)"
| "declare_obj c (OUser x) = io_bind (User_DeclareFunc c x) (\<lambda>(u, r). io_return (OUser u, r))"
| "declare_obj c (OPermission x) = Permission_DeclareFunc c x"
| "declare_obj c (OTopicPermission x) = TopicPermission_DeclareFunc c x"
| "declare_obj c (OPolicy x) = io_keep (OPolicy x) (Policy_DeclareFunc c x)"
| "declare_obj c (OOperatorPolicy x) = io_keep (OOperatorPolicy x) (OperatorPolicy_DeclareFunc c x)"
| "declare_obj c (OFederation x) = io_keep (OFederation x) (Federation_DeclareFunc c x)"
| "declare_obj c (OShovel x) = io_keep (OShovel x) (Shovel_DeclareFunc c x)"
| "declare_obj c (OSchemaReplication x) = io_keep (OSchemaReplication x) (SchemaReplication_DeclareFunc c x)"

fun delete_obj :: reconcile_fun where
  "delete_obj c (OBinding x) = io_keep (OBinding x) (Binding_DeleteFunc c x)"
| "delete_obj c (OExchange x) = io_keep (OExchange x) (Exchange_DeleteFunc c x)"
| "delete_obj c (OQueue x) = io_keep (OQueue x) (Queue_DeleteFunc c x)"
| "delete_obj c (OVhost x) = io_keep (OVhost x) (Vhost_DeleteFunc c x)"
| "delete_obj c (OUser x) = io_keep (OUser x) (User_DeleteFunc c x)"
| "delete_obj c (OPermission x) = Permission_DeleteFunc c x"
| "delete_obj c (OTopicPermission x) = TopicPermission_DeleteFunc c x"
| "delete_obj c (OPolicy x) = io_keep (OPolicy x) (Policy_DeleteFunc c x)"
| "delete_obj c (OOperatorPolicy x) = io_keep (OOperatorPolicy x) (OperatorPolicy_DeleteFunc c x)"
| "delete_obj c (OFederation x) = io_keep (OFederation x) (Federation_DeleteFunc c x)"
| "delete_obj c (OShovel x) = io_keep (OShovel x) (Shovel_DeleteFunc c x)"
| "delete_obj c (OSchemaReplication x) = io_keep (OSchemaReplication x) (SchemaReplication_DeleteFunc c)"

text \<open>
  The implementation for one kind starts with the type assertion \<open>obj.(*topology.Kind)\<close>; only
  the delete function of the schema replication has none.
\<close>

definition DeclareFunc :: "tkind \<Rightarrow> reconcile_fun" where
  "DeclareFunc k c x = (if tkind_of x = k then declare_obj c x else io_panic ''interface conversion'')"

definition DeleteFunc :: "tkind \<Rightarrow> reconcile_fun" where
  "DeleteFunc k c x =
     (if k = KSchemaReplication then io_keep x (SchemaReplication_DeleteFunc c)
      else if tkind_of x = k then delete_obj c x else io_panic ''interface conversion'')"

record TopologyReconciler =
  tr_Type :: tkind
  tr_DeclareFunc :: reconcile_fun
  tr_DeleteFunc :: reconcile_fun
  tr_ListType :: bool
  tr_KubernetesClusterDomain :: string
  tr_ConnectUsingPlainHTTP :: bool


section \<open>Status\<close>

text \<open>The result of \<open>Reconcile\<close>: the delay before the next run, in nanoseconds, and the error.\<close>

type_synonym result = "int \<times> go_error option"

definition err_of :: "go_error + unit \<Rightarrow> go_error option" where
  "err_of r = (case r of Inl e \<Rightarrow> Some e | Inr u \<Rightarrow> None)"

definition setObservedGeneration :: "tobj \<Rightarrow> tobj" where
  "setObservedGeneration obj = set_ObservedGeneration obj (om_Generation (tobj_Meta obj))"

definition getStatusConditions :: "tobj \<Rightarrow> Condition list" where
  "getStatusConditions obj = tobj_Conditions obj"

text \<open>The failure of the write is logged only.\<close>

definition statusUpdate :: "tobj \<Rightarrow> unit prog" where
  "statusUpdate obj = io_bind (call_status_update obj) (\<lambda>r. io_return ())"

definition set_not_ready :: "string \<Rightarrow> tobj \<Rightarrow> unit prog" where
  "set_not_ready msg obj =
     io_bind call_now (\<lambda>t. statusUpdate (SetStatusConditions obj [NotReady t msg (getStatusConditions obj)]))"

definition set_ready :: "tobj \<Rightarrow> unit prog" where
  "set_ready obj =
     io_bind call_now (\<lambda>t. statusUpdate
       (setObservedGeneration (SetStatusConditions obj [Ready t (getStatusConditions obj)])))"


section \<open>Errors of the reference\<close>

definition handleRMQReferenceParseError :: "tobj \<Rightarrow> go_error option \<Rightarrow> result prog" where
  "handleRMQReferenceParseError object err =
     (let deleted = \<not> Time_IsZero (om_DeletionTimestamp (tobj_Meta object));
          name = om_Name (tobj_Meta object) in
      case err of
        None \<Rightarrow> io_return (0, None)
      | Some e \<Rightarrow>
          if errors_Is e ErrNoSuchRabbitmqCluster \<and> deleted
          then io_bind (call_record ''Normal'' ''SuccessfulDelete'' ''delete'' (''successfully deleted '' @ name))
            (\<lambda>_. io_bind (removeFinalizer object) (\<lambda>(x, r). io_return (0, err_of r)))
          else if errors_Is e ErrNoSuchRabbitmqCluster
          then io_return (10 * 1000000000, Some e)
          else if errors_Is e ErrClusterScaledToZero \<and> deleted
          then io_bind (call_record ''Normal'' ''SuccessfulDelete'' ''delete'' (''successfully deleted '' @ name))
            (\<lambda>_. io_bind (removeFinalizer object) (\<lambda>(x, r). io_return (0, err_of r)))
          else if errors_Is e ErrClusterScaledToZero
          then let msg = ''RabbitmqCluster is scaled to zero replicas; waiting for it to scale up'' in
            io_bind (call_record ''Warning'' ''ClusterScaledToZero'' ''update'' msg)
              (\<lambda>_. io_bind (set_not_ready msg object) (\<lambda>_. io_return (0, None)))
          else if errors_Is e ErrResourceNotAllowed
          then io_bind (set_not_ready (err_Error ErrResourceNotAllowed) object) (\<lambda>_. io_return (0, None))
          else let msg = ''failed to retrieve cluster from reference: '' @ err_Error e in
            io_bind (call_record ''Warning'' ''FailedCreateOrUpdate'' ''update'' msg)
              (\<lambda>_. io_bind (set_not_ready msg object) (\<lambda>_. io_return (0, Some e))))"


section \<open>Reconcile\<close>

definition extractSystemCertPool :: "(go_error + unit) prog" where
  "extractSystemCertPool =
     io_bind (io_ask system_cert_pool)
       (\<lambda>e. case e of
          Some err \<Rightarrow>
            io_bind (call_record ''Warning'' ''FailedUpdate'' ''setup'' ''failed to retrieve system trusted certs'')
              (\<lambda>_. io_return (Inl err))
        | None \<Rightarrow> io_return (Inr ()))"

text \<open>The branch for an object that is marked for deletion.\<close>

definition reconcile_delete :: "TopologyReconciler \<Rightarrow> rabbit_client \<Rightarrow> tobj \<Rightarrow> result prog" where
  "reconcile_delete r c obj =
     (let objKind = strings_ToLower (tobj_Kind obj) in
      io_bind (tr_DeleteFunc r c obj) (\<lambda>(obj', res). case res of
        Inl err \<Rightarrow>
          io_bind (call_record ''Warning'' ''FailedDelete'' ''delete'' (''failed to delete '' @ objKind))
            (\<lambda>_. io_return (0, Some err))
      | Inr _ \<Rightarrow>
          io_bind (call_record ''Normal'' ''SuccessfulDelete'' ''delete'' (''successfully deleted '' @ objKind))
            (\<lambda>_. io_bind (removeFinalizer obj') (\<lambda>(x, res'). io_return (0, err_of res')))))"

text \<open>The branch for every other object.\<close>

definition reconcile_declare :: "TopologyReconciler \<Rightarrow> rabbit_client \<Rightarrow> tobj \<Rightarrow> result prog" where
  "reconcile_declare r c obj =
     (let objKind = strings_ToLower (tobj_Kind obj) in
      io_bind (addFinalizerIfNeeded obj) (\<lambda>(obj1, res). case res of
        Inl err \<Rightarrow> io_return (0, Some err)
      | Inr _ \<Rightarrow>
      io_bind (tr_DeclareFunc r c obj1) (\<lambda>(obj2, res). case res of
        Inl err \<Rightarrow>
          io_bind (call_record ''Warning'' ''FailedDeclare'' ''create'' (''failed to declare '' @ objKind))
            (\<lambda>_. io_bind (set_not_ready (err_Error err) obj2) (\<lambda>_. io_return (0, Some err)))
      | Inr _ \<Rightarrow>
          io_bind (call_record ''Normal'' ''SuccessfulDeclare'' ''create'' (''Successfully declare '' @ objKind))
            (\<lambda>_. io_bind (set_ready obj2) (\<lambda>_. io_return (0, None))))))"

definition reconcile_object :: "TopologyReconciler \<Rightarrow> tobj \<Rightarrow> result prog" where
  "reconcile_object r obj =
     io_bind extractSystemCertPool (\<lambda>pool. case pool of
       Inl err \<Rightarrow> io_return (0, Some err)
     | Inr _ \<Rightarrow>
     io_bind (ParseReference (RabbitReference obj) (om_Namespace (tobj_Meta obj))
                (tr_KubernetesClusterDomain r) (tr_ConnectUsingPlainHTTP r)) (\<lambda>parsed. case parsed of
       Inl err \<Rightarrow> handleRMQReferenceParseError obj (Some err)
     | Inr (credsProvider, tlsEnabled) \<Rightarrow>
     io_bind (io_ask (\<lambda>n h. generateRabbitholeClient n credsProvider tlsEnabled)) (\<lambda>client. case client of
       Inl err \<Rightarrow> io_return (0, Some err)
     | Inr c \<Rightarrow>
         if om_DeletionTimestamp (tobj_Meta obj) \<noteq> None then reconcile_delete r c obj
         else reconcile_declare r c obj)))"

definition Reconcile :: "TopologyReconciler \<Rightarrow> string \<Rightarrow> string \<Rightarrow> result prog" where
  "Reconcile r ns name =
     io_bind (call_get (tr_Type r) ns name) (\<lambda>res. case res of
       Inl err \<Rightarrow> io_return (0, IgnoreNotFound err)
     | Inr obj \<Rightarrow> reconcile_object r obj)"


section \<open>The watch on clusters\<close>

text \<open>
  An object that is no cluster, a reconciler without a list type and a failed list give no
  requests.
\<close>

definition rabbitmqClusterToRequests :: "TopologyReconciler \<Rightarrow> RabbitmqCluster \<Rightarrow> request list prog" where
  "rabbitmqClusterToRequests r cluster =
     (if \<not> tr_ListType r then io_return []
      else io_bind (io_call (KubeList (tr_Type r)) (\<lambda>n h. kube_list n h (tr_Type r)))
        (\<lambda>res. io_return (case res of
           Inl err \<Rightarrow> []
         | Inr items \<Rightarrow>
             concat (map (\<lambda>item.
               let ref = RabbitReference item;
                   refNamespace = (if ref_Namespace ref = '''' then om_Namespace (tobj_Meta item) else ref_Namespace ref) in
               if ref_ConnectionSecret ref \<noteq> None then []
               else if ref_Name ref = om_Name (cl_Meta cluster) \<and> refNamespace = om_Namespace (cl_Meta cluster)
               then [(om_Namespace (tobj_Meta item), om_Name (tobj_Meta item))]
               else []) items))))"


section \<open>Properties\<close>

lemma emits_parse_cluster: "emits (\<lambda>e. e \<noteq> KubeGetCluster a b) (parse_cluster x cluster d http)"
  unfolding parse_cluster_def cluster_credentials_def cluster_endpoint_def ReadCredentials_def Let_def
  by (intro emits_intros) simp_all

lemma parse_cluster_reads_no_cluster:
  "KubeGetCluster a b \<in> set (snd (parse_cluster x cluster d http n h)) \<longleftrightarrow> KubeGetCluster a b \<in> set h"
proof -
  obtain r es where "parse_cluster x cluster d http n h = (r, h @ es)" "list_all (\<lambda>e. e \<noteq> KubeGetCluster a b) es"
    using emits_parse_cluster by (rule emitsE)
  then show ?thesis by (auto simp: list_all_iff)
qed

lemma cluster_read_iff:
  "KubeGetCluster a b \<in> set (snd (ParseReference rmq ns d http n [])) \<longleftrightarrow>
     ref_ConnectionSecret rmq = None \<and> a = (if ref_Namespace rmq = '''' then ns else ref_Namespace rmq) \<and> b = ref_Name rmq"
  unfolding ParseReference_def call_secret_def Let_def
  by (cases "ref_ConnectionSecret rmq") (simp_all add: parse_cluster_reads_no_cluster split: sum.split)

text \<open>The reference of an object, when it is resolved, reads the cluster.\<close>

definition reads_cluster :: "TopologyReconciler \<Rightarrow> env \<Rightarrow> RabbitmqCluster \<Rightarrow> tobj \<Rightarrow> bool" where
  "reads_cluster r n cluster x \<longleftrightarrow>
     KubeGetCluster (om_Namespace (cl_Meta cluster)) (om_Name (cl_Meta cluster)) \<in>
       set (snd (ParseReference (RabbitReference x) (om_Namespace (tobj_Meta x)) (tr_KubernetesClusterDomain r)
                   (tr_ConnectUsingPlainHTTP r) n []))"

text \<open>
  C20. The watch on clusters is sound and complete: the event of a cluster makes exactly those
  listed objects reconcile whose reference, when it is resolved, reads that cluster.
\<close>

theorem cluster_watch_exact:
  assumes "tr_ListType r" and "kube_list n h (tr_Type r) = Inr items"
  shows "rabbitmqClusterToRequests r cluster n h =
    (Ret (map (\<lambda>x. (om_Namespace (tobj_Meta x), om_Name (tobj_Meta x))) (filter (reads_cluster r n cluster) items)),
     h @ [KubeList (tr_Type r)])"
proof -
  have "concat (map (\<lambda>item.
      let ref = RabbitReference item;
          refNamespace = (if ref_Namespace ref = '''' then om_Namespace (tobj_Meta item) else ref_Namespace ref) in
      if ref_ConnectionSecret ref \<noteq> None then []
      else if ref_Name ref = om_Name (cl_Meta cluster) \<and> refNamespace = om_Namespace (cl_Meta cluster)
      then [(om_Namespace (tobj_Meta item), om_Name (tobj_Meta item))] else []) xs) =
    map (\<lambda>x. (om_Namespace (tobj_Meta x), om_Name (tobj_Meta x))) (filter (reads_cluster r n cluster) xs)" for xs
    by (induction xs) (auto simp: reads_cluster_def cluster_read_iff Let_def)
  then show ?thesis using assms by (simp add: rabbitmqClusterToRequests_def)
qed

definition sample_cluster :: RabbitmqCluster where
  "sample_cluster =
     \<lparr>cl_Meta = sample_meta ''rabbit'', cl_Replicas = Some 3, cl_VaultDefaultUserPath = None,
      cl_DefaultUser = Some (Some ''rabbit''), cl_Binding = Some ''rabbit-default-user'', cl_AdditionalConfig = '''',
      cl_TLSEnabled = False, cl_DisableNonTLSListeners = False\<rparr>"

definition cluster_exchange :: Exchange where
  "cluster_exchange = sample_exchange\<lparr>obj_Spec := (obj_Spec sample_exchange)\<lparr>ex_RabbitmqClusterReference :=
     \<lparr>ref_Name = ''rabbit'', ref_Namespace = '''', ref_ConnectionSecret = None\<rparr>\<rparr>\<rparr>"

theorem cluster_watch_exact_witness:
  "rabbitmqClusterToRequests
     \<lparr>tr_Type = KExchange, tr_DeclareFunc = DeclareFunc KExchange, tr_DeleteFunc = DeleteFunc KExchange, tr_ListType = True,
      tr_KubernetesClusterDomain = '''', tr_ConnectUsingPlainHTTP = False\<rparr> sample_cluster
     (sample_env\<lparr>kube_list := \<lambda>h k. Inr [OExchange sample_exchange, OExchange cluster_exchange]\<rparr>) [] =
   (Ret [(''ns'', ''ex'')], [KubeList KExchange])"
  by (subst cluster_watch_exact)
    (auto simp: reads_cluster_def cluster_read_iff sample_cluster_def cluster_exchange_def sample_defs
      Exchange_RabbitReference_def)

end
