(* ===== verification/Reconcile_Contract.thy ===== *)
theory Reconcile_Contract
  imports Topology_Controller
begin

text \<open>
  What the reconciler relies on from an implementation of \<open>ReconcileFunc\<close>, that all twelve
  implementations provide it, and what follows for \<open>Reconcile\<close>: when the finalizer of an
  object may be given up, and when a broker may be called.
\<close>

section \<open>Reasons to give up the finalizer\<close>

text \<open>A removal the broker has acknowledged, somewhere in the calls \<open>es\<close> made after \<open>h\<close>.\<close>

definition acked :: "env \<Rightarrow> rabbit_client \<Rightarrow> event list \<Rightarrow> event list \<Rightarrow> bool" where
  "acked n c h es \<longleftrightarrow>
     (\<exists>es1 q es2. es = es1 @ Broker c q # es2 \<and> is_removal q \<and>
        removal_acknowledged (broker_http n (h @ es1) c q))"

text \<open>
  The cases in which the delete functions leave the broker alone: the deletion policy, a user
  that was never created, a permission without a user name, a binding with arguments that the
  broker does not list.
\<close>

fun skips_broker :: "env \<Rightarrow> rabbit_client \<Rightarrow> event list \<Rightarrow> tobj \<Rightarrow> bool" where
  "skips_broker n c h (OBinding b) \<longleftrightarrow>
     b_Arguments (obj_Spec b) \<noteq> None \<and> fst (findBindingInfo c b n h) = Ret (Inr None)"
| "skips_broker n c h (OQueue q) \<longleftrightarrow> q_DeletionPolicy (obj_Spec q) = ''retain''"
| "skips_broker n c h (OVhost v) \<longleftrightarrow> vh_DeletionPolicy (obj_Spec v) = ''retain''"
| "skips_broker n c h (OFederation f) \<longleftrightarrow> f_DeletionPolicy (obj_Spec f) = ''retain''"
| "skips_broker n c h (OShovel s) \<longleftrightarrow> s_DeletionPolicy (obj_Spec s) = ''retain''"
| "skips_broker n c h (OUser u) \<longleftrightarrow> us_Username (obj_Status u) = ''''"
| "skips_broker n c h (OPermission p) \<longleftrightarrow>
     (\<exists>u. fst (pointed_user (p_UserReference (obj_Spec p)) (om_Namespace (obj_Meta p)) n h) = Ret (Inr u) \<and>
          effective_username (p_User (obj_Spec p)) u = '''')"
| "skips_broker n c h (OTopicPermission p) \<longleftrightarrow>
     (\<exists>u. fst (pointed_user (tp_UserReference (obj_Spec p)) (om_Namespace (obj_Meta p)) n h) = Ret (Inr u) \<and>
          effective_username (tp_User (obj_Spec p)) u = '''')"
| "skips_broker n c h (OExchange x) \<longleftrightarrow> False"
| "skips_broker n c h (OPolicy x) \<longleftrightarrow> False"
| "skips_broker n c h (OOperatorPolicy x) \<longleftrightarrow> False"
| "skips_broker n c h (OSchemaReplication x) \<longleftrightarrow> False"

definition justified :: "env \<Rightarrow> rabbit_client \<Rightarrow> tobj \<Rightarrow> event list \<Rightarrow> event list \<Rightarrow> bool" where
  "justified n c obj h es \<longleftrightarrow> skips_broker n c h obj \<or> acked n c h es"

lemma acked_append: "acked n c h es \<Longrightarrow> acked n c h (es @ es')"
  unfolding acked_def by force

lemma justified_append: "justified n c obj h es \<Longrightarrow> justified n c obj h (es @ es')"
  by (auto simp: justified_def acked_append)

lemma acked_last:
  "is_removal q \<Longrightarrow> removal_acknowledged (broker_http n (h @ es) c q) \<Longrightarrow> acked n c h (es @ [Broker c q])"
  by (auto simp: acked_def)


section \<open>The contract\<close>

text \<open>The calls a delete function may make besides the update of the object.\<close>

definition delete_spec :: "env \<Rightarrow> rabbit_client \<Rightarrow> tobj \<Rightarrow> event list \<Rightarrow> (tobj \<times> (go_error + unit)) prog \<Rightarrow> bool" where
  "delete_spec n c obj h m \<longleftrightarrow>
     guarded n (\<lambda>h' e. \<forall>x. e = KubeUpdate x \<longrightarrow> (\<exists>es. h' = h @ es \<and> justified n c obj h es)) m h \<and>
     (\<forall>obj' h'. m n h = (Ret (obj', Inr ()), h') \<longrightarrow> (\<exists>es. h' = h @ es \<and> justified n c obj h es))"

text \<open>An update made by a declare function keeps the kind and the finalizers of the object.\<close>

definition keeps_finalizer :: "tobj \<Rightarrow> string \<Rightarrow> event \<Rightarrow> bool" where
  "keeps_finalizer obj f e \<longleftrightarrow>
     (\<forall>x. e = KubeUpdate x \<longrightarrow> tobj_Kind x = tobj_Kind obj \<and> f \<in> set (om_Finalizers (tobj_Meta x)))"

definition declare_spec :: "env \<Rightarrow> tobj \<Rightarrow> string \<Rightarrow> event list \<Rightarrow> (tobj \<times> (go_error + unit)) prog \<Rightarrow> bool" where
  "declare_spec n obj f h m \<longleftrightarrow> guarded n (\<lambda>h'. keeps_finalizer obj f) m h"

section \<open>The twelve implementations: deletion\<close>

fun no_update :: "event \<Rightarrow> bool" where
  "no_update (KubeUpdate x) = False"
| "no_update _ = True"

lemma no_update_iff: "no_update e \<longleftrightarrow> (\<forall>x. e \<noteq> KubeUpdate x)"
  by (cases e) simp_all

lemma delete_spec_keep:
  assumes "emits no_update m"
    and "\<And>h'. m n h = (Ret (Inr ()), h') \<Longrightarrow> \<exists>es. h' = h @ es \<and> justified n c obj h es"
  shows "delete_spec n c obj h (io_keep obj m)"
  unfolding delete_spec_def
proof (intro conjI allI impI)
  show "guarded n (\<lambda>h' e. \<forall>x. e = KubeUpdate x \<longrightarrow> (\<exists>es. h' = h @ es \<and> justified n c obj h es)) (io_keep obj m) h"
    by (rule guarded_keep, rule guarded_emits [OF assms(1)]) (simp add: no_update_iff)
qed (use assms(2) in \<open>auto split: prod.splits outcome.splits\<close>)

lemma removal_justified:
  assumes "foreign_errors n" and "is_removal q"
    and "ignore_missing (validateResponseForDeletion (broker_http n (h @ es) c q)) = Inr ()"
  shows "justified n c obj h (es @ [Broker c q])"
  using assms by (simp add: justified_def acked_last removal_acknowledged_iff)

lemma removal_justified0:
  assumes "foreign_errors n" and "is_removal q"
    and "ignore_missing (validateResponseForDeletion (broker_http n h c q)) = Inr ()"
  shows "justified n c obj h [Broker c q]"
  using removal_justified [of n q h "[]"] assms by simp

lemma delete_spec_removal:
  assumes "foreign_errors n" and "is_removal q"
  shows "delete_spec n c obj h (io_keep obj (send_removal c q))"
  by (rule delete_spec_keep) (auto intro!: emits_intros removal_justified0 assms)

lemma delete_spec_skip: "skips_broker n c h obj \<Longrightarrow> delete_spec n c obj h (io_keep obj (io_return (Inr ())))"
  by (rule delete_spec_keep) (auto intro!: emits_intros simp: justified_def)

lemma emits_quorum_check: "emits no_update (quorum_check c q)"
  unfolding quorum_check_def Let_def by (intro emits_intros) simp

lemma quorum_check_run:
  "\<exists>r es. quorum_check c q n h = (Ret r, h @ es)"
  by (simp add: quorum_check_def Let_def call_GetQueue_def)

lemma Queue_delete_spec:
  assumes "foreign_errors n"
  shows "delete_spec n c (OQueue q) h (io_keep (OQueue q) (Queue_DeleteFunc c q))"
proof (cases "shouldSkipDeletion (q_DeletionPolicy (obj_Spec q))")
  case True
  then show ?thesis by (simp add: Queue_DeleteFunc_def delete_spec_skip shouldSkipDeletion_def)
next
  case False
  obtain r es where r: "quorum_check c q n h = (Ret r, h @ es)" using quorum_check_run by blast
  show ?thesis
  proof (rule delete_spec_keep)
    show "emits no_update (Queue_DeleteFunc c q)"
      unfolding Queue_DeleteFunc_def by (intro emits_intros emits_quorum_check) simp
    show "\<exists>es. h' = h @ es \<and> justified n c (OQueue q) h es" if "Queue_DeleteFunc c q n h = (Ret (Inr ()), h')" for h'
      using that False r assms by (auto simp: Queue_DeleteFunc_def split: sum.splits intro!: removal_justified)
  qed
qed

lemma findBindingInfo_run: "\<exists>r es. findBindingInfo c b n h = (Ret r, h @ es)"
  by (simp add: findBindingInfo_def Let_def call_bindings_def split: sum.split)

lemma Binding_delete_spec:
  assumes "foreign_errors n"
  shows "delete_spec n c (OBinding b) h (io_keep (OBinding b) (Binding_DeleteFunc c b))"
proof (rule delete_spec_keep)
  show "emits no_update (Binding_DeleteFunc c b)"
    unfolding Binding_DeleteFunc_def findBindingInfo_def Let_def by (intro emits_intros) simp_all
  obtain r es where r: "findBindingInfo c b n h = (Ret r, h @ es)" using findBindingInfo_run by blast
  show "\<exists>es. h' = h @ es \<and> justified n c (OBinding b) h es" if "Binding_DeleteFunc c b n h = (Ret (Inr ()), h')" for h'
    using that r assms
    by (auto simp: Binding_DeleteFunc_def split: sum.splits option.splits if_splits
        intro!: removal_justified removal_justified0) (auto simp: justified_def)
qed

text \<open>The two permission controllers update the object themselves, after the broker was called.\<close>

lemma pointed_user_run: "\<exists>r es. pointed_user ref ns n h = (Ret r, h @ es)"
  by (simp add: pointed_user_def getUsernameFromUser_def split: option.split)

lemma emits_pointed_user: "emits no_update (pointed_user ref ns)"
  unfolding pointed_user_def getUsernameFromUser_def by (intro emits_intros) simp

lemma guarded_removeFinalizer:
  "(\<And>x. Q h (KubeUpdate x)) \<Longrightarrow> guarded n Q (removeFinalizer obj) h"
  unfolding removeFinalizer_def Let_def by (intro guarded_intros) simp_all

lemma removeFinalizer_run: "\<exists>r x. removeFinalizer obj n h = (Ret r, h @ [KubeUpdate x])"
  by (simp add: removeFinalizer_def Let_def call_update_def)

definition delete_permission ::
  "rabbit_client \<Rightarrow> (string \<Rightarrow> broker_call) \<Rightarrow> LocalObjectReference option \<Rightarrow> string \<Rightarrow> string \<Rightarrow> tobj \<Rightarrow>
   (tobj \<times> (go_error + unit)) prog" where
  "delete_permission c q ref ns name obj =
     io_bind (pointed_user ref ns) (\<lambda>r. case r of
        Inl err \<Rightarrow> io_return (obj, Inl err)
      | Inr user \<Rightarrow>
          io_then (io_keep obj (if effective_username name user = '''' then io_return (Inr ())
                                else send_removal c (q (effective_username name user))))
            removeFinalizer)"

lemma delete_spec_permission:
  assumes fe: "foreign_errors n" and q: "\<And>u. is_removal (q u)"
    and skip: "\<And>u h1. pointed_user ref ns n h = (Ret (Inr u), h1) \<Longrightarrow> effective_username name u = '''' \<Longrightarrow>
                 skips_broker n c h obj"
  shows "delete_spec n c obj h (delete_permission c q ref ns name obj)"
proof -
  let ?J = "\<lambda>h'. \<exists>es. h' = h @ es \<and> justified n c obj h es"
  let ?step = "\<lambda>u. io_keep obj (if effective_username name u = '''' then io_return (Inr ())
                                else send_removal c (q (effective_username name u)))"
  have step: "?J h2" if pu: "pointed_user ref ns n h = (Ret (Inr u), h1)" and "?step u n h1 = (Ret (x, Inr v), h2)" for u h1 h2 x v
  proof -
    obtain es where "h1 = h @ es" using pointed_user_run [of ref ns n h] pu by (metis prod.inject)
    then show ?thesis
      using that skip [OF pu] fe q
      by (auto simp: justified_def removal_acknowledged_iff acked_last split: if_splits)
  qed
  have "guarded n (\<lambda>h' e. \<forall>x. e = KubeUpdate x \<longrightarrow> ?J h') (delete_permission c q ref ns name obj) h"
    unfolding delete_permission_def
  proof (intro guarded_intros)
    show "guarded n (\<lambda>h' e. \<forall>x. e = KubeUpdate x \<longrightarrow> ?J h') (pointed_user ref ns) h"
      by (rule guarded_emits [OF emits_pointed_user]) (simp add: no_update_iff)
    show "guarded n (\<lambda>h' e. \<forall>x. e = KubeUpdate x \<longrightarrow> ?J h') (removeFinalizer x) h2"
      if "pointed_user ref ns n h = (Ret r, h1)" "r = Inr u" "?step u n h1 = (Ret (x, Inr v), h2)" for r u h1 x v h2
      using step that by (intro guarded_removeFinalizer) blast
  qed simp_all
  moreover have "?J h'" if run: "delete_permission c q ref ns name obj n h = (Ret (obj', Inr ()), h')" for obj' h'
  proof -
    obtain r h1 where 1: "pointed_user ref ns n h = (Ret r, h1)" using pointed_user_run by blast
    with run obtain u where u: "r = Inr u" by (auto simp: delete_permission_def split: sum.splits)
    with run 1 obtain x v h2 where 2: "?step u n h1 = (Ret (x, Inr v), h2)" "removeFinalizer x n h2 = (Ret (obj', Inr ()), h')"
      by (auto simp: delete_permission_def split: prod.splits outcome.splits sum.splits if_splits)
    obtain y where "h' = h2 @ [KubeUpdate y]" using removeFinalizer_run [of x n h2] 2(2) by auto
    then show ?thesis using step [OF 1 [unfolded u] 2(1)] justified_append by fastforce
  qed
  ultimately show ?thesis by (auto simp: delete_spec_def)
qed

lemma delete_ok_all:
  assumes "foreign_errors n" and "tkind_of obj = k"
  shows "delete_spec n c obj h (DeleteFunc k c obj)"
proof (cases obj)
  case (OPermission p)
  have "Permission_DeleteFunc c p = delete_permission c (ClearPermissionsIn (p_Vhost (obj_Spec p)))
      (p_UserReference (obj_Spec p)) (om_Namespace (obj_Meta p)) (p_User (obj_Spec p)) obj"
    unfolding OPermission Permission_DeleteFunc_def delete_permission_def Let_def revokePermissions_def ..
  then show ?thesis using assms OPermission
    by (auto simp: DeleteFunc_def intro!: delete_spec_permission)
next
  case (OTopicPermission p)
  have "TopicPermission_DeleteFunc c p = delete_permission c
      (\<lambda>u. DeleteTopicPermissionsIn (tp_Vhost (obj_Spec p)) u (tpc_Exchange (tp_Permissions (obj_Spec p))))
      (tp_UserReference (obj_Spec p)) (om_Namespace (obj_Meta p)) (tp_User (obj_Spec p)) obj"
    unfolding OTopicPermission TopicPermission_DeleteFunc_def delete_permission_def Let_def clearTopicPermission_def ..
  then show ?thesis using assms OTopicPermission
    by (auto simp: DeleteFunc_def intro!: delete_spec_permission)
qed (use assms in \<open>auto simp: DeleteFunc_def Queue_delete_spec Binding_delete_spec
       Exchange_DeleteFunc_def Policy_DeleteFunc_def OperatorPolicy_DeleteFunc_def SchemaReplication_DeleteFunc_def
       Vhost_DeleteFunc_def Federation_DeleteFunc_def Shovel_DeleteFunc_def User_DeleteFunc_def shouldSkipDeletion_def
       intro!: delete_spec_removal delete_spec_skip\<close>)


section \<open>The twelve implementations: declaration\<close>

lemma emits_outcome [emits_intros]:
  "(\<And>x. r = Ret x \<Longrightarrow> emits P (f x)) \<Longrightarrow> (\<And>s. r = Panicked s \<Longrightarrow> emits P (g s)) \<Longrightarrow>
   emits P (case r of Ret x \<Rightarrow> f x | Panicked s \<Rightarrow> g s)"
  by (cases r) simp_all

lemma emits_reconcileLimits [emits_intros]:
  "(\<And>q. P (Broker c q)) \<Longrightarrow> emits P (reconcileVhostLimits c v new)"
  "(\<And>q. P (Broker c q)) \<Longrightarrow> emits P (reconcileUserLimits c user name)"
  unfolding reconcileVhostLimits_def reconcileUserLimits_def getVhostLimits_def getUserLimits_def Let_def
  by (intro emits_intros; simp)+

lemma emits_declare_simple:
  "emits no_update (Binding_DeclareFunc c b)"
  "emits no_update (Exchange_DeclareFunc c e)"
  "emits no_update (Queue_DeclareFunc c q)"
  "emits no_update (Vhost_DeclareFunc c v)"
  "emits no_update (Policy_DeclareFunc c p)"
  "emits no_update (OperatorPolicy_DeclareFunc c p')"
  "emits no_update (Federation_DeclareFunc c f)"
  "emits no_update (Shovel_DeclareFunc c s)"
  "emits no_update (SchemaReplication_DeclareFunc c r)"
  unfolding Binding_DeclareFunc_def Exchange_DeclareFunc_def Queue_DeclareFunc_def Vhost_DeclareFunc_def
    Policy_DeclareFunc_def OperatorPolicy_DeclareFunc_def Federation_DeclareFunc_def Federation_getUri_def
    Shovel_DeclareFunc_def Shovel_getUris_def SchemaReplication_DeclareFunc_def getUpstreamEndpoints_def Let_def
  by (intro emits_intros; simp)+

lemma emits_generateCredentials: "(\<And>k. P (RandRead k)) \<Longrightarrow> emits P (generateCredentials u)"
  unfolding generateCredentials_def random_string_def by (intro emits_intros; simp)+

lemma emits_declareCredentials:
  "(\<And>k. P (RandRead k)) \<Longrightarrow> (\<And>s. P (KubeWriteSecret s)) \<Longrightarrow> emits P (declareCredentials u)"
  unfolding declareCredentials_def Let_def by (intro emits_intros emits_generateCredentials; simp)+

lemma emits_putUser:
  "(\<And>q. P (Broker c q)) \<Longrightarrow> (\<And>a b d e. P (Recorded a b d e)) \<Longrightarrow> emits P (putUser msg c creds name u)"
  unfolding putUser_def Let_def by (intro emits_intros; simp)+

lemma emits_setUserStatus: "(\<And>x. P (KubeStatusUpdate x)) \<Longrightarrow> emits P (setUserStatus u name s)"
  unfolding setUserStatus_def Let_def by (intro emits_intros; simp)+

lemma emits_User_DeclareFunc: "emits no_update (User_DeclareFunc c u)"
  unfolding User_DeclareFunc_def declareWithImportedCredentials_def declareWithGeneratedCredentials_def
    importCredentials_def getUserCredentials_def Let_def
  by (intro emits_intros emits_declareCredentials emits_putUser emits_setUserStatus; simp)+

lemma guarded_outcome [guarded_intros]:
  "(\<And>x. r = Ret x \<Longrightarrow> guarded n Q (f x) h) \<Longrightarrow> (\<And>s. r = Panicked s \<Longrightarrow> guarded n Q (g s) h) \<Longrightarrow>
   guarded n Q (case r of Ret x \<Rightarrow> f x | Panicked s \<Rightarrow> g s) h"
  by (cases r) simp_all

lemma controller_reference_finalizers:
  "controller_reference_law n \<Longrightarrow> SetControllerReference n ow m = Inr m' \<Longrightarrow> om_Finalizers m' = om_Finalizers m"
  unfolding controller_reference_law_def by (metis object_meta.ext_inject object_meta.surjective object_meta.update_convs(8))

lemma guarded_adopt_permission:
  assumes "controller_reference_law n" and "f \<in> set (om_Finalizers (tobj_Meta obj))"
  shows "guarded n (\<lambda>h'. keeps_finalizer obj f) (adopt_permission user obj) h"
  unfolding adopt_permission_def Let_def
  using assms by (cases user) (auto intro!: guarded_intros simp: controller_reference_finalizers keeps_finalizer_def)

lemma guarded_permission:
  assumes "controller_reference_law n" and "f \<in> set (om_Finalizers (tobj_Meta obj))"
  shows "guarded n (\<lambda>h'. keeps_finalizer obj f)
     (io_then (adopt_permission user obj) (\<lambda>x. io_keep x (send_permission c name x))) h"
  unfolding send_permission_def
  by (intro guarded_intros guarded_adopt_permission assms) (simp_all add: keeps_finalizer_def)

lemma declare_ok_all:
  assumes "controller_reference_law n" and "tkind_of obj = k" and "f \<in> set (om_Finalizers (tobj_Meta obj))"
  shows "declare_spec n obj f h (DeclareFunc k c obj)"
proof -
  let ?Q = "\<lambda>h'. keeps_finalizer obj f"
  have simple: "guarded n (\<lambda>h'. keeps_finalizer x f) m h" if "emits no_update m" for m :: "'a prog" and h x
    using that by (rule guarded_emits) (simp add: no_update_iff keeps_finalizer_def)
  have "guarded n ?Q (declare_obj c obj) h"
  proof (cases obj)
    case (OUser u)
    have eq: "declare_obj c obj = io_bind (User_DeclareFunc c u) (\<lambda>(u, r). io_return (OUser u, r))"
      by (simp add: OUser)
    show ?thesis unfolding eq by (intro simple emits_intros emits_User_DeclareFunc)
  next
    case (OPermission p)
    have eq: "declare_obj c obj = Permission_DeclareFunc c p" by (simp add: OPermission)
    show ?thesis unfolding eq Permission_DeclareFunc_def Let_def OPermission [symmetric]
      by (intro guarded_intros guarded_permission simple emits_pointed_user assms)
  next
    case (OTopicPermission p)
    have eq: "declare_obj c obj = TopicPermission_DeclareFunc c p" by (simp add: OTopicPermission)
    show ?thesis unfolding eq TopicPermission_DeclareFunc_def Let_def OTopicPermission [symmetric]
      by (intro guarded_intros guarded_permission simple emits_pointed_user assms)
  qed (auto intro!: simple emits_keep emits_declare_simple)
  then show ?thesis using assms(2) by (simp add: declare_spec_def DeclareFunc_def)
qed


section \<open>The contract and its client\<close>

text \<open>
  The start of \<open>Reconcile\<close>: it ends with the client of the broker, or with the error of the
  reference.
\<close>

definition connected ::
  "TopologyReconciler \<Rightarrow> env \<Rightarrow> event list \<Rightarrow> tobj \<Rightarrow> rabbit_client \<Rightarrow> event list \<Rightarrow> bool" where
  "connected r n h obj c h2 \<longleftrightarrow>
     (\<exists>h1 creds tls. extractSystemCertPool n h = (Ret (Inr ()), h1) \<and>
        ParseReference (RabbitReference obj) (om_Namespace (tobj_Meta obj)) (tr_KubernetesClusterDomain r)
          (tr_ConnectUsingPlainHTTP r) n h1 = (Ret (Inr (creds, tls)), h2) \<and>
        generateRabbitholeClient n creds tls = Inr c)"

definition reference_failed ::
  "TopologyReconciler \<Rightarrow> env \<Rightarrow> event list \<Rightarrow> tobj \<Rightarrow> go_error \<Rightarrow> event list \<Rightarrow> bool" where
  "reference_failed r n h obj err h2 \<longleftrightarrow>
     (\<exists>h1. extractSystemCertPool n h = (Ret (Inr ()), h1) \<and>
        ParseReference (RabbitReference obj) (om_Namespace (tobj_Meta obj)) (tr_KubernetesClusterDomain r)
          (tr_ConnectUsingPlainHTTP r) n h1 = (Ret (Inl err), h2))"

lemma connected_run:
  assumes "connected r n h obj c h2"
  shows "reconcile_object r obj n h =
    (if om_DeletionTimestamp (tobj_Meta obj) \<noteq> None then reconcile_delete r c obj n h2 else reconcile_declare r c obj n h2)"
  using assms by (auto simp: connected_def reconcile_object_def)

lemma guarded_reconcile_object:
  assumes quiet: "\<And>h e. is_read e \<or> (\<exists>a b d m. e = Recorded a b d m) \<Longrightarrow> Q h e"
    and failed: "\<And>err h2. reference_failed r n h obj err h2 \<Longrightarrow>
                   guarded n Q (handleRMQReferenceParseError obj (Some err)) h2"
    and del: "\<And>c h2. connected r n h obj c h2 \<Longrightarrow> om_DeletionTimestamp (tobj_Meta obj) \<noteq> None \<Longrightarrow>
                guarded n Q (reconcile_delete r c obj) h2"
    and decl: "\<And>c h2. connected r n h obj c h2 \<Longrightarrow> om_DeletionTimestamp (tobj_Meta obj) = None \<Longrightarrow>
                guarded n Q (reconcile_declare r c obj) h2"
  shows "guarded n Q (reconcile_object r obj) h"
  unfolding reconcile_object_def
proof (intro guarded_intros)
  show "guarded n Q extractSystemCertPool h"
    unfolding extractSystemCertPool_def by (intro guarded_intros) (auto intro: quiet)
qed (auto simp: connected_def reference_failed_def intro!: failed del decl
       intro: quiet guarded_emits [OF emits_ParseReference])

lemma guarded_set_status:
  "(\<And>h x. Q h (KubeStatusUpdate x)) \<Longrightarrow> guarded n Q (set_not_ready msg obj) h"
  "(\<And>h x. Q h (KubeStatusUpdate x)) \<Longrightarrow> guarded n Q (set_ready obj) h"
  unfolding set_not_ready_def set_ready_def statusUpdate_def by (intro guarded_intros; simp)+

lemma guarded_handle_error:
  assumes "\<And>h e. no_update e \<Longrightarrow> Q h e"
    and "\<And>h x. errors_Is err ErrNoSuchRabbitmqCluster \<or> errors_Is err ErrClusterScaledToZero \<Longrightarrow>
           om_DeletionTimestamp (tobj_Meta obj) \<noteq> None \<Longrightarrow> Q h (KubeUpdate x)"
  shows "guarded n Q (handleRMQReferenceParseError obj (Some err)) h"
proof -
  have "om_DeletionTimestamp (tobj_Meta obj) \<noteq> None" if "\<not> Time_IsZero (om_DeletionTimestamp (tobj_Meta obj))"
    using that by (cases "om_DeletionTimestamp (tobj_Meta obj)") auto
  then show ?thesis
    unfolding handleRMQReferenceParseError_def Let_def option.case
    by (intro guarded_intros guarded_removeFinalizer guarded_set_status) (auto intro: assms)
qed

lemma addFinalizer_result:
  assumes "finalizer_laws n" and "update_echo n" and "om_DeletionTimestamp (tobj_Meta obj) = None"
    and "addFinalizerIfNeeded obj n h = (Ret (obj1, Inr u), h')"
  shows "deletionFinalizer (tobj_Kind obj) \<in> set (om_Finalizers (tobj_Meta obj1))"
    and "tobj_Kind obj1 = tobj_Kind obj" and "tkind_of obj1 = tkind_of obj"
  using assms(1,3,4)
  by (auto simp: addFinalizerIfNeeded_def Let_def finalizer_laws_def call_update_def decode_as_Inr
      split: if_splits sum.splits dest: update_echoD(2-4) [OF assms(2)])

text \<open>
  The finalizer may be given up: the object was read as marked for deletion, and either its
  cluster is gone or scaled to zero, or the delete function has a reason.
\<close>

definition may_release ::
  "TopologyReconciler \<Rightarrow> env \<Rightarrow> string \<Rightarrow> string \<Rightarrow> event list \<Rightarrow> event list \<Rightarrow> bool" where
  "may_release r n ns name h0 h \<longleftrightarrow>
     (let h1 = h0 @ [KubeGet (tr_Type r) ns name] in
      \<exists>obj. decode_as (tr_Type r) (kube_get n h0 (tr_Type r) ns name) = Inr obj \<and>
        om_DeletionTimestamp (tobj_Meta obj) \<noteq> None \<and>
        ((\<exists>err h2. reference_failed r n h1 obj err h2 \<and>
            (errors_Is err ErrNoSuchRabbitmqCluster \<or> errors_Is err ErrClusterScaledToZero)) \<or>
         (\<exists>c h2 es. connected r n h1 obj c h2 \<and> h = h2 @ es \<and> justified n c obj h2 es)))"

text \<open>The object carries its finalizer: it was read with it, or an update that adds it was accepted.\<close>

definition finalizer_held ::
  "TopologyReconciler \<Rightarrow> env \<Rightarrow> string \<Rightarrow> string \<Rightarrow> event list \<Rightarrow> event list \<Rightarrow> bool" where
  "finalizer_held r n ns name h0 h \<longleftrightarrow>
     (\<exists>obj. decode_as (tr_Type r) (kube_get n h0 (tr_Type r) ns name) = Inr obj \<and>
        (om_DeletionTimestamp (tobj_Meta obj) \<noteq> None \<or>
         deletionFinalizer (tobj_Kind obj) \<in> set (om_Finalizers (tobj_Meta obj)) \<or>
         (\<exists>es1 x es2 y. h = h0 @ es1 @ KubeUpdate x # es2 \<and> kube_update n (h0 @ es1) x = Inr y \<and>
            deletionFinalizer (tobj_Kind obj) \<in> set (om_Finalizers (tobj_Meta x)))))"

definition releases :: "event \<Rightarrow> bool" where
  "releases e \<longleftrightarrow>
     (\<exists>x. e = KubeUpdate x \<and> deletionFinalizer (tobj_Kind x) \<notin> set (om_Finalizers (tobj_Meta x)))"

lemma not_releases: "no_update e \<Longrightarrow> \<not> releases e"
  by (auto simp: releases_def)

lemma finalizer_held_append: "finalizer_held r n ns name h0 h \<Longrightarrow> finalizer_held r n ns name h0 (h @ es)"
  unfolding finalizer_held_def by fastforce

lemma addFinalizer_held:
  assumes "finalizer_laws n" and "om_DeletionTimestamp (tobj_Meta obj) = None"
    and "decode_as (tr_Type r) (kube_get n h0 (tr_Type r) ns name) = Inr obj"
    and "h = h0 @ es0" and "addFinalizerIfNeeded obj n h = (Ret (obj1, Inr u), h1)"
  shows "finalizer_held r n ns name h0 h1"
  using assms
  by (fastforce simp: finalizer_held_def addFinalizerIfNeeded_def Let_def finalizer_laws_def call_update_def
      decode_as_Inr split: if_splits sum.splits)

lemma connected_extends:
  assumes "connected r n h obj c h2"
  shows "\<exists>es. h2 = h @ es"
proof -
  obtain h1 creds tls where 1: "extractSystemCertPool n h = (Ret (Inr ()), h1)"
      "ParseReference (RabbitReference obj) (om_Namespace (tobj_Meta obj)) (tr_KubernetesClusterDomain r)
          (tr_ConnectUsingPlainHTTP r) n h1 = (Ret (Inr (creds, tls)), h2)"
    using assms by (auto simp: connected_def)
  have "h1 = h" using 1(1) by (auto simp: extractSystemCertPool_def call_record_def split: option.splits)
  then show ?thesis using emits_run [OF emits_ParseReference 1(2)] by blast
qed

locale reconcile_func =
  fixes k :: tkind and declare_fun delete_fun :: reconcile_fun
  assumes declare_ok:
    "\<lbrakk>controller_reference_law n; tkind_of obj = k; f \<in> set (om_Finalizers (tobj_Meta obj))\<rbrakk> \<Longrightarrow>
     declare_spec n obj f h (declare_fun c obj)"
    and delete_ok:
    "\<lbrakk>foreign_errors n; tkind_of obj = k\<rbrakk> \<Longrightarrow> delete_spec n c obj h (delete_fun c obj)"
begin

definition uses :: "TopologyReconciler \<Rightarrow> bool" where
  "uses r \<longleftrightarrow> tr_Type r = k \<and> tr_DeclareFunc r = declare_fun \<and> tr_DeleteFunc r = delete_fun"

lemma release_in_delete:
  assumes "foreign_errors n" and "uses r" and "tkind_of obj = k"
    and "\<And>h e. \<not> releases e \<Longrightarrow> Q h e"
    and just: "\<And>es x. justified n c obj h es \<Longrightarrow> Q (h @ es) (KubeUpdate x)"
  shows "guarded n Q (reconcile_delete r c obj) h"
proof -
  have spec: "delete_spec n c obj h (tr_DeleteFunc r c obj)"
    using assms(1-3) delete_ok by (simp add: uses_def)
  have "guarded n Q (tr_DeleteFunc r c obj) h"
    using spec unfolding delete_spec_def
    by (elim conjE guarded_mono) (metis assms(4) just releases_def)
  moreover have "guarded n Q (removeFinalizer obj') (h' @ [Recorded a b d m])"
    if "tr_DeleteFunc r c obj n h = (Ret (obj', Inr ()), h')" for obj' h' a b d m
  proof -
    obtain es where "h' = h @ es" "justified n c obj h es"
      using spec \<open>tr_DeleteFunc r c obj n h = (Ret (obj', Inr ()), h')\<close> unfolding delete_spec_def by blast
    then show ?thesis
      by (intro guarded_removeFinalizer) (metis append_assoc just justified_append)
  qed
  ultimately show ?thesis
    unfolding reconcile_delete_def Let_def
    by (intro guarded_intros) (auto simp: call_record_def intro: assms(4) simp: releases_def)
qed

lemma no_release_in_declare:
  assumes laws: "finalizer_laws n" "update_echo n" "controller_reference_law n"
    and "uses r" and "tkind_of obj = k" and "om_DeletionTimestamp (tobj_Meta obj) = None"
  shows "guarded n (\<lambda>h e. \<not> releases e) (reconcile_declare r c obj) h"
proof -
  have add: "guarded n (\<lambda>h e. \<not> releases e) (addFinalizerIfNeeded obj) h" for h
    unfolding addFinalizerIfNeeded_def Let_def using laws(1)
    by (intro guarded_intros) (auto simp: releases_def finalizer_laws_def)
  moreover have "guarded n (\<lambda>h e. \<not> releases e) (tr_DeclareFunc r c obj1) h1"
    if "addFinalizerIfNeeded obj n h = (Ret (obj1, Inr u), h1)" for obj1 u h1
  proof -
    note 1 = addFinalizer_result [OF laws(1,2) assms(6) that]
    have "declare_spec n obj1 (deletionFinalizer (tobj_Kind obj)) h1 (tr_DeclareFunc r c obj1)"
      using assms(4,5) 1 declare_ok [OF laws(3)] by (simp add: uses_def)
    then show ?thesis
      unfolding declare_spec_def
      by (rule guarded_mono) (auto simp: keeps_finalizer_def releases_def 1(2))
  qed
  ultimately show ?thesis
    unfolding reconcile_declare_def Let_def
    by (intro guarded_intros guarded_set_status) (auto simp: releases_def)
qed

theorem release_guarded:
  assumes "finalizer_laws n" "update_echo n" "controller_reference_law n" "foreign_errors n" and "uses r"
  shows "guarded n (\<lambda>h e. releases e \<longrightarrow> may_release r n ns name h0 h) (Reconcile r ns name) h0"
proof -
  let ?Q = "\<lambda>h e. releases e \<longrightarrow> may_release r n ns name h0 h"
  let ?h1 = "h0 @ [KubeGet (tr_Type r) ns name]"
  have "guarded n ?Q (reconcile_object r obj) ?h1"
    if get: "decode_as (tr_Type r) (kube_get n h0 (tr_Type r) ns name) = Inr obj" for obj
  proof (rule guarded_reconcile_object)
    have kind: "tkind_of obj = k" using decode_as_kind [OF get] assms(5) by (simp add: uses_def)
    show "?Q h e" if "is_read e \<or> (\<exists>a b d m. e = Recorded a b d m)" for h e
      using that by (auto simp: releases_def)
    show "guarded n ?Q (handleRMQReferenceParseError obj (Some err)) h2"
      if "reference_failed r n ?h1 obj err h2" for err h2
      by (rule guarded_handle_error) (use get that in \<open>auto simp: not_releases may_release_def Let_def\<close>)
    show "guarded n ?Q (reconcile_delete r c obj) h2"
      if "connected r n ?h1 obj c h2" "om_DeletionTimestamp (tobj_Meta obj) \<noteq> None" for c h2
      by (rule release_in_delete [OF assms(4,5) kind]) (use get that in \<open>auto simp: may_release_def Let_def\<close>)
    show "guarded n ?Q (reconcile_declare r c obj) h2"
      if "om_DeletionTimestamp (tobj_Meta obj) = None" for c h2
      by (rule guarded_mono [OF no_release_in_declare [OF assms(1-3,5) kind that]]) simp
  qed
  then show ?thesis
    unfolding Reconcile_def
    by (intro guarded_intros) (auto simp: call_get_def releases_def)
qed

text \<open>No broker is called for an object that lacks its finalizer.\<close>

lemma held_in_declare:
  assumes laws: "finalizer_laws n" "update_echo n" "controller_reference_law n"
    and "uses r" and "tkind_of obj = k" and "om_DeletionTimestamp (tobj_Meta obj) = None"
    and get: "decode_as (tr_Type r) (kube_get n h0 (tr_Type r) ns name) = Inr obj"
    and h: "h = h0 @ es0"
  shows "guarded n (\<lambda>h e. \<forall>c q. e = Broker c q \<longrightarrow> finalizer_held r n ns name h0 h) (reconcile_declare r c obj) h"
proof -
  let ?Q = "\<lambda>h e. \<forall>c q. e = Broker c q \<longrightarrow> finalizer_held r n ns name h0 h"
  have add: "guarded n ?Q (addFinalizerIfNeeded obj) h"
    unfolding addFinalizerIfNeeded_def Let_def by (intro guarded_intros) auto
  moreover have "guarded n ?Q (tr_DeclareFunc r c obj1) h1"
    if run: "addFinalizerIfNeeded obj n h = (Ret (obj1, Inr u), h1)" for obj1 u h1
  proof -
    note 1 = addFinalizer_result [OF laws(1,2) assms(6) run]
    have held: "finalizer_held r n ns name h0 h1" by (rule addFinalizer_held [OF laws(1) assms(6) get h run])
    have "declare_spec n obj1 (deletionFinalizer (tobj_Kind obj)) h1 (tr_DeclareFunc r c obj1)"
      using assms(4,5) 1 declare_ok [OF laws(3)] by (simp add: uses_def)
    from this [unfolded declare_spec_def, THEN guarded_extends] show ?thesis
      by (rule guarded_mono) (use held finalizer_held_append in blast)
  qed
  ultimately show ?thesis
    unfolding reconcile_declare_def Let_def
    by (intro guarded_intros guarded_set_status) auto
qed

theorem broker_guarded:
  assumes "finalizer_laws n" "update_echo n" "controller_reference_law n" "foreign_errors n" and "uses r"
  shows "guarded n (\<lambda>h e. \<forall>c q. e = Broker c q \<longrightarrow> finalizer_held r n ns name h0 h) (Reconcile r ns name) h0"
proof -
  let ?Q = "\<lambda>h e. \<forall>c q. e = Broker c q \<longrightarrow> finalizer_held r n ns name h0 h"
  let ?h1 = "h0 @ [KubeGet (tr_Type r) ns name]"
  have "guarded n ?Q (reconcile_object r obj) ?h1"
    if get: "decode_as (tr_Type r) (kube_get n h0 (tr_Type r) ns name) = Inr obj" for obj
  proof (rule guarded_reconcile_object)
    have kind: "tkind_of obj = k" using decode_as_kind [OF get] assms(5) by (simp add: uses_def)
    show "?Q h e" if "is_read e \<or> (\<exists>a b d m. e = Recorded a b d m)" for h e
      using that by auto
    show "guarded n ?Q (handleRMQReferenceParseError obj (Some err)) h2" for err h2
      unfolding handleRMQReferenceParseError_def Let_def option.case
      by (intro guarded_intros guarded_removeFinalizer guarded_set_status) auto
    show "guarded n ?Q (reconcile_delete r c obj) h2"
      if "om_DeletionTimestamp (tobj_Meta obj) \<noteq> None" for c h2
    proof -
      have "finalizer_held r n ns name h0 h" for h using get that by (auto simp: finalizer_held_def)
      then show ?thesis
        by (intro release_in_delete [OF assms(4,5) kind, THEN guarded_mono, where Q = "\<lambda>_ _. True"]) simp_all
    qed
    show "guarded n ?Q (reconcile_declare r c obj) h2"
      if conn: "connected r n ?h1 obj c h2" and ts: "om_DeletionTimestamp (tobj_Meta obj) = None" for c h2
    proof -
      obtain es where "h2 = ?h1 @ es" using connected_extends [OF conn] by blast
      then show ?thesis by (intro held_in_declare [OF assms(1-3,5) kind ts get]) simp
    qed
  qed
  then show ?thesis
    unfolding Reconcile_def
    by (intro guarded_intros) (auto simp: call_get_def)
qed

end


section \<open>The implementations satisfy the contract\<close>

interpretation rf: reconcile_func k "DeclareFunc k" "DeleteFunc k" for k
  by unfold_locales (auto intro: declare_ok_all delete_ok_all)


section \<open>The outcome of a declaration\<close>

text \<open>
  Once the finalizer is in place, the result and the last two calls of the declare branch are
  determined by what the declare function returned.
\<close>

definition reported_condition :: "go_time \<Rightarrow> go_error + unit \<Rightarrow> tobj \<Rightarrow> Condition" where
  "reported_condition t res obj =
     (case res of
        Inl err \<Rightarrow> NotReady t (err_Error err) (tobj_Conditions obj)
      | Inr u \<Rightarrow> Ready t (tobj_Conditions obj))"

lemma reconcile_declare_run:
  assumes "addFinalizerIfNeeded obj n h = (Ret (obj1, Inr u), h1)"
    and "tr_DeclareFunc r c obj1 n h1 = (Ret (obj2, res), h2)"
  shows "\<exists>e t x. reconcile_declare r c obj n h = (Ret (0, err_of res), h2 @ [e, KubeStatusUpdate x]) \<and>
    x = (if err_of res = None then set_ObservedGeneration (SetStatusConditions obj2 [reported_condition t res obj2])
                                     (om_Generation (tobj_Meta obj2))
         else SetStatusConditions obj2 [reported_condition t res obj2])"
  using assms
  by (cases res) (auto simp: reconcile_declare_def Let_def call_record_def set_not_ready_def set_ready_def
      statusUpdate_def call_status_update_def call_now_def getStatusConditions_def setObservedGeneration_def
      err_of_def reported_condition_def)

text \<open>
  The end of a run is reported: the last call writes a status with a condition Ready, and if that
  is True, the declare function has just returned without an error.
\<close>

definition reported :: "TopologyReconciler \<Rightarrow> env \<Rightarrow> event list \<Rightarrow> bool" where
  "reported r n h' \<longleftrightarrow>
     (\<exists>h x cond. h' = h @ [KubeStatusUpdate x] \<and> condition_of ready (tobj_Conditions x) = Some cond \<and>
        (cond_Status cond = ConditionFalse \<or>
         cond_Status cond = ConditionTrue \<and>
         (\<exists>c obj1 h1 obj2 h2 e. tr_DeclareFunc r c obj1 n h1 = (Ret (obj2, Inr ()), h2) \<and> h = h2 @ [e])))"

lemma reported_not_ready: "set_not_ready msg obj n h = (r', h') \<Longrightarrow> reported r n h'"
  unfolding set_not_ready_def statusUpdate_def call_status_update_def call_now_def
  using condition_of_SetStatusConditions [of "NotReady (now n h) msg (getStatusConditions obj)" obj]
  by (auto simp: reported_def NotReady_def)

lemma reported_ready:
  assumes "tr_DeclareFunc r c obj1 n h1 = (Ret (obj2, Inr ()), h2)" and "set_ready obj2 n (h2 @ [e]) = (r', h')"
  shows "reported r n h'"
  using assms condition_of_SetStatusConditions [of "Ready (now n (h2 @ [e])) (getStatusConditions obj2)" obj2]
  unfolding set_ready_def statusUpdate_def call_status_update_def call_now_def reported_def setObservedGeneration_def
  by (auto simp: Ready_def) blast

lemma reported_handle_error:
  assumes "handleRMQReferenceParseError obj (Some err) n h = (Ret (delay, None), h')"
    and "om_DeletionTimestamp (tobj_Meta obj) = None"
  shows "reported r n h'"
  using assms
  by (auto simp: handleRMQReferenceParseError_def Let_def call_record_def
      split: if_splits prod.splits outcome.splits dest: reported_not_ready)

lemma reported_declare:
  assumes "reconcile_declare r c obj n h = (Ret (delay, None), h')"
  shows "reported r n h'"
  using assms
  by (auto simp: reconcile_declare_def Let_def call_record_def
      split: prod.splits outcome.splits sum.splits dest: reported_ready)

lemma reported_object:
  assumes "reconcile_object r obj n h = (Ret (delay, None), h')"
    and "om_DeletionTimestamp (tobj_Meta obj) = None"
  shows "reported r n h'"
  using assms
  by (auto simp: reconcile_object_def extractSystemCertPool_def call_record_def
      split: option.splits prod.splits outcome.splits sum.splits
      dest: reported_declare reported_handle_error)

end
