(* ===== verification/Setup.thy ===== *)
theory Setup
  imports Reconcile_Contract
begin

text \<open>
  \<open>cmd/main.go\<close>: the reading of the environment variables, the cluster domain with its
  regular expression, and the twelve reconcilers.

  A call of \<open>os.Exit(1)\<close> is the value \<open>None\<close>. Of the whitespace that
  \<open>strings.TrimSpace\<close> removes the model has the ASCII characters. \<open>Manager\<close> has the rest of \<open>main\<close>.
\<close>

section \<open>Numbers and booleans from the environment\<close>

text \<open>\<open>strconv.ParseInt(s, 10, 64)\<close>; on a 64-bit platform \<open>strconv.Atoi\<close> is the same.\<close>

definition parse_digits :: "string \<Rightarrow> nat option" where
  "parse_digits s = (if s \<noteq> '''' \<and> list_all is_digit s then Some (digits_value s) else None)"

definition strconv_ParseInt64 :: "string \<Rightarrow> int option" where
  "strconv_ParseInt64 s =
     (case s of
        [] \<Rightarrow> None
      | c # r \<Rightarrow>
          if c = CHR ''-''
          then (case parse_digits r of
                  Some v \<Rightarrow> if int v \<le> 2 ^ 63 then Some (- int v) else None
                | None \<Rightarrow> None)
          else (case parse_digits (if c = CHR ''+'' then r else s) of
                  Some v \<Rightarrow> if int v < 2 ^ 63 then Some (int v) else None
                | None \<Rightarrow> None))"

definition strconv_ParseBool :: "string \<Rightarrow> bool option" where
  "strconv_ParseBool s =
     (if s \<in> {''1'', ''t'', ''T'', ''TRUE'', ''true'', ''True''} then Some True
      else if s \<in> {''0'', ''f'', ''F'', ''FALSE'', ''false'', ''False''} then Some False
      else None)"

definition getEnvInDuration :: "(string \<Rightarrow> string option) \<Rightarrow> string \<Rightarrow> int option" where
  "getEnvInDuration LookupEnv envName =
     (case (case LookupEnv envName of None \<Rightarrow> Some 0 | Some durationStr \<Rightarrow> strconv_ParseInt64 durationStr) of
        None \<Rightarrow> None
      | Some durationInt \<Rightarrow> Some (wrap_signed 64 (durationInt * 1000000000)))"

definition getBoolEnv :: "(string \<Rightarrow> string option) \<Rightarrow> string \<Rightarrow> bool option" where
  "getBoolEnv LookupEnv envName =
     (case LookupEnv envName of None \<Rightarrow> Some False | Some boolStr \<Rightarrow> strconv_ParseBool boolStr)"

definition getIntEnv :: "(string \<Rightarrow> string option) \<Rightarrow> string \<Rightarrow> int option" where
  "getIntEnv LookupEnv envName =
     (case LookupEnv envName of None \<Rightarrow> Some 0 | Some initStr \<Rightarrow> strconv_ParseInt64 initStr)"

definition ascii_space :: "char \<Rightarrow> bool" where
  "ascii_space c \<longleftrightarrow> c = CHR '' '' \<or> (9 \<le> (of_char c :: nat) \<and> of_char c \<le> (13 :: nat))"

definition strings_TrimSpace :: "string \<Rightarrow> string" where
  "strings_TrimSpace s = rev (dropWhile ascii_space (rev (dropWhile ascii_space s)))"

definition getOperatorNamespace ::
  "(string \<Rightarrow> string) \<Rightarrow> (string \<Rightarrow> go_error + string) \<Rightarrow> go_error + string" where
  "getOperatorNamespace Getenv ReadFile =
     (if Getenv ''OPERATOR_NAMESPACE'' \<noteq> '''' then Inr (Getenv ''OPERATOR_NAMESPACE'')
      else case ReadFile ''/var/run/secrets/kubernetes.io/serviceaccount/namespace'' of
        Inl err \<Rightarrow> Inl (ErrWrap ''failed to read namespace from environment variable or service account file: '' err '''')
      | Inr nsBytes \<Rightarrow> Inr (strings_TrimSpace nsBytes))"

text \<open>The namespaces of the cache: \<open>None\<close> watches all of them.\<close>

definition watched_namespaces :: "string \<Rightarrow> string set option" where
  "watched_namespaces operatorScopeNamespace =
     (if operatorScopeNamespace \<noteq> ''''
      then if CHR '','' \<in> set operatorScopeNamespace
           then Some (set (strings_Split (CHR '','') operatorScopeNamespace))
           else Some {operatorScopeNamespace}
      else None)"

definition maxConcurrentReconciles :: "(string \<Rightarrow> string option) \<Rightarrow> int option" where
  "maxConcurrentReconciles LookupEnv =
     (case getIntEnv LookupEnv ''MAX_CONCURRENT_RECONCILES'' of
        None \<Rightarrow> None
      | Some v \<Rightarrow> Some (if v > 0 then v else 0))"


section \<open>Regular expressions\<close>

text \<open>
  The fragment of package regexp that the allow-list expression needs: a match is defined by
  rules, and computed with derivatives.
\<close>

datatype rx = RNone | REps | RClass "char \<Rightarrow> bool" | RSeq rx rx | RAlt rx rx | RStar rx

inductive rx_match :: "rx \<Rightarrow> string \<Rightarrow> bool" where
  eps: "rx_match REps []"
| cls: "p c \<Longrightarrow> rx_match (RClass p) [c]"
| seq: "rx_match r s \<Longrightarrow> rx_match r' s' \<Longrightarrow> rx_match (RSeq r r') (s @ s')"
| alt1: "rx_match r s \<Longrightarrow> rx_match (RAlt r r') s"
| alt2: "rx_match r' s \<Longrightarrow> rx_match (RAlt r r') s"
| star0: "rx_match (RStar r) []"
| starS: "rx_match r s \<Longrightarrow> rx_match (RStar r) s' \<Longrightarrow> rx_match (RStar r) (s @ s')"

inductive_simps rx_match_simps [simp]:
  "rx_match RNone s" "rx_match REps s" "rx_match (RClass p) s" "rx_match (RSeq r r') s" "rx_match (RAlt r r') s"

fun rx_nullable :: "rx \<Rightarrow> bool" where
  "rx_nullable RNone = False"
| "rx_nullable REps = True"
| "rx_nullable (RClass p) = False"
| "rx_nullable (RSeq r r') = (rx_nullable r \<and> rx_nullable r')"
| "rx_nullable (RAlt r r') = (rx_nullable r \<or> rx_nullable r')"
| "rx_nullable (RStar r) = True"

fun rx_deriv :: "char \<Rightarrow> rx \<Rightarrow> rx" where
  "rx_deriv c RNone = RNone"
| "rx_deriv c REps = RNone"
| "rx_deriv c (RClass p) = (if p c then REps else RNone)"
| "rx_deriv c (RSeq r r') =
     (if rx_nullable r then RAlt (RSeq (rx_deriv c r) r') (rx_deriv c r') else RSeq (rx_deriv c r) r')"
| "rx_deriv c (RAlt r r') = RAlt (rx_deriv c r) (rx_deriv c r')"
| "rx_deriv c (RStar r) = RSeq (rx_deriv c r) (RStar r)"

definition regexp_MatchString :: "rx \<Rightarrow> string \<Rightarrow> bool" where
  "regexp_MatchString r s = rx_nullable (foldl (\<lambda>r c. rx_deriv c r) r s)"

lemma rx_nullable_iff: "rx_nullable r \<longleftrightarrow> rx_match r []"
  by (induction r) (auto intro: star0)

lemma rx_star_Cons:
  assumes "rx_match (RStar r) (c # s)"
  shows "\<exists>s1 s2. s = s1 @ s2 \<and> rx_match r (c # s1) \<and> rx_match (RStar r) s2"
  using assms
proof (induction "RStar r" "c # s" arbitrary: s rule: rx_match.induct)
  case (starS s1 s2)
  then show ?case by (cases s1) auto
qed

lemma rx_deriv_iff: "rx_match (rx_deriv c r) s \<longleftrightarrow> rx_match r (c # s)"
proof (induction r arbitrary: s)
  case (RSeq r r')
  show ?case
    using RSeq by (auto simp: rx_nullable_iff Cons_eq_append_conv)
next
  case (RStar r)
  show ?case
  proof
    assume "rx_match (rx_deriv c (RStar r)) s"
    then obtain s1 s2 where "s = s1 @ s2" "rx_match r (c # s1)" "rx_match (RStar r) s2"
      using RStar by auto
    then show "rx_match (RStar r) (c # s)" using starS [of r "c # s1" s2] by simp
  next
    assume "rx_match (RStar r) (c # s)"
    then show "rx_match (rx_deriv c (RStar r)) s" using rx_star_Cons RStar by auto
  qed
qed auto

lemma regexp_MatchString_iff: "regexp_MatchString r s \<longleftrightarrow> rx_match r s"
  unfolding regexp_MatchString_def
  by (induction s arbitrary: r) (simp_all add: rx_nullable_iff rx_deriv_iff)


section \<open>The cluster domain\<close>

definition lower_letter :: "char \<Rightarrow> bool" where
  "lower_letter c \<longleftrightarrow> 97 \<le> (of_char c :: nat) \<and> of_char c \<le> (122 :: nat)"

definition lower_alnum :: "char \<Rightarrow> bool" where
  "lower_alnum c \<longleftrightarrow> lower_letter c \<or> is_digit c"

definition lower_alnum_hyphen :: "char \<Rightarrow> bool" where
  "lower_alnum_hyphen c \<longleftrightarrow> c = CHR ''-'' \<or> lower_alnum c"

text \<open>\<open>[a-z]([-a-z0-9]*[a-z0-9])?\<close>\<close>

definition rx_label :: rx where
  "rx_label =
     RSeq (RClass lower_letter) (RAlt (RSeq (RStar (RClass lower_alnum_hyphen)) (RClass lower_alnum)) REps)"

definition rx_dot :: rx where
  "rx_dot = RClass (\<lambda>c. c = CHR ''.'')"

text \<open>The whole expression is anchored at both ends.\<close>

definition rx_domain :: rx where
  "rx_domain = RSeq (RAlt rx_dot REps) (RSeq rx_label (RStar (RSeq rx_dot rx_label)))"

definition sanitizeClusterDomainInput :: "string \<Rightarrow> string" where
  "sanitizeClusterDomainInput clusterDomain =
     (if length clusterDomain = 0 then ''''
      else if \<not> regexp_MatchString rx_domain clusterDomain then ''''
      else if \<not> strings_HasPrefix clusterDomain ''.'' then ''.'' @ clusterDomain
      else clusterDomain)"

text \<open>
  What the expression means: after an optional dot, the text between the dots is a list of
  labels.
\<close>

definition domain_label :: "string \<Rightarrow> bool" where
  "domain_label l \<longleftrightarrow>
     l \<noteq> [] \<and> lower_letter (hd l) \<and> lower_alnum (last l) \<and> list_all lower_alnum_hyphen l"

definition domain_name :: "string \<Rightarrow> bool" where
  "domain_name s \<longleftrightarrow> list_all domain_label (strings_Split (CHR ''.'') (strings_TrimPrefix s ''.''))"

lemma rx_star_class: "rx_match (RStar (RClass p)) s \<longleftrightarrow> list_all p s"
proof
  show "rx_match (RStar (RClass p)) s \<Longrightarrow> list_all p s"
    by (induction "RStar (RClass p)" s rule: rx_match.induct) auto
  show "list_all p s \<Longrightarrow> rx_match (RStar (RClass p)) s"
  proof (induction s)
    case (Cons c s)
    then show ?case using starS [of "RClass p" "[c]" s] by simp
  qed (simp add: star0)
qed

lemma rx_label_iff: "rx_match rx_label l \<longleftrightarrow> domain_label l"
proof
  assume "rx_match rx_label l"
  then show "domain_label l"
    by (auto simp: rx_label_def rx_star_class domain_label_def lower_alnum_hyphen_def lower_alnum_def)
next
  assume l: "domain_label l"
  then obtain c r where cr: "l = c # r" "lower_letter c" by (cases l) (auto simp: domain_label_def)
  show "rx_match rx_label l"
  proof (cases r rule: rev_cases)
    case Nil
    then show ?thesis using cr by (auto simp: rx_label_def)
  next
    case (snoc m d)
    then have "list_all lower_alnum_hyphen m" "lower_alnum d" using cr l by (auto simp: domain_label_def)
    then have "rx_match (RSeq (RStar (RClass lower_alnum_hyphen)) (RClass lower_alnum)) (m @ [d])"
      by (intro seq cls) (simp_all add: rx_star_class)
    from seq [OF cls [of lower_letter c] alt1 [OF this]] show ?thesis
      using cr snoc by (simp add: rx_label_def del: rx_match_simps)
  qed
qed

lemma no_dot_label:
  assumes "domain_label l"
  shows "CHR ''.'' \<notin> set l"
proof -
  have "\<not> lower_alnum_hyphen (CHR ''.'')"
    by (simp add: lower_alnum_hyphen_def lower_alnum_def lower_letter_def is_digit_def)
  then show ?thesis using assms by (auto simp: domain_label_def list_all_iff)
qed

lemma rx_labels_iff:
  "rx_match (RStar (RSeq rx_dot rx_label)) s \<longleftrightarrow>
   (\<exists>ls. list_all domain_label ls \<and> s = concat (map (Cons (CHR ''.'')) ls))"
proof
  show "rx_match (RStar (RSeq rx_dot rx_label)) s \<Longrightarrow>
        \<exists>ls. list_all domain_label ls \<and> s = concat (map (Cons (CHR ''.'')) ls)"
  proof (induction "RStar (RSeq rx_dot rx_label)" s rule: rx_match.induct)
    case (starS s s')
    then obtain l ls where "domain_label l" "s = CHR ''.'' # l" "list_all domain_label ls"
        "s' = concat (map (Cons (CHR ''.'')) ls)"
      by (auto simp: rx_dot_def rx_label_iff)
    then show ?case by (intro exI [of _ "l # ls"]) simp
  qed (auto intro: exI [of _ "[]"])
  assume "\<exists>ls. list_all domain_label ls \<and> s = concat (map (Cons (CHR ''.'')) ls)"
  then obtain ls where "list_all domain_label ls" "s = concat (map (Cons (CHR ''.'')) ls)" by blast
  then show "rx_match (RStar (RSeq rx_dot rx_label)) s"
  proof (induction ls arbitrary: s)
    case (Cons l ls)
    then have "rx_match (RSeq rx_dot rx_label) (CHR ''.'' # l)"
      by (auto simp: rx_dot_def rx_label_iff)
    from starS [OF this Cons.IH] show ?case using Cons.prems by simp
  qed (simp add: star0)
qed

lemma strings_Split_append:
  "c \<notin> set l \<Longrightarrow> strings_Split c (l @ c # t) = l # strings_Split c t"
  by (induction l) auto

lemma strings_Split_plain: "c \<notin> set l \<Longrightarrow> strings_Split c l = [l]"
  by (induction l) auto

lemma strings_Split_concat:
  "c \<notin> set l \<Longrightarrow> \<forall>x \<in> set ls. c \<notin> set x \<Longrightarrow> strings_Split c (l @ concat (map (Cons c) ls)) = l # ls"
  by (induction ls arbitrary: l) (simp_all add: strings_Split_plain strings_Split_append)

lemma strings_Join_concat: "strings_Join c (l # ls) = l @ concat (map (Cons c) ls)"
  by (induction ls arbitrary: l) (simp_all add: strings_Join_Cons)

lemma split_labels_iff:
  "list_all domain_label (strings_Split (CHR ''.'') t) \<longleftrightarrow>
   (\<exists>l ls. t = l @ concat (map (Cons (CHR ''.'')) ls) \<and> domain_label l \<and> list_all domain_label ls)"
proof
  assume ok: "list_all domain_label (strings_Split (CHR ''.'') t)"
  obtain l ls where s: "strings_Split (CHR ''.'') t = l # ls" by (cases "strings_Split (CHR ''.'') t") auto
  then have "t = l @ concat (map (Cons (CHR ''.'')) ls)"
    by (metis strings_Join_Split strings_Join_concat)
  with ok s show "\<exists>l ls. t = l @ concat (map (Cons (CHR ''.'')) ls) \<and> domain_label l \<and> list_all domain_label ls"
    by auto
next
  assume "\<exists>l ls. t = l @ concat (map (Cons (CHR ''.'')) ls) \<and> domain_label l \<and> list_all domain_label ls"
  then show "list_all domain_label (strings_Split (CHR ''.'') t)"
    by (auto simp: strings_Split_concat no_dot_label list_all_iff)
qed

lemma rx_tail_iff:
  "rx_match (RSeq rx_label (RStar (RSeq rx_dot rx_label))) t \<longleftrightarrow> list_all domain_label (strings_Split (CHR ''.'') t)"
  unfolding split_labels_iff rx_match_simps rx_label_iff rx_labels_iff by blast

lemma rx_domain_iff: "rx_match rx_domain s \<longleftrightarrow> domain_name s"
proof -
  have "rx_match rx_domain s \<longleftrightarrow>
      (\<exists>t. s = CHR ''.'' # t \<and> list_all domain_label (strings_Split (CHR ''.'') t)) \<or>
      list_all domain_label (strings_Split (CHR ''.'') s)"
    unfolding rx_domain_def rx_match_simps(4) [of "RAlt rx_dot REps"] rx_tail_iff
    by (auto simp: rx_dot_def) (metis append_Cons append_Nil)
  moreover have "\<not> list_all domain_label (strings_Split (CHR ''.'') (CHR ''.'' # t))" for t
    by (simp add: domain_label_def)
  ultimately show ?thesis
    by (cases s) (auto simp: domain_name_def strings_TrimPrefix_def)
qed


section \<open>The reconcilers\<close>

definition setup_Queue :: "string \<Rightarrow> bool \<Rightarrow> TopologyReconciler" where
  "setup_Queue clusterDomain usePlainHTTP =
     \<lparr>tr_Type = KQueue, tr_DeclareFunc = DeclareFunc KQueue, tr_DeleteFunc = DeleteFunc KQueue, tr_ListType = True,
      tr_KubernetesClusterDomain = clusterDomain, tr_ConnectUsingPlainHTTP = usePlainHTTP\<rparr>"

definition setup_Exchange :: "string \<Rightarrow> bool \<Rightarrow> TopologyReconciler" where
  "setup_Exchange clusterDomain usePlainHTTP =
     \<lparr>tr_Type = KExchange, tr_DeclareFunc = DeclareFunc KExchange, tr_DeleteFunc = DeleteFunc KExchange, tr_ListType = True,
      tr_KubernetesClusterDomain = clusterDomain, tr_ConnectUsingPlainHTTP = usePlainHTTP\<rparr>"

definition setup_Binding :: "string \<Rightarrow> bool \<Rightarrow> TopologyReconciler" where
  "setup_Binding clusterDomain usePlainHTTP =
     \<lparr>tr_Type = KBinding, tr_DeclareFunc = DeclareFunc KBinding, tr_DeleteFunc = DeleteFunc KBinding, tr_ListType = True,
      tr_KubernetesClusterDomain = clusterDomain, tr_ConnectUsingPlainHTTP = usePlainHTTP\<rparr>"

definition setup_User :: "string \<Rightarrow> bool \<Rightarrow> TopologyReconciler" where
  "setup_User clusterDomain usePlainHTTP =
     \<lparr>tr_Type = KUser, tr_DeclareFunc = DeclareFunc KUser, tr_DeleteFunc = DeleteFunc KUser, tr_ListType = True,
      tr_KubernetesClusterDomain = clusterDomain, tr_ConnectUsingPlainHTTP = usePlainHTTP\<rparr>"

definition setup_Vhost :: "string \<Rightarrow> bool \<Rightarrow> TopologyReconciler" where
  "setup_Vhost clusterDomain usePlainHTTP =
     \<lparr>tr_Type = KVhost, tr_DeclareFunc = DeclareFunc KVhost, tr_DeleteFunc = DeleteFunc KVhost, tr_ListType = True,
      tr_KubernetesClusterDomain = clusterDomain, tr_ConnectUsingPlainHTTP = usePlainHTTP\<rparr>"

definition setup_Policy :: "string \<Rightarrow> bool \<Rightarrow> TopologyReconciler" where
  "setup_Policy clusterDomain usePlainHTTP =
     \<lparr>tr_Type = KPolicy, tr_DeclareFunc = DeclareFunc KPolicy, tr_DeleteFunc = DeleteFunc KPolicy, tr_ListType = True,
      tr_KubernetesClusterDomain = clusterDomain, tr_ConnectUsingPlainHTTP = usePlainHTTP\<rparr>"

definition setup_OperatorPolicy :: "string \<Rightarrow> bool \<Rightarrow> TopologyReconciler" where
  "setup_OperatorPolicy clusterDomain usePlainHTTP =
     \<lparr>tr_Type = KOperatorPolicy, tr_DeclareFunc = DeclareFunc KOperatorPolicy, tr_DeleteFunc = DeleteFunc KOperatorPolicy, tr_ListType = True,
      tr_KubernetesClusterDomain = clusterDomain, tr_ConnectUsingPlainHTTP = usePlainHTTP\<rparr>"

definition setup_Permission :: "string \<Rightarrow> bool \<Rightarrow> TopologyReconciler" where
  "setup_Permission clusterDomain usePlainHTTP =
     \<lparr>tr_Type = KPermission, tr_DeclareFunc = DeclareFunc KPermission, tr_DeleteFunc = DeleteFunc KPermission, tr_ListType = True,
      tr_KubernetesClusterDomain = clusterDomain, tr_ConnectUsingPlainHTTP = usePlainHTTP\<rparr>"

definition setup_SchemaReplication :: "string \<Rightarrow> bool \<Rightarrow> TopologyReconciler" where
  "setup_SchemaReplication clusterDomain usePlainHTTP =
     \<lparr>tr_Type = KSchemaReplication, tr_DeclareFunc = DeclareFunc KSchemaReplication, tr_DeleteFunc = DeleteFunc KSchemaReplication, tr_ListType = True,
      tr_KubernetesClusterDomain = clusterDomain, tr_ConnectUsingPlainHTTP = usePlainHTTP\<rparr>"

definition setup_Federation :: "string \<Rightarrow> bool \<Rightarrow> TopologyReconciler" where
  "setup_Federation clusterDomain usePlainHTTP =
     \<lparr>tr_Type = KFederation, tr_DeclareFunc = DeclareFunc KFederation, tr_DeleteFunc = DeleteFunc KFederation, tr_ListType = True,
      tr_KubernetesClusterDomain = clusterDomain, tr_ConnectUsingPlainHTTP = usePlainHTTP\<rparr>"

definition setup_Shovel :: "string \<Rightarrow> bool \<Rightarrow> TopologyReconciler" where
  "setup_Shovel clusterDomain usePlainHTTP =
     \<lparr>tr_Type = KShovel, tr_DeclareFunc = DeclareFunc KShovel, tr_DeleteFunc = DeleteFunc KShovel, tr_ListType = True,
      tr_KubernetesClusterDomain = clusterDomain, tr_ConnectUsingPlainHTTP = usePlainHTTP\<rparr>"

definition setup_TopicPermission :: "string \<Rightarrow> bool \<Rightarrow> TopologyReconciler" where
  "setup_TopicPermission clusterDomain usePlainHTTP =
     \<lparr>tr_Type = KTopicPermission, tr_DeclareFunc = DeclareFunc KTopicPermission, tr_DeleteFunc = DeleteFunc KTopicPermission, tr_ListType = True,
      tr_KubernetesClusterDomain = clusterDomain, tr_ConnectUsingPlainHTTP = usePlainHTTP\<rparr>"

definition topology_reconcilers :: "string \<Rightarrow> bool \<Rightarrow> TopologyReconciler list" where
  "topology_reconcilers d p =
     [setup_Queue d p, setup_Exchange d p, setup_Binding d p, setup_User d p, setup_Vhost d p,
      setup_Policy d p, setup_OperatorPolicy d p, setup_Permission d p, setup_SchemaReplication d p,
      setup_Federation d p, setup_Shovel d p, setup_TopicPermission d p]"

lemmas setup_defs =
  setup_Queue_def setup_Exchange_def setup_Binding_def setup_User_def setup_Vhost_def
  setup_Policy_def setup_OperatorPolicy_def setup_Permission_def setup_SchemaReplication_def
  setup_Federation_def setup_Shovel_def setup_TopicPermission_def

text \<open>Each resource type has one reconciler, with the functions of its own type.\<close>

lemma topology_reconcilers_kinds:
  "map tr_Type (topology_reconcilers d p) =
     [KQueue, KExchange, KBinding, KUser, KVhost, KPolicy, KOperatorPolicy, KPermission, KSchemaReplication,
      KFederation, KShovel, KTopicPermission]"
  by (simp add: topology_reconcilers_def setup_defs)

lemma topology_reconcilers_paired:
  assumes "r \<in> set (topology_reconcilers d p)"
  shows "tr_DeclareFunc r = DeclareFunc (tr_Type r)" "tr_DeleteFunc r = DeleteFunc (tr_Type r)"
    "rf.uses (tr_Type r) r"
  using assms by (auto simp: topology_reconcilers_def setup_defs rf.uses_def)


section \<open>Properties\<close>

text \<open>
  C40. The cluster domain that is used is empty, or a dot followed by labels in the form of DNS; it
  is empty exactly when the input is no such name, and cleaning it again changes nothing.
\<close>

theorem cluster_domain_sanitized:
  "sanitizeClusterDomainInput s =
     (if domain_name s then ''.'' @ strings_TrimPrefix s ''.'' else '''') \<and>
   sanitizeClusterDomainInput (sanitizeClusterDomainInput s) = sanitizeClusterDomainInput s"
proof -
  have eq: "sanitizeClusterDomainInput s = (if domain_name s then ''.'' @ strings_TrimPrefix s ''.'' else '''')" for s
  proof (cases s)
    case Nil
    then show ?thesis
      by (simp add: sanitizeClusterDomainInput_def domain_name_def domain_label_def strings_TrimPrefix_def)
  next
    case (Cons c t)
    then show ?thesis
      by (auto simp: sanitizeClusterDomainInput_def regexp_MatchString_iff rx_domain_iff strings_HasPrefix_def
          strings_TrimPrefix_def)
  qed
  moreover have "domain_name (''.'' @ strings_TrimPrefix s ''.'')" if "domain_name s"
    using that by (simp add: domain_name_def strings_TrimPrefix_def)
  moreover have "\<not> domain_name ''''"
    by (simp add: domain_name_def strings_TrimPrefix_def domain_label_def)
  ultimately show ?thesis
    by (auto simp: strings_TrimPrefix_def strings_HasPrefix_def)
qed

text \<open>
  A duration from the environment is an int64 number of nanoseconds. It is the given number of
  seconds exactly when that product fits; a larger number of seconds wraps around.
\<close>

theorem duration_bounds:
  assumes "getEnvInDuration env name = Some d" and "env name = Some text"
  shows "\<exists>s. strconv_ParseInt64 text = Some s \<and> - (2 ^ 63) \<le> d \<and> d < 2 ^ 63 \<and>
    (d = s * 1000000000 \<longleftrightarrow> - (2 ^ 63) \<le> s * 1000000000 \<and> s * 1000000000 < 2 ^ 63)"
proof -
  obtain s where s: "strconv_ParseInt64 text = Some s" "d = wrap_signed 64 (s * 1000000000)"
    using assms by (auto simp: getEnvInDuration_def split: option.splits)
  then show ?thesis
    using wrap_signed_range [of 64 "s * 1000000000"] wrap_signed_eq_iff [of 64 "s * 1000000000"] by simp
qed

theorem duration_bounds_witness:
  "getEnvInDuration (\<lambda>_. Some ''9300000000'') ''LEASE_DURATION'' = Some (-9146744073709551616) \<and>
   (-9146744073709551616 :: int) \<noteq> 9300000000 * 1000000000"
proof -
  have parsed: "strconv_ParseInt64 ''9300000000'' = Some 9300000000"
    by (simp add: strconv_ParseInt64_def parse_digits_def is_digit_def digits_value_def digit_value_def)
  then have "getEnvInDuration (\<lambda>_. Some ''9300000000'') ''LEASE_DURATION'' = Some (-9146744073709551616)"
    by (simp add: getEnvInDuration_def wrap_signed_def)
  with duration_bounds [OF this refl] parsed show ?thesis by simp
qed

text \<open>
  Every topology kind has exactly one reconciler, and its pair of functions is the one of its
  own kind: no type assertion in a declare or delete function can fail.
\<close>

theorem reconcilers_cover_kinds:
  "distinct (map tr_Type (topology_reconcilers d p)) \<and> set (map tr_Type (topology_reconcilers d p)) = UNIV \<and>
   list_all (\<lambda>r. tr_DeclareFunc r = DeclareFunc (tr_Type r) \<and> tr_DeleteFunc r = DeleteFunc (tr_Type r) \<and> tr_ListType r \<and>
     tr_KubernetesClusterDomain r = d \<and> tr_ConnectUsingPlainHTTP r = p) (topology_reconcilers d p)"
proof -
  have "x \<in> set (map tr_Type (topology_reconcilers d p))" for x
    unfolding topology_reconcilers_kinds by (cases x) simp_all
  then have "set (map tr_Type (topology_reconcilers d p)) = UNIV" by blast
  moreover have "distinct (map tr_Type (topology_reconcilers d p))"
    unfolding topology_reconcilers_kinds by simp
  moreover have "list_all (\<lambda>r. tr_DeclareFunc r = DeclareFunc (tr_Type r) \<and> tr_DeleteFunc r = DeleteFunc (tr_Type r) \<and>
      tr_ListType r \<and> tr_KubernetesClusterDomain r = d \<and> tr_ConnectUsingPlainHTTP r = p) (topology_reconcilers d p)"
    by (simp add: topology_reconcilers_def setup_defs)
  ultimately show ?thesis by (intro conjI)
qed

end
