(* ===== verification/Webhooks.thy ===== *)
theory Webhooks
  imports Environment "HOL-Library.Multiset"
begin

text \<open>
  \<open>internal/webhook/v1beta1\<close> and \<open>internal/webhook/v1alpha1\<close>: the validating webhooks of
  the thirteen kinds and the defaulting webhook of the queue.

  A validator returns the error of the admission review, or nothing. The value that
  \<open>field.Invalid\<close> quotes is left out of the error. \<open>ValidateDelete\<close> accepts everything and is
  not even registered; the registration itself is a call into controller-runtime.
\<close>

section \<open>Errors of an admission review\<close>

datatype field_error =
    FieldForbidden "string list" string
  | FieldInvalid "string list" string
  | FieldRequired "string list" string

datatype admission_error =
    NewForbidden GroupResource string field_error
  | NewInvalid string string "field_error list"
  | ToAggregate "field_error list"
  | FieldError field_error
  | NewInternalError go_error
  | PlainError go_error

type_synonym verdict = "admission_error + unit"

text \<open>The validators hold the two clients of the manager; \<open>cv_Client\<close> tells whether they are set.\<close>

record CustomValidator =
  cv_Client :: bool

text \<open>The first rejected field ends the review.\<close>

definition forbid :: "bool \<Rightarrow> GroupResource \<Rightarrow> string \<Rightarrow> string list \<Rightarrow> string \<Rightarrow> verdict \<Rightarrow> verdict" where
  "forbid changed gr name path detail rest =
     (if changed then Inl (NewForbidden gr name (FieldForbidden path detail)) else rest)"

lemma forbid_Inr [simp]: "forbid changed gr name path detail rest = Inr u \<longleftrightarrow> \<not> changed \<and> rest = Inr u"
  by (simp add: forbid_def)

text \<open>The errors that are collected, and the end of the reviews that collect them.\<close>

definition invalid :: "bool \<Rightarrow> string list \<Rightarrow> string \<Rightarrow> field_error list" where
  "invalid changed path detail = (if changed then [FieldInvalid path detail] else [])"

definition aggregate :: "field_error list \<Rightarrow> verdict" where
  "aggregate allErrs = (if allErrs = [] then Inr () else Inl (ToAggregate allErrs))"

lemma invalid_Nil [simp]: "invalid changed path detail = [] \<longleftrightarrow> \<not> changed"
  by (simp add: invalid_def)

lemma aggregate_Inr [simp]: "aggregate allErrs = Inr u \<longleftrightarrow> allErrs = []"
  by (simp add: aggregate_def)


section \<open>Labels of secrets\<close>

text \<open>
  \<open>kube_secret\<close> is the cached client, which holds labelled secrets only;
  \<open>kube_uncached_secret\<close> is the reader of the API server.
\<close>

definition validateSecretLabel :: "CustomValidator \<Rightarrow> LocalObjectReference option \<Rightarrow> string \<Rightarrow> verdict prog" where
  "validateSecretLabel v ref ns =
     (case ref of
        None \<Rightarrow> io_return (Inr ())
      | Some name \<Rightarrow>
          if \<not> cv_Client v then io_return (Inr ())
          else io_bind (call_secret ns name) (\<lambda>r. case r of
            Inr secret \<Rightarrow> io_return (Inr ())
          | Inl err \<Rightarrow>
              if \<not> IsNotFound err then io_return (Inl (PlainError err))
              else io_bind (io_call (KubeGetUncachedSecret ns name) (\<lambda>n h. kube_uncached_secret n h ns name))
                (\<lambda>r. io_return (Inl (PlainError (ErrText (case r of
                   Inr secret \<Rightarrow> ''secret '' @ strconv_Quote name @ '' must have label '' @
                     TopologyOperatorLabel @ ''='' @ TopologyOperatorLabelValue @ '' to be used by the Topology Operator''
                 | Inl apiErr \<Rightarrow> ''secret '' @ strconv_Quote name @ '' not found in namespace '' @ strconv_Quote ns)))))))"

text \<open>The end that the thirteen creations share: the connection secret, then the reference itself.\<close>

definition create_reference ::
  "CustomValidator \<Rightarrow> GroupResource \<Rightarrow> object_meta \<Rightarrow> RabbitmqClusterReference \<Rightarrow> verdict prog" where
  "create_reference v gr m ref =
     (let connSecretNS = ConnectionSecretNamespace ref (om_Namespace m) in
      io_try (validateSecretLabel v (ref_ConnectionSecret ref) connSecretNS)
        (\<lambda>_. io_return (map_sum PlainError id (ValidateOnCreate ref gr (om_Name m)))))"


section \<open>Binding, exchange, vhost and the policies\<close>

definition Binding_ValidateCreate :: "CustomValidator \<Rightarrow> Binding \<Rightarrow> verdict prog" where
  "Binding_ValidateCreate v obj =
     create_reference v (Binding_GroupResource obj) (obj_Meta obj) (b_RabbitmqClusterReference (obj_Spec obj))"

definition Binding_ValidateUpdate :: "Binding \<Rightarrow> Binding \<Rightarrow> verdict" where
  "Binding_ValidateUpdate oldObj newObj =
     (let old = obj_Spec oldObj; new = obj_Spec newObj;
          gr = Binding_GroupResource newObj; name = om_Name (obj_Meta newObj);
          detailMsg = ''updates on vhost and rabbitmqClusterReference are all forbidden'' in
      forbid (b_Vhost new \<noteq> b_Vhost old) gr name [''spec'', ''vhost''] detailMsg (
      forbid (\<not> Matches (b_RabbitmqClusterReference old) (b_RabbitmqClusterReference new)) gr name
        [''spec'', ''rabbitmqClusterReference''] detailMsg (
      aggregate
        (invalid (b_Source new \<noteq> b_Source old) [''spec'', ''source''] ''source cannot be updated'' @
         invalid (b_Destination new \<noteq> b_Destination old) [''spec'', ''destination''] ''destination cannot be updated'' @
         invalid (b_DestinationType new \<noteq> b_DestinationType old) [''spec'', ''destinationType'']
           ''destinationType cannot be updated'' @
         invalid (b_RoutingKey new \<noteq> b_RoutingKey old) [''spec'', ''routingKey''] ''routingKey cannot be updated'' @
         invalid (b_Arguments new \<noteq> b_Arguments old) [''spec'', ''arguments''] ''arguments cannot be updated''))))"

definition Exchange_ValidateCreate :: "CustomValidator \<Rightarrow> Exchange \<Rightarrow> verdict prog" where
  "Exchange_ValidateCreate v ex =
     create_reference v (Exchange_GroupResource ex) (obj_Meta ex) (ex_RabbitmqClusterReference (obj_Spec ex))"

definition Exchange_ValidateUpdate :: "Exchange \<Rightarrow> Exchange \<Rightarrow> verdict" where
  "Exchange_ValidateUpdate oldExchange newExchange =
     (let old = obj_Spec oldExchange; new = obj_Spec newExchange;
          gr = Exchange_GroupResource newExchange; name = om_Name (obj_Meta newExchange);
          detailMsg = ''updates on name, vhost, and rabbitmqClusterReference are all forbidden'' in
      forbid (ex_Name new \<noteq> ex_Name old) gr name [''spec'', ''name''] detailMsg (
      forbid (ex_Vhost new \<noteq> ex_Vhost old) gr name [''spec'', ''vhost''] detailMsg (
      forbid (\<not> Matches (ex_RabbitmqClusterReference old) (ex_RabbitmqClusterReference new)) gr name
        [''spec'', ''rabbitmqClusterReference''] detailMsg (
      aggregate
        (invalid (ex_Type new \<noteq> ex_Type old) [''spec'', ''type''] ''exchange type cannot be updated'' @
         invalid (ex_AutoDelete new \<noteq> ex_AutoDelete old) [''spec'', ''autoDelete''] ''autoDelete cannot be updated'' @
         invalid (ex_Durable new \<noteq> ex_Durable old) [''spec'', ''durable''] ''durable cannot be updated'')))))"

definition Vhost_ValidateCreate :: "CustomValidator \<Rightarrow> Vhost \<Rightarrow> verdict prog" where
  "Vhost_ValidateCreate v vhost =
     create_reference v (Vhost_GroupResource vhost) (obj_Meta vhost) (vh_RabbitmqClusterReference (obj_Spec vhost))"

definition Vhost_ValidateUpdate :: "Vhost \<Rightarrow> Vhost \<Rightarrow> verdict" where
  "Vhost_ValidateUpdate oldVhost newVhost =
     (let old = obj_Spec oldVhost; new = obj_Spec newVhost;
          gr = Vhost_GroupResource newVhost; name = om_Name (obj_Meta newVhost);
          detailMsg = ''updates on name and rabbitmqClusterReference are all forbidden'' in
      forbid (vh_Name new \<noteq> vh_Name old) gr name [''spec'', ''name''] detailMsg (
      forbid (\<not> Matches (vh_RabbitmqClusterReference old) (vh_RabbitmqClusterReference new)) gr name
        [''spec'', ''rabbitmqClusterReference''] detailMsg (
      Inr ())))"

definition Policy_ValidateCreate :: "CustomValidator \<Rightarrow> Policy \<Rightarrow> verdict prog" where
  "Policy_ValidateCreate v policy =
     create_reference v (Policy_GroupResource policy) (obj_Meta policy) (pol_RabbitmqClusterReference (obj_Spec policy))"

definition Policy_ValidateUpdate :: "Policy \<Rightarrow> Policy \<Rightarrow> verdict" where
  "Policy_ValidateUpdate oldPolicy newPolicy =
     (let old = obj_Spec oldPolicy; new = obj_Spec newPolicy;
          gr = Policy_GroupResource newPolicy; name = om_Name (obj_Meta newPolicy);
          detailMsg = ''updates on name, vhost and rabbitmqClusterReference are all forbidden'' in
      forbid (pol_Name new \<noteq> pol_Name old) gr name [''spec'', ''name''] detailMsg (
      forbid (pol_Vhost new \<noteq> pol_Vhost old) gr name [''spec'', ''vhost''] detailMsg (
      forbid (\<not> Matches (pol_RabbitmqClusterReference old) (pol_RabbitmqClusterReference new)) gr name
        [''spec'', ''rabbitmqClusterReference''] detailMsg (
      Inr ()))))"

definition OperatorPolicy_ValidateCreate :: "CustomValidator \<Rightarrow> OperatorPolicy \<Rightarrow> verdict prog" where
  "OperatorPolicy_ValidateCreate v obj =
     create_reference v (OperatorPolicy_GroupResource obj) (obj_Meta obj) (op_RabbitmqClusterReference (obj_Spec obj))"

definition OperatorPolicy_ValidateUpdate :: "OperatorPolicy \<Rightarrow> OperatorPolicy \<Rightarrow> verdict" where
  "OperatorPolicy_ValidateUpdate oldObj newObj =
     (let old = obj_Spec oldObj; new = obj_Spec newObj;
          gr = OperatorPolicy_GroupResource newObj; name = om_Name (obj_Meta newObj);
          detailMsg = ''updates on name, vhost and rabbitmqClusterReference are all forbidden'' in
      forbid (op_Name new \<noteq> op_Name old) gr name [''spec'', ''name''] detailMsg (
      forbid (op_Vhost new \<noteq> op_Vhost old) gr name [''spec'', ''vhost''] detailMsg (
      forbid (\<not> Matches (op_RabbitmqClusterReference old) (op_RabbitmqClusterReference new)) gr name
        [''spec'', ''rabbitmqClusterReference''] detailMsg (
      Inr ()))))"


section \<open>Queue\<close>

text \<open>
  The comparison of two values of type \<open>any\<close> panics when both hold a slice or both hold a map.
  \<open>maps.Equal\<close> visits the first map in an order the language leaves open: \<open>order\<close> gives the
  entries in the order of the loop.
\<close>

fun any_equal :: "json \<Rightarrow> json \<Rightarrow> bool outcome" where
  "any_equal (JArr a) (JArr b) = Panicked ''comparing uncomparable type []interface {}''"
| "any_equal (JObj a) (JObj b) = Panicked ''comparing uncomparable type map[string]interface {}''"
| "any_equal a b = Ret (a = b)"

fun maps_Equal_loop :: "json_object \<Rightarrow> json_object \<Rightarrow> bool outcome" where
  "maps_Equal_loop [] m2 = Ret True"
| "maps_Equal_loop ((k, v1) # m1) m2 =
     (case json_get m2 k of
        None \<Rightarrow> Ret False
      | Some v2 \<Rightarrow> (case any_equal v1 v2 of
          Panicked s \<Rightarrow> Panicked s
        | Ret eq \<Rightarrow> if eq then maps_Equal_loop m1 m2 else Ret False))"

definition maps_Equal :: "(json_object \<Rightarrow> json_object) \<Rightarrow> json_object \<Rightarrow> json_object \<Rightarrow> bool outcome" where
  "maps_Equal order m1 m2 =
     (if length m1 \<noteq> length m2 then Ret False else maps_Equal_loop (order m1) m2)"

abbreviation nil_map :: "json_object option \<Rightarrow> json_object" where
  "nil_map m \<equiv> (case m of None \<Rightarrow> [] | Some kvs \<Rightarrow> kvs)"

definition ptr_Deref :: "'a option \<Rightarrow> 'a \<Rightarrow> 'a" where
  "ptr_Deref p d = (case p of None \<Rightarrow> d | Some x \<Rightarrow> x)"

definition Queue_ValidateCreate :: "CustomValidator \<Rightarrow> Queue \<Rightarrow> verdict prog" where
  "Queue_ValidateCreate v inQueue =
     (if q_Type (obj_Spec inQueue) = ''quorum'' \<and> \<not> ptr_Deref (q_Durable (obj_Spec inQueue)) False
      then io_return (Inl (NewForbidden (Queue_GroupResource inQueue) (om_Name (obj_Meta inQueue))
             (FieldForbidden [''spec'', ''durable''] ''Quorum queues must have durable set to true'')))
      else create_reference v (Queue_GroupResource inQueue) (obj_Meta inQueue)
             (q_RabbitmqClusterReference (obj_Spec inQueue)))"

definition Queue_ValidateUpdate :: "(json_object \<Rightarrow> json_object) \<Rightarrow> Queue \<Rightarrow> Queue \<Rightarrow> verdict outcome" where
  "Queue_ValidateUpdate order oldQueue newQueue =
     (let old = obj_Spec oldQueue; new = obj_Spec newQueue;
          gr = Queue_GroupResource newQueue; name = om_Name (obj_Meta newQueue);
          detailMsg = ''updates on name, vhost, and rabbitmqClusterReference are all forbidden'';
          path = [''spec'', ''arguments'']; argMsg = ''queue arguments cannot be updated'' in
      case forbid (q_Name new \<noteq> q_Name old) gr name [''spec'', ''name''] detailMsg (
           forbid (q_Vhost new \<noteq> q_Vhost old) gr name [''spec'', ''vhost''] detailMsg (
           forbid (\<not> Matches (q_RabbitmqClusterReference old) (q_RabbitmqClusterReference new)) gr name
             [''spec'', ''rabbitmqClusterReference''] detailMsg (Inr ()))) of
        Inl err \<Rightarrow> Ret (Inl err)
      | Inr _ \<Rightarrow>
          let allErrs =
            invalid (q_Type new \<noteq> q_Type old) [''spec'', ''type''] ''queue type cannot be updated'' @
            invalid (q_AutoDelete new \<noteq> q_AutoDelete old) [''spec'', ''autoDelete''] ''autoDelete cannot be updated'' @
            invalid (ptr_Deref (q_Durable new) False \<noteq> ptr_Deref (q_Durable old) False) [''spec'', ''durable'']
              ''durable cannot be updated'' in
          case (q_Arguments old, q_Arguments new) of
            (Some previous, Some updated) \<Rightarrow>
              (case json_Unmarshal previous of
                 None \<Rightarrow> Ret (Inl (NewInternalError (ErrText ''error unmarshalling previous Queue arguments: '')))
               | Some previousArgs \<Rightarrow> (case json_Unmarshal updated of
                   None \<Rightarrow> Ret (Inl (NewInternalError (ErrText ''error unmarshalling current Queue arguments: '')))
                 | Some updatedArgs \<Rightarrow>
                     (case maps_Equal order (nil_map previousArgs) (nil_map updatedArgs) of
                        Panicked s \<Rightarrow> Panicked s
                      | Ret eq \<Rightarrow> Ret (aggregate (allErrs @ invalid (\<not> eq) path argMsg)))))
          | _ \<Rightarrow>
              Ret (aggregate (allErrs @
                invalid (q_Arguments old \<noteq> None \<and> q_Arguments new = None) path argMsg @
                invalid (q_Arguments old = None \<and> q_Arguments new \<noteq> None) path argMsg)))"

definition Queue_Default :: "Queue \<Rightarrow> Queue" where
  "Queue_Default obj =
     (if q_Durable (obj_Spec obj) = None then obj\<lparr>obj_Spec := (obj_Spec obj)\<lparr>q_Durable := Some True\<rparr>\<rparr> else obj)"


section \<open>Federation, shovel and schema replication\<close>

definition Federation_ValidateCreate :: "CustomValidator \<Rightarrow> Federation \<Rightarrow> verdict prog" where
  "Federation_ValidateCreate v fed =
     io_try (validateSecretLabel v (f_UriSecret (obj_Spec fed)) (om_Namespace (obj_Meta fed)))
       (\<lambda>_. create_reference v (Federation_GroupResource fed) (obj_Meta fed)
              (f_RabbitmqClusterReference (obj_Spec fed)))"

definition Federation_ValidateUpdate :: "CustomValidator \<Rightarrow> Federation \<Rightarrow> Federation \<Rightarrow> verdict prog" where
  "Federation_ValidateUpdate v oldFederation newFederation =
     (let old = obj_Spec oldFederation; new = obj_Spec newFederation;
          gr = Federation_GroupResource newFederation; name = om_Name (obj_Meta newFederation);
          detailMsg = ''updates on name, vhost and rabbitmqClusterReference are all forbidden'' in
      io_try (io_return (
        forbid (f_Name new \<noteq> f_Name old) gr name [''spec'', ''name''] detailMsg (
        forbid (f_Vhost new \<noteq> f_Vhost old) gr name [''spec'', ''vhost''] detailMsg (
        forbid (\<not> Matches (f_RabbitmqClusterReference old) (f_RabbitmqClusterReference new)) gr name
          [''spec'', ''rabbitmqClusterReference''] detailMsg (Inr ())))))
        (\<lambda>_. validateSecretLabel v (f_UriSecret new) (om_Namespace (obj_Meta newFederation))))"

definition amqp10Validate :: "Shovel \<Rightarrow> verdict" where
  "amqp10Validate s =
     (if s_SourceProtocol (obj_Spec s) = ''amqp10'' \<and> s_SourceAddress (obj_Spec s) = ''''
      then Inl (FieldError (FieldRequired [''spec'', ''srcAddress'']
             ''must specify spec.srcAddress when spec.srcProtocol is amqp10''))
      else if s_DestinationProtocol (obj_Spec s) = ''amqp10'' \<and> s_DestinationAddress (obj_Spec s) = ''''
      then Inl (FieldError (FieldRequired [''spec'', ''destAddress'']
             ''must specify spec.destAddress when spec.destProtocol is amqp10''))
      else Inr ())"

definition Shovel_ValidateCreate :: "CustomValidator \<Rightarrow> Shovel \<Rightarrow> verdict prog" where
  "Shovel_ValidateCreate v obj =
     io_try (io_return (amqp10Validate obj)) (\<lambda>_.
     io_try (validateSecretLabel v (s_UriSecret (obj_Spec obj)) (om_Namespace (obj_Meta obj))) (\<lambda>_.
     create_reference v (Shovel_GroupResource obj) (obj_Meta obj) (s_RabbitmqClusterReference (obj_Spec obj))))"

definition Shovel_ValidateUpdate :: "CustomValidator \<Rightarrow> Shovel \<Rightarrow> Shovel \<Rightarrow> verdict prog" where
  "Shovel_ValidateUpdate v oldObj newObj =
     (let old = obj_Spec oldObj; new = obj_Spec newObj;
          gr = Shovel_GroupResource newObj; name = om_Name (obj_Meta newObj);
          detailMsg = ''updates on name, vhost and rabbitmqClusterReference are all forbidden'' in
      io_try (io_return (amqp10Validate newObj)) (\<lambda>_.
      io_try (io_return (
        forbid (s_Name new \<noteq> s_Name old) gr name [''spec'', ''name''] detailMsg (
        forbid (s_Vhost new \<noteq> s_Vhost old) gr name [''spec'', ''vhost''] detailMsg (
        forbid (\<not> Matches (s_RabbitmqClusterReference old) (s_RabbitmqClusterReference new)) gr name
          [''spec'', ''rabbitmqClusterReference''] detailMsg (Inr ())))))
        (\<lambda>_. validateSecretLabel v (s_UriSecret new) (om_Namespace (obj_Meta newObj)))))"

definition validateSecret :: "SchemaReplication \<Rightarrow> verdict" where
  "validateSecret sch =
     (case sb_Vault (sr_SecretBackend (obj_Spec sch)) of
        None \<Rightarrow> Inr ()
      | Some vault \<Rightarrow>
          if v_SecretPath vault = ''''
          then Inl (FieldError (FieldRequired [''spec'', ''secretBackend'', ''vault'', ''secretPath'']
                 ''must specify secretBackend.vault.secretPath when secretBackend.vault is set''))
          else if sr_Endpoints (obj_Spec sch) = ''''
          then Inl (FieldError (FieldRequired [''spec'', ''endpoints'']
                 ''endpoints must be set when secretBackend.vault is set''))
          else Inr ())"

definition SchemaReplication_ValidateCreate :: "CustomValidator \<Rightarrow> SchemaReplication \<Rightarrow> verdict prog" where
  "SchemaReplication_ValidateCreate v obj =
     io_try (io_return (validateSecret obj)) (\<lambda>_.
     io_try (validateSecretLabel v (sr_UpstreamSecret (obj_Spec obj)) (om_Namespace (obj_Meta obj))) (\<lambda>_.
     create_reference v (SchemaReplication_GroupResource obj) (obj_Meta obj)
       (sr_RabbitmqClusterReference (obj_Spec obj))))"

definition SchemaReplication_ValidateUpdate ::
  "CustomValidator \<Rightarrow> SchemaReplication \<Rightarrow> SchemaReplication \<Rightarrow> verdict prog" where
  "SchemaReplication_ValidateUpdate v oldObj newObj =
     io_try (io_return (validateSecret newObj)) (\<lambda>_.
     io_try (io_return (
       forbid (\<not> Matches (sr_RabbitmqClusterReference (obj_Spec oldObj)) (sr_RabbitmqClusterReference (obj_Spec newObj)))
         (SchemaReplication_GroupResource newObj) (om_Name (obj_Meta newObj))
         [''spec'', ''rabbitmqClusterReference''] ''update on rabbitmqClusterReference is forbidden'' (Inr ())))
       (\<lambda>_. validateSecretLabel v (sr_UpstreamSecret (obj_Spec newObj)) (om_Namespace (obj_Meta newObj))))"


section \<open>User and permissions\<close>

definition validateUsernameFromMeta :: "User \<Rightarrow> verdict" where
  "validateUsernameFromMeta user =
     forbid (u_UsernameFromMeta (obj_Spec user) \<and> u_ImportCredentialsSecret (obj_Spec user) \<noteq> None)
       (User_GroupResource user) (om_Name (obj_Meta user)) [''spec'', ''usernameFromMeta'']
       ''usernameFromMeta cannot be set together with spec.importCredentialsSecret'' (Inr ())"

definition User_ValidateCreate :: "CustomValidator \<Rightarrow> User \<Rightarrow> verdict prog" where
  "User_ValidateCreate v user =
     io_try (io_return (validateUsernameFromMeta user)) (\<lambda>_.
     io_try (validateSecretLabel v (u_ImportCredentialsSecret (obj_Spec user)) (om_Namespace (obj_Meta user))) (\<lambda>_.
     create_reference v (User_GroupResource user) (obj_Meta user) (u_RabbitmqClusterReference (obj_Spec user))))"

definition User_ValidateUpdate :: "CustomValidator \<Rightarrow> User \<Rightarrow> User \<Rightarrow> verdict prog" where
  "User_ValidateUpdate v oldUser newUser =
     io_try (io_return (
       forbid (\<not> Matches (u_RabbitmqClusterReference (obj_Spec oldUser)) (u_RabbitmqClusterReference (obj_Spec newUser)))
         (User_GroupResource newUser) (om_Name (obj_Meta newUser))
         [''spec'', ''rabbitmqClusterReference''] ''update on rabbitmqClusterReference is forbidden'' (Inr ()))) (\<lambda>_.
     if om_DeletionTimestamp (obj_Meta newUser) = None
     then io_try (io_return (validateUsernameFromMeta newUser)) (\<lambda>_.
       validateSecretLabel v (u_ImportCredentialsSecret (obj_Spec newUser)) (om_Namespace (obj_Meta newUser)))
     else io_return (Inr ()))"

definition userReferenceUpdated :: "LocalObjectReference option \<Rightarrow> LocalObjectReference option \<Rightarrow> bool" where
  "userReferenceUpdated new old =
     (if new = None \<and> old = None then False
      else if (new = None \<and> old \<noteq> None) \<or> (new \<noteq> None \<and> old = None) then True
      else if the new \<noteq> the old then True
      else False)"

lemma userReferenceUpdated_iff: "userReferenceUpdated new old \<longleftrightarrow> new \<noteq> old"
  by (auto simp: userReferenceUpdated_def)

text \<open>The two checks of the user, in the order of the source.\<close>

definition user_choice :: "string \<Rightarrow> LocalObjectReference option \<Rightarrow> field_error option" where
  "user_choice user userReference =
     (if user = '''' \<and> userReference = None
      then Some (FieldRequired [''spec'', ''user and userReference''] ''must specify either spec.user or spec.userReference'')
      else if user \<noteq> '''' \<and> userReference \<noteq> None
      then Some (FieldRequired [''spec'', ''user and userReference'']
             ''cannot specify spec.user and spec.userReference at the same time'')
      else None)"

definition Permission_ValidateCreate :: "CustomValidator \<Rightarrow> Permission \<Rightarrow> verdict prog" where
  "Permission_ValidateCreate v obj =
     (case user_choice (p_User (obj_Spec obj)) (p_UserReference (obj_Spec obj)) of
        Some err \<Rightarrow> io_return (Inl (FieldError err))
      | None \<Rightarrow> create_reference v (Permission_GroupResource obj) (obj_Meta obj)
                  (p_RabbitmqClusterReference (obj_Spec obj)))"

definition Permission_ValidateUpdate :: "Permission \<Rightarrow> Permission \<Rightarrow> verdict" where
  "Permission_ValidateUpdate oldObj newObj =
     (let old = obj_Spec oldObj; new = obj_Spec newObj;
          gr = Permission_GroupResource newObj; name = om_Name (obj_Meta newObj);
          detailMsg = ''updates on user, userReference, vhost and rabbitmqClusterReference are all forbidden'' in
      case user_choice (p_User new) (p_UserReference new) of
        Some err \<Rightarrow> Inl (NewInvalid ''Permission'' name [err])
      | None \<Rightarrow>
          forbid (p_User new \<noteq> p_User old) gr name [''spec'', ''user''] detailMsg (
          forbid (userReferenceUpdated (p_UserReference new) (p_UserReference old)) gr name
            [''spec'', ''userReference''] detailMsg (
          forbid (p_Vhost new \<noteq> p_Vhost old) gr name [''spec'', ''vhost''] detailMsg (
          forbid (\<not> Matches (p_RabbitmqClusterReference old) (p_RabbitmqClusterReference new)) gr name
            [''spec'', ''rabbitmqClusterReference''] detailMsg (Inr ())))))"

definition TopicPermission_ValidateCreate :: "CustomValidator \<Rightarrow> TopicPermission \<Rightarrow> verdict prog" where
  "TopicPermission_ValidateCreate v obj =
     (case user_choice (tp_User (obj_Spec obj)) (tp_UserReference (obj_Spec obj)) of
        Some err \<Rightarrow> io_return (Inl (FieldError err))
      | None \<Rightarrow> create_reference v (TopicPermission_GroupResource obj) (obj_Meta obj)
                  (tp_RabbitmqClusterReference (obj_Spec obj)))"

definition TopicPermission_ValidateUpdate :: "TopicPermission \<Rightarrow> TopicPermission \<Rightarrow> verdict" where
  "TopicPermission_ValidateUpdate oldObj newObj =
     (let old = obj_Spec oldObj; new = obj_Spec newObj;
          gr = TopicPermission_GroupResource newObj; name = om_Name (obj_Meta newObj);
          detailMsg = ''updates on exchange, user, userReference, vhost and rabbitmqClusterReference are all forbidden'' in
      case user_choice (tp_User new) (tp_UserReference new) of
        Some err \<Rightarrow> Inl (NewInvalid ''TopicPermission'' name [err])
      | None \<Rightarrow>
          forbid (tpc_Exchange (tp_Permissions new) \<noteq> tpc_Exchange (tp_Permissions old)) gr name
            [''spec'', ''permissions'', ''exchange''] detailMsg (
          forbid (tp_User new \<noteq> tp_User old) gr name [''spec'', ''user''] detailMsg (
          forbid (userReferenceUpdated (tp_UserReference new) (tp_UserReference old)) gr name
            [''spec'', ''userReference''] detailMsg (
          forbid (tp_Vhost new \<noteq> tp_Vhost old) gr name [''spec'', ''vhost''] detailMsg (
          forbid (\<not> Matches (tp_RabbitmqClusterReference old) (tp_RabbitmqClusterReference new)) gr name
            [''spec'', ''rabbitmqClusterReference''] detailMsg (Inr ()))))))"


section \<open>Super stream\<close>

text \<open>The loop over the old keys reads the new list at the same index.\<close>

fun routing_key_loop :: "string list \<Rightarrow> string list \<Rightarrow> bool outcome" where
  "routing_key_loop [] new = Ret True"
| "routing_key_loop (x # old) [] = Panicked ''index out of range''"
| "routing_key_loop (x # old) (y # new) = (if x \<noteq> y then Ret False else routing_key_loop old new)"

definition routingKeyUpdatePermitted :: "string list \<Rightarrow> string list \<Rightarrow> bool outcome" where
  "routingKeyUpdatePermitted old new =
     (if old = [] \<and> new \<noteq> [] then Ret False else routing_key_loop old new)"

definition SuperStream_ValidateCreate :: "SuperStream \<Rightarrow> verdict" where
  "SuperStream_ValidateCreate obj =
     map_sum PlainError id (ValidateOnCreate (ss_RabbitmqClusterReference (obj_Spec obj))
       (SuperStream_GroupResource obj) (om_Name (obj_Meta obj)))"

definition SuperStream_ValidateUpdate :: "SuperStream \<Rightarrow> SuperStream \<Rightarrow> verdict outcome" where
  "SuperStream_ValidateUpdate oldObj newObj =
     (let old = obj_Spec oldObj; new = obj_Spec newObj;
          gr = SuperStream_GroupResource newObj; name = om_Name (obj_Meta newObj);
          detailMsg = ''updates on name, vhost and rabbitmqClusterReference are all forbidden'' in
      case forbid (ss_Name new \<noteq> ss_Name old) gr name [''spec'', ''name''] detailMsg (
           forbid (ss_Vhost new \<noteq> ss_Vhost old) gr name [''spec'', ''vhost''] detailMsg (
           forbid (\<not> Matches (ss_RabbitmqClusterReference old) (ss_RabbitmqClusterReference new)) gr name
             [''spec'', ''rabbitmqClusterReference''] detailMsg (Inr ()))) of
        Inl err \<Rightarrow> Ret (Inl err)
      | Inr _ \<Rightarrow> (case routingKeyUpdatePermitted (ss_RoutingKeys old) (ss_RoutingKeys new) of
          Panicked s \<Rightarrow> Panicked s
        | Ret permitted \<Rightarrow> Ret (
            forbid (\<not> permitted) gr name [''spec'', ''routingKeys'']
              ''updates may only add to the existing list of routing keys'' (
            forbid (ss_Partitions new < ss_Partitions old) gr name [''spec'', ''partitions'']
              ''updates may only increase the partition count, and may not decrease it'' (Inr ())))))"


section \<open>What the validators accept\<close>

lemma validateSecretLabel_Inr:
  "validateSecretLabel v ref ns n h = (Ret (Inr u), h') \<longleftrightarrow>
     (case ref of
        None \<Rightarrow> h' = h
      | Some name \<Rightarrow> if cv_Client v then (\<exists>s. kube_secret n h ns name = Inr s) \<and> h' = h @ [KubeGetSecret ns name]
                     else h' = h)"
  by (auto simp: validateSecretLabel_def call_secret_def split: option.splits sum.splits if_splits)

lemma create_reference_accepted:
  assumes "create_reference v gr m ref n h = (Ret (Inr u), h')"
  shows "ref_Name ref = '''' \<longleftrightarrow> ref_ConnectionSecret ref \<noteq> None"
  using assms
  by (auto simp: create_reference_def Let_def ValidateOnCreate_def ref_validate_def
      split: prod.splits outcome.splits sum.splits if_splits)

lemma Binding_ValidateUpdate_iff: "Binding_ValidateUpdate old new = Inr () \<longleftrightarrow> obj_Spec new = obj_Spec old"
  by (auto simp: Binding_ValidateUpdate_def Let_def Matches_eq)

lemma Exchange_ValidateUpdate_iff:
  "Exchange_ValidateUpdate old new = Inr () \<longleftrightarrow>
     obj_Spec new = (obj_Spec old)\<lparr>ex_Arguments := ex_Arguments (obj_Spec new)\<rparr>"
proof -
  have "a = b\<lparr>ex_Arguments := ex_Arguments a\<rparr> \<longleftrightarrow>
     ex_Name a = ex_Name b \<and> ex_Vhost a = ex_Vhost b \<and> ex_Type a = ex_Type b \<and> ex_Durable a = ex_Durable b \<and>
     ex_AutoDelete a = ex_AutoDelete b \<and> ex_RabbitmqClusterReference a = ex_RabbitmqClusterReference b"
    for a b :: ExchangeSpec
    by (cases a; cases b) auto
  then show ?thesis by (auto simp: Exchange_ValidateUpdate_def Let_def Matches_eq)
qed

subsection \<open>The arguments of a queue\<close>

fun json_scalar_value :: "json \<Rightarrow> bool" where
  "json_scalar_value (JArr a) = False"
| "json_scalar_value (JObj o') = False"
| "json_scalar_value _ = True"

lemma any_equal_scalar: "json_scalar_value a \<Longrightarrow> any_equal a b = Ret (a = b)"
  by (cases a; cases b) auto

lemma maps_Equal_loop_scalar:
  "\<forall>(k, v) \<in> set m1. json_scalar_value v \<Longrightarrow>
     maps_Equal_loop m1 m2 = Ret (\<forall>(k, v) \<in> set m1. json_get m2 k = Some v)"
  by (induction m1) (auto simp: any_equal_scalar split: option.splits)

text \<open>The loop of the language visits every entry of the map once.\<close>

definition visits_all :: "(json_object \<Rightarrow> json_object) \<Rightarrow> bool" where
  "visits_all order \<longleftrightarrow> (\<forall>m. mset (order m) = mset m)"

lemma sorted_object_subset_eq:
  assumes "sorted_object a" and "sorted_object b" and "length a = length b"
    and "\<forall>(k, v) \<in> set a. json_get b k = Some v"
  shows "a = b"
proof -
  have d: "distinct (map fst a)" "distinct (map fst b)"
    using assms(1,2) unfolding sorted_object_def strict_sorted_iff by blast+
  then have "distinct a" "distinct b" by (simp_all add: distinct_map)
  moreover have "set a \<subseteq> set b"
    using assms(4) by (auto simp: json_get_def dest: map_of_SomeD)
  ultimately have "set a = set b"
    using assms(3) by (metis List.finite_set card_subset_eq distinct_card)
  then have "json_get a = json_get b"
    using d unfolding json_get_def by (metis map_of_inject_set)
  then show ?thesis by (rule sorted_object_ext [OF assms(1,2)])
qed

lemma maps_Equal_scalar:
  assumes "visits_all order" and "sorted_object a" and "sorted_object b"
    and "\<forall>(k, v) \<in> set a. json_scalar_value v"
  shows "maps_Equal order a b = Ret (a = b)"
proof -
  have s: "set (order a) = set a" using assms(1) by (metis visits_all_def mset_eq_setD)
  have "(\<forall>(k, v) \<in> set a. json_get a k = Some v)"
    using assms(2) by (auto simp: json_get_def sorted_object_def strict_sorted_iff)
  moreover have "maps_Equal_loop (order a) b = Ret (\<forall>(k, v) \<in> set a. json_get b k = Some v)"
    using maps_Equal_loop_scalar [of "order a" b] assms(4) s by simp
  ultimately show ?thesis
    using sorted_object_subset_eq [OF assms(2,3)] unfolding maps_Equal_def by auto
qed


subsection \<open>The routing keys of a super stream\<close>

lemma routing_key_loop_iff:
  "routing_key_loop old new = Ret True \<longleftrightarrow> prefix old new"
  "(\<exists>s. routing_key_loop old new = Panicked s) \<longleftrightarrow> strict_prefix new old"
  by (induction old new rule: routing_key_loop.induct) (auto simp: strict_prefix_def)

lemma routingKeyUpdatePermitted_iff:
  "routingKeyUpdatePermitted old new = Ret True \<longleftrightarrow> prefix old new \<and> (old = [] \<longrightarrow> new = [])"
  by (auto simp: routingKeyUpdatePermitted_def routing_key_loop_iff)

lemma SuperStream_ValidateUpdate_iff:
  "SuperStream_ValidateUpdate old new = Ret (Inr ()) \<longleftrightarrow>
     ss_Name (obj_Spec new) = ss_Name (obj_Spec old) \<and> ss_Vhost (obj_Spec new) = ss_Vhost (obj_Spec old) \<and>
     ss_RabbitmqClusterReference (obj_Spec new) = ss_RabbitmqClusterReference (obj_Spec old) \<and>
     prefix (ss_RoutingKeys (obj_Spec old)) (ss_RoutingKeys (obj_Spec new)) \<and>
     (ss_RoutingKeys (obj_Spec old) = [] \<longrightarrow> ss_RoutingKeys (obj_Spec new) = []) \<and>
     ss_Partitions (obj_Spec old) \<le> ss_Partitions (obj_Spec new)"
proof -
  let ?k = "routingKeyUpdatePermitted (ss_RoutingKeys (obj_Spec old)) (ss_RoutingKeys (obj_Spec new))"
  note k = routingKeyUpdatePermitted_iff [of "ss_RoutingKeys (obj_Spec old)" "ss_RoutingKeys (obj_Spec new)"]
  show ?thesis
    by (cases ?k) (use k in \<open>auto simp: SuperStream_ValidateUpdate_def Let_def Matches_eq forbid_def\<close>)
qed


section \<open>Properties\<close>

text \<open>
  The webhook accepts an update of a binding exactly when the spec is unchanged, and an update
  of an exchange exactly when nothing but its arguments changes.
\<close>

theorem binding_and_exchange_immutable:
  "(Binding_ValidateUpdate old new = Inr () \<longleftrightarrow> obj_Spec new = obj_Spec old) \<and>
   (Exchange_ValidateUpdate x y = Inr () \<longleftrightarrow> obj_Spec y = (obj_Spec x)\<lparr>ex_Arguments := ex_Arguments (obj_Spec y)\<rparr>)"
  by (simp add: Binding_ValidateUpdate_iff Exchange_ValidateUpdate_iff)

text \<open>
  C26. The review of an update of a super stream panics exactly when name, virtual host and cluster
  stay the same and the new routing keys are the old ones cut short: the loop over the old keys
  reads past the end of the new list.
\<close>

theorem superstream_review_panics_iff:
  "(\<exists>s. SuperStream_ValidateUpdate old new = Panicked s) \<longleftrightarrow>
     ss_Name (obj_Spec new) = ss_Name (obj_Spec old) \<and> ss_Vhost (obj_Spec new) = ss_Vhost (obj_Spec old) \<and>
     ss_RabbitmqClusterReference (obj_Spec new) = ss_RabbitmqClusterReference (obj_Spec old) \<and>
     strict_prefix (ss_RoutingKeys (obj_Spec new)) (ss_RoutingKeys (obj_Spec old))"
proof -
  let ?k = "routingKeyUpdatePermitted (ss_RoutingKeys (obj_Spec old)) (ss_RoutingKeys (obj_Spec new))"
  have "(\<exists>s. ?k = Panicked s) \<longleftrightarrow> strict_prefix (ss_RoutingKeys (obj_Spec new)) (ss_RoutingKeys (obj_Spec old))"
    by (auto simp: routingKeyUpdatePermitted_def routing_key_loop_iff)
  then show ?thesis
    by (cases ?k) (auto simp: SuperStream_ValidateUpdate_def Let_def Matches_eq forbid_def)
qed

end
