(* ===== verification/Super_Stream.thy ===== *)
theory Super_Stream
  imports Topology_Controller Sample_World
begin

text \<open>
  \<open>internal/managedresource\<close> and \<open>internal/controller/super_stream_controller.go\<close>: a super
  stream with \<open>n\<close> partitions owns one exchange, \<open>n\<close> queues of type stream and \<open>n\<close> bindings,
  which the controller creates or updates through three resource builders.

  The locale \<open>resource_builder\<close> is the interface \<open>ResourceBuilder\<close> with what the controller
  relies on; the three builders are interpretations of it.
\<close>

section \<open>The builders\<close>

definition AnnotationSuperStream :: string where
  "AnnotationSuperStream = ''rabbitmq.com/super-stream''"

definition AnnotationSuperStreamRoutingKey :: string where
  "AnnotationSuperStreamRoutingKey = ''rabbitmq.com/super-stream-routing-key''"

record Builder =
  bd_ObjectOwner :: SuperStream

abbreviation owner_name :: "Builder \<Rightarrow> string" where
  "owner_name b \<equiv> om_Name (obj_Meta (bd_ObjectOwner b))"

definition GenerateChildResourceName :: "Builder \<Rightarrow> string \<Rightarrow> string" where
  "GenerateChildResourceName b sfx = owner_name b @ sfx"

text \<open>The metadata of a child, and the call of \<open>SetControllerReference\<close> that ends every update.\<close>

definition child_meta :: "Builder \<Rightarrow> string \<Rightarrow> (string \<rightharpoonup> string) \<Rightarrow> object_meta" where
  "child_meta b sfx labels =
     empty_meta\<lparr>om_Name := GenerateChildResourceName b sfx,
                om_Namespace := om_Namespace (obj_Meta (bd_ObjectOwner b)), om_Labels := labels\<rparr>"

definition set_controller :: "env \<Rightarrow> Builder \<Rightarrow> ('sp, 'st) kobject \<Rightarrow> go_error + ('sp, 'st) kobject" where
  "set_controller n b x =
     (case SetControllerReference n (''SuperStream'', owner_name b) (obj_Meta x) of
        Inl err \<Rightarrow> Inl (ErrWrap ''failed setting controller reference: '' err '''')
      | Inr m \<Rightarrow> Inr (x\<lparr>obj_Meta := m\<rparr>))"

text \<open>The zero values of the three kinds, with the given metadata.\<close>

definition zero_ref :: RabbitmqClusterReference where
  "zero_ref = \<lparr>ref_Name = '''', ref_Namespace = '''', ref_ConnectionSecret = None\<rparr>"

definition new_object :: "object_meta \<Rightarrow> 'sp \<Rightarrow> ('sp, topology_status) kobject" where
  "new_object m spec =
     \<lparr>obj_Group = '''', obj_Kind = '''', obj_Meta = m, obj_Spec = spec, obj_Status = zero_status\<rparr>"

definition zero_ExchangeSpec :: ExchangeSpec where
  "zero_ExchangeSpec =
     \<lparr>ex_Name = '''', ex_Vhost = '''', ex_Type = '''', ex_Durable = False, ex_AutoDelete = False,
      ex_Arguments = None, ex_RabbitmqClusterReference = zero_ref\<rparr>"

definition zero_QueueSpec :: QueueSpec where
  "zero_QueueSpec =
     \<lparr>q_Name = '''', q_Vhost = '''', q_Type = '''', q_Durable = None, q_AutoDelete = False,
      q_DeleteIfEmpty = False, q_DeleteIfUnused = False, q_Arguments = None,
      q_RabbitmqClusterReference = zero_ref, q_DeletionPolicy = ''''\<rparr>"

definition zero_BindingSpec :: BindingSpec where
  "zero_BindingSpec =
     \<lparr>b_Vhost = '''', b_Source = '''', b_Destination = '''', b_DestinationType = '''',
      b_RoutingKey = '''', b_Arguments = None, b_RabbitmqClusterReference = zero_ref\<rparr>"


subsection \<open>The exchange\<close>

record SuperStreamExchangeBuilder =
  eb_Builder :: Builder
  eb_vhost :: string
  eb_rabbitmqCluster :: RabbitmqClusterReference

definition superStreamExchangeSuffix :: string where
  "superStreamExchangeSuffix = ''-exchange''"

definition SuperStreamExchange :: "Builder \<Rightarrow> string \<Rightarrow> RabbitmqClusterReference \<Rightarrow> SuperStreamExchangeBuilder" where
  "SuperStreamExchange b vhost ref = \<lparr>eb_Builder = b, eb_vhost = vhost, eb_rabbitmqCluster = ref\<rparr>"

definition Exchange_Build :: "SuperStreamExchangeBuilder \<Rightarrow> go_error + Exchange" where
  "Exchange_Build eb =
     Inr (new_object (child_meta (eb_Builder eb) superStreamExchangeSuffix
            [AnnotationSuperStream \<mapsto> owner_name (eb_Builder eb)]) zero_ExchangeSpec)"

definition Exchange_Update :: "env \<Rightarrow> SuperStreamExchangeBuilder \<Rightarrow> Exchange \<Rightarrow> go_error + Exchange" where
  "Exchange_Update n eb exchange =
     set_controller n (eb_Builder eb)
       (exchange\<lparr>obj_Spec := (obj_Spec exchange)
          \<lparr>ex_Durable := True, ex_Name := owner_name (eb_Builder eb), ex_Vhost := eb_vhost eb,
           ex_RabbitmqClusterReference := eb_rabbitmqCluster eb\<rparr>\<rparr>)"


subsection \<open>The partitions\<close>

record SuperStreamPartitionBuilder =
  pt_Builder :: Builder
  pt_vhost :: string
  pt_routingKey :: string
  pt_partitionIndex :: int
  pt_rabbitmqCluster :: RabbitmqClusterReference

definition SuperStreamPartition ::
  "Builder \<Rightarrow> int \<Rightarrow> string \<Rightarrow> string \<Rightarrow> RabbitmqClusterReference \<Rightarrow> SuperStreamPartitionBuilder" where
  "SuperStreamPartition b partitionIndex routingKey vhost ref =
     \<lparr>pt_Builder = b, pt_vhost = vhost, pt_routingKey = routingKey, pt_partitionIndex = partitionIndex,
      pt_rabbitmqCluster = ref\<rparr>"

definition partitionSuffix :: "int \<Rightarrow> string" where
  "partitionSuffix partitionIndex = ''-partition-'' @ strconv_Itoa partitionIndex"

definition RoutingKeyToPartitionName :: "string \<Rightarrow> string \<Rightarrow> string" where
  "RoutingKeyToPartitionName parentObjectName routingKey = parentObjectName @ ''-'' @ routingKey"

definition PartitionNameToRoutingKey :: "string \<Rightarrow> string \<Rightarrow> string" where
  "PartitionNameToRoutingKey parentObjectName partitionName =
     strings_TrimPrefix partitionName (parentObjectName @ ''-'')"

text \<open>The labels that partitions and bindings share.\<close>

definition partition_labels :: "Builder \<Rightarrow> string \<Rightarrow> (string \<rightharpoonup> string)" where
  "partition_labels b routingKey =
     [AnnotationSuperStream \<mapsto> owner_name b, AnnotationSuperStreamRoutingKey \<mapsto> routingKey]"

definition Partition_Build :: "SuperStreamPartitionBuilder \<Rightarrow> go_error + Queue" where
  "Partition_Build pb =
     Inr (new_object (child_meta (pt_Builder pb) (partitionSuffix (pt_partitionIndex pb))
            (partition_labels (pt_Builder pb) (pt_routingKey pb))) zero_QueueSpec)"

definition Partition_Update :: "env \<Rightarrow> SuperStreamPartitionBuilder \<Rightarrow> Queue \<Rightarrow> go_error + Queue" where
  "Partition_Update n pb queue =
     set_controller n (pt_Builder pb)
       (queue\<lparr>obj_Spec := (obj_Spec queue)
          \<lparr>q_Name := RoutingKeyToPartitionName (owner_name (pt_Builder pb)) (pt_routingKey pb),
           q_Durable := Some True, q_Type := ''stream'', q_Vhost := pt_vhost pb,
           q_RabbitmqClusterReference := pt_rabbitmqCluster pb\<rparr>\<rparr>)"


subsection \<open>The bindings\<close>

record SuperStreamBindingBuilder =
  bb_Builder :: Builder
  bb_partitionIndex :: int
  bb_routingKey :: string
  bb_vhost :: string
  bb_rabbitmqCluster :: RabbitmqClusterReference

definition SuperStreamBinding ::
  "Builder \<Rightarrow> int \<Rightarrow> string \<Rightarrow> string \<Rightarrow> RabbitmqClusterReference \<Rightarrow> SuperStreamBindingBuilder" where
  "SuperStreamBinding b partitionIndex routingKey vhost ref =
     \<lparr>bb_Builder = b, bb_partitionIndex = partitionIndex, bb_routingKey = routingKey, bb_vhost = vhost,
      bb_rabbitmqCluster = ref\<rparr>"

definition binding_partitionSuffix :: "SuperStreamBindingBuilder \<Rightarrow> string" where
  "binding_partitionSuffix bb = ''-binding-'' @ strconv_Itoa (bb_partitionIndex bb)"

definition Binding_Build :: "SuperStreamBindingBuilder \<Rightarrow> go_error + Binding" where
  "Binding_Build bb =
     Inr (new_object (child_meta (bb_Builder bb) (binding_partitionSuffix bb)
            (partition_labels (bb_Builder bb) (bb_routingKey bb))) zero_BindingSpec)"

definition argumentString :: "int \<Rightarrow> string" where
  "argumentString partitionIndex =
     ''{'' @ [CHR 0x22] @ ''x-stream-partition-order'' @ [CHR 0x22] @ '': '' @ strconv_Itoa partitionIndex @ ''}''"

definition Binding_Update :: "env \<Rightarrow> SuperStreamBindingBuilder \<Rightarrow> Binding \<Rightarrow> go_error + Binding" where
  "Binding_Update n bb binding =
     set_controller n (bb_Builder bb)
       (binding\<lparr>obj_Spec := (obj_Spec binding)
          \<lparr>b_Source := owner_name (bb_Builder bb), b_DestinationType := ''queue'',
           b_Destination := owner_name (bb_Builder bb) @ ''-'' @ bb_routingKey bb,
           b_RoutingKey := bb_routingKey bb, b_Vhost := bb_vhost bb,
           b_RabbitmqClusterReference := bb_rabbitmqCluster bb,
           b_Arguments := Some (argumentString (bb_partitionIndex bb))\<rparr>\<rparr>)"

section \<open>The interface ResourceBuilder\<close>

locale resource_builder =
  fixes build :: "'b \<Rightarrow> go_error + 'o" and update_fun :: "env \<Rightarrow> 'b \<Rightarrow> 'o \<Rightarrow> go_error + 'o"
    and meta :: "'o \<Rightarrow> object_meta" and view :: "'o \<Rightarrow> 'v"
    and child :: "'b \<Rightarrow> string \<times> string" and wanted :: "'b \<Rightarrow> 'v"
  assumes build_child: "\<exists>x. build b = Inr x \<and> (om_Namespace (meta x), om_Name (meta x)) = child b"
    and update_keeps: "\<lbrakk>controller_reference_law n; update_fun n b x = Inr y\<rbrakk> \<Longrightarrow>
      om_Namespace (meta y) = om_Namespace (meta x) \<and> om_Name (meta y) = om_Name (meta x)"
    and update_wanted: "update_fun n b x = Inr y \<Longrightarrow> view y = wanted b"
begin

text \<open>
  A successful \<open>CreateOrUpdate\<close> leaves the object under the name and with the values of the
  builder, whatever was stored before: a drift of the child is repaired.
\<close>

lemma written:
  assumes "create_or_update_law meta view w" and "build b = Inr x" and "w h x (update_fun n b) = Inr y"
  shows "view y = wanted b"
  using assms update_wanted unfolding create_or_update_law_def by metis

lemma key_kept:
  assumes "controller_reference_law n" and "build b = Inr x" and "update_fun n b x' = Inr y"
    and "om_Namespace (meta x') = om_Namespace (meta x)" and "om_Name (meta x') = om_Name (meta x)"
  shows "(om_Namespace (meta y), om_Name (meta y)) = child b"
  using update_keeps [OF assms(1,3)] build_child [of b] assms(2,4,5) by auto

end

lemma set_controller_Inr:
  "set_controller n b x = Inr y \<Longrightarrow> \<exists>m. SetControllerReference n (''SuperStream'', owner_name b) (obj_Meta x) = Inr m \<and>
     y = x\<lparr>obj_Meta := m\<rparr>"
  by (auto simp: set_controller_def split: sum.splits)

lemma controller_reference_key:
  assumes "controller_reference_law n" and "SetControllerReference n ow m = Inr m'"
  shows "om_Namespace m' = om_Namespace m" "om_Name m' = om_Name m"
proof -
  have "m' = m\<lparr>om_OwnerReferences := om_OwnerReferences m'\<rparr>"
    using assms unfolding controller_reference_law_def by blast
  then show "om_Namespace m' = om_Namespace m" "om_Name m' = om_Name m"
    by (metis object_meta.select_convs(1,2) object_meta.surjective object_meta.update_convs(8))+
qed

text \<open>The fields of a child that its builder sets, without the vhost: the API server may default it.\<close>

definition exchange_view :: "Exchange \<Rightarrow> string \<times> bool \<times> RabbitmqClusterReference" where
  "exchange_view x = (ex_Name (obj_Spec x), ex_Durable (obj_Spec x), ex_RabbitmqClusterReference (obj_Spec x))"

definition partition_view :: "Queue \<Rightarrow> string \<times> bool option \<times> string \<times> RabbitmqClusterReference" where
  "partition_view x =
     (q_Name (obj_Spec x), q_Durable (obj_Spec x), q_Type (obj_Spec x), q_RabbitmqClusterReference (obj_Spec x))"

definition binding_view ::
  "Binding \<Rightarrow> string \<times> string \<times> string \<times> string \<times> raw_extension option \<times> RabbitmqClusterReference" where
  "binding_view x =
     (b_Source (obj_Spec x), b_Destination (obj_Spec x), b_DestinationType (obj_Spec x), b_RoutingKey (obj_Spec x),
      b_Arguments (obj_Spec x), b_RabbitmqClusterReference (obj_Spec x))"

definition owner_namespace :: "Builder \<Rightarrow> string" where
  "owner_namespace b = om_Namespace (obj_Meta (bd_ObjectOwner b))"

interpretation exchange_builder: resource_builder Exchange_Build Exchange_Update obj_Meta exchange_view
  "\<lambda>eb. (owner_namespace (eb_Builder eb), owner_name (eb_Builder eb) @ ''-exchange'')"
  "\<lambda>eb. (owner_name (eb_Builder eb), True, eb_rabbitmqCluster eb)"
  by unfold_locales
    (auto simp: Exchange_Build_def Exchange_Update_def new_object_def child_meta_def owner_namespace_def
      GenerateChildResourceName_def superStreamExchangeSuffix_def exchange_view_def
      dest!: set_controller_Inr dest: controller_reference_key)

interpretation partition_builder: resource_builder Partition_Build Partition_Update obj_Meta partition_view
  "\<lambda>pb. (owner_namespace (pt_Builder pb),
         owner_name (pt_Builder pb) @ ''-partition-'' @ strconv_Itoa (pt_partitionIndex pb))"
  "\<lambda>pb. (RoutingKeyToPartitionName (owner_name (pt_Builder pb)) (pt_routingKey pb), Some True, ''stream'',
         pt_rabbitmqCluster pb)"
  by unfold_locales
    (auto simp: Partition_Build_def Partition_Update_def new_object_def child_meta_def owner_namespace_def
      GenerateChildResourceName_def partitionSuffix_def partition_view_def
      dest!: set_controller_Inr dest: controller_reference_key)

interpretation binding_builder: resource_builder Binding_Build Binding_Update obj_Meta binding_view
  "\<lambda>bb. (owner_namespace (bb_Builder bb),
         owner_name (bb_Builder bb) @ ''-binding-'' @ strconv_Itoa (bb_partitionIndex bb))"
  "\<lambda>bb. (owner_name (bb_Builder bb), RoutingKeyToPartitionName (owner_name (bb_Builder bb)) (bb_routingKey bb), ''queue'',
         bb_routingKey bb, Some (argumentString (bb_partitionIndex bb)), bb_rabbitmqCluster bb)"
  by unfold_locales
    (auto simp: Binding_Build_def Binding_Update_def new_object_def child_meta_def owner_namespace_def
      GenerateChildResourceName_def binding_partitionSuffix_def binding_view_def RoutingKeyToPartitionName_def
      dest!: set_controller_Inr dest: controller_reference_key)


section \<open>The controller\<close>

datatype ResourceBuilder =
    ExchangeBuilder SuperStreamExchangeBuilder
  | PartitionBuilder SuperStreamPartitionBuilder
  | BindingBuilder SuperStreamBindingBuilder

fun Build :: "ResourceBuilder \<Rightarrow> go_error + tobj" where
  "Build (ExchangeBuilder b) = map_sum id OExchange (Exchange_Build b)"
| "Build (PartitionBuilder b) = map_sum id OQueue (Partition_Build b)"
| "Build (BindingBuilder b) = map_sum id OBinding (Binding_Build b)"

fun ResourceType :: "ResourceBuilder \<Rightarrow> string" where
  "ResourceType (ExchangeBuilder b) = ''Exchange''"
| "ResourceType (PartitionBuilder b) = ''Partition''"
| "ResourceType (BindingBuilder b) = ''Binding''"

text \<open>\<open>CreateOrUpdate\<close> with the update of the builder, which starts with a type assertion.\<close>

fun create_or_update :: "ResourceBuilder \<Rightarrow> tobj \<Rightarrow> (go_error + tobj) prog" where
  "create_or_update (ExchangeBuilder b) (OExchange x) =
     io_call (KubeWriteExchange x) (\<lambda>n h. map_sum id OExchange (write_exchange n h x (Exchange_Update n b)))"
| "create_or_update (PartitionBuilder b) (OQueue x) =
     io_call (KubeWriteQueue x) (\<lambda>n h. map_sum id OQueue (write_queue n h x (Partition_Update n b)))"
| "create_or_update (BindingBuilder b) (OBinding x) =
     io_call (KubeWriteBinding x) (\<lambda>n h. map_sum id OBinding (write_binding n h x (Binding_Update n b)))"
| "create_or_update b x = io_panic ''interface conversion''"

definition generateRoutingKeys :: "SuperStream \<Rightarrow> string list" where
  "generateRoutingKeys superStream = map (\<lambda>i. strconv_Itoa (int i)) [0..<nat (ss_Partitions (obj_Spec superStream))]"

text \<open>A write of the status, with its retries; the object then holds the answer.\<close>

definition update_superstream_status :: "SuperStream \<Rightarrow> (SuperStream \<times> (go_error + unit)) prog" where
  "update_superstream_status s =
     io_bind (io_call (KubeStatusUpdateSuperStream s) (\<lambda>n h. kube_status_update_superstream n h s))
       (\<lambda>r. io_return (case r of Inl err \<Rightarrow> (s, Inl err) | Inr new \<Rightarrow> (new, Inr ())))"

definition SetReconcileSuccess :: "SuperStream \<Rightarrow> Condition \<Rightarrow> (SuperStream \<times> (go_error + unit)) prog" where
  "SetReconcileSuccess superStream condition =
     update_superstream_status
       (superStream\<lparr>obj_Status := (obj_Status superStream)
          \<lparr>Conditions := [condition], ObservedGeneration := om_Generation (obj_Meta superStream)\<rparr>\<rparr>)"

text \<open>A failure of these two writes is logged only.\<close>

definition superstream_not_ready :: "string \<Rightarrow> SuperStream \<Rightarrow> unit prog" where
  "superstream_not_ready msg superStream =
     io_bind call_now (\<lambda>t.
       io_bind (SetReconcileSuccess superStream (NotReady t msg (Conditions (obj_Status superStream))))
         (\<lambda>_. io_return ()))"

definition superstream_ready :: "SuperStream \<Rightarrow> unit prog" where
  "superstream_ready superStream =
     io_bind call_now (\<lambda>t.
       io_bind (SetReconcileSuccess superStream (Ready t (Conditions (obj_Status superStream))))
         (\<lambda>_. io_return ()))"

definition getRabbitmqClusterReference ::
  "RabbitmqClusterReference \<Rightarrow> string \<Rightarrow> (go_error + RabbitmqClusterReference) prog" where
  "getRabbitmqClusterReference rmq requestNamespace =
     (let namespace = (if ref_Namespace rmq = '''' then requestNamespace else ref_Namespace rmq) in
      io_bind (io_call (KubeGetCluster namespace (ref_Name rmq)) (\<lambda>n h. kube_cluster n h namespace (ref_Name rmq)))
        (\<lambda>r. io_return (case r of
           Inl err \<Rightarrow> Inl (ErrWrap (''failed to get cluster from reference: '' @ err_Error err @ '' Error: '')
                            ErrNoSuchRabbitmqCluster '''')
         | Inr cluster \<Rightarrow>
             if \<not> AllowedNamespace rmq requestNamespace cluster then Inl ErrResourceNotAllowed
             else Inr \<lparr>ref_Name = ref_Name rmq, ref_Namespace = namespace, ref_ConnectionSecret = None\<rparr>)))"

definition removeFinalizer_superstream :: "SuperStream \<Rightarrow> (go_error + unit) prog" where
  "removeFinalizer_superstream s =
     io_bind (io_ask (\<lambda>n h. RemoveFinalizer n (om_Finalizers (obj_Meta s)) (deletionFinalizer (obj_Kind s))))
       (\<lambda>removed.
         let s' = s\<lparr>obj_Meta := (obj_Meta s)\<lparr>om_Finalizers := removed\<rparr>\<rparr> in
         io_bind (io_call (KubeUpdateSuperStream s') (\<lambda>n h. kube_update_superstream n h s'))
           (\<lambda>r. io_return (case r of
              Inl err \<Rightarrow> Inl (ErrWrap ''failed to delete finalizer: '' err '''')
            | Inr new \<Rightarrow> Inr ())))"

text \<open>\<open>handleRMQReferenceParseError\<close> of \<open>utils.go\<close>, which only this controller uses.\<close>

definition utils_handleRMQReferenceParseError :: "SuperStream \<Rightarrow> go_error option \<Rightarrow> result prog" where
  "utils_handleRMQReferenceParseError object err =
     (let deleted = \<not> Time_IsZero (om_DeletionTimestamp (obj_Meta object)) in
      case err of
        None \<Rightarrow> io_return (0, None)
      | Some e \<Rightarrow>
          if errors_Is e ErrNoSuchRabbitmqCluster \<and> deleted
          then io_bind (call_record ''Normal'' ''SuccessfulDelete'' ''delete''
                         (''successfully deleted '' @ om_Name (obj_Meta object)))
            (\<lambda>_. io_bind (removeFinalizer_superstream object) (\<lambda>r. io_return (0, err_of r)))
          else if errors_Is e ErrNoSuchRabbitmqCluster
          then io_return (10 * 1000000000, Some e)
          else if errors_Is e ErrResourceNotAllowed
          then io_bind call_now (\<lambda>t.
            io_bind (update_superstream_status (object\<lparr>obj_Status := (obj_Status object)
                \<lparr>Conditions := [NotReady t (err_Error ErrResourceNotAllowed) (Conditions (obj_Status object))]\<rparr>\<rparr>))
              (\<lambda>_. io_return (0, None)))
          else io_return (0, Some e))"

definition superstream_builders :: "SuperStream \<Rightarrow> string list \<Rightarrow> RabbitmqClusterReference \<Rightarrow> ResourceBuilder list" where
  "superstream_builders superStream routingKeys rmqClusterRef =
     (let b = \<lparr>bd_ObjectOwner = superStream\<rparr>; vhost = ss_Vhost (obj_Spec superStream) in
      ExchangeBuilder (SuperStreamExchange b vhost rmqClusterRef) #
      concat (map (\<lambda>(i, routingKey).
        [PartitionBuilder (SuperStreamPartition b (int i) routingKey vhost rmqClusterRef),
         BindingBuilder (SuperStreamBinding b (int i) routingKey vhost rmqClusterRef)])
        (List.enumerate 0 routingKeys)))"

text \<open>
  The loop over the builders: \<open>Inl\<close> is an early return of \<open>Reconcile\<close>, \<open>Inr\<close> the names
  of the partitions.
\<close>

fun reconcile_children :: "SuperStream \<Rightarrow> ResourceBuilder list \<Rightarrow> string list \<Rightarrow> (result + string list) prog" where
  "reconcile_children superStream [] partitionQueueNames = io_return (Inr partitionQueueNames)"
| "reconcile_children superStream (builder # builders) partitionQueueNames =
     (case Build builder of
        Inl err \<Rightarrow> io_return (Inl (0, Some err))
      | Inr resource \<Rightarrow>
          io_bind (create_or_update builder resource) (\<lambda>r. case r of
            Inl err \<Rightarrow>
              io_bind (superstream_not_ready (''FailedReconcile'' @ ResourceType builder) superStream)
                (\<lambda>_. io_return (Inl (0, Some err)))
          | Inr resource' \<Rightarrow>
              if ResourceType builder = ''Partition''
              then (case resource' of
                  OQueue queue \<Rightarrow>
                    reconcile_children superStream builders (partitionQueueNames @ [q_Name (obj_Spec queue)])
                | _ \<Rightarrow> io_panic ''interface conversion'')
              else reconcile_children superStream builders partitionQueueNames))"

definition finish_superstream :: "SuperStream \<Rightarrow> string list \<Rightarrow> result prog" where
  "finish_superstream superStream partitionQueueNames =
     io_bind (update_superstream_status (superStream\<lparr>obj_Status := (obj_Status superStream)
         \<lparr>sss_Partitions := partitionQueueNames\<rparr>\<rparr>))
       (\<lambda>(superStream', _). io_bind (superstream_ready superStream') (\<lambda>_. io_return (0, None)))"

definition reconcile_superstream :: "SuperStream \<Rightarrow> RabbitmqClusterReference \<Rightarrow> result prog" where
  "reconcile_superstream superStream rmqClusterRef =
     (let name = om_Name (obj_Meta superStream);
          spec = obj_Spec superStream;
          msg = ''SuperStream '' @ name @ '' failed to reconcile'';
          existing = int (length (sss_Partitions (obj_Status superStream))) in
      if ss_Partitions spec < existing
      then io_bind (call_record ''Warning'' ''FailedScaleDown'' ''delete''
                     (''SuperStreams cannot be scaled down: an attempt was made to scale from '' @
                      strconv_Itoa existing @ '' partitions to '' @ strconv_Itoa (ss_Partitions spec)))
        (\<lambda>_. io_bind (superstream_not_ready msg superStream) (\<lambda>_. io_return (0, None)))
      else if ss_RoutingKeys spec \<noteq> [] \<and> int (length (ss_RoutingKeys spec)) \<noteq> ss_Partitions spec
      then io_bind (superstream_not_ready msg superStream)
        (\<lambda>_. io_return (0, Some (ErrText (''expected number of routing keys ('' @
               strconv_Itoa (int (length (ss_RoutingKeys spec))) @ '') to match number of partitions ('' @
               strconv_Itoa (ss_Partitions spec) @ '')''))))
      else
        let routingKeys = (if ss_RoutingKeys spec = [] then generateRoutingKeys superStream else ss_RoutingKeys spec) in
        io_bind (reconcile_children superStream (superstream_builders superStream routingKeys rmqClusterRef) [])
          (\<lambda>r. case r of
             Inl res \<Rightarrow> io_return res
           | Inr partitionQueueNames \<Rightarrow> finish_superstream superStream partitionQueueNames))"

definition SuperStream_Reconcile :: "string \<Rightarrow> string \<Rightarrow> result prog" where
  "SuperStream_Reconcile ns name =
     io_bind (io_call (KubeGetSuperStream ns name) (\<lambda>n h. kube_superstream n h ns name)) (\<lambda>r. case r of
       Inl err \<Rightarrow> io_return (0, IgnoreNotFound err)
     | Inr superStream \<Rightarrow>
         io_bind (getRabbitmqClusterReference (ss_RabbitmqClusterReference (obj_Spec superStream))
                    (om_Namespace (obj_Meta superStream)))
           (\<lambda>r. case r of
              Inl err \<Rightarrow> utils_handleRMQReferenceParseError superStream (Some err)
            | Inr rmqClusterRef \<Rightarrow> reconcile_superstream superStream rmqClusterRef))"


section \<open>The children of a super stream\<close>

text \<open>The kind and name of the child a builder writes, and the call that writes it.\<close>

fun child_key :: "ResourceBuilder \<Rightarrow> tkind \<times> string" where
  "child_key (ExchangeBuilder b) = (KExchange, om_Name (obj_Meta (projr (Exchange_Build b))))"
| "child_key (PartitionBuilder b) = (KQueue, om_Name (obj_Meta (projr (Partition_Build b))))"
| "child_key (BindingBuilder b) = (KBinding, om_Name (obj_Meta (projr (Binding_Build b))))"

fun child_event :: "ResourceBuilder \<Rightarrow> event" where
  "child_event (ExchangeBuilder b) = KubeWriteExchange (projr (Exchange_Build b))"
| "child_event (PartitionBuilder b) = KubeWriteQueue (projr (Partition_Build b))"
| "child_event (BindingBuilder b) = KubeWriteBinding (projr (Binding_Build b))"

lemmas child_defs = Exchange_Build_def Partition_Build_def Binding_Build_def new_object_def child_meta_def
  GenerateChildResourceName_def superStreamExchangeSuffix_def partitionSuffix_def binding_partitionSuffix_def

lemma map_enumerate_fst: "map (\<lambda>x. f (fst x)) (List.enumerate k xs) = map f [k..<k + length xs]"
  by (metis (no_types, lifting) map_fst_enumerate map_map comp_apply map_cong)

lemma child_keys:
  "map child_key (superstream_builders s keys ref) =
     (KExchange, om_Name (obj_Meta s) @ ''-exchange'') #
     concat (map (\<lambda>i. [(KQueue, om_Name (obj_Meta s) @ ''-partition-'' @ strconv_Itoa (int i)),
                        (KBinding, om_Name (obj_Meta s) @ ''-binding-'' @ strconv_Itoa (int i))]) [0..<length keys])"
  using map_enumerate_fst
    [of "\<lambda>i. [(KQueue, om_Name (obj_Meta s) @ ''-partition-'' @ strconv_Itoa (int i)),
              (KBinding, om_Name (obj_Meta s) @ ''-binding-'' @ strconv_Itoa (int i))]" 0 keys]
  by (simp add: superstream_builders_def Let_def child_defs SuperStreamExchange_def SuperStreamPartition_def
      SuperStreamBinding_def map_concat comp_def case_prod_unfold)

lemma length_superstream_builders: "length (superstream_builders s keys ref) = 2 * length keys + 1"
proof -
  have "length (concat (map (\<lambda>(i, k). [f i k, g i k]) (List.enumerate j keys))) = 2 * length keys"
    for f g :: "nat \<Rightarrow> string \<Rightarrow> ResourceBuilder" and j
    by (induction keys arbitrary: j) auto
  then show ?thesis by (simp add: superstream_builders_def Let_def)
qed

lemma distinct_child_keys: "distinct (map child_key (superstream_builders s keys ref))"
proof -
  have "distinct (concat (map (\<lambda>i. [(KQueue, p @ strconv_Itoa (int i)), (KBinding, b @ strconv_Itoa (int i))]) [0..<m]))"
    for p b m
    by (induction m) auto
  from this [of "om_Name (obj_Meta s) @ ''-partition-''" "om_Name (obj_Meta s) @ ''-binding-''" "length keys"]
  show ?thesis unfolding child_keys by (auto simp: append_assoc)
qed

text \<open>The API server keeps the name that a queue was sent with.\<close>

definition children_stored :: "env \<Rightarrow> bool" where
  "children_stored n \<longleftrightarrow>
     create_or_update_law obj_Meta exchange_view (write_exchange n) \<and>
     create_or_update_law obj_Meta partition_view (write_queue n) \<and>
     create_or_update_law obj_Meta binding_view (write_binding n)"

fun partition_name :: "ResourceBuilder \<Rightarrow> string list" where
  "partition_name (PartitionBuilder b) = [RoutingKeyToPartitionName (owner_name (pt_Builder b)) (pt_routingKey b)]"
| "partition_name _ = []"

lemma Build_Inr: "\<exists>x. Build b = Inr x"
  by (cases b) (simp_all add: child_defs)

lemma create_or_update_run:
  "Build b = Inr x \<Longrightarrow> \<exists>r. create_or_update b x n h = (Ret r, h @ [child_event b])"
  by (cases b) (auto simp: child_defs)
lemma written_partition:
  assumes "children_stored n" and "create_or_update (PartitionBuilder b) x n h = (Ret (Inr y), h')"
    and "Build (PartitionBuilder b) = Inr x"
  shows "\<exists>q. y = OQueue q \<and> q_Name (obj_Spec q) = RoutingKeyToPartitionName (owner_name (pt_Builder b)) (pt_routingKey b)"
proof -
  obtain x' where x': "x = OQueue x'" "Partition_Build b = Inr x'"
    using assms(3) by (auto simp: Partition_Build_def)
  obtain q where q: "y = OQueue q" "write_queue n h x' (Partition_Update n b) = Inr q"
    using assms(2) x' by (cases "write_queue n h x' (Partition_Update n b)") auto
  have "create_or_update_law obj_Meta partition_view (write_queue n)"
    using assms(1) by (simp add: children_stored_def)
  from partition_builder.written [OF this x'(2) q(2)] show ?thesis
    using q(1) by (simp add: partition_view_def)
qed

lemma reconcile_children_run:
  assumes "children_stored n" and "reconcile_children s bs names n h = (Ret (Inr names'), h')"
  shows "h' = h @ map child_event bs \<and> names' = names @ concat (map partition_name bs)"
  using assms(2)
proof (induction bs arbitrary: names h)
  case (Cons b bs)
  obtain x where x: "Build b = Inr x" using Build_Inr by blast
  then obtain r where r: "create_or_update b x n h = (Ret r, h @ [child_event b])"
    using create_or_update_run by blast
  show ?case
  proof (cases r)
    case (Inl err)
    then show ?thesis using Cons.prems x r
      by (auto simp: superstream_not_ready_def split: prod.splits outcome.splits)
  next
    case (Inr y)
    show ?thesis
    proof (cases b)
      case (PartitionBuilder p)
      obtain q where "y = OQueue q" "[q_Name (obj_Spec q)] = partition_name b"
        using written_partition [OF assms(1), of p x h y] x r Inr PartitionBuilder by auto
      then show ?thesis using Cons.prems x r Inr PartitionBuilder by (auto dest!: Cons.IH)
    qed (use Cons.prems x r Inr in \<open>auto dest!: Cons.IH\<close>)
  qed
qed simp

lemma superstream_early_return: "reconcile_children s bs names n h = (Ret (Inl res), h') \<Longrightarrow> snd res \<noteq> None"
proof (induction bs arbitrary: names h)
  case (Cons b bs)
  obtain x where x: "Build b = Inr x" using Build_Inr by blast
  then obtain r where "create_or_update b x n h = (Ret r, h @ [child_event b])"
    using create_or_update_run by blast
  with Cons x show ?case
    by (auto split: sum.splits prod.splits outcome.splits if_splits tobj.splits)
qed simp

definition superstream_keys :: "SuperStream \<Rightarrow> string list" where
  "superstream_keys s =
     (if ss_RoutingKeys (obj_Spec s) = [] then generateRoutingKeys s else ss_RoutingKeys (obj_Spec s))"

lemma partition_names:
  "concat (map partition_name (superstream_builders s keys ref)) = map (RoutingKeyToPartitionName (om_Name (obj_Meta s))) keys"
proof -
  let ?b = "\<lparr>bd_ObjectOwner = s\<rparr>" and ?v = "ss_Vhost (obj_Spec s)"
  have "concat (map partition_name (concat (map (\<lambda>(i, k).
       [PartitionBuilder (SuperStreamPartition ?b (int i) k ?v ref),
        BindingBuilder (SuperStreamBinding ?b (int i) k ?v ref)]) (List.enumerate j keys)))) =
     map (RoutingKeyToPartitionName (om_Name (obj_Meta s))) keys" for j
    by (induction keys arbitrary: j) (auto simp: SuperStreamPartition_def)
  then show ?thesis by (simp add: superstream_builders_def Let_def)
qed

definition ready_superstream :: "go_time \<Rightarrow> SuperStream \<Rightarrow> SuperStream" where
  "ready_superstream t s =
     s\<lparr>obj_Status := (obj_Status s)
       \<lparr>Conditions := [Ready t (Conditions (obj_Status s))], ObservedGeneration := om_Generation (obj_Meta s)\<rparr>\<rparr>"

lemma finish_superstream_run:
  "\<exists>s1 t. finish_superstream s names n h =
     (Ret (0, None), h @
       [KubeStatusUpdateSuperStream (s\<lparr>obj_Status := (obj_Status s)\<lparr>sss_Partitions := names\<rparr>\<rparr>),
        KubeStatusUpdateSuperStream (ready_superstream t s1)])"
  by (auto simp: finish_superstream_def superstream_ready_def SetReconcileSuccess_def update_superstream_status_def
      call_now_def ready_superstream_def [symmetric] split: sum.split)

lemma superstream_run:
  assumes "children_stored n"
    and "int (length (sss_Partitions (obj_Status s))) \<le> ss_Partitions (obj_Spec s)"
    and "reconcile_superstream s ref n h = (Ret (0, None), h')"
  shows "\<exists>s1 t. h' = h @ map child_event (superstream_builders s (superstream_keys s) ref) @
       [KubeStatusUpdateSuperStream (s\<lparr>obj_Status := (obj_Status s)\<lparr>sss_Partitions :=
          map (RoutingKeyToPartitionName (om_Name (obj_Meta s))) (superstream_keys s)\<rparr>\<rparr>),
        KubeStatusUpdateSuperStream (ready_superstream t s1)]"
    and "length (superstream_keys s) = nat (ss_Partitions (obj_Spec s))"
    and "length (superstream_builders s (superstream_keys s) ref) = 2 * length (superstream_keys s) + 1"
    and "distinct (map child_key (superstream_builders s (superstream_keys s) ref))"
proof -
  let ?bs = "superstream_builders s (superstream_keys s) ref"
  have ok: "ss_RoutingKeys (obj_Spec s) = [] \<or> int (length (ss_RoutingKeys (obj_Spec s))) = ss_Partitions (obj_Spec s)"
    using assms(2,3)
    by (auto simp: reconcile_superstream_def Let_def split: if_splits prod.splits outcome.splits)
  then show "length (superstream_keys s) = nat (ss_Partitions (obj_Spec s))"
    using assms(2) by (auto simp: superstream_keys_def generateRoutingKeys_def)
  have run: "reconcile_superstream s ref n h =
     io_bind (reconcile_children s ?bs []) (\<lambda>r. case r of
       Inl res \<Rightarrow> io_return res | Inr names \<Rightarrow> finish_superstream s names) n h"
    using ok assms(2) by (auto simp: reconcile_superstream_def Let_def superstream_keys_def)
  obtain names h1 where c: "reconcile_children s ?bs [] n h = (Ret (Inr names), h1)"
    using assms(3) superstream_early_return [of s ?bs "[]" n h] unfolding run
    by (auto split: prod.splits outcome.splits sum.splits)
  note c' = reconcile_children_run [OF assms(1) c]
  have "finish_superstream s names n h1 = (Ret (0, None), h')" using assms(3) run c by auto
  then show "\<exists>s1 t. h' = h @ map child_event ?bs @
       [KubeStatusUpdateSuperStream (s\<lparr>obj_Status := (obj_Status s)\<lparr>sss_Partitions :=
          map (RoutingKeyToPartitionName (om_Name (obj_Meta s))) (superstream_keys s)\<rparr>\<rparr>),
        KubeStatusUpdateSuperStream (ready_superstream t s1)]"
    using finish_superstream_run [of s names n h1] c' by (auto simp: partition_names)
qed (simp_all add: length_superstream_builders distinct_child_keys)

text \<open>A super stream with two partitions and no routing keys of its own.\<close>

definition sample_superstream :: SuperStream where
  "sample_superstream =
     \<lparr>obj_Group = ''rabbitmq.com'', obj_Kind = ''SuperStream'', obj_Meta = sample_meta ''ss'',
      obj_Spec = \<lparr>ss_Name = ''ss'', ss_Vhost = ''/'', ss_Partitions = 2, ss_RoutingKeys = [],
                  ss_RabbitmqClusterReference = sample_ref\<rparr>,
      obj_Status = \<lparr>ObservedGeneration = 0, Conditions = [], sss_Partitions = []\<rparr>\<rparr>"

lemma children_stored_sample: "children_stored sample_env"
  by (auto simp: children_stored_def create_or_update_law_def)

lemma sample_superstream_returns:
  "\<exists>h'. reconcile_superstream sample_superstream sample_ref sample_env [] = (Ret (0, None), h')"
  by (simp add: reconcile_superstream_def sample_superstream_def Let_def generateRoutingKeys_def upt_rec
      superstream_builders_def enumerate_eq_zip SuperStreamExchange_def SuperStreamPartition_def
      SuperStreamBinding_def child_defs Exchange_Update_def Partition_Update_def Binding_Update_def set_controller_def
      finish_superstream_def update_superstream_status_def superstream_ready_def SetReconcileSuccess_def call_now_def)



text \<open>
  C13. A super stream is never scaled down: when it has fewer partitions than its status lists, the
  run writes no child, keeps the partitions of the status and reports a condition Ready that is
  False.
\<close>

theorem superstream_scale_down_rejected:
  assumes "ss_Partitions (obj_Spec s) < int (length (sss_Partitions (obj_Status s)))"
  shows "\<exists>msg x. reconcile_superstream s ref n h =
      (Ret (0, None), h @ [Recorded ''Warning'' ''FailedScaleDown'' ''delete'' msg, KubeStatusUpdateSuperStream x]) \<and>
    sss_Partitions (obj_Status x) = sss_Partitions (obj_Status s) \<and>
    map (\<lambda>c. (cond_Type c, cond_Status c)) (Conditions (obj_Status x)) = [(ready, ConditionFalse)]"
  using assms
  by (auto simp: reconcile_superstream_def Let_def call_record_def superstream_not_ready_def SetReconcileSuccess_def
      update_superstream_status_def call_now_def NotReady_def split: sum.split)

theorem superstream_scale_down_rejected_witness:
  "\<exists>msg x. reconcile_superstream
       (sample_superstream\<lparr>obj_Status := (obj_Status sample_superstream)\<lparr>sss_Partitions := [''a'', ''b'', ''c'']\<rparr>\<rparr>)
       sample_ref sample_env [] =
     (Ret (0, None), [Recorded ''Warning'' ''FailedScaleDown'' ''delete'' msg, KubeStatusUpdateSuperStream x])"
  using superstream_scale_down_rejected
    [of "sample_superstream\<lparr>obj_Status := (obj_Status sample_superstream)\<lparr>sss_Partitions := [''a'', ''b'', ''c'']\<rparr>\<rparr>"
       sample_ref sample_env "[]"]
  by (auto simp: sample_superstream_def)

text \<open>
  C15. The pieces of a super stream fit together: the binding that is written for the partition
  number \<open>i\<close> decodes, its source is the name of the exchange, its destination is the name of the
  queue written for the same key, and its only argument is the order \<open>i\<close> of the partition.
\<close>

theorem superstream_binding_connects:
  assumes "Binding_Update n (SuperStreamBinding b (int i) key vhost ref) x = Inr binding"
    and "Partition_Update n (SuperStreamPartition b (int i) key vhost ref) y = Inr queue"
    and "Exchange_Update n (SuperStreamExchange b vhost ref) z = Inr exchange"
    and "i < 2 ^ 53"
  shows "\<exists>info. GenerateBindingInfo binding = Inr info \<and>
     bi_Source info = ex_Name (obj_Spec exchange) \<and> bi_Destination info = q_Name (obj_Spec queue) \<and>
     bi_DestinationType info = ''queue'' \<and> bi_RoutingKey info = key \<and> bi_Vhost info = vhost \<and>
     bi_Arguments info = Some [(''x-stream-partition-order'', JNum (of_nat i))]"
  using assms json_Unmarshal_single_nat [of "''x-stream-partition-order''" i]
  by (auto simp: Binding_Update_def Partition_Update_def Exchange_Update_def SuperStreamBinding_def
      SuperStreamPartition_def SuperStreamExchange_def RoutingKeyToPartitionName_def GenerateBindingInfo_def
      unmarshal_arguments_def argumentString_def strconv_Itoa_def dest!: set_controller_Inr)

theorem superstream_binding_connects_witness:
  "\<exists>binding info. Binding_Update sample_env
       (SuperStreamBinding \<lparr>bd_ObjectOwner = sample_superstream\<rparr> (int 1) ''1'' ''/'' sample_ref)
       (new_object empty_meta zero_BindingSpec) = Inr binding \<and>
     GenerateBindingInfo binding = Inr info \<and> bi_Destination info = ''ss-1'' \<and>
     bi_Arguments info = Some [(''x-stream-partition-order'', JNum 1)]"
proof -
  let ?b = "\<lparr>bd_ObjectOwner = sample_superstream\<rparr>"
  obtain binding queue exchange where r:
      "Binding_Update sample_env (SuperStreamBinding ?b (int 1) ''1'' ''/'' sample_ref) (new_object empty_meta zero_BindingSpec)
         = Inr binding"
      "Partition_Update sample_env (SuperStreamPartition ?b (int 1) ''1'' ''/'' sample_ref) (new_object empty_meta zero_QueueSpec)
         = Inr queue" "q_Name (obj_Spec queue) = ''ss-1''"
      "Exchange_Update sample_env (SuperStreamExchange ?b ''/'' sample_ref) (new_object empty_meta zero_ExchangeSpec)
         = Inr exchange"
    by (simp add: Binding_Update_def Partition_Update_def Exchange_Update_def set_controller_def
        SuperStreamPartition_def RoutingKeyToPartitionName_def sample_superstream_def sample_meta_def)
  from superstream_binding_connects [OF r(1,2,4)] r(1,3) show ?thesis by auto
qed

text \<open>
  The routing key of a partition can be read back from the name of its queue.
\<close>

lemma partition_name_round_trip:
  "PartitionNameToRoutingKey parent (RoutingKeyToPartitionName parent key) = key"
  using strings_TrimPrefix_append [of "parent @ ''-''" key]
  by (simp add: PartitionNameToRoutingKey_def RoutingKeyToPartitionName_def)

end
