(* ===== verification/Admission.thy ===== *)
theory Admission
  imports Webhooks Super_Stream Reconcile_Contract
begin

text \<open>
  The webhooks and the controllers together: which broker objects the controllers address for a
  resource, and what an update that the webhooks accept can change about that.
\<close>

section \<open>The broker object of a resource\<close>

text \<open>
  The coordinates a call of the management API addresses. The name of a user is not part of them:
  it comes from the credentials, not from the spec.
\<close>

fun call_target :: "broker_call \<Rightarrow> string list" where
  "call_target (PutUser u s) = [''user'']"
| "call_target (DeleteUser u) = [''user'']"
| "call_target (PutUserLimits u l) = [''user'']"
| "call_target (GetUserLimits u) = [''user'']"
| "call_target (DeleteUserLimits u l) = [''user'']"
| "call_target (DeclareBinding v i) = [''binding'', v]"
| "call_target (DeleteBinding v i) = [''binding'', v]"
| "call_target (ListQueueBindingsBetween v s d) = [''binding'', v]"
| "call_target (ListExchangeBindingsBetween v s d) = [''binding'', v]"
| "call_target (UpdatePermissionsIn v u p) = [''permission'', v]"
| "call_target (ClearPermissionsIn v u) = [''permission'', v]"
| "call_target (PutPolicy v p b) = [''policy'', v, p]"
| "call_target (DeletePolicy v p) = [''policy'', v, p]"
| "call_target (DeclareQueue v q s) = [''queue'', v, q]"
| "call_target (DeleteQueue v q s) = [''queue'', v, q]"
| "call_target (GetQueue v q) = [''queue'', v, q]"
| "call_target (DeclareExchange v e s) = [''exchange'', v, e]"
| "call_target (DeleteExchange v e) = [''exchange'', v, e]"
| "call_target (PutVhost v s) = [''vhost'', v]"
| "call_target (DeleteVhost v) = [''vhost'', v]"
| "call_target (PutVhostLimits v l) = [''vhost'', v]"
| "call_target (GetVhostLimits v) = [''vhost'', v]"
| "call_target (DeleteVhostLimits v l) = [''vhost'', v]"
| "call_target (GetVhost v) = [''vhost'', v]"
| "call_target (PutGlobalParameter p e) = [''parameter'', p]"
| "call_target (DeleteGlobalParameter p) = [''parameter'', p]"
| "call_target (PutFederationUpstream v f d) = [''federation'', v, f]"
| "call_target (DeleteFederationUpstream v f) = [''federation'', v, f]"
| "call_target (DeclareShovel v s d) = [''shovel'', v, s]"
| "call_target (DeleteShovel v s) = [''shovel'', v, s]"
| "call_target (PutOperatorPolicy v p b) = [''operatorpolicy'', v, p]"
| "call_target (DeleteOperatorPolicy v p) = [''operatorpolicy'', v, p]"
| "call_target (UpdateTopicPermissionsIn v u t) = [''topicpermission'', v, tpm_Exchange t]"
| "call_target (DeleteTopicPermissionsIn v u e) = [''topicpermission'', v, e]"

fun target :: "tobj \<Rightarrow> string list" where
  "target (OBinding x) = [''binding'', b_Vhost (obj_Spec x)]"
| "target (OExchange x) = [''exchange'', ex_Vhost (obj_Spec x), ex_Name (obj_Spec x)]"
| "target (OQueue x) = [''queue'', q_Vhost (obj_Spec x), q_Name (obj_Spec x)]"
| "target (OVhost x) = [''vhost'', vh_Name (obj_Spec x)]"
| "target (OUser x) = [''user'']"
| "target (OPermission x) = [''permission'', p_Vhost (obj_Spec x)]"
| "target (OTopicPermission x) = [''topicpermission'', tp_Vhost (obj_Spec x), tpc_Exchange (tp_Permissions (obj_Spec x))]"
| "target (OPolicy x) = [''policy'', pol_Vhost (obj_Spec x), pol_Name (obj_Spec x)]"
| "target (OOperatorPolicy x) = [''operatorpolicy'', op_Vhost (obj_Spec x), op_Name (obj_Spec x)]"
| "target (OFederation x) = [''federation'', f_Vhost (obj_Spec x), f_Name (obj_Spec x)]"
| "target (OShovel x) = [''shovel'', s_Vhost (obj_Spec x), s_Name (obj_Spec x)]"
| "target (OSchemaReplication x) = [''parameter'', SchemaReplicationParameterName]"

definition on_target :: "string list \<Rightarrow> event \<Rightarrow> bool" where
  "on_target t e \<longleftrightarrow> (\<forall>c q. e = Broker c q \<longrightarrow> call_target q = t)"

lemma on_target_simps [simp]:
  "on_target t (Broker c q) \<longleftrightarrow> call_target q = t"
  "on_target t (KubeGet k ns nm)" "on_target t (KubeUpdate x)" "on_target t (KubeStatusUpdate x)"
  "on_target t (KubeGetSecret ns nm)" "on_target t (KubeWriteSecret s)" "on_target t (VaultRead p)"
  "on_target t (RandRead i)" "on_target t (Recorded a b d e)"
  by (simp_all add: on_target_def)

declare emits_reconcileLimits [emits_intros del]

lemma emits_limits_target [emits_intros]:
  "emits (on_target [''vhost'', v]) (reconcileVhostLimits c v new)"
  "emits (on_target [''user'']) (reconcileUserLimits c user name)"
  unfolding reconcileVhostLimits_def reconcileUserLimits_def getVhostLimits_def getUserLimits_def Let_def
  by (intro emits_intros; simp)+

lemma emits_declare_target:
  "emits (on_target (target (OBinding b))) (Binding_DeclareFunc c b)"
  "emits (on_target (target (OExchange e))) (Exchange_DeclareFunc c e)"
  "emits (on_target (target (OQueue q))) (Queue_DeclareFunc c q)"
  "emits (on_target (target (OVhost v))) (Vhost_DeclareFunc c v)"
  "emits (on_target (target (OPolicy p))) (Policy_DeclareFunc c p)"
  "emits (on_target (target (OOperatorPolicy p'))) (OperatorPolicy_DeclareFunc c p')"
  "emits (on_target (target (OFederation f))) (Federation_DeclareFunc c f)"
  "emits (on_target (target (OShovel s))) (Shovel_DeclareFunc c s)"
  "emits (on_target (target (OSchemaReplication r))) (SchemaReplication_DeclareFunc c r)"
  unfolding Binding_DeclareFunc_def Exchange_DeclareFunc_def Queue_DeclareFunc_def Vhost_DeclareFunc_def
    Policy_DeclareFunc_def OperatorPolicy_DeclareFunc_def Federation_DeclareFunc_def Federation_getUri_def
    Shovel_DeclareFunc_def Shovel_getUris_def SchemaReplication_DeclareFunc_def getUpstreamEndpoints_def Let_def
    target.simps
  by (intro emits_intros; simp)+

lemma emits_delete_target:
  "emits (on_target (target (OBinding b))) (Binding_DeleteFunc c b)"
  "emits (on_target (target (OExchange e))) (Exchange_DeleteFunc c e)"
  "emits (on_target (target (OQueue q))) (Queue_DeleteFunc c q)"
  "emits (on_target (target (OVhost v))) (Vhost_DeleteFunc c v)"
  "emits (on_target (target (OUser u))) (User_DeleteFunc c u)"
  "emits (on_target (target (OPolicy p))) (Policy_DeleteFunc c p)"
  "emits (on_target (target (OOperatorPolicy p'))) (OperatorPolicy_DeleteFunc c p')"
  "emits (on_target (target (OFederation f))) (Federation_DeleteFunc c f)"
  "emits (on_target (target (OShovel s))) (Shovel_DeleteFunc c s)"
  "emits (on_target (target (OSchemaReplication r))) (SchemaReplication_DeleteFunc c)"
  unfolding Binding_DeleteFunc_def findBindingInfo_def Exchange_DeleteFunc_def Queue_DeleteFunc_def quorum_check_def
    Vhost_DeleteFunc_def User_DeleteFunc_def Policy_DeleteFunc_def OperatorPolicy_DeleteFunc_def
    Federation_DeleteFunc_def Shovel_DeleteFunc_def SchemaReplication_DeleteFunc_def Let_def target.simps
  by (intro emits_intros; simp)+

lemma emits_user_target: "emits (on_target [''user'']) (User_DeclareFunc c u)"
  unfolding User_DeclareFunc_def declareWithImportedCredentials_def declareWithGeneratedCredentials_def
    importCredentials_def getUserCredentials_def putUser_def Let_def
  by (intro emits_intros emits_declareCredentials emits_setUserStatus; simp)+

text \<open>The two permission controllers read the object back from their update.\<close>

lemma target_erase [simp]: "target (erase_status x) = target x"
  by (cases x) simp_all

lemma target_map_Meta [simp]: "target (map_Meta f x) = target x"
  by (cases x) simp_all

lemma update_echo_target: "update_echo n \<Longrightarrow> kube_update n h x = Inr y \<Longrightarrow> target y = target x"
  by (metis target_erase update_echoD(1))

lemma adopt_permission_target:
  assumes "update_echo n" and "adopt_permission user obj n h = (Ret (x, Inr u), h')"
  shows "target x = target obj"
  using assms(2)
  by (cases user) (auto simp: adopt_permission_def Let_def call_update_def decode_as_Inr
      split: if_splits sum.splits dest!: update_echo_target [OF assms(1)])

lemma emits_send_permission: "emits (on_target (target x)) (send_permission c name x)"
  unfolding send_permission_def
  by (cases x) (auto intro!: emits_intros simp: GenerateTopicPermissions_def)

lemma emits_adopt_permission: "emits (on_target t) (adopt_permission user obj)"
  unfolding adopt_permission_def Let_def by (cases user) (auto intro!: emits_intros)

lemma guarded_permission_target:
  assumes "update_echo n"
  shows "guarded n (\<lambda>h. on_target (target obj))
     (io_then (adopt_permission user obj) (\<lambda>x. io_keep x (send_permission c name x))) h"
proof (intro guarded_intros)
  show "guarded n (\<lambda>h. on_target (target obj)) (adopt_permission user obj) h"
    by (rule guarded_emits [OF emits_adopt_permission])
  show "guarded n (\<lambda>h. on_target (target obj)) (send_permission c name x) h'"
    if "adopt_permission user obj n h = (Ret (x, Inr u), h')" for x u h'
    using guarded_emits [OF emits_send_permission, of x "\<lambda>h. on_target (target obj)"]
      adopt_permission_target [OF assms that] by simp
qed

lemma emits_pointed_user_target: "emits (on_target t) (pointed_user ref ns)"
  unfolding pointed_user_def getUsernameFromUser_def by (intro emits_intros) simp

lemma declare_on_target:
  assumes "update_echo n" and "tkind_of obj = k"
  shows "guarded n (\<lambda>h. on_target (target obj)) (DeclareFunc k c obj) h"
proof -
  let ?Q = "\<lambda>h. on_target (target obj)"
  have pu: "guarded n ?Q (pointed_user ref ns) h" for ref ns h
    by (rule guarded_emits [OF emits_pointed_user_target])
  have simple: "guarded n ?Q m h" if "emits (on_target t) m" "t = target obj" for m :: "'a prog" and h t
    using guarded_emits [of "on_target t" m ?Q] that by simp
  have "guarded n ?Q (declare_obj c obj) h"
  proof (cases obj)
    case (OPermission p)
    have eq: "declare_obj c obj = Permission_DeclareFunc c p" by (simp add: OPermission)
    show ?thesis unfolding eq Permission_DeclareFunc_def Let_def OPermission [symmetric]
      by (intro guarded_intros guarded_permission_target pu assms)
  next
    case (OTopicPermission p)
    have eq: "declare_obj c obj = TopicPermission_DeclareFunc c p" by (simp add: OTopicPermission)
    show ?thesis unfolding eq TopicPermission_DeclareFunc_def Let_def OTopicPermission [symmetric]
      by (intro guarded_intros guarded_permission_target pu assms)
  next
    case (OUser u)
    have eq: "declare_obj c obj = io_bind (User_DeclareFunc c u) (\<lambda>(u, r). io_return (OUser u, r))"
      by (simp add: OUser)
    show ?thesis unfolding eq
      by (rule simple [of "[''user'']"]) (auto intro!: emits_intros emits_user_target simp: OUser)
  qed (auto intro!: guarded_keep guarded_emits emits_declare_target [unfolded target.simps])
  then show ?thesis using assms(2) by (simp add: DeclareFunc_def)
qed

lemma emits_removeFinalizer_target: "emits (on_target t) (removeFinalizer obj)"
  unfolding removeFinalizer_def Let_def by (intro emits_intros) simp

lemma delete_on_target:
  assumes "tkind_of obj = k"
  shows "emits (on_target (target obj)) (DeleteFunc k c obj)"
proof (cases obj)
  case (OPermission p)
  show ?thesis using assms unfolding DeleteFunc_def Permission_DeleteFunc_def revokePermissions_def Let_def OPermission
    by (auto simp: Permission_DeleteFunc_def revokePermissions_def Let_def
        intro!: emits_intros emits_pointed_user_target emits_removeFinalizer_target)
next
  case (OTopicPermission p)
  show ?thesis using assms unfolding DeleteFunc_def TopicPermission_DeleteFunc_def clearTopicPermission_def Let_def OTopicPermission
    by (auto simp: TopicPermission_DeleteFunc_def clearTopicPermission_def Let_def
        intro!: emits_intros emits_pointed_user_target emits_removeFinalizer_target)
qed (use assms in \<open>auto simp: DeleteFunc_def intro!: emits_keep emits_delete_target
       simp del: target.simps\<close>)

lemma addFinalizer_target:
  assumes "update_echo n" and "addFinalizerIfNeeded obj n h = (Ret (obj1, Inr u), h')"
  shows "target obj1 = target obj" "tkind_of obj1 = tkind_of obj"
  using assms(2)
  by (auto simp: addFinalizerIfNeeded_def Let_def call_update_def decode_as_Inr split: if_splits sum.splits
      dest!: update_echo_target [OF assms(1)])

lemma reconcile_on_target:
  assumes "update_echo n" and "rf.uses k r"
    and get: "decode_as (tr_Type r) (kube_get n h0 (tr_Type r) ns name) = Inr obj"
  shows "guarded n (\<lambda>h. on_target (target obj)) (Reconcile r ns name) h0"
proof -
  let ?Q = "\<lambda>h. on_target (target obj)" and ?h1 = "h0 @ [KubeGet (tr_Type r) ns name]"
  have kind: "tkind_of obj = k" and funs: "tr_DeclareFunc r = DeclareFunc k" "tr_DeleteFunc r = DeleteFunc k"
    using decode_as_kind [OF get] assms(2) by (simp_all add: rf.uses_def)
  have "guarded n ?Q (reconcile_object r obj) ?h1"
  proof (rule guarded_reconcile_object)
    show "?Q h e" if "is_read e \<or> (\<exists>a b d m. e = Recorded a b d m)" for h e
      using that by (cases e) (auto simp: on_target_def)
    show "guarded n ?Q (handleRMQReferenceParseError obj (Some err)) h2" for err h2
      unfolding handleRMQReferenceParseError_def Let_def option.case
      by (intro guarded_intros guarded_removeFinalizer guarded_set_status) auto
    show "guarded n ?Q (reconcile_delete r c obj) h2" for c h2
      unfolding reconcile_delete_def Let_def funs
      by (intro guarded_intros guarded_removeFinalizer guarded_emits [OF delete_on_target [OF kind]]) auto
    show "guarded n ?Q (reconcile_declare r c obj) h2" for c h2
      unfolding reconcile_declare_def Let_def funs
    proof (intro guarded_intros guarded_set_status)
      show "guarded n ?Q (addFinalizerIfNeeded obj) h2"
        unfolding addFinalizerIfNeeded_def Let_def by (intro guarded_intros) auto
      show "guarded n ?Q (DeclareFunc k c x) h3"
        if "addFinalizerIfNeeded obj n h2 = (Ret y, h3)" "y = (x, z)" "z = Inr u" for x y z u h3
        using declare_on_target [OF assms(1), of x k c h3] addFinalizer_target [OF assms(1)] kind that by metis
    qed auto
  qed
  then show ?thesis unfolding Reconcile_def by (intro guarded_intros) (auto simp: call_get_def get)
qed


section \<open>Accepted updates\<close>

text \<open>
  One update of a resource that its webhook accepts. The world in which the webhook reads the
  secrets is any.
\<close>

inductive accepted_update :: "CustomValidator \<Rightarrow> (json_object \<Rightarrow> json_object) \<Rightarrow> tobj \<Rightarrow> tobj \<Rightarrow> bool"
  for v order where
  binding: "Binding_ValidateUpdate x y = Inr () \<Longrightarrow> accepted_update v order (OBinding x) (OBinding y)"
| exchange: "Exchange_ValidateUpdate x y = Inr () \<Longrightarrow> accepted_update v order (OExchange x) (OExchange y)"
| queue: "Queue_ValidateUpdate order x y = Ret (Inr ()) \<Longrightarrow> accepted_update v order (OQueue x) (OQueue y)"
| vhost: "Vhost_ValidateUpdate x y = Inr () \<Longrightarrow> accepted_update v order (OVhost x) (OVhost y)"
| user: "User_ValidateUpdate v x y n h = (Ret (Inr ()), h') \<Longrightarrow> accepted_update v order (OUser x) (OUser y)"
| permission: "Permission_ValidateUpdate x y = Inr () \<Longrightarrow>
    accepted_update v order (OPermission x) (OPermission y)"
| topic_permission: "TopicPermission_ValidateUpdate x y = Inr () \<Longrightarrow>
    accepted_update v order (OTopicPermission x) (OTopicPermission y)"
| policy: "Policy_ValidateUpdate x y = Inr () \<Longrightarrow> accepted_update v order (OPolicy x) (OPolicy y)"
| operator_policy: "OperatorPolicy_ValidateUpdate x y = Inr () \<Longrightarrow>
    accepted_update v order (OOperatorPolicy x) (OOperatorPolicy y)"
| federation: "Federation_ValidateUpdate v x y n h = (Ret (Inr ()), h') \<Longrightarrow>
    accepted_update v order (OFederation x) (OFederation y)"
| shovel: "Shovel_ValidateUpdate v x y n h = (Ret (Inr ()), h') \<Longrightarrow>
    accepted_update v order (OShovel x) (OShovel y)"
| schema_replication: "SchemaReplication_ValidateUpdate v x y n h = (Ret (Inr ()), h') \<Longrightarrow>
    accepted_update v order (OSchemaReplication x) (OSchemaReplication y)"

text \<open>A relation whose steps keep an identity keeps it along every chain of steps.\<close>

locale immutable_identity =
  fixes step :: "'o \<Rightarrow> 'o \<Rightarrow> bool" and identity :: "'o \<Rightarrow> 'i"
  assumes step_keeps: "step x y \<Longrightarrow> identity y = identity x"
begin

lemma chain_keeps: "step\<^sup>*\<^sup>* x y \<Longrightarrow> identity y = identity x"
  by (induction rule: rtranclp_induct) (simp_all add: step_keeps)

end

lemma Queue_ValidateUpdate_accepted:
  assumes "Queue_ValidateUpdate order x y = Ret (Inr u)"
  shows "q_Name (obj_Spec y) = q_Name (obj_Spec x)" "q_Vhost (obj_Spec y) = q_Vhost (obj_Spec x)"
    "q_RabbitmqClusterReference (obj_Spec y) = q_RabbitmqClusterReference (obj_Spec x)"
    "q_Type (obj_Spec y) = q_Type (obj_Spec x)"
  using assms
  by (auto simp: Queue_ValidateUpdate_def Let_def Matches_eq forbid_def
      split: sum.splits option.splits outcome.splits if_splits)

lemmas RabbitReference_defs =
  Binding_RabbitReference_def Exchange_RabbitReference_def Queue_RabbitReference_def Vhost_RabbitReference_def
  User_RabbitReference_def Permission_RabbitReference_def TopicPermission_RabbitReference_def Policy_RabbitReference_def
  OperatorPolicy_RabbitReference_def Federation_RabbitReference_def Shovel_RabbitReference_def SchemaReplication_RabbitReference_def

lemma accepted_update_keeps:
  assumes "accepted_update v order x y"
  shows "(target y, RabbitReference y) = (target x, RabbitReference x)"
  using assms
proof (cases rule: accepted_update.cases)
  case (queue a b)
  then show ?thesis
    using Queue_ValidateUpdate_accepted [OF queue(3)] by (simp add: Queue_RabbitReference_def)
qed (auto simp: Binding_ValidateUpdate_def Exchange_ValidateUpdate_def Vhost_ValidateUpdate_def
      Policy_ValidateUpdate_def OperatorPolicy_ValidateUpdate_def Permission_ValidateUpdate_def
      TopicPermission_ValidateUpdate_def Federation_ValidateUpdate_def Shovel_ValidateUpdate_def
      SchemaReplication_ValidateUpdate_def User_ValidateUpdate_def Let_def Matches_eq forbid_def RabbitReference_defs
      split: if_splits option.splits sum.splits prod.splits outcome.splits)

interpretation admission: immutable_identity "accepted_update v order" "\<lambda>x. (target x, RabbitReference x)" for v order
  by unfold_locales (rule accepted_update_keeps)


section \<open>Properties\<close>

text \<open>
  C24. The arguments of a queue cannot be updated: when both versions have arguments that decode and
  the old values are no lists and no objects, the review never panics, and it accepts exactly the
  updates that keep name, virtual host, cluster, type, durability, automatic deletion and the
  decoded arguments, in whatever order the language visits the map.
\<close>

theorem queue_update_accepted_iff:
  assumes "visits_all order"
    and "q_Arguments (obj_Spec old) = Some a" and "json_Unmarshal a = Some (Some va)"
    and "q_Arguments (obj_Spec new) = Some b" and "json_Unmarshal b = Some (Some vb)"
    and "\<forall>(k, v) \<in> set va. json_scalar_value v"
  shows "\<exists>r. Queue_ValidateUpdate order old new = Ret r \<and>
    (r = Inr () \<longleftrightarrow>
       q_Name (obj_Spec new) = q_Name (obj_Spec old) \<and> q_Vhost (obj_Spec new) = q_Vhost (obj_Spec old) \<and>
       q_RabbitmqClusterReference (obj_Spec new) = q_RabbitmqClusterReference (obj_Spec old) \<and>
       q_Type (obj_Spec new) = q_Type (obj_Spec old) \<and> q_AutoDelete (obj_Spec new) = q_AutoDelete (obj_Spec old) \<and>
       (q_Durable (obj_Spec new) = Some True \<longleftrightarrow> q_Durable (obj_Spec old) = Some True) \<and> va = vb)"
proof -
  have "maps_Equal order va vb = Ret (va = vb)"
    by (rule maps_Equal_scalar [OF assms(1) json_Unmarshal_sorted [OF assms(3)] json_Unmarshal_sorted [OF assms(5)] assms(6)])
  moreover have "ptr_Deref x False \<longleftrightarrow> x = Some True" for x
    by (auto simp: ptr_Deref_def split: option.splits)
  ultimately show ?thesis
    using assms(2-5) by (auto simp: Queue_ValidateUpdate_def Let_def Matches_eq forbid_def)
qed

definition argument_queue :: "string \<Rightarrow> Queue" where
  "argument_queue args = idle_queue\<lparr>obj_Spec := (obj_Spec idle_queue)\<lparr>q_Arguments := Some args\<rparr>\<rparr>"

theorem queue_update_accepted_iff_witness:
  "\<exists>r. Queue_ValidateUpdate id (argument_queue ''{}'') (argument_queue ''{ }'') = Ret r \<and> r = Inr ()"
proof -
  have "json_Unmarshal ''{ }'' = Some (Some [])" by code_simp
  with queue_update_accepted_iff [of id "argument_queue ''{}''" "''{}''" "[]" "argument_queue ''{ }''" "''{ }''" "[]"]
  show ?thesis by (simp add: visits_all_def argument_queue_def idle_queue_def empty_object_decoded)
qed

text \<open>
  C27. The review of a federation does not look at the deletion timestamp: once the secret with its
  addresses is gone from the cache, every update is rejected, also the one that takes the finalizer
  off a federation that is being deleted. The review of a user lets that update pass.
\<close>

theorem federation_release_blocked:
  assumes "cv_Client v" and "f_UriSecret (obj_Spec new) = Some s"
    and "kube_secret n h (om_Namespace (obj_Meta new)) s = Inl err"
    and "om_DeletionTimestamp (obj_Meta u) \<noteq> None"
    and "u_RabbitmqClusterReference (obj_Spec u) = u_RabbitmqClusterReference (obj_Spec u0)"
  shows "(\<exists>e h'. Federation_ValidateUpdate v old new n h = (Ret (Inl e), h')) \<and>
    User_ValidateUpdate v u0 u n h = (Ret (Inr ()), h)"
  using assms
  by (auto simp: Federation_ValidateUpdate_def User_ValidateUpdate_def validateSecretLabel_def call_secret_def Let_def
      Matches_eq forbid_def)

definition deleted_federation :: Federation where
  "deleted_federation =
     \<lparr>obj_Group = ''rabbitmq.com'', obj_Kind = ''Federation'',
      obj_Meta = (sample_meta ''f'')\<lparr>om_DeletionTimestamp := Some 7\<rparr>,
      obj_Spec = \<lparr>f_Name = ''f'', f_Vhost = ''/'', f_RabbitmqClusterReference = sample_ref, f_UriSecret = Some ''uri'',
                  f_PrefetchCount = 0, f_AckMode = ''on-confirm'', f_Expires = 0, f_MessageTTL = 0, f_MaxHops = 0,
                  f_ReconnectDelay = None, f_TrustUserId = False, f_Exchange = '''', f_Queue = '''',
                  f_DeletionPolicy = ''delete'', f_QueueType = '''', f_ResourceCleanupMode = ''''\<rparr>,
      obj_Status = sample_status\<rparr>"

definition deleted_user :: User where
  "deleted_user = limited_user\<lparr>obj_Meta := (sample_meta ''u'')\<lparr>om_DeletionTimestamp := Some 7\<rparr>\<rparr>"

theorem federation_release_blocked_witness:
  "\<exists>e h'. Federation_ValidateUpdate \<lparr>cv_Client = True\<rparr> deleted_federation deleted_federation
     (sample_env\<lparr>kube_secret := \<lambda>h ns name. Inl (StatusError StatusReasonNotFound ''gone'')\<rparr>) [] = (Ret (Inl e), h')"
proof -
  let ?n = "sample_env\<lparr>kube_secret := \<lambda>h ns name. Inl (StatusError StatusReasonNotFound ''gone'')\<rparr>"
  have "(\<exists>e h'. Federation_ValidateUpdate \<lparr>cv_Client = True\<rparr> deleted_federation deleted_federation ?n [] = (Ret (Inl e), h')) \<and>
    User_ValidateUpdate \<lparr>cv_Client = True\<rparr> limited_user deleted_user ?n [] = (Ret (Inr ()), [])"
    by (rule federation_release_blocked) (simp_all add: deleted_federation_def deleted_user_def)
  then show ?thesis by blast
qed

text \<open>
  C14. A super stream only grows: along any chain of accepted updates the routing keys it had stay
  the first ones, in their order, also when they are generated from the number of partitions. The
  partitions that exist therefore keep their names.
\<close>

theorem superstream_grows:
  assumes "(\<lambda>x y. SuperStream_ValidateUpdate x y = Ret (Inr ()))\<^sup>*\<^sup>* old new"
  shows "prefix (superstream_keys old) (superstream_keys new) \<and>
    ss_Partitions (obj_Spec old) \<le> ss_Partitions (obj_Spec new)"
  using assms
proof (induction rule: rtranclp_induct)
  case (step y z)
  have "prefix (map f [0..<nat a]) (map f [0..<nat b])" if "a \<le> b" for a b and f :: "nat \<Rightarrow> string"
    using upt_add_eq_append [of 0 "nat a" "nat b - nat a"] that by simp  then have "prefix (superstream_keys y) (superstream_keys z)"
    using step.hyps(2) by (auto simp: SuperStream_ValidateUpdate_iff superstream_keys_def generateRoutingKeys_def)
  then show ?case using step by (auto simp: SuperStream_ValidateUpdate_iff)
qed simp

theorem superstream_grows_witness:
  "prefix (superstream_keys sample_superstream)
     (superstream_keys (sample_superstream\<lparr>obj_Spec := (obj_Spec sample_superstream)\<lparr>ss_Partitions := 5\<rparr>\<rparr>))"
proof -
  let ?new = "sample_superstream\<lparr>obj_Spec := (obj_Spec sample_superstream)\<lparr>ss_Partitions := 5\<rparr>\<rparr>"
  have "SuperStream_ValidateUpdate sample_superstream ?new = Ret (Inr ())"
    by (simp add: SuperStream_ValidateUpdate_iff sample_superstream_def)
  from superstream_grows [OF r_into_rtranclp [of "\<lambda>x y. SuperStream_ValidateUpdate x y = Ret (Inr ())", OF this]]
  show ?thesis by simp
qed

end
