(* ===== verification/Broker_Ledger.thy ===== *)
theory Broker_Ledger
  imports Admission
begin

text \<open>
  What the calls of all the controllers add up to. The ledger books, for every broker and every
  entity of it, the last declaration that the broker accepted, unless a later removal was
  acknowledged. It is the abstract state of the operator's work: a run of the reconciler refines
  one of three abstract steps on it (declare, remove, nothing) at the entity of its object.

  The ledger is read off the history of calls. It does not claim what the broker does to other
  entities by itself, for example to the queues of a virtual host that is removed.
\<close>

section \<open>Entities\<close>

datatype entity =
    EUser string
  | EBinding string string string string string "json_object option"
  | EPermission string string
  | ETopicPermission string string string
  | EPolicy string string
  | EOperatorPolicy string string
  | EQueue string string
  | EExchange string string
  | EVhost string
  | EParameter string
  | EFederation string string
  | EShovel string string

definition binding_entity :: "string \<Rightarrow> BindingInfo \<Rightarrow> entity" where
  "binding_entity v i =
     EBinding v (bi_Source i) (bi_Destination i) (bi_DestinationType i) (bi_RoutingKey i) (bi_Arguments i)"

text \<open>The entity that a call declares or removes. Queries and the calls on limits have none.\<close>

fun entity_of :: "broker_call \<Rightarrow> entity option" where
  "entity_of (PutUser u s) = Some (EUser u)"
| "entity_of (DeleteUser u) = Some (EUser u)"
| "entity_of (DeclareBinding v i) = Some (binding_entity v i)"
| "entity_of (DeleteBinding v i) = Some (binding_entity v i)"
| "entity_of (UpdatePermissionsIn v u p) = Some (EPermission v u)"
| "entity_of (ClearPermissionsIn v u) = Some (EPermission v u)"
| "entity_of (PutPolicy v p b) = Some (EPolicy v p)"
| "entity_of (DeletePolicy v p) = Some (EPolicy v p)"
| "entity_of (DeclareQueue v q s) = Some (EQueue v q)"
| "entity_of (DeleteQueue v q opts) = Some (EQueue v q)"
| "entity_of (DeclareExchange v e s) = Some (EExchange v e)"
| "entity_of (DeleteExchange v e) = Some (EExchange v e)"
| "entity_of (PutVhost v s) = Some (EVhost v)"
| "entity_of (DeleteVhost v) = Some (EVhost v)"
| "entity_of (PutGlobalParameter p e) = Some (EParameter p)"
| "entity_of (DeleteGlobalParameter p) = Some (EParameter p)"
| "entity_of (PutFederationUpstream v f d) = Some (EFederation v f)"
| "entity_of (DeleteFederationUpstream v f) = Some (EFederation v f)"
| "entity_of (DeclareShovel v s d) = Some (EShovel v s)"
| "entity_of (DeleteShovel v s) = Some (EShovel v s)"
| "entity_of (PutOperatorPolicy v p b) = Some (EOperatorPolicy v p)"
| "entity_of (DeleteOperatorPolicy v p) = Some (EOperatorPolicy v p)"
| "entity_of (UpdateTopicPermissionsIn v u t) = Some (ETopicPermission v u (tpm_Exchange t))"
| "entity_of (DeleteTopicPermissionsIn v u e) = Some (ETopicPermission v u e)"
| "entity_of _ = None"

text \<open>
  The entity of an object. The name of the user of a User or of a permission is not in the spec
  alone, so it is an argument. A binding whose arguments do not decode has none.
\<close>

fun object_entity :: "string \<Rightarrow> tobj \<Rightarrow> entity option" where
  "object_entity u (OBinding b) =
     (case unmarshal_arguments '''' (b_Arguments (obj_Spec b)) of
        Inl err \<Rightarrow> None
      | Inr args \<Rightarrow> Some (EBinding (b_Vhost (obj_Spec b)) (b_Source (obj_Spec b)) (b_Destination (obj_Spec b))
                           (b_DestinationType (obj_Spec b)) (b_RoutingKey (obj_Spec b)) args))"
| "object_entity u (OExchange x) = Some (EExchange (ex_Vhost (obj_Spec x)) (ex_Name (obj_Spec x)))"
| "object_entity u (OQueue x) = Some (EQueue (q_Vhost (obj_Spec x)) (q_Name (obj_Spec x)))"
| "object_entity u (OVhost x) = Some (EVhost (vh_Name (obj_Spec x)))"
| "object_entity u (OUser x) = Some (EUser u)"
| "object_entity u (OPermission x) = Some (EPermission (p_Vhost (obj_Spec x)) u)"
| "object_entity u (OTopicPermission x) =
     Some (ETopicPermission (tp_Vhost (obj_Spec x)) u (tpc_Exchange (tp_Permissions (obj_Spec x))))"
| "object_entity u (OPolicy x) = Some (EPolicy (pol_Vhost (obj_Spec x)) (pol_Name (obj_Spec x)))"
| "object_entity u (OOperatorPolicy x) = Some (EOperatorPolicy (op_Vhost (obj_Spec x)) (op_Name (obj_Spec x)))"
| "object_entity u (OFederation x) = Some (EFederation (f_Vhost (obj_Spec x)) (f_Name (obj_Spec x)))"
| "object_entity u (OShovel x) = Some (EShovel (s_Vhost (obj_Spec x)) (s_Name (obj_Spec x)))"
| "object_entity u (OSchemaReplication x) = Some (EParameter SchemaReplicationParameterName)"


section \<open>The ledger\<close>

type_synonym ledger = "string \<times> entity \<rightharpoonup> broker_call"

definition book :: "env \<Rightarrow> event list \<Rightarrow> event \<Rightarrow> ledger \<Rightarrow> ledger" where
  "book n h e m =
     (case e of
        Broker c q \<Rightarrow>
          (case entity_of q of
             None \<Rightarrow> m
           | Some x \<Rightarrow>
               if is_removal q
               then (if removal_acknowledged (broker_http n h c q) then m((rc_uri c, x) := None) else m)
               else (if validateResponse (broker_http n h c q) = Inr () then m((rc_uri c, x) \<mapsto> q) else m))
      | _ \<Rightarrow> m)"

definition ledger :: "env \<Rightarrow> event list \<Rightarrow> ledger" where
  "ledger n h = history_fold (book n) Map.empty h"

lemma ledger_simps [simp]:
  "ledger n [] = Map.empty"
  "ledger n (h @ [e]) = book n h e (ledger n h)"
  by (simp_all add: ledger_def)

definition unbooked :: "event \<Rightarrow> bool" where
  "unbooked e \<longleftrightarrow> (\<forall>c q. e = Broker c q \<longrightarrow> entity_of q = None)"

lemma unbooked_simps [simp]:
  "unbooked (Broker c q) \<longleftrightarrow> entity_of q = None"
  "unbooked (KubeGet k ns nm)" "unbooked (KubeUpdate x)" "unbooked (KubeStatusUpdate x)"
  "unbooked (KubeGetSecret ns nm)" "unbooked (KubeWriteSecret s)" "unbooked (VaultRead p)"
  "unbooked (RandRead i)" "unbooked (Recorded a b d e)"
  by (simp_all add: unbooked_def)

lemma book_unbooked: "unbooked e \<Longrightarrow> book n h e m = m"
  by (cases e) (simp_all add: book_def)

lemma ledger_unbooked: "list_all unbooked es \<Longrightarrow> ledger n (h @ es) = ledger n h"
  unfolding ledger_def by (erule history_fold_unchanged [where g = "\<lambda>m. m"]) (simp add: book_unbooked)

text \<open>Calls on one target leave the entities of every other target alone.\<close>

fun entity_target :: "entity \<Rightarrow> string list" where
  "entity_target (EUser u) = [''user'']"
| "entity_target (EBinding v s d t r a) = [''binding'', v]"
| "entity_target (EPermission v u) = [''permission'', v]"
| "entity_target (ETopicPermission v u e) = [''topicpermission'', v, e]"
| "entity_target (EPolicy v p) = [''policy'', v, p]"
| "entity_target (EOperatorPolicy v p) = [''operatorpolicy'', v, p]"
| "entity_target (EQueue v q) = [''queue'', v, q]"
| "entity_target (EExchange v e) = [''exchange'', v, e]"
| "entity_target (EVhost v) = [''vhost'', v]"
| "entity_target (EParameter p) = [''parameter'', p]"
| "entity_target (EFederation v f) = [''federation'', v, f]"
| "entity_target (EShovel v s) = [''shovel'', v, s]"

lemma call_target_entity: "entity_of q = Some x \<Longrightarrow> call_target q = entity_target x"
  by (cases q) (auto simp: binding_entity_def)

lemma entity_target_object: "object_entity u obj = Some x \<Longrightarrow> entity_target x = target obj"
  by (cases obj) (auto split: sum.splits)

lemma ledger_other_target:
  assumes "list_all (on_target t) es" and "entity_target x \<noteq> t"
  shows "ledger n (h @ es) (uri, x) = ledger n h (uri, x)"
  unfolding ledger_def
proof (rule history_fold_unchanged [where g = "\<lambda>m. m (uri, x)", OF assms(1)])
  fix h' e m assume "on_target t e"
  then show "book n h' e m (uri, x) = m (uri, x)"
    using assms(2) call_target_entity by (cases e) (auto simp: book_def split: option.split)
qed


section \<open>Declarations\<close>

text \<open>
  The call that declares an object: the translation of its spec. The addresses of a federation or
  a shovel, the endpoints of the schema replication and the credentials of a user are what the
  outside world answered for them at some point of the run.
\<close>

fun declares :: "env \<Rightarrow> string \<Rightarrow> tobj \<Rightarrow> broker_call \<Rightarrow> bool" where
  "declares n u (OBinding b) q \<longleftrightarrow>
     (\<exists>i. GenerateBindingInfo b = Inr i \<and> q = DeclareBinding (b_Vhost (obj_Spec b)) i)"
| "declares n u (OExchange x) q \<longleftrightarrow>
     (\<exists>s. GenerateExchangeSettings x = Inr s \<and> q = DeclareExchange (ex_Vhost (obj_Spec x)) (ex_Name (obj_Spec x)) s)"
| "declares n u (OQueue x) q \<longleftrightarrow>
     (\<exists>s. GenerateQueueSettings x = Inr s \<and> q = DeclareQueue (q_Vhost (obj_Spec x)) (q_Name (obj_Spec x)) s)"
| "declares n u (OVhost x) q \<longleftrightarrow> q = PutVhost (vh_Name (obj_Spec x)) (GenerateVhostSettings x)"
| "declares n u (OUser x) q \<longleftrightarrow>
     (\<exists>h s settings secret. q = PutUser u settings \<and>
        kube_secret n h (om_Namespace (obj_Meta x)) secret = Inr s \<and> u = uc_Username (secretToCredentials s) \<and>
        (\<exists>h. GenerateUserSettings (password_hash n h) (secretToCredentials s) (u_Tags (obj_Spec x)) = Inr settings))"
| "declares n u (OPermission x) q \<longleftrightarrow>
     u \<noteq> '''' \<and> q = UpdatePermissionsIn (p_Vhost (obj_Spec x)) u (GeneratePermissions x)"
| "declares n u (OTopicPermission x) q \<longleftrightarrow>
     u \<noteq> '''' \<and> q = UpdateTopicPermissionsIn (tp_Vhost (obj_Spec x)) u (GenerateTopicPermissions x)"
| "declares n u (OPolicy x) q \<longleftrightarrow>
     (\<exists>b. GeneratePolicy x = Ret (Inr b) \<and> q = PutPolicy (pol_Vhost (obj_Spec x)) (pol_Name (obj_Spec x)) b)"
| "declares n u (OOperatorPolicy x) q \<longleftrightarrow>
     (\<exists>b. GenerateOperatorPolicy x = Ret (Inr b) \<and>
          q = PutOperatorPolicy (op_Vhost (obj_Spec x)) (op_Name (obj_Spec x)) b)"
| "declares n u (OFederation x) q \<longleftrightarrow>
     (\<exists>h name s uri. f_UriSecret (obj_Spec x) = Some name \<and> kube_secret n h (om_Namespace (obj_Meta x)) name = Inr s \<and>
        sec_Data s ''uri'' = Some uri \<and>
        q = PutFederationUpstream (f_Vhost (obj_Spec x)) (f_Name (obj_Spec x)) (GenerateFederationDefinition x uri))"
| "declares n u (OShovel x) q \<longleftrightarrow>
     (\<exists>h name s src dest d. s_UriSecret (obj_Spec x) = Some name \<and>
        kube_secret n h (om_Namespace (obj_Meta x)) name = Inr s \<and>
        sec_Data s ''srcUri'' = Some src \<and> sec_Data s ''destUri'' = Some dest \<and>
        GenerateShovelDefinition x src dest = Inr d \<and>
        q = DeclareShovel (s_Vhost (obj_Spec x)) (s_Name (obj_Spec x)) d)"
| "declares n u (OSchemaReplication x) q \<longleftrightarrow>
     (\<exists>h h' endpoints. getUpstreamEndpoints x n h = (Ret (Inr endpoints), h') \<and>
        q = PutGlobalParameter SchemaReplicationParameterName endpoints)"

lemma GenerateBindingInfo_entity:
  assumes "GenerateBindingInfo b = Inr i"
  shows "object_entity u (OBinding b) = Some (binding_entity (b_Vhost (obj_Spec b)) i)"
  using assms
  by (auto simp: GenerateBindingInfo_def binding_entity_def err_bind_Inr_iff unmarshal_arguments_def
      split: option.splits)

lemma declares_entity:
  assumes "declares n u obj q"
  shows "\<exists>x. entity_of q = Some x \<and> object_entity u obj = Some x \<and> \<not> is_removal q"
proof (cases obj)
  case (OBinding b)
  then show ?thesis using assms GenerateBindingInfo_entity [of b _ u] by (auto simp del: object_entity.simps)
qed (use assms in \<open>simp_all add: GenerateTopicPermissions_def, (elim exE conjE, simp)+\<close>)

text \<open>The declaration depends on the namespace and the spec only.\<close>

lemma translators_ignore_Meta [simp]:
  "GenerateBindingInfo (b\<lparr>obj_Meta := m\<rparr>) = GenerateBindingInfo b"
  "GenerateExchangeSettings (e\<lparr>obj_Meta := m\<rparr>) = GenerateExchangeSettings e"
  "GenerateQueueSettings (q\<lparr>obj_Meta := m\<rparr>) = GenerateQueueSettings q"
  "GenerateVhostSettings (v\<lparr>obj_Meta := m\<rparr>) = GenerateVhostSettings v"
  "GeneratePermissions (p\<lparr>obj_Meta := m\<rparr>) = GeneratePermissions p"
  "GenerateTopicPermissions (tp\<lparr>obj_Meta := m\<rparr>) = GenerateTopicPermissions tp"
  "GeneratePolicy (pol\<lparr>obj_Meta := m\<rparr>) = GeneratePolicy pol"
  "GenerateOperatorPolicy (op\<lparr>obj_Meta := m\<rparr>) = GenerateOperatorPolicy op"
  "GenerateFederationDefinition (f\<lparr>obj_Meta := m\<rparr>) = GenerateFederationDefinition f"
  "GenerateShovelDefinition (s\<lparr>obj_Meta := m\<rparr>) = GenerateShovelDefinition s"
  by (simp_all add: GenerateBindingInfo_def GenerateExchangeSettings_def GenerateQueueSettings_def GenerateVhostSettings_def
      GeneratePermissions_def GenerateTopicPermissions_def GeneratePolicy_def GenerateOperatorPolicy_def
      GenerateFederationDefinition_def GenerateShovelDefinition_def fun_eq_iff cong: option.case_cong)

lemma translators_ignore_Status [simp]:
  "GenerateBindingInfo (b\<lparr>obj_Status := st\<rparr>) = GenerateBindingInfo b"
  "GenerateExchangeSettings (e\<lparr>obj_Status := st\<rparr>) = GenerateExchangeSettings e"
  "GenerateQueueSettings (q\<lparr>obj_Status := st\<rparr>) = GenerateQueueSettings q"
  "GenerateVhostSettings (v\<lparr>obj_Status := st\<rparr>) = GenerateVhostSettings v"
  "GeneratePermissions (p\<lparr>obj_Status := st\<rparr>) = GeneratePermissions p"
  "GenerateTopicPermissions (tp\<lparr>obj_Status := st\<rparr>) = GenerateTopicPermissions tp"
  "GeneratePolicy (pol\<lparr>obj_Status := st\<rparr>) = GeneratePolicy pol"
  "GenerateOperatorPolicy (op\<lparr>obj_Status := st\<rparr>) = GenerateOperatorPolicy op"
  "GenerateFederationDefinition (f\<lparr>obj_Status := st\<rparr>) = GenerateFederationDefinition f"
  "GenerateShovelDefinition (s\<lparr>obj_Status := st\<rparr>) = GenerateShovelDefinition s"
  by (simp_all add: GenerateBindingInfo_def GenerateExchangeSettings_def GenerateQueueSettings_def GenerateVhostSettings_def
      GeneratePermissions_def GenerateTopicPermissions_def GeneratePolicy_def GenerateOperatorPolicy_def
      GenerateFederationDefinition_def GenerateShovelDefinition_def fun_eq_iff cong: option.case_cong)

lemma getUpstreamEndpoints_Meta:
  "om_Namespace m = om_Namespace (obj_Meta r) \<Longrightarrow> getUpstreamEndpoints (r\<lparr>obj_Meta := m\<rparr>) = getUpstreamEndpoints r"
  by (simp add: getUpstreamEndpoints_def Let_def cong: option.case_cong if_cong)

lemma getUpstreamEndpoints_Status [simp]: "getUpstreamEndpoints (r\<lparr>obj_Status := st\<rparr>) = getUpstreamEndpoints r"
  by (simp add: getUpstreamEndpoints_def Let_def cong: option.case_cong if_cong)

lemma declares_map_Meta:
  assumes "om_Namespace (f (tobj_Meta obj)) = om_Namespace (tobj_Meta obj)"
  shows "declares n u (map_Meta f obj) q \<longleftrightarrow> declares n u obj q"
  using assms by (cases obj) (simp_all add: getUpstreamEndpoints_Meta)

lemma declares_erase [simp]: "declares n u (erase_status obj) q \<longleftrightarrow> declares n u obj q"
  by (cases obj) simp_all


section \<open>The declare functions\<close>

text \<open>
  The broker has accepted the declaration of the object, and nothing after it is booked.
\<close>

definition declared :: "env \<Rightarrow> rabbit_client \<Rightarrow> string \<Rightarrow> tobj \<Rightarrow> event list \<Rightarrow> event list \<Rightarrow> bool" where
  "declared n c u obj h h' \<longleftrightarrow>
     (\<exists>es1 q es2. h' = h @ es1 @ Broker c q # es2 \<and> declares n u obj q \<and>
        validateResponse (broker_http n (h @ es1) c q) = Inr () \<and> list_all unbooked es2)"

lemma declared_ledger:
  assumes "declared n c u obj h h'"
  shows "\<exists>q x. object_entity u obj = Some x \<and> declares n u obj q \<and> ledger n h' (rc_uri c, x) = Some q"
proof -
  obtain es1 q es2 where 1: "h' = ((h @ es1) @ [Broker c q]) @ es2" "declares n u obj q"
      "validateResponse (broker_http n (h @ es1) c q) = Inr ()" "list_all unbooked es2"
    using assms by (auto simp: declared_def)
  obtain x where x: "entity_of q = Some x" "object_entity u obj = Some x" "\<not> is_removal q"
    using declares_entity [OF 1(2)] by blast
  have "ledger n h' (rc_uri c, x) = Some q"
    unfolding 1(1) ledger_unbooked [OF 1(4)] using 1(3) x(1,3) by (simp add: book_def del: append_assoc)
  then show ?thesis using 1(2) x(2) by blast
qed

lemma declared_send:
  "declares n u obj q \<Longrightarrow> validateResponse (broker_http n (h @ es) c q) = Inr () \<Longrightarrow>
   declared n c u obj h (h @ es @ [Broker c q])"
  unfolding declared_def by fastforce

lemma declared_send0:
  "declares n u obj q \<Longrightarrow> validateResponse (broker_http n h c q) = Inr () \<Longrightarrow> declared n c u obj h (h @ [Broker c q])"
  using declared_send [where es = "[]"] by simp

lemma declared_send1:
  "declares n u obj q \<Longrightarrow> validateResponse (broker_http n (h @ [e]) c q) = Inr () \<Longrightarrow>
   declared n c u obj h (h @ [e, Broker c q])"
  using declared_send [where es = "[e]"] by simp

lemma declared_suffix: "declared n c u obj h h' \<Longrightarrow> list_all unbooked es \<Longrightarrow> declared n c u obj h (h' @ es)"
  unfolding declared_def by fastforce

lemma declared_prefix: "declared n c u obj (h @ es) h' \<Longrightarrow> declared n c u obj h h'"
  unfolding declared_def by (metis append_assoc)

lemma declared_cong:
  "(\<And>q. declares n u obj q \<longleftrightarrow> declares n u obj' q) \<Longrightarrow> declared n c u obj h h' \<longleftrightarrow> declared n c u obj' h h'"
  unfolding declared_def by simp

lemma on_limits_unbooked: "on_limits e \<Longrightarrow> unbooked e"
  by (cases e) (auto split: broker_call.splits)

lemma list_on_limits_unbooked: "list_all on_limits es \<Longrightarrow> list_all unbooked es"
  by (auto simp: list_all_iff on_limits_unbooked)

lemma Vhost_declared:
  assumes "Vhost_DeclareFunc c v n h = (Ret (Inr ()), h')"
  shows "declared n c u (OVhost v) h h'"
proof -
  let ?put = "PutVhost (vh_Name (obj_Spec v)) (GenerateVhostSettings v)"
  have ok: "validateResponse (broker_http n h c ?put) = Inr ()"
    and limits: "reconcileVhostLimits c (vh_Name (obj_Spec v)) (GenerateVhostLimits (vh_VhostLimits (obj_Spec v))) n
       (h @ [Broker c ?put]) = (Ret (Inr ()), h')"
    using assms by (auto simp: Vhost_DeclareFunc_def split: sum.splits)
  obtain es where es: "h' = (h @ [Broker c ?put]) @ es" "list_all on_limits es"
    using emits_run [OF emits_on_limits(2), OF limits] by blast
  have "declared n c u (OVhost v) h (h @ [Broker c ?put])"
    by (rule declared_send0) (simp_all add: ok)
  then show ?thesis using declared_suffix list_on_limits_unbooked es by blast
qed

lemma User_declared_ledger:
  assumes "status_echo n" and "User_DeclareFunc c x n h = (Ret (x', Inr ()), h')"
  shows "\<exists>u. declared n c u (OUser x) h h'"
proof -
  from User_declared [OF assms] obtain h0 name s cr es where
      1: "kube_secret n h0 (om_Namespace (obj_Meta x)) name = Inr s" "cr = secretToCredentials s"
        "h' = h @ es" "user_put n c cr (u_Tags (obj_Spec x)) h es"
    by (elim exE conjE) (rule that)
  from 1(4) obtain settings es1 es2 where
      2: "es = es1 @ Broker c (PutUser (uc_Username cr) settings) # es2"
        "GenerateUserSettings (password_hash n (h @ es1)) cr (u_Tags (obj_Spec x)) = Inr settings"
        "validateResponse (broker_http n (h @ es1) c (PutUser (uc_Username cr) settings)) = Inr ()" "list_all on_limits es2"
    by (auto simp: user_put_def)
  have "declares n (uc_Username cr) (OUser x) (PutUser (uc_Username cr) settings)"
    using 1(1,2) 2(2) by auto
  then have "declared n c (uc_Username cr) (OUser x) h h'"
    unfolding declared_def using 1(3) 2 list_on_limits_unbooked by blast
  then show ?thesis ..
qed

lemma update_echo_declares:
  assumes "update_echo n" and "kube_update n h (map_Meta f obj) = Inr y"
    and "om_Namespace (f (tobj_Meta obj)) = om_Namespace (tobj_Meta obj)"
  shows "declares n' u y q \<longleftrightarrow> declares n' u obj q"
  using update_echoD(1) [OF assms(1,2)] declares_map_Meta [of f obj, OF assms(3)] by (metis declares_erase)

lemma controller_reference_namespace:
  "controller_reference_law n \<Longrightarrow> SetControllerReference n ow m = Inr m' \<Longrightarrow> om_Namespace m' = om_Namespace m"
  unfolding controller_reference_law_def by (metis object_meta.ext_inject object_meta.surjective object_meta.update_convs(8))

lemma adopt_permission_declares:
  assumes "update_echo n" and "controller_reference_law n"
    and run: "adopt_permission user obj n h = (Ret (x, Inr ()), h')"
  shows "declares n' u x q \<longleftrightarrow> declares n' u obj q" "tkind_of x = tkind_of obj" "\<exists>es. h' = h @ es"
  using run
  by (auto simp: adopt_permission_def Let_def call_update_def decode_as_Inr
      split: user_pointer.splits if_splits sum.splits
      dest!: update_echo_declares [OF assms(1)] controller_reference_namespace [OF assms(2)])

lemma permission_declared:
  assumes "update_echo n" and "controller_reference_law n" and "tkind_of obj = KPermission \<or> tkind_of obj = KTopicPermission"
    and "u \<noteq> ''''"
    and run: "io_then (adopt_permission user obj) (\<lambda>x. io_keep x (send_permission c u x)) n h = (Ret (obj', Inr ()), h')"
  shows "declared n c u obj h h'"
proof -
  obtain x h1 where x: "adopt_permission user obj n h = (Ret (x, Inr ()), h1)"
      and sent: "send_permission c u x n h1 = (Ret (Inr ()), h')"
    using run by (auto split: prod.splits outcome.splits sum.splits)
  note 1 = adopt_permission_declares [OF assms(1,2) x]
  have "declared n c u x h1 h'"
    using sent assms(3,4) 1(2)
    by (cases x) (auto simp: send_permission_def intro!: declared_send0)
  then have "declared n c u obj h1 h'" using declared_cong [of n u x obj] 1(1) by blast
  then show ?thesis using 1(3) declared_prefix by blast
qed

lemma Federation_declared:
  assumes "Federation_DeclareFunc c x n h = (Ret (Inr ()), h')"
  shows "declared n c u (OFederation x) h h'"
proof -
  from assms obtain name s uri where 1: "f_UriSecret (obj_Spec x) = Some name"
      "kube_secret n h (om_Namespace (obj_Meta x)) name = Inr s" "sec_Data s ''uri'' = Some uri"
    by (auto simp: Federation_DeclareFunc_def Federation_getUri_def call_secret_def split: option.splits sum.splits)
  then have "declares n u (OFederation x)
      (PutFederationUpstream (f_Vhost (obj_Spec x)) (f_Name (obj_Spec x)) (GenerateFederationDefinition x uri))"
    by auto
  from declared_send1 [OF this] show ?thesis
    using assms 1 by (auto simp: Federation_DeclareFunc_def Federation_getUri_def call_secret_def)
qed

lemma Shovel_declared:
  assumes "Shovel_DeclareFunc c x n h = (Ret (Inr ()), h')"
  shows "declared n c u (OShovel x) h h'"
proof -
  from assms obtain name s src dest d where 1: "s_UriSecret (obj_Spec x) = Some name"
      "kube_secret n h (om_Namespace (obj_Meta x)) name = Inr s" "sec_Data s ''srcUri'' = Some src"
      "sec_Data s ''destUri'' = Some dest" "GenerateShovelDefinition x src dest = Inr d"
    by (auto simp: Shovel_DeclareFunc_def Shovel_getUris_def call_secret_def split: option.splits sum.splits)
  then have "declares n u (OShovel x) (DeclareShovel (s_Vhost (obj_Spec x)) (s_Name (obj_Spec x)) d)"
    by auto
  from declared_send1 [OF this] show ?thesis
    using assms 1 by (auto simp: Shovel_DeclareFunc_def Shovel_getUris_def call_secret_def)
qed

lemma declare_obj_declared:
  assumes laws: "update_echo n" "controller_reference_law n" "status_echo n"
    and run: "declare_obj c obj n h = (Ret (obj', Inr ()), h')"
  shows "\<exists>u. declared n c u obj h h'"
proof (cases obj)
  case (OVhost v)
  then show ?thesis using run by (auto split: prod.splits outcome.splits dest: Vhost_declared)
next
  case (OUser v)
  then show ?thesis using run User_declared_ledger [OF laws(3)] by (auto split: prod.splits outcome.splits)
next
  case (OPermission p)
  obtain r es where r: "pointed_user (p_UserReference (obj_Spec p)) (om_Namespace (obj_Meta p)) n h = (Ret r, h @ es)"
    using pointed_user_run by blast
  with run OPermission obtain user where "effective_username (p_User (obj_Spec p)) user \<noteq> ''''"
      "io_then (adopt_permission user obj)
         (\<lambda>x. io_keep x (send_permission c (effective_username (p_User (obj_Spec p)) user) x)) n (h @ es) = (Ret (obj', Inr ()), h')"
    by (auto simp: Permission_DeclareFunc_def Let_def simp del: io_then_run split: sum.splits if_splits)
  from permission_declared [OF laws(1,2) _ this] OPermission show ?thesis using declared_prefix by fastforce
next
  case (OTopicPermission p)
  obtain r es where r: "pointed_user (tp_UserReference (obj_Spec p)) (om_Namespace (obj_Meta p)) n h = (Ret r, h @ es)"
    using pointed_user_run by blast
  with run OTopicPermission obtain user where "effective_username (tp_User (obj_Spec p)) user \<noteq> ''''"
      "io_then (adopt_permission user obj)
         (\<lambda>x. io_keep x (send_permission c (effective_username (tp_User (obj_Spec p)) user) x)) n (h @ es) = (Ret (obj', Inr ()), h')"
    by (auto simp: TopicPermission_DeclareFunc_def Let_def simp del: io_then_run split: sum.splits if_splits)
  from permission_declared [OF laws(1,2) _ this] OTopicPermission show ?thesis using declared_prefix by fastforce
next
  case (OSchemaReplication x)
  obtain r h1 where r: "getUpstreamEndpoints x n h = (r, h1)" by fastforce
  with run OSchemaReplication obtain endpoints where e: "r = Ret (Inr endpoints)"
    by (auto simp: SchemaReplication_DeclareFunc_def split: outcome.splits sum.splits)
  have "emits (\<lambda>e. True) (getUpstreamEndpoints x)"
    unfolding getUpstreamEndpoints_def Let_def ReadCredentials_def by (intro emits_intros) simp_all
  with r obtain es where "h1 = h @ es" by (auto elim!: emitsE [where n = n and t = h])
  with run OSchemaReplication r e have "declared n c u obj h h'" for u
    by (auto simp: SchemaReplication_DeclareFunc_def simp del: append_assoc intro!: declared_prefix [OF declared_send0]) blast
  then show ?thesis by blast
qed (use run in \<open>auto simp: Binding_DeclareFunc_def Exchange_DeclareFunc_def Queue_DeclareFunc_def Policy_DeclareFunc_def
       OperatorPolicy_DeclareFunc_def
       split: prod.splits sum.splits option.splits outcome.splits
       intro!: declared_send0 dest: Federation_declared Shovel_declared\<close>)


section \<open>The delete functions\<close>

text \<open>The broker has acknowledged the removal of the object, and nothing after it is booked.\<close>

definition removed :: "env \<Rightarrow> rabbit_client \<Rightarrow> string \<Rightarrow> tobj \<Rightarrow> event list \<Rightarrow> event list \<Rightarrow> bool" where
  "removed n c u obj h h' \<longleftrightarrow>
     (\<exists>es1 q es2 x. h' = h @ es1 @ Broker c q # es2 \<and> is_removal q \<and> entity_of q = Some x \<and>
        object_entity u obj = Some x \<and> removal_acknowledged (broker_http n (h @ es1) c q) \<and> list_all unbooked es2)"

lemma removed_ledger:
  assumes "removed n c u obj h h'"
  shows "\<exists>x. object_entity u obj = Some x \<and> ledger n h' (rc_uri c, x) = None"
proof -
  obtain es1 q es2 x where 1: "h' = ((h @ es1) @ [Broker c q]) @ es2" "is_removal q" "entity_of q = Some x"
      "object_entity u obj = Some x" "removal_acknowledged (broker_http n (h @ es1) c q)" "list_all unbooked es2"
    using assms by (auto simp: removed_def)
  have "ledger n h' (rc_uri c, x) = None"
    unfolding 1(1) ledger_unbooked [OF 1(6)] using 1(2,3,5) by (simp add: book_def del: append_assoc)
  then show ?thesis using 1(4) by blast
qed

lemma removed_send:
  assumes "foreign_errors n" and "is_removal q" and "entity_of q = Some x" "object_entity u obj = Some x"
    and "ignore_missing (validateResponseForDeletion (broker_http n (h @ es) c q)) = Inr ()"
    and "list_all unbooked es2"
  shows "removed n c u obj h (h @ es @ Broker c q # es2)"
  using assms removal_acknowledged_iff [OF assms(1)] unfolding removed_def by blast

lemma removed_suffix: "removed n c u obj h h' \<Longrightarrow> list_all unbooked es \<Longrightarrow> removed n c u obj h (h' @ es)"
  unfolding removed_def by fastforce

lemmas removed_send0 = removed_send [where es = "[]" and ?es2.0 = "[]", simplified]

text \<open>The management API lists the bindings between the two ends that it is asked for.\<close>

definition listing_law :: "env \<Rightarrow> bool" where
  "listing_law n \<longleftrightarrow>
     (\<forall>h c v s d bs b. b \<in> set bs \<longrightarrow>
        (broker_bindings n h c (ListQueueBindingsBetween v s d) = Inr bs \<longrightarrow>
           bi_Source b = s \<and> bi_Destination b = d \<and> bi_DestinationType b = ''queue'') \<and>
        (broker_bindings n h c (ListExchangeBindingsBetween v s d) = Inr bs \<longrightarrow>
           bi_Source b = s \<and> bi_Destination b = d \<and> bi_DestinationType b = ''exchange''))"

text \<open>The schema of the resource restricts the destination type of a binding.\<close>

fun schema_valid :: "tobj \<Rightarrow> bool" where
  "schema_valid (OBinding b) \<longleftrightarrow> b_DestinationType (obj_Spec b) = ''queue'' \<or> b_DestinationType (obj_Spec b) = ''exchange''"
| "schema_valid _ \<longleftrightarrow> True"

text \<open>The user that a permission is for, as the controllers look it up.\<close>

fun looked_up :: "env \<Rightarrow> event list \<Rightarrow> tobj \<Rightarrow> string \<Rightarrow> bool" where
  "looked_up n h (OPermission p) u \<longleftrightarrow>
     (\<exists>x. fst (pointed_user (p_UserReference (obj_Spec p)) (om_Namespace (obj_Meta p)) n h) = Ret (Inr x) \<and>
          u = effective_username (p_User (obj_Spec p)) x)"
| "looked_up n h (OTopicPermission p) u \<longleftrightarrow>
     (\<exists>x. fst (pointed_user (tp_UserReference (obj_Spec p)) (om_Namespace (obj_Meta p)) n h) = Ret (Inr x) \<and>
          u = effective_username (tp_User (obj_Spec p)) x)"
| "looked_up n h (OUser x) u \<longleftrightarrow> u = us_Username (obj_Status x)"
| "looked_up n h _ u \<longleftrightarrow> True"

lemma findBindingInfo_entity:
  assumes "listing_law n" and "schema_valid (OBinding b)" and "findBindingInfo c b n h = (Ret (Inr (Some i)), h')"
  shows "object_entity u (OBinding b) = Some (binding_entity (b_Vhost (obj_Spec b)) i)"
proof -
  let ?q = "if b_DestinationType (obj_Spec b) = ''queue''
            then ListQueueBindingsBetween (b_Vhost (obj_Spec b)) (b_Source (obj_Spec b)) (b_Destination (obj_Spec b))
            else ListExchangeBindingsBetween (b_Vhost (obj_Spec b)) (b_Source (obj_Spec b)) (b_Destination (obj_Spec b))"
  obtain args bs where 1: "unmarshal_arguments '''' (b_Arguments (obj_Spec b)) = Inr args"
      "broker_bindings n h c ?q = Inr bs" "last_match (b_RoutingKey (obj_Spec b)) args bs = Some i"
    using assms(3) by (auto simp: findBindingInfo_def Let_def call_bindings_def split: sum.splits)
  from last_match_Some [OF 1(3)] have i: "i \<in> set bs" "bi_RoutingKey i = b_RoutingKey (obj_Spec b)" "bi_Arguments i = args"
    by auto
  moreover have "bi_Source i = b_Source (obj_Spec b) \<and> bi_Destination i = b_Destination (obj_Spec b) \<and>
      bi_DestinationType i = b_DestinationType (obj_Spec b)"
    using assms(1,2) 1(2) i(1) unfolding listing_law_def by (fastforce split: if_splits)
  ultimately show ?thesis using 1(1) by (simp add: binding_entity_def)
qed

lemma Binding_removed:
  assumes "foreign_errors n" and "listing_law n" and "schema_valid (OBinding b)"
    and run: "Binding_DeleteFunc c b n h = (Ret (Inr ()), h')"
  shows "skips_broker n c h (OBinding b) \<or> removed n c u (OBinding b) h h'"
proof (cases "b_Arguments (obj_Spec b)")
  case None
  with run obtain i where i: "GenerateBindingInfo b = Inr i"
    by (auto simp: Binding_DeleteFunc_def split: sum.splits)
  have "object_entity u (OBinding b) = Some (binding_entity (b_Vhost (obj_Spec b)) (i\<lparr>bi_PropertiesKey := k\<rparr>))" for k
    using GenerateBindingInfo_entity [OF i, of u] by (simp add: binding_entity_def)
  then show ?thesis
    using run None i by (auto simp: Binding_DeleteFunc_def simp del: object_entity.simps intro!: removed_send0 assms(1))
next
  case (Some a)
  obtain r es where r: "findBindingInfo c b n h = (Ret r, h @ es)" using findBindingInfo_run by blast
  then consider "r = Inr None" | i where "r = Inr (Some i)"
    using run Some by (cases r) (auto simp: Binding_DeleteFunc_def)
  then show ?thesis
  proof cases
    case 1
    then show ?thesis using Some r by simp
  next
    case 2
    note e = findBindingInfo_entity [OF assms(2,3), of c h i "h @ es" u]
    then show ?thesis
      using run Some r 2 removed_send [OF assms(1), of "DeleteBinding (b_Vhost (obj_Spec b)) i" _ u "OBinding b" h es c "[]"]
      by (simp add: Binding_DeleteFunc_def del: object_entity.simps)
  qed
qed

lemma permission_removed:
  assumes fe: "foreign_errors n" and q: "\<And>u. is_removal (q u)" and e: "\<And>u. entity_of (q u) = object_entity u obj"
    and some: "\<And>u. object_entity u obj \<noteq> None"
    and pu: "pointed_user ref ns n h = (Ret (Inr user), h @ es)"
    and run: "delete_permission c q ref ns name obj n h = (Ret (obj', Inr ()), h')"
  shows "effective_username name user = '''' \<or> removed n c (effective_username name user) obj h h'"
proof (cases "effective_username name user = ''''")
  case False
  let ?q = "q (effective_username name user)"
  obtain x where x: "object_entity (effective_username name user) obj = Some x" using some by blast
  have ok: "ignore_missing (validateResponseForDeletion (broker_http n (h @ es) c ?q)) = Inr ()"
    and last: "removeFinalizer obj n (h @ es @ [Broker c ?q]) = (Ret (obj', Inr ()), h')"
    using run pu False by (auto simp: delete_permission_def split: sum.splits)
  obtain y where "h' = (h @ es @ [Broker c ?q]) @ [KubeUpdate y]"
    using removeFinalizer_run [of obj n "h @ es @ [Broker c ?q]"] last by auto
  then show ?thesis using removed_send [OF fe q _ x ok, of "[KubeUpdate y]"] e x by simp
qed simp

lemma delete_obj_removed:
  assumes laws: "foreign_errors n" "listing_law n" and "schema_valid obj"
    and run: "delete_obj c obj n h = (Ret (obj', Inr ()), h')"
  shows "skips_broker n c h obj \<or> (\<exists>u. looked_up n h obj u \<and> removed n c u obj h h')"
proof (cases obj)
  case (OBinding b)
  then have "Binding_DeleteFunc c b n h = (Ret (Inr ()), h')"
    using run by (auto split: prod.splits outcome.splits)
  with Binding_removed [OF laws] assms(3) show ?thesis unfolding OBinding looked_up.simps by blast
next
  case (OPermission p)
  let ?pu = "pointed_user (p_UserReference (obj_Spec p)) (om_Namespace (obj_Meta p))"
  have eq: "delete_obj c obj = delete_permission c (ClearPermissionsIn (p_Vhost (obj_Spec p)))
      (p_UserReference (obj_Spec p)) (om_Namespace (obj_Meta p)) (p_User (obj_Spec p)) obj"
    unfolding OPermission delete_obj.simps Permission_DeleteFunc_def delete_permission_def Let_def revokePermissions_def ..
  obtain r es where r: "?pu n h = (Ret r, h @ es)" using pointed_user_run by blast
  with run obtain user where "r = Inr user" by (cases r) (simp_all add: eq delete_permission_def)
  with r permission_removed [OF laws(1) _ _ _ _ run [unfolded eq]] show ?thesis
    by (auto simp: OPermission)
next
  case (OTopicPermission p)
  let ?pu = "pointed_user (tp_UserReference (obj_Spec p)) (om_Namespace (obj_Meta p))"
  have eq: "delete_obj c obj = delete_permission c
      (\<lambda>u. DeleteTopicPermissionsIn (tp_Vhost (obj_Spec p)) u (tpc_Exchange (tp_Permissions (obj_Spec p))))
      (tp_UserReference (obj_Spec p)) (om_Namespace (obj_Meta p)) (tp_User (obj_Spec p)) obj"
    unfolding OTopicPermission delete_obj.simps TopicPermission_DeleteFunc_def delete_permission_def Let_def clearTopicPermission_def ..
  obtain r es where r: "?pu n h = (Ret r, h @ es)" using pointed_user_run by blast
  with run obtain user where "r = Inr user" by (cases r) (simp_all add: eq delete_permission_def)
  with r permission_removed [OF laws(1) _ _ _ _ run [unfolded eq]] show ?thesis
    by (auto simp: OTopicPermission)
next
  case (OQueue q)
  obtain r es where r: "quorum_check c q n h = (Ret r, h @ es)" using quorum_check_run by blast
  with run OQueue show ?thesis
    by (auto simp: Queue_DeleteFunc_def shouldSkipDeletion_def split: if_splits sum.splits
        intro!: removed_send [where ?es2.0 = "[]"] laws)
qed (use run in \<open>auto simp: Exchange_DeleteFunc_def Policy_DeleteFunc_def OperatorPolicy_DeleteFunc_def
       SchemaReplication_DeleteFunc_def Vhost_DeleteFunc_def Federation_DeleteFunc_def Shovel_DeleteFunc_def
       User_DeleteFunc_def shouldSkipDeletion_def split: if_splits intro!: removed_send0 laws\<close>)


section \<open>A run and the ledger\<close>

text \<open>
  The abstract steps: a run leaves the ledger as it was everywhere but at the target of its object.
\<close>

lemma reconcile_ledger_frame:
  assumes "update_echo n" and "rf.uses k r"
    and get: "decode_as (tr_Type r) (kube_get n h (tr_Type r) ns name) = Inr obj"
    and run: "Reconcile r ns name n h = (res, h')" and x: "entity_target x \<noteq> target obj"
  shows "ledger n h' (uri, x) = ledger n h (uri, x)"
proof -
  have "guarded n (\<lambda>h. on_target (target obj)) (Reconcile r ns name) h"
    by (rule reconcile_on_target [OF assms(1-3)])
  from guarded_run [OF this run] obtain es where
      es: "h' = h @ es" "\<forall>es1 e es2. es = es1 @ e # es2 \<longrightarrow> on_target (target obj) e"
    by blast
  then have "list_all (on_target (target obj)) es" by (metis list_all_iff split_list)
  then show ?thesis using ledger_other_target [OF _ x] es(1) by simp
qed

text \<open>
  The two runs that end well. The first declares: its last call has written the condition Ready
  with the status True. The second gives up the finalizer after its delete function.
\<close>

definition ends_ready :: "event list \<Rightarrow> bool" where
  "ends_ready h' \<longleftrightarrow> h' \<noteq> [] \<and>
     (case last h' of
        KubeStatusUpdate x \<Rightarrow>
          (case condition_of ready (tobj_Conditions x) of
             Some cond \<Rightarrow> cond_Status cond = ConditionTrue
           | None \<Rightarrow> False)
      | _ \<Rightarrow> False)"

lemma ends_ready_not_ready: "set_not_ready msg obj n h = (r, h') \<Longrightarrow> \<not> ends_ready h'"
  unfolding set_not_ready_def statusUpdate_def call_status_update_def call_now_def
  using condition_of_SetStatusConditions [of "NotReady (now n h) msg (getStatusConditions obj)" obj]
  by (auto simp: ends_ready_def NotReady_def ConditionTrue_def ConditionFalse_def)

lemma addFinalizer_declares:
  assumes "update_echo n" and run: "addFinalizerIfNeeded obj n h = (Ret (obj1, Inr u), h')"
  shows "declares n' v obj1 q \<longleftrightarrow> declares n' v obj q" "\<exists>es. h' = h @ es"
  using run
  by (auto simp: addFinalizerIfNeeded_def Let_def call_update_def decode_as_Inr split: if_splits sum.splits
      dest!: update_echo_declares [OF assms(1)])

lemma reconcile_declare_ready:
  assumes laws: "update_echo n" "controller_reference_law n" "status_echo n"
    and "tr_DeclareFunc r = DeclareFunc k" "tkind_of obj = k"
    and run: "reconcile_declare r c obj n h = (Ret (delay, None), h')"
  shows "\<exists>u. declared n c u obj h h'"
proof -
  from run obtain obj1 h1 obj2 h2 e where
      add: "addFinalizerIfNeeded obj n h = (Ret (obj1, Inr ()), h1)"
      and decl: "DeclareFunc k c obj1 n h1 = (Ret (obj2, Inr ()), h2)"
      and ready: "set_ready obj2 n (h2 @ [Recorded ''Normal'' ''SuccessfulDeclare'' ''create'' e]) = (Ret (), h')"
    using assms(4)
    by (auto simp: reconcile_declare_def Let_def call_record_def split: prod.splits outcome.splits sum.splits)
  have "tkind_of obj1 = k" using addFinalizer_target(2) [OF laws(1) add] assms(5) by simp
  then have "declare_obj c obj1 n h1 = (Ret (obj2, Inr ()), h2)" using decl by (simp add: DeclareFunc_def)
  from declare_obj_declared [OF laws this] obtain u where "declared n c u obj1 h1 h2" by blast
  then have "declared n c u obj h1 h2" using declared_cong [of n u obj1 obj] addFinalizer_declares(1) [OF laws(1) add] by blast
  moreover obtain y where "h' = h2 @ [Recorded ''Normal'' ''SuccessfulDeclare'' ''create'' e, KubeStatusUpdate y]"
    using ready by (auto simp: set_ready_def statusUpdate_def call_status_update_def call_now_def)
  ultimately have "declared n c u obj h1 h'" using declared_suffix by fastforce
  then show ?thesis using addFinalizer_declares(2) [OF laws(1) add] declared_prefix by blast
qed

lemma reconcile_object_cases:
  assumes run: "reconcile_object r obj n h = (Ret (delay, None), h')"
  obtains (failed) err h2 where "reference_failed r n h obj err h2"
      "handleRMQReferenceParseError obj (Some err) n h2 = (Ret (delay, None), h')"
    | (branch) c h2 where "connected r n h obj c h2"
      "(if om_DeletionTimestamp (tobj_Meta obj) \<noteq> None then reconcile_delete r c obj n h2
        else reconcile_declare r c obj n h2) = (Ret (delay, None), h')"
proof -
  obtain pool h1 where pool: "extractSystemCertPool n h = (Ret pool, h1)"
    by (cases "system_cert_pool n h") (auto simp: extractSystemCertPool_def call_record_def)
  then have ok: "pool = Inr ()" using run by (cases pool) (simp_all add: reconcile_object_def)
  let ?parse = "ParseReference (RabbitReference obj) (om_Namespace (tobj_Meta obj)) (tr_KubernetesClusterDomain r)
    (tr_ConnectUsingPlainHTTP r) n h1"
  obtain parsed h2 where parsed: "?parse = (Ret parsed, h2)"
    using run pool ok by (cases ?parse) (auto simp: reconcile_object_def split: outcome.splits)
  show thesis
  proof (cases parsed)
    case (Inl err)
    then show thesis using failed [of err h2] run pool ok parsed by (simp add: reconcile_object_def reference_failed_def)
  next
    case (Inr ct)
    obtain creds tls where ct: "ct = (creds, tls)" by fastforce
    obtain c where c: "generateRabbitholeClient n creds tls = Inr c"
      using run pool ok parsed Inr ct
      by (cases "generateRabbitholeClient n creds tls") (simp_all add: reconcile_object_def)
    have conn: "connected r n h obj c h2" using pool ok parsed Inr ct c by (auto simp: connected_def)
    then show thesis using branch [OF conn] run connected_run [OF conn] by simp
  qed
qed

lemma handle_error_not_ready:
  assumes "handleRMQReferenceParseError obj (Some err) n h = (Ret (delay, None), h')"
    and "om_DeletionTimestamp (tobj_Meta obj) = None"
  shows "\<not> ends_ready h'"
  using assms
  by (auto simp: handleRMQReferenceParseError_def Let_def call_record_def
      split: if_splits prod.splits outcome.splits dest: ends_ready_not_ready)

lemma reconcile_ready_declared:
  assumes laws: "update_echo n" "controller_reference_law n" "status_echo n" and uses: "rf.uses k r"
    and get: "decode_as (tr_Type r) (kube_get n h (tr_Type r) ns name) = Inr obj"
    and ts: "om_DeletionTimestamp (tobj_Meta obj) = None"
    and run: "Reconcile r ns name n h = (Ret (delay, None), h')" and ready: "ends_ready h'"
  shows "\<exists>c h2 u. connected r n (h @ [KubeGet (tr_Type r) ns name]) obj c h2 \<and> declared n c u obj h h'"
proof -
  let ?h1 = "h @ [KubeGet (tr_Type r) ns name]"
  have funs: "tr_DeclareFunc r = DeclareFunc k" "tkind_of obj = k"
    using uses decode_as_kind [OF get] by (simp_all add: rf.uses_def)
  have obj: "reconcile_object r obj n ?h1 = (Ret (delay, None), h')"
    using run get by (simp add: Reconcile_def call_get_def)
  obtain c h2 where c: "connected r n ?h1 obj c h2" and decl: "reconcile_declare r c obj n h2 = (Ret (delay, None), h')"
    using obj
  proof (cases rule: reconcile_object_cases)
    case (failed err h2)
    then show thesis using handle_error_not_ready ts ready by blast
  next
    case (branch c h2)
    then show thesis using that ts by simp
  qed
  obtain u where "declared n c u obj h2 h'" using reconcile_declare_ready [OF laws funs decl] by blast
  moreover obtain es where "h2 = h @ (KubeGet (tr_Type r) ns name # es)" using connected_extends [OF c] by auto
  ultimately show ?thesis using c declared_prefix by blast
qed

lemma reconcile_released_removed:
  assumes laws: "foreign_errors n" "listing_law n" and uses: "rf.uses k r"
    and get: "decode_as (tr_Type r) (kube_get n h (tr_Type r) ns name) = Inr obj" and "schema_valid obj"
    and ts: "om_DeletionTimestamp (tobj_Meta obj) \<noteq> None"
    and c: "connected r n (h @ [KubeGet (tr_Type r) ns name]) obj c h2" and "\<not> skips_broker n c h2 obj"
    and run: "Reconcile r ns name n h = (Ret (delay, None), h')"
  shows "\<exists>u. looked_up n h2 obj u \<and> removed n c u obj h2 h'"
proof -
  have funs: "tr_DeleteFunc r = DeleteFunc k" "tkind_of obj = k"
    using uses decode_as_kind [OF get] by (simp_all add: rf.uses_def)
  have "reconcile_delete r c obj n h2 = (Ret (delay, None), h')"
    using run get ts connected_run [OF c] by (simp add: Reconcile_def call_get_def)
  then obtain obj' h3 e y where del: "DeleteFunc k c obj n h2 = (Ret (obj', Inr ()), h3)"
      and last: "h' = h3 @ [Recorded ''Normal'' ''SuccessfulDelete'' ''delete'' e, KubeUpdate y]"
    using funs(1)
    by (auto simp: reconcile_delete_def removeFinalizer_def call_record_def call_update_def Let_def
        split: prod.splits outcome.splits sum.splits)
  have "delete_obj c obj n h2 = (Ret (obj', Inr ()), h3)"
    using del funs(2) by (cases obj) (auto simp: DeleteFunc_def split: if_splits)
  from delete_obj_removed [OF laws assms(5) this] assms(8) obtain u where
      u: "looked_up n h2 obj u" "removed n c u obj h2 h3"
    by blast
  then show ?thesis using last removed_suffix by fastforce
qed


section \<open>Sequences of runs\<close>

text \<open>The requests of a work queue, one run after the other.\<close>

fun run_requests :: "env \<Rightarrow> (TopologyReconciler \<times> string \<times> string) list \<Rightarrow> event list \<Rightarrow> event list" where
  "run_requests n [] h = h"
| "run_requests n ((r, ns, name) # rs) h = run_requests n rs (snd (Reconcile r ns name n h))"

text \<open>Each of the requests reads an object with another target, or none.\<close>

fun reads_others :: "env \<Rightarrow> string list \<Rightarrow> (TopologyReconciler \<times> string \<times> string) list \<Rightarrow> event list \<Rightarrow> bool" where
  "reads_others n t [] h = True"
| "reads_others n t ((r, ns, name) # rs) h =
     ((case decode_as (tr_Type r) (kube_get n h (tr_Type r) ns name) of
         Inl err \<Rightarrow> True
       | Inr obj \<Rightarrow> target obj \<noteq> t) \<and>
      reads_others n t rs (snd (Reconcile r ns name n h)))"

lemma reconcile_ledger_other:
  assumes "update_echo n" and "rf.uses k r"
    and "case decode_as (tr_Type r) (kube_get n h (tr_Type r) ns name) of Inl err \<Rightarrow> True | Inr obj \<Rightarrow> target obj \<noteq> entity_target x"
  shows "ledger n (snd (Reconcile r ns name n h)) (uri, x) = ledger n h (uri, x)"
proof (cases "decode_as (tr_Type r) (kube_get n h (tr_Type r) ns name)")
  case (Inl err)
  then show ?thesis by (simp add: Reconcile_def call_get_def book_unbooked)
next
  case (Inr obj)
  then show ?thesis
    using reconcile_ledger_frame [OF assms(1,2) Inr, of "fst (Reconcile r ns name n h)" "snd (Reconcile r ns name n h)"] assms(3)
    by simp
qed

lemma ledger_kept:
  assumes "update_echo n" and "\<forall>(r, ns, name) \<in> set rs. \<exists>k. rf.uses k r" and "reads_others n (entity_target x) rs h"
  shows "ledger n (run_requests n rs h) (uri, x) = ledger n h (uri, x)"
  using assms(2,3)
proof (induction rs arbitrary: h)
  case (Cons a rs)
  obtain r ns name where a: "a = (r, ns, name)" by (cases a)
  with Cons.prems(1) obtain k where "rf.uses k r" by auto
  from reconcile_ledger_other [OF assms(1) this, where h = h and ns = ns and name = name and x = x and uri = uri] Cons
  show ?case by (simp add: a)
qed simp

end
