(* ===== verification/Sample_Runs.thy ===== *)
theory Sample_Runs
  imports Setup Broker_Ledger
begin

text \<open>Runs of the model in the sample environment; the witnesses of the properties refer to them.\<close>

lemma connected_sample:
  assumes "kube_secret n = kube_secret sample_env" and "url_rest_error n = url_rest_error sample_env"
    and "system_cert_pool n = system_cert_pool sample_env" and "new_client n = new_client sample_env"
    and "RabbitReference obj = sample_ref"
  shows "connected r n h obj sample_client (h @ [KubeGetSecret (om_Namespace (tobj_Meta obj)) ''conn''])"
  unfolding connected_def extractSystemCertPool_def
  using assms
  by (simp add: ParseReference_def sample_defs call_secret_def Let_def AllowedNamespaceSecret_def
      readCredentialsFromKubernetesSecret_def extractURIandScheme_def strings_HasPrefix_def url_Parse_scheme_def
      url_scheme_def is_letter_def is_digit_def char_to_lower_def data_string_def generateRabbitholeClient_def) blast

text \<open>The deletion of an exchange.\<close>

abbreviation deletion_world :: env where
  "deletion_world \<equiv> sample_env\<lparr>kube_get := \<lambda>h k ns name. Inr (OExchange deleted_exchange)\<rparr>"

abbreviation released_exchange :: Exchange where
  "released_exchange \<equiv> deleted_exchange\<lparr>obj_Meta := (obj_Meta deleted_exchange)\<lparr>om_Finalizers := []\<rparr>\<rparr>"

lemmas char_eval = char_to_lower_def char_of_def bit_0

lemma sample_deletion_run:
  "Reconcile (setup_Exchange ''d'' False) ''ns'' ''ex'' deletion_world [] =
     (Ret (0, None),
      [KubeGet KExchange ''ns'' ''ex'', KubeGetSecret ''ns'' ''conn'',
       Broker sample_client (DeleteExchange ''/'' ''ex''),
       Recorded ''Normal'' ''SuccessfulDelete'' ''delete'' ''successfully deleted exchange'',
       KubeUpdate (OExchange released_exchange)])"
proof -
  have "connected (setup_Exchange ''d'' False) deletion_world [KubeGet KExchange ''ns'' ''ex'']
     (OExchange deleted_exchange) sample_client
     ([KubeGet KExchange ''ns'' ''ex''] @ [KubeGetSecret (om_Namespace (tobj_Meta (OExchange deleted_exchange))) ''conn''])"
    by (rule connected_sample) (simp_all add: deleted_exchange_def sample_exchange_def Exchange_RabbitReference_def)
  from connected_run [OF this] show ?thesis
    by (simp add: Reconcile_def call_get_def decode_as_def reconcile_delete_def setup_Exchange_def DeleteFunc_def
        Exchange_DeleteFunc_def sample_defs Let_def call_record_def removeFinalizer_def call_update_def err_of_def
        deletionFinalizer_def char_eval validateResponseForDeletion_def validateResponse_def ignore_missing_def)
qed

lemma release_of_exchange: "releases (KubeUpdate (OExchange released_exchange))"
  by (simp add: releases_def)

text \<open>The declaration of an exchange.\<close>

abbreviation declaration_world :: env where
  "declaration_world \<equiv> sample_env\<lparr>kube_get := \<lambda>h k ns name. Inr (OExchange sample_exchange)\<rparr>"

lemma sample_declaration_run:
  "\<exists>h'. Reconcile (setup_Exchange ''d'' False) ''ns'' ''ex'' declaration_world [] = (Ret (0, None), h') \<and> ends_ready h'"
proof -
  have "connected (setup_Exchange ''d'' False) declaration_world [KubeGet KExchange ''ns'' ''ex'']
     (OExchange sample_exchange) sample_client
     ([KubeGet KExchange ''ns'' ''ex''] @ [KubeGetSecret (om_Namespace (tobj_Meta (OExchange sample_exchange))) ''conn''])"
    by (rule connected_sample) (simp_all add: sample_exchange_def Exchange_RabbitReference_def)
  from connected_run [OF this] show ?thesis
    by (simp add: Reconcile_def call_get_def decode_as_def reconcile_declare_def setup_Exchange_def DeclareFunc_def
        Exchange_DeclareFunc_def GenerateExchangeSettings_def unmarshal_arguments_def err_bind_def sample_defs Let_def
        call_record_def addFinalizerIfNeeded_def call_update_def set_ready_def statusUpdate_def call_status_update_def
        call_now_def deletionFinalizer_def char_eval validateResponse_def ends_ready_def getStatusConditions_def
        setObservedGeneration_def Exchange_SetStatusConditions_def Ready_def)
qed

end
