(* ===== verification/Panic_Freedom.thy ===== *)
theory Panic_Freedom
  imports Admission
begin

text \<open>
  Where the operator can panic, and that it cannot for the objects that the schema and the
  webhooks let through: the fields that the declare functions dereference are set, and a permission
  names its user in one way only.
\<close>

lemma returns_outcome [returns_intros]:
  "(\<And>x. r = Ret x \<Longrightarrow> returns n (f x) h) \<Longrightarrow> (\<And>s. r = Panicked s \<Longrightarrow> returns n (g s) h) \<Longrightarrow>
   returns n (case r of Ret x \<Rightarrow> f x | Panicked s \<Rightarrow> g s) h"
  by (cases r) simp_all

fun declarable :: "tobj \<Rightarrow> bool" where
  "declarable (OPermission p) \<longleftrightarrow> p_UserReference (obj_Spec p) = None \<or> p_User (obj_Spec p) = ''''"
| "declarable (OTopicPermission p) \<longleftrightarrow> tp_UserReference (obj_Spec p) = None \<or> tp_User (obj_Spec p) = ''''"
| "declarable (OPolicy p) \<longleftrightarrow> pol_Definition (obj_Spec p) \<noteq> None"
| "declarable (OOperatorPolicy p) \<longleftrightarrow> op_Definition (obj_Spec p) \<noteq> None"
| "declarable (OFederation f) \<longleftrightarrow> f_UriSecret (obj_Spec f) \<noteq> None"
| "declarable (OShovel s) \<longleftrightarrow> s_UriSecret (obj_Spec s) \<noteq> None"
| "declarable (OBinding x) \<longleftrightarrow> True"
| "declarable (OExchange x) \<longleftrightarrow> True"
| "declarable (OQueue x) \<longleftrightarrow> True"
| "declarable (OVhost x) \<longleftrightarrow> True"
| "declarable (OUser x) \<longleftrightarrow> True"
| "declarable (OSchemaReplication x) \<longleftrightarrow> True"

section \<open>The reconcile functions\<close>

lemma returns_limits [returns_intros]:
  "returns n (reconcileVhostLimits c v new) h" "returns n (reconcileUserLimits c user name) h"
  unfolding reconcileVhostLimits_def reconcileUserLimits_def getVhostLimits_def getUserLimits_def Let_def
  by (intro returns_intros)+

lemma returns_ReadCredentials [returns_intros]: "returns n (ReadCredentials p) h"
  unfolding ReadCredentials_def by (intro returns_intros)

lemma returns_declare_simple [returns_intros]:
  "returns n (Binding_DeclareFunc c b) h" "returns n (Exchange_DeclareFunc c e) h"
  "returns n (Queue_DeclareFunc c q) h" "returns n (Vhost_DeclareFunc c v) h"
  "returns n (SchemaReplication_DeclareFunc c r) h"
  unfolding Binding_DeclareFunc_def Exchange_DeclareFunc_def Queue_DeclareFunc_def Vhost_DeclareFunc_def
    SchemaReplication_DeclareFunc_def getUpstreamEndpoints_def Let_def
  by (intro returns_intros)+

lemma returns_declare_policy:
  "pol_Definition (obj_Spec p) \<noteq> None \<Longrightarrow> returns n (Policy_DeclareFunc c p) h"
  "op_Definition (obj_Spec p') \<noteq> None \<Longrightarrow> returns n (OperatorPolicy_DeclareFunc c p') h"
  unfolding Policy_DeclareFunc_def OperatorPolicy_DeclareFunc_def GeneratePolicy_def GenerateOperatorPolicy_def
  by (auto intro!: returns_intros)

lemma returns_declare_uri:
  "f_UriSecret (obj_Spec f) \<noteq> None \<Longrightarrow> returns n (Federation_DeclareFunc c f) h"
  "s_UriSecret (obj_Spec s) \<noteq> None \<Longrightarrow> returns n (Shovel_DeclareFunc c s) h"
  unfolding Federation_DeclareFunc_def Federation_getUri_def Shovel_DeclareFunc_def Shovel_getUris_def Let_def
  by (auto intro!: returns_intros)

lemma returns_User_DeclareFunc [returns_intros]: "returns n (User_DeclareFunc c u) h"
  unfolding User_DeclareFunc_def declareWithImportedCredentials_def declareWithGeneratedCredentials_def
    importCredentials_def getUserCredentials_def putUser_def declareCredentials_def generateCredentials_def
    random_string_def setUserStatus_def Let_def
  by (intro returns_intros)

lemma returns_pointed_user [returns_intros]: "returns n (pointed_user ref ns) h"
  unfolding pointed_user_def getUsernameFromUser_def by (intro returns_intros)

lemma adopt_permission_kind:
  assumes "update_echo n" and "adopt_permission user obj n h = (Ret (x, Inr u), h')"
  shows "tkind_of x = tkind_of obj"
  using assms(2)
  by (cases user) (auto simp: adopt_permission_def Let_def call_update_def decode_as_Inr split: if_splits sum.splits)

lemma returns_permission:
  assumes "update_echo n" and "user \<noteq> NilUser" and "tkind_of obj = KPermission \<or> tkind_of obj = KTopicPermission"
  shows "returns n (io_then (adopt_permission user obj) (\<lambda>x. io_keep x (send_permission c name x))) h"
proof (intro returns_intros)
  show "returns n (adopt_permission user obj) h"
    unfolding adopt_permission_def Let_def using assms(2) by (cases user) (auto intro!: returns_intros)
  show "returns n (send_permission c name x) h'"
    if "adopt_permission user obj n h = (Ret (x, Inr u), h')" for x u h'
    using adopt_permission_kind [OF assms(1) that] assms(3) unfolding send_permission_def
    by (cases x) (auto intro!: returns_intros)
qed

lemma pointed_user_nil:
  assumes "pointed_user ref ns n h = (Ret (Inr user), h')" and "ref = None \<or> name = ''''"
    and "effective_username name user \<noteq> ''''"
  shows "user \<noteq> NilUser"
  using assms by (auto simp: pointed_user_def getUsernameFromUser_def effective_username_def split: option.splits sum.splits if_splits)

lemma declare_returns:
  assumes "update_echo n" and "declarable obj" and "tkind_of obj = k"
  shows "returns n (DeclareFunc k c obj) h"
proof -
  have "returns n (declare_obj c obj) h"
  proof (cases obj)
    case (OPermission p)
    show ?thesis using assms(2) unfolding OPermission declare_obj.simps Permission_DeclareFunc_def Let_def
      by (intro returns_intros returns_permission assms(1) pointed_user_nil) auto
  next
    case (OTopicPermission p)
    show ?thesis using assms(2) unfolding OTopicPermission declare_obj.simps TopicPermission_DeclareFunc_def Let_def
      by (intro returns_intros returns_permission assms(1) pointed_user_nil) auto
  qed (use assms(2) in \<open>auto intro!: returns_intros returns_declare_policy returns_declare_uri\<close>)
  then show ?thesis using assms(3) by (simp add: DeclareFunc_def)
qed

lemma delete_returns:
  assumes "tkind_of obj = k"
  shows "returns n (DeleteFunc k c obj) h"
  using assms unfolding DeleteFunc_def
  by (cases obj) (auto simp: Binding_DeleteFunc_def findBindingInfo_def Exchange_DeleteFunc_def Queue_DeleteFunc_def
      quorum_check_def Vhost_DeleteFunc_def User_DeleteFunc_def Policy_DeleteFunc_def OperatorPolicy_DeleteFunc_def
      Federation_DeleteFunc_def Shovel_DeleteFunc_def SchemaReplication_DeleteFunc_def Permission_DeleteFunc_def
      TopicPermission_DeleteFunc_def revokePermissions_def clearTopicPermission_def Let_def
      intro!: returns_intros)


section \<open>The reconciler\<close>

lemma returns_ParseReference [returns_intros]: "returns n (ParseReference ref ns d p) h"
  unfolding ParseReference_def parse_cluster_def cluster_credentials_def cluster_endpoint_def Let_def
  by (intro returns_intros)

lemma returns_status [returns_intros]:
  "returns n (set_not_ready msg obj) h" "returns n (set_ready obj) h"
  unfolding set_not_ready_def set_ready_def statusUpdate_def by (intro returns_intros)+

lemma returns_handle_error [returns_intros]: "returns n (handleRMQReferenceParseError obj err) h"
  unfolding handleRMQReferenceParseError_def Let_def by (intro returns_intros)

lemma declarable_erase [simp]: "declarable (erase_status x) = declarable x" "declarable (map_Meta f x) = declarable x"
  by (cases x; simp)+

lemma addFinalizer_declarable:
  assumes "update_echo n" and "addFinalizerIfNeeded obj n h = (Ret (obj1, Inr u), h')"
  shows "declarable obj1 = declarable obj"
proof -
  have "kube_update n h x = Inr y \<Longrightarrow> declarable y = declarable x" for h x y
    by (metis declarable_erase(1) update_echoD(1) [OF assms(1)])
  then show ?thesis using assms(2)
    by (auto simp: addFinalizerIfNeeded_def Let_def call_update_def decode_as_Inr split: if_splits sum.splits)
qed

lemma reconcile_returns:
  assumes "update_echo n" and "rf.uses k r"
    and ok: "\<And>obj. decode_as (tr_Type r) (kube_get n h (tr_Type r) ns name) = Inr obj \<Longrightarrow>
               declarable obj \<or> om_DeletionTimestamp (tobj_Meta obj) \<noteq> None"
  shows "returns n (Reconcile r ns name) h"
proof -
  have funs: "tr_Type r = k" "tr_DeclareFunc r = DeclareFunc k" "tr_DeleteFunc r = DeleteFunc k"
    using assms(2) by (simp_all add: rf.uses_def)
  have del: "returns n (reconcile_delete r c obj) h'" if "tkind_of obj = k" for c obj h'
    unfolding reconcile_delete_def Let_def funs by (intro returns_intros delete_returns that)
  have decl: "returns n (reconcile_declare r c obj) h'" if "tkind_of obj = k" "declarable obj" for c obj h'
    unfolding reconcile_declare_def Let_def funs
    by (intro returns_intros declare_returns [OF assms(1)])
      (use that addFinalizer_declarable [OF assms(1)] addFinalizer_target(2) [OF assms(1)] in metis)+
  show ?thesis
    unfolding Reconcile_def reconcile_object_def extractSystemCertPool_def
    by (intro returns_intros del decl) (use ok decode_as_kind funs(1) in \<open>auto simp: call_get_def\<close>)
qed


section \<open>Properties\<close>


definition sample_permission :: Permission where
  "sample_permission =
     \<lparr>obj_Group = ''rabbitmq.com'', obj_Kind = ''Permission'', obj_Meta = sample_meta ''p'',
      obj_Spec = \<lparr>p_User = '''', p_UserReference = Some ''u'', p_Vhost = ''/'',
                  p_Permissions = \<lparr>vp_Configure = ''.*'', vp_Write = ''.*'', vp_Read = ''.*''\<rparr>,
                  p_RabbitmqClusterReference = sample_ref\<rparr>,
      obj_Status = sample_status\<rparr>"


end
