(* ===== verification/Typed_Clients.thy ===== *)
theory Typed_Clients
  imports Api_Types
begin

text \<open>
  The generated typed clients, \<open>pkg/generated/clientset/versioned/typed\<close>: for each of twelve kinds
  the nine operations of its interface (Create, Update, UpdateStatus, Delete, DeleteCollection, Get,
  List, Watch, Patch), once as requests on a REST client and once as actions on a test fake. The
  files of the kinds differ in names only, so an operation is one definition with the name of the
  resource as argument, and a kind's client is the record of the operations at its resource.

  The REST client and the fake's tracker are code of client-go. A request is the chain of builder
  calls that the operation makes, an action is the constructor call of the package testing with its
  arguments, and the record \<open>server\<close> answers both from the history of calls. The locale
  \<open>client_interface\<close> says what a client promises to the code that uses it: each operation is one
  call, with the meaning its name says, on the resource and the namespace of the client. The
  generated clients and the fakes both satisfy it, so they are interchangeable for their callers.
\<close>


section \<open>Groups, versions, options\<close>

record GroupVersion =
  gv_Group :: string
  gv_Version :: string

record GroupVersionResource =
  gvr_Group :: string
  gvr_Version :: string
  gvr_Resource :: string

record GroupVersionKind =
  gvk_Group :: string
  gvk_Version :: string
  gvk_Kind :: string

definition WithResource :: "GroupVersion \<Rightarrow> string \<Rightarrow> GroupVersionResource" where
  "WithResource gv r = \<lparr>gvr_Group = gv_Group gv, gvr_Version = gv_Version gv, gvr_Resource = r\<rparr>"

definition WithKind :: "GroupVersion \<Rightarrow> string \<Rightarrow> GroupVersionKind" where
  "WithKind gv k = \<lparr>gvk_Group = gv_Group gv, gvk_Version = gv_Version gv, gvk_Kind = k\<rparr>"

definition v1beta1_SchemeGroupVersion :: GroupVersion where
  "v1beta1_SchemeGroupVersion = \<lparr>gv_Group = ''rabbitmq.com'', gv_Version = ''v1beta1''\<rparr>"

definition v1alpha1_SchemeGroupVersion :: GroupVersion where
  "v1alpha1_SchemeGroupVersion = \<lparr>gv_Group = ''rabbitmq.com'', gv_Version = ''v1alpha1''\<rparr>"

definition v1beta1_Resource :: "string \<Rightarrow> GroupResource" where
  "v1beta1_Resource resource = \<lparr>gr_Group = gv_Group v1beta1_SchemeGroupVersion, gr_Resource = resource\<rparr>"

definition v1alpha1_Resource :: "string \<Rightarrow> GroupResource" where
  "v1alpha1_Resource resource = \<lparr>gr_Group = gv_Group v1alpha1_SchemeGroupVersion, gr_Resource = resource\<rparr>"

record ListOptions =
  lo_LabelSelector :: string
  lo_FieldSelector :: string
  lo_Watch :: bool
  lo_ResourceVersion :: string
  lo_TimeoutSeconds :: "int option"
  lo_Limit :: int
  lo_Continue :: string

text \<open>\<open>time.Duration(*opts.TimeoutSeconds) * time.Second\<close>, a 64-bit product; zero without the option.\<close>

definition list_timeout :: "ListOptions \<Rightarrow> int" where
  "list_timeout opts =
     (case lo_TimeoutSeconds opts of None \<Rightarrow> 0 | Some s \<Rightarrow> wrap_signed 64 (s * 1000000000))"

lemma list_timeout_exact:
  assumes "lo_TimeoutSeconds opts = Some s" and "\<bar>s\<bar> \<le> 9223372036"
  shows "list_timeout opts = s * 1000000000"
  using assms by (auto simp: list_timeout_def intro!: wrap_signed_id)


section \<open>Requests and actions\<close>

text \<open>
  The other option structs are passed on unread: they are values of the type \<open>'p\<close>.
\<close>

datatype verb = GET | POST | PUT | DELETE | PATCH string

datatype 'p params = Options 'p | ListParams ListOptions

datatype ('o, 'p) body = ObjectBody 'o | OptionsBody 'p | DataBody string

datatype ('o, 'p) build =
    Namespace string
  | Resource string
  | Name string
  | SubResource "string list"
  | VersionedParams "'p params"
  | Timeout int
  | Body "('o, 'p) body"

type_synonym ('o, 'p) request = "verb \<times> ('o, 'p) build list"

datatype ('o, 'p) action =
    NewGetAction GroupVersionResource string string
  | NewListAction GroupVersionResource GroupVersionKind string ListOptions
  | NewWatchAction GroupVersionResource string ListOptions
  | NewCreateAction GroupVersionResource string 'o
  | NewUpdateAction GroupVersionResource string 'o
  | NewUpdateSubresourceAction GroupVersionResource string string 'o
  | NewDeleteActionWithOptions GroupVersionResource string string 'p
  | NewDeleteCollectionAction GroupVersionResource string ListOptions
  | NewPatchSubresourceAction GroupVersionResource string string string string "string list"

text \<open>
  The calls of a client: \<open>Do\<close> and \<open>Watch\<close> of a request on the REST client \<open>'r\<close>, \<open>Invokes\<close> and
  \<open>InvokesWatch\<close> of an action.
\<close>

datatype ('o, 'p, 'r) client_call =
    Do 'r "('o, 'p) request"
  | WatchRequest 'r "('o, 'p) request"
  | Invokes "('o, 'p) action"
  | InvokesWatch "('o, 'p) action"

text \<open>
  What \<open>Invokes\<close> returns is a \<open>runtime.Object\<close>: nil, or a value of some dynamic type, here the kind,
  its list (either may be a nil pointer), or another type.
\<close>

datatype 'o dynamic = DObject "'o option" | DList "'o klist option" | DOther string

type_synonym label_selector = "(string \<rightharpoonup> string) \<Rightarrow> bool"

text \<open>
  How the API server and the tracker of a fake answer. \<open>Into\<close> decodes the response into the new
  object of the caller: \<open>sv_Object\<close> and \<open>sv_List\<close> are what it then holds, with the error.
\<close>

record ('o, 'p, 'r, 'w) server =
  sv_Object :: "('o, 'p, 'r) client_call list \<Rightarrow> 'r \<Rightarrow> ('o, 'p) request \<Rightarrow> 'o \<times> go_error option"
  sv_List :: "('o, 'p, 'r) client_call list \<Rightarrow> 'r \<Rightarrow> ('o, 'p) request \<Rightarrow> 'o klist \<times> go_error option"
  sv_Error :: "('o, 'p, 'r) client_call list \<Rightarrow> 'r \<Rightarrow> ('o, 'p) request \<Rightarrow> go_error option"
  sv_Watch :: "('o, 'p, 'r) client_call list \<Rightarrow> 'r \<Rightarrow> ('o, 'p) request \<Rightarrow> 'w \<times> go_error option"
  sv_Invokes :: "('o, 'p, 'r) client_call list \<Rightarrow> ('o, 'p) action \<Rightarrow> 'o dynamic option \<times> go_error option"
  sv_InvokesWatch :: "('o, 'p, 'r) client_call list \<Rightarrow> ('o, 'p) action \<Rightarrow> 'w \<times> go_error option"
  sv_ExtractLabel :: "ListOptions \<Rightarrow> label_selector option"

type_synonym ('o, 'p, 'r, 'w, 'a) client_prog = "(('o, 'p, 'r, 'w) server, ('o, 'p, 'r) client_call, 'a) io"

text \<open>The interface of a kind, \<open>BindingInterface\<close> and the like.\<close>

record ('o, 'p, 'r, 'w) client_ops =
  op_Create :: "'o \<Rightarrow> 'p \<Rightarrow> ('o, 'p, 'r, 'w, 'o option \<times> go_error option) client_prog"
  op_Update :: "'o \<Rightarrow> 'p \<Rightarrow> ('o, 'p, 'r, 'w, 'o option \<times> go_error option) client_prog"
  op_UpdateStatus :: "'o \<Rightarrow> 'p \<Rightarrow> ('o, 'p, 'r, 'w, 'o option \<times> go_error option) client_prog"
  op_Delete :: "string \<Rightarrow> 'p \<Rightarrow> ('o, 'p, 'r, 'w, go_error option) client_prog"
  op_DeleteCollection :: "'p \<Rightarrow> ListOptions \<Rightarrow> ('o, 'p, 'r, 'w, go_error option) client_prog"
  op_Get :: "string \<Rightarrow> 'p \<Rightarrow> ('o, 'p, 'r, 'w, 'o option \<times> go_error option) client_prog"
  op_List :: "ListOptions \<Rightarrow> ('o, 'p, 'r, 'w, 'o klist option \<times> go_error option) client_prog"
  op_Watch :: "ListOptions \<Rightarrow> ('o, 'p, 'r, 'w, 'w \<times> go_error option) client_prog"
  op_Patch :: "string \<Rightarrow> string \<Rightarrow> string \<Rightarrow> 'p \<Rightarrow> string list \<Rightarrow>
    ('o, 'p, 'r, 'w, 'o option \<times> go_error option) client_prog"

section \<open>The generated clients\<close>

text \<open>
  The struct of a typed client. Its REST client is the nil interface when the group's client is nil;
  a builder call on it then panics.
\<close>

record 'r typed_client =
  tc_client :: "'r option"
  tc_ns :: string

definition on_client :: "'r typed_client \<Rightarrow> ('r \<Rightarrow> ('o, 'p, 'r, 'w, 'a) client_prog) \<Rightarrow> ('o, 'p, 'r, 'w, 'a) client_prog" where
  "on_client c f = (case tc_client c of None \<Rightarrow> io_panic ''nil pointer dereference'' | Some r \<Rightarrow> f r)"

text \<open>\<open>Do(ctx).Into(result)\<close> for an object and for a list, \<open>Do(ctx).Error()\<close>, \<open>Watch(ctx)\<close>.\<close>

definition do_object :: "'r typed_client \<Rightarrow> ('o, 'p) request \<Rightarrow> ('o, 'p, 'r, 'w, 'o option \<times> go_error option) client_prog" where
  "do_object c q =
     on_client c (\<lambda>r. io_bind (io_call (Do r q) (\<lambda>n h. sv_Object n h r q)) (\<lambda>(result, err). io_return (Some result, err)))"

definition do_list :: "'r typed_client \<Rightarrow> ('o, 'p) request \<Rightarrow> ('o, 'p, 'r, 'w, 'o klist option \<times> go_error option) client_prog" where
  "do_list c q =
     on_client c (\<lambda>r. io_bind (io_call (Do r q) (\<lambda>n h. sv_List n h r q)) (\<lambda>(result, err). io_return (Some result, err)))"

definition do_error :: "'r typed_client \<Rightarrow> ('o, 'p) request \<Rightarrow> ('o, 'p, 'r, 'w, go_error option) client_prog" where
  "do_error c q = on_client c (\<lambda>r. io_call (Do r q) (\<lambda>n h. sv_Error n h r q))"

definition do_watch :: "'r typed_client \<Rightarrow> ('o, 'p) request \<Rightarrow> ('o, 'p, 'r, 'w, 'w \<times> go_error option) client_prog" where
  "do_watch c q = on_client c (\<lambda>r. io_call (WatchRequest r q) (\<lambda>n h. sv_Watch n h r q))"

definition client_Get ::
  "string \<Rightarrow> 'r typed_client \<Rightarrow> string \<Rightarrow> 'p \<Rightarrow> ('o, 'p, 'r, 'w, 'o option \<times> go_error option) client_prog" where
  "client_Get plural c name options =
     do_object c (GET, [Namespace (tc_ns c), Resource plural, Name name, VersionedParams (Options options)])"

definition client_List ::
  "string \<Rightarrow> 'r typed_client \<Rightarrow> ListOptions \<Rightarrow> ('o, 'p, 'r, 'w, 'o klist option \<times> go_error option) client_prog" where
  "client_List plural c opts =
     (let timeout = list_timeout opts in
      do_list c (GET, [Namespace (tc_ns c), Resource plural, VersionedParams (ListParams opts), Timeout timeout]))"

definition client_Watch ::
  "string \<Rightarrow> 'r typed_client \<Rightarrow> ListOptions \<Rightarrow> ('o, 'p, 'r, 'w, 'w \<times> go_error option) client_prog" where
  "client_Watch plural c opts =
     (let timeout = list_timeout opts;
          opts = opts\<lparr>lo_Watch := True\<rparr> in
      do_watch c (GET, [Namespace (tc_ns c), Resource plural, VersionedParams (ListParams opts), Timeout timeout]))"

definition client_Create ::
  "string \<Rightarrow> 'r typed_client \<Rightarrow> 'o \<Rightarrow> 'p \<Rightarrow> ('o, 'p, 'r, 'w, 'o option \<times> go_error option) client_prog" where
  "client_Create plural c obj opts =
     do_object c (POST, [Namespace (tc_ns c), Resource plural, VersionedParams (Options opts), Body (ObjectBody obj)])"

definition client_Update ::
  "string \<Rightarrow> 'r typed_client \<Rightarrow> ('sp, 'st) kobject \<Rightarrow> 'p \<Rightarrow>
   (('sp, 'st) kobject, 'p, 'r, 'w, ('sp, 'st) kobject option \<times> go_error option) client_prog" where
  "client_Update plural c obj opts =
     do_object c (PUT, [Namespace (tc_ns c), Resource plural, Name (om_Name (obj_Meta obj)),
       VersionedParams (Options opts), Body (ObjectBody obj)])"

definition client_UpdateStatus ::
  "string \<Rightarrow> 'r typed_client \<Rightarrow> ('sp, 'st) kobject \<Rightarrow> 'p \<Rightarrow>
   (('sp, 'st) kobject, 'p, 'r, 'w, ('sp, 'st) kobject option \<times> go_error option) client_prog" where
  "client_UpdateStatus plural c obj opts =
     do_object c (PUT, [Namespace (tc_ns c), Resource plural, Name (om_Name (obj_Meta obj)), SubResource [''status''],
       VersionedParams (Options opts), Body (ObjectBody obj)])"

definition client_Delete ::
  "string \<Rightarrow> 'r typed_client \<Rightarrow> string \<Rightarrow> 'p \<Rightarrow> ('o, 'p, 'r, 'w, go_error option) client_prog" where
  "client_Delete plural c name opts =
     do_error c (DELETE, [Namespace (tc_ns c), Resource plural, Name name, Body (OptionsBody opts)])"

definition client_DeleteCollection ::
  "string \<Rightarrow> 'r typed_client \<Rightarrow> 'p \<Rightarrow> ListOptions \<Rightarrow> ('o, 'p, 'r, 'w, go_error option) client_prog" where
  "client_DeleteCollection plural c opts listOpts =
     (let timeout = list_timeout listOpts in
      do_error c (DELETE, [Namespace (tc_ns c), Resource plural, VersionedParams (ListParams listOpts), Timeout timeout,
        Body (OptionsBody opts)]))"

definition client_Patch ::
  "string \<Rightarrow> 'r typed_client \<Rightarrow> string \<Rightarrow> string \<Rightarrow> string \<Rightarrow> 'p \<Rightarrow> string list \<Rightarrow>
   ('o, 'p, 'r, 'w, 'o option \<times> go_error option) client_prog" where
  "client_Patch plural c name pt data opts subresources =
     do_object c (PATCH pt, [Namespace (tc_ns c), Resource plural, Name name, SubResource subresources,
       VersionedParams (Options opts), Body (DataBody data)])"

text \<open>The methods of the client of one resource.\<close>

definition client_at ::
  "string \<Rightarrow> 'r typed_client \<Rightarrow> (('sp, 'st) kobject, 'p, 'r, 'w) client_ops" where
  "client_at plural c =
     \<lparr>op_Create = client_Create plural c, op_Update = client_Update plural c,
      op_UpdateStatus = client_UpdateStatus plural c, op_Delete = client_Delete plural c,
      op_DeleteCollection = client_DeleteCollection plural c, op_Get = client_Get plural c,
      op_List = client_List plural c, op_Watch = client_Watch plural c, op_Patch = client_Patch plural c\<rparr>"


section \<open>The fake clients\<close>

text \<open>
  The type assertion \<open>obj.(*T)\<close> on what the tracker returned panics on another dynamic type. A nil
  object is returned as a nil pointer before the assertion.
\<close>

definition invoke_object :: "('o, 'p) action \<Rightarrow> ('o, 'p, 'r, 'w, 'o option \<times> go_error option) client_prog" where
  "invoke_object a =
     io_bind (io_call (Invokes a) (\<lambda>n h. sv_Invokes n h a)) (\<lambda>(obj, err).
       case obj of
         None \<Rightarrow> io_return (None, err)
       | Some (DObject x) \<Rightarrow> io_return (x, err)
       | Some _ \<Rightarrow> io_panic ''interface conversion'')"

definition fake_Get ::
  "GroupVersionResource \<Rightarrow> string \<Rightarrow> string \<Rightarrow> 'p \<Rightarrow> ('o, 'p, 'r, 'w, 'o option \<times> go_error option) client_prog" where
  "fake_Get resource ns name options = invoke_object (NewGetAction resource ns name)"

definition fake_List ::
  "GroupVersionResource \<Rightarrow> GroupVersionKind \<Rightarrow> string \<Rightarrow> ListOptions \<Rightarrow>
   (('sp, 'st) kobject, 'p, 'r, 'w, ('sp, 'st) kobject klist option \<times> go_error option) client_prog" where
  "fake_List resource kind ns opts =
     (let a = NewListAction resource kind ns opts in
      io_bind (io_call (Invokes a) (\<lambda>n h. sv_Invokes n h a)) (\<lambda>(obj, err).
        case obj of
          None \<Rightarrow> io_return (None, err)
        | Some obj \<Rightarrow>
            io_bind (io_ask (\<lambda>n h. sv_ExtractLabel n opts)) (\<lambda>label.
              let label = (case label of None \<Rightarrow> (\<lambda>_. True) | Some l \<Rightarrow> l) in
              case obj of
                DList (Some l) \<Rightarrow>
                  io_return
                    (Some \<lparr>kl_Group = [], kl_Kind = [], kl_Meta = kl_Meta l,
                       kl_Items = filter (\<lambda>item. label (om_Labels (obj_Meta item))) (kl_Items l)\<rparr>, err)
              | DList None \<Rightarrow> io_panic ''nil pointer dereference''
              | _ \<Rightarrow> io_panic ''interface conversion'')))"

definition fake_Watch ::
  "GroupVersionResource \<Rightarrow> string \<Rightarrow> ListOptions \<Rightarrow> ('o, 'p, 'r, 'w, 'w \<times> go_error option) client_prog" where
  "fake_Watch resource ns opts =
     (let a = NewWatchAction resource ns opts in io_call (InvokesWatch a) (\<lambda>n h. sv_InvokesWatch n h a))"

definition fake_Create ::
  "GroupVersionResource \<Rightarrow> string \<Rightarrow> 'o \<Rightarrow> 'p \<Rightarrow> ('o, 'p, 'r, 'w, 'o option \<times> go_error option) client_prog" where
  "fake_Create resource ns obj opts = invoke_object (NewCreateAction resource ns obj)"

definition fake_Update ::
  "GroupVersionResource \<Rightarrow> string \<Rightarrow> 'o \<Rightarrow> 'p \<Rightarrow> ('o, 'p, 'r, 'w, 'o option \<times> go_error option) client_prog" where
  "fake_Update resource ns obj opts = invoke_object (NewUpdateAction resource ns obj)"

definition fake_UpdateStatus ::
  "GroupVersionResource \<Rightarrow> string \<Rightarrow> 'o \<Rightarrow> 'p \<Rightarrow> ('o, 'p, 'r, 'w, 'o option \<times> go_error option) client_prog" where
  "fake_UpdateStatus resource ns obj opts = invoke_object (NewUpdateSubresourceAction resource ''status'' ns obj)"

definition fake_Delete ::
  "GroupVersionResource \<Rightarrow> string \<Rightarrow> string \<Rightarrow> 'p \<Rightarrow> ('o, 'p, 'r, 'w, go_error option) client_prog" where
  "fake_Delete resource ns name opts =
     (let a = NewDeleteActionWithOptions resource ns name opts in
      io_bind (io_call (Invokes a) (\<lambda>n h. sv_Invokes n h a)) (\<lambda>(_, err). io_return err))"

definition fake_DeleteCollection ::
  "GroupVersionResource \<Rightarrow> string \<Rightarrow> 'p \<Rightarrow> ListOptions \<Rightarrow> ('o, 'p, 'r, 'w, go_error option) client_prog" where
  "fake_DeleteCollection resource ns opts listOpts =
     (let a = NewDeleteCollectionAction resource ns listOpts in
      io_bind (io_call (Invokes a) (\<lambda>n h. sv_Invokes n h a)) (\<lambda>(_, err). io_return err))"

definition fake_Patch ::
  "GroupVersionResource \<Rightarrow> string \<Rightarrow> string \<Rightarrow> string \<Rightarrow> string \<Rightarrow> 'p \<Rightarrow> string list \<Rightarrow>
   ('o, 'p, 'r, 'w, 'o option \<times> go_error option) client_prog" where
  "fake_Patch resource ns name pt data opts subresources =
     invoke_object (NewPatchSubresourceAction resource ns name pt data subresources)"

definition fake_at ::
  "GroupVersionResource \<Rightarrow> GroupVersionKind \<Rightarrow> string \<Rightarrow> (('sp, 'st) kobject, 'p, 'r, 'w) client_ops" where
  "fake_at resource kind ns =
     \<lparr>op_Create = fake_Create resource ns, op_Update = fake_Update resource ns,
      op_UpdateStatus = fake_UpdateStatus resource ns, op_Delete = fake_Delete resource ns,
      op_DeleteCollection = fake_DeleteCollection resource ns, op_Get = fake_Get resource ns,
      op_List = fake_List resource kind ns, op_Watch = fake_Watch resource ns, op_Patch = fake_Patch resource ns\<rparr>"


section \<open>What a client promises\<close>

text \<open>
  The meaning of a call: the operation, the resource, namespace and name it is on, the subresource,
  the object or the patch it carries, and the selectors of a collection. A request says it with its
  verb and its builder calls, an action with its constructor. The name of an updated object is the
  one in its metadata.
\<close>

datatype op_kind = OpGet | OpList | OpWatch | OpCreate | OpUpdate | OpDelete | OpDeleteCollection | OpPatch string

record 'o operation =
  o_kind :: op_kind
  o_resource :: string
  o_namespace :: string
  o_name :: "string option"
  o_subresource :: "string list"
  o_object :: "'o option"
  o_patch :: "string option"
  o_selectors :: "(string \<times> string) option"

abbreviation no_operation :: "op_kind \<Rightarrow> string \<Rightarrow> string \<Rightarrow> 'o operation" where
  "no_operation k res ns \<equiv>
     \<lparr>o_kind = k, o_resource = res, o_namespace = ns, o_name = None, o_subresource = [], o_object = None,
      o_patch = None, o_selectors = None\<rparr>"

definition selectors :: "ListOptions \<Rightarrow> string \<times> string" where
  "selectors opts = (lo_LabelSelector opts, lo_FieldSelector opts)"

fun put_build :: "('o, 'p) build \<Rightarrow> 'o operation \<Rightarrow> 'o operation" where
  "put_build (Namespace ns) x = x\<lparr>o_namespace := ns\<rparr>"
| "put_build (Resource r) x = x\<lparr>o_resource := r\<rparr>"
| "put_build (Name s) x = x\<lparr>o_name := Some s\<rparr>"
| "put_build (SubResource s) x = x\<lparr>o_subresource := s\<rparr>"
| "put_build (VersionedParams (ListParams opts)) x = x\<lparr>o_selectors := Some (selectors opts)\<rparr>"
| "put_build (VersionedParams (Options _)) x = x"
| "put_build (Timeout _) x = x"
| "put_build (Body (ObjectBody obj)) x = x\<lparr>o_object := Some obj\<rparr>"
| "put_build (Body (OptionsBody _)) x = x"
| "put_build (Body (DataBody s)) x = x\<lparr>o_patch := Some s\<rparr>"

fun verb_kind :: "bool \<Rightarrow> verb \<Rightarrow> string option \<Rightarrow> op_kind" where
  "verb_kind w GET name = (if w then OpWatch else if name = None then OpList else OpGet)"
| "verb_kind w POST name = OpCreate"
| "verb_kind w PUT name = OpUpdate"
| "verb_kind w DELETE name = (if name = None then OpDeleteCollection else OpDelete)"
| "verb_kind w (PATCH pt) name = OpPatch pt"

definition request_operation :: "bool \<Rightarrow> ('o, 'p) request \<Rightarrow> 'o operation" where
  "request_operation w q =
     (let x = fold put_build (snd q) (no_operation OpGet [] []) in x\<lparr>o_kind := verb_kind w (fst q) (o_name x)\<rparr>)"

fun action_operation :: "(('sp, 'st) kobject, 'p) action \<Rightarrow> ('sp, 'st) kobject operation" where
  "action_operation (NewGetAction r ns name) = (no_operation OpGet (gvr_Resource r) ns)\<lparr>o_name := Some name\<rparr>"
| "action_operation (NewListAction r k ns opts) =
     (no_operation OpList (gvr_Resource r) ns)\<lparr>o_selectors := Some (selectors opts)\<rparr>"
| "action_operation (NewWatchAction r ns opts) =
     (no_operation OpWatch (gvr_Resource r) ns)\<lparr>o_selectors := Some (selectors opts)\<rparr>"
| "action_operation (NewCreateAction r ns obj) = (no_operation OpCreate (gvr_Resource r) ns)\<lparr>o_object := Some obj\<rparr>"
| "action_operation (NewUpdateAction r ns obj) =
     (no_operation OpUpdate (gvr_Resource r) ns)\<lparr>o_name := Some (om_Name (obj_Meta obj)), o_object := Some obj\<rparr>"
| "action_operation (NewUpdateSubresourceAction r sub ns obj) =
     (no_operation OpUpdate (gvr_Resource r) ns)
       \<lparr>o_name := Some (om_Name (obj_Meta obj)), o_subresource := [sub], o_object := Some obj\<rparr>"
| "action_operation (NewDeleteActionWithOptions r ns name opts) =
     (no_operation OpDelete (gvr_Resource r) ns)\<lparr>o_name := Some name\<rparr>"
| "action_operation (NewDeleteCollectionAction r ns opts) =
     (no_operation OpDeleteCollection (gvr_Resource r) ns)\<lparr>o_selectors := Some (selectors opts)\<rparr>"
| "action_operation (NewPatchSubresourceAction r ns name pt data subs) =
     (no_operation (OpPatch pt) (gvr_Resource r) ns)
       \<lparr>o_name := Some name, o_subresource := subs, o_patch := Some data\<rparr>"

fun call_operation :: "(('sp, 'st) kobject, 'p, 'r) client_call \<Rightarrow> ('sp, 'st) kobject operation" where
  "call_operation (Do r q) = request_operation False q"
| "call_operation (WatchRequest r q) = request_operation True q"
| "call_operation (Invokes a) = action_operation a"
| "call_operation (InvokesWatch a) = action_operation a"

text \<open>A program that makes exactly one call, with the given meaning.\<close>

definition does ::
  "(('sp, 'st) kobject, 'p, 'r, 'w, 'a) client_prog \<Rightarrow> ('sp, 'st) kobject operation \<Rightarrow> bool" where
  "does m x \<longleftrightarrow> (\<forall>n h. \<exists>a e. m n h = (a, h @ [e]) \<and> call_operation e = x)"

lemma does_call: "call_operation e = x \<Longrightarrow> does (io_call e q) x"
  by (auto simp: does_def)

lemma does_then:
  assumes "does m x" and "\<And>y n h. snd (f y n h) = h"
  shows "does (io_bind m f) x"
  unfolding does_def
proof (intro allI)
  fix n h
  from assms(1) obtain a e where 1: "m n h = (a, h @ [e])" "call_operation e = x" unfolding does_def by blast
  show "\<exists>a e. io_bind m f n h = (a, h @ [e]) \<and> call_operation e = x"
  proof (cases a)
    case (Ret y)
    have "f y n (h @ [e]) = (fst (f y n (h @ [e])), h @ [e])" using assms(2) by (metis prod.collapse)
    with 1 Ret show ?thesis by (intro exI [of _ "fst (f y n (h @ [e]))"] exI [of _ e]) simp
  qed (use 1 in simp)
qed

locale client_interface =
  fixes resource :: string and ns :: string and ops :: "(('sp, 'st) kobject, 'p, 'r, 'w) client_ops"
  assumes does_Create: "does (op_Create ops obj opts) ((no_operation OpCreate resource ns)\<lparr>o_object := Some obj\<rparr>)"
    and does_Update: "does (op_Update ops obj opts)
      ((no_operation OpUpdate resource ns)\<lparr>o_name := Some (om_Name (obj_Meta obj)), o_object := Some obj\<rparr>)"
    and does_UpdateStatus: "does (op_UpdateStatus ops obj opts)
      ((no_operation OpUpdate resource ns)
         \<lparr>o_name := Some (om_Name (obj_Meta obj)), o_subresource := [''status''], o_object := Some obj\<rparr>)"
    and does_Delete: "does (op_Delete ops name opts) ((no_operation OpDelete resource ns)\<lparr>o_name := Some name\<rparr>)"
    and does_DeleteCollection: "does (op_DeleteCollection ops opts lopts)
      ((no_operation OpDeleteCollection resource ns)\<lparr>o_selectors := Some (selectors lopts)\<rparr>)"
    and does_Get: "does (op_Get ops name opts) ((no_operation OpGet resource ns)\<lparr>o_name := Some name\<rparr>)"
    and does_List: "does (op_List ops lopts) ((no_operation OpList resource ns)\<lparr>o_selectors := Some (selectors lopts)\<rparr>)"
    and does_Watch: "does (op_Watch ops lopts) ((no_operation OpWatch resource ns)\<lparr>o_selectors := Some (selectors lopts)\<rparr>)"
    and does_Patch: "does (op_Patch ops name pt data opts subs)
      ((no_operation (OpPatch pt) resource ns)\<lparr>o_name := Some name, o_subresource := subs, o_patch := Some data\<rparr>)"

interpretation rest_client: client_interface plural ns "client_at plural \<lparr>tc_client = Some r, tc_ns = ns\<rparr>"
  for plural ns r
  by unfold_locales
    (auto simp: client_at_def client_Create_def client_Update_def client_UpdateStatus_def client_Delete_def
       client_DeleteCollection_def client_Get_def client_List_def client_Watch_def client_Patch_def
       do_object_def do_list_def do_error_def do_watch_def on_client_def Let_def request_operation_def selectors_def
     intro!: does_then does_call split: prod.splits)

interpretation fake_client: client_interface "gvr_Resource gvr" ns "fake_at gvr gvk ns"
  for gvr gvk ns
  by unfold_locales
    (auto simp: fake_at_def fake_Create_def fake_Update_def fake_UpdateStatus_def fake_Delete_def
       fake_DeleteCollection_def fake_Get_def fake_List_def fake_Watch_def fake_Patch_def invoke_object_def Let_def
     intro!: does_then does_call split: prod.splits option.splits dynamic.splits)


section \<open>The clients of the kinds\<close>

text \<open>
  A group's client holds the REST client; \<open>RESTClient\<close> of a nil group client is the nil interface.
\<close>

record 'r group_client =
  restClient :: 'r

definition RESTClient :: "'r group_client option \<Rightarrow> 'r option" where
  "RESTClient c = (case c of None \<Rightarrow> None | Some c \<Rightarrow> Some (restClient c))"

definition new_typed_client :: "'r group_client option \<Rightarrow> string \<Rightarrow> 'r typed_client" where
  "new_typed_client c namespace = \<lparr>tc_client = RESTClient c, tc_ns = namespace\<rparr>"

definition bindings_client :: "'r typed_client \<Rightarrow> (Binding, 'p, 'r, 'w) client_ops" where
  "bindings_client c = client_at ''bindings'' c"

definition Bindings :: "'r group_client option \<Rightarrow> string \<Rightarrow> (Binding, 'p, 'r, 'w) client_ops" where
  "Bindings c namespace = bindings_client (new_typed_client c namespace)"

definition exchanges_client :: "'r typed_client \<Rightarrow> (Exchange, 'p, 'r, 'w) client_ops" where
  "exchanges_client c = client_at ''exchanges'' c"

definition Exchanges :: "'r group_client option \<Rightarrow> string \<Rightarrow> (Exchange, 'p, 'r, 'w) client_ops" where
  "Exchanges c namespace = exchanges_client (new_typed_client c namespace)"

definition federations_client :: "'r typed_client \<Rightarrow> (Federation, 'p, 'r, 'w) client_ops" where
  "federations_client c = client_at ''federations'' c"

definition Federations :: "'r group_client option \<Rightarrow> string \<Rightarrow> (Federation, 'p, 'r, 'w) client_ops" where
  "Federations c namespace = federations_client (new_typed_client c namespace)"

definition operatorPolicies_client :: "'r typed_client \<Rightarrow> (OperatorPolicy, 'p, 'r, 'w) client_ops" where
  "operatorPolicies_client c = client_at ''operatorpolicies'' c"

definition OperatorPolicies :: "'r group_client option \<Rightarrow> string \<Rightarrow> (OperatorPolicy, 'p, 'r, 'w) client_ops" where
  "OperatorPolicies c namespace = operatorPolicies_client (new_typed_client c namespace)"

definition permissions_client :: "'r typed_client \<Rightarrow> (Permission, 'p, 'r, 'w) client_ops" where
  "permissions_client c = client_at ''permissions'' c"

definition Permissions :: "'r group_client option \<Rightarrow> string \<Rightarrow> (Permission, 'p, 'r, 'w) client_ops" where
  "Permissions c namespace = permissions_client (new_typed_client c namespace)"

definition policies_client :: "'r typed_client \<Rightarrow> (Policy, 'p, 'r, 'w) client_ops" where
  "policies_client c = client_at ''policies'' c"

definition Policies :: "'r group_client option \<Rightarrow> string \<Rightarrow> (Policy, 'p, 'r, 'w) client_ops" where
  "Policies c namespace = policies_client (new_typed_client c namespace)"

definition queues_client :: "'r typed_client \<Rightarrow> (Queue, 'p, 'r, 'w) client_ops" where
  "queues_client c = client_at ''queues'' c"

definition Queues :: "'r group_client option \<Rightarrow> string \<Rightarrow> (Queue, 'p, 'r, 'w) client_ops" where
  "Queues c namespace = queues_client (new_typed_client c namespace)"

definition schemaReplications_client :: "'r typed_client \<Rightarrow> (SchemaReplication, 'p, 'r, 'w) client_ops" where
  "schemaReplications_client c = client_at ''schemareplications'' c"

definition SchemaReplications :: "'r group_client option \<Rightarrow> string \<Rightarrow> (SchemaReplication, 'p, 'r, 'w) client_ops" where
  "SchemaReplications c namespace = schemaReplications_client (new_typed_client c namespace)"

definition shovels_client :: "'r typed_client \<Rightarrow> (Shovel, 'p, 'r, 'w) client_ops" where
  "shovels_client c = client_at ''shovels'' c"

definition Shovels :: "'r group_client option \<Rightarrow> string \<Rightarrow> (Shovel, 'p, 'r, 'w) client_ops" where
  "Shovels c namespace = shovels_client (new_typed_client c namespace)"

definition users_client :: "'r typed_client \<Rightarrow> (User, 'p, 'r, 'w) client_ops" where
  "users_client c = client_at ''users'' c"

definition Users :: "'r group_client option \<Rightarrow> string \<Rightarrow> (User, 'p, 'r, 'w) client_ops" where
  "Users c namespace = users_client (new_typed_client c namespace)"

definition vhosts_client :: "'r typed_client \<Rightarrow> (Vhost, 'p, 'r, 'w) client_ops" where
  "vhosts_client c = client_at ''vhosts'' c"

definition Vhosts :: "'r group_client option \<Rightarrow> string \<Rightarrow> (Vhost, 'p, 'r, 'w) client_ops" where
  "Vhosts c namespace = vhosts_client (new_typed_client c namespace)"

definition superStreams_client :: "'r typed_client \<Rightarrow> (SuperStream, 'p, 'r, 'w) client_ops" where
  "superStreams_client c = client_at ''superstreams'' c"

definition SuperStreams :: "'r group_client option \<Rightarrow> string \<Rightarrow> (SuperStream, 'p, 'r, 'w) client_ops" where
  "SuperStreams c namespace = superStreams_client (new_typed_client c namespace)"

text \<open>The fakes of the kinds, with the resource and kind that their actions name.\<close>

definition bindingsResource :: GroupVersionResource where
  "bindingsResource = \<lparr>gvr_Group = ''rabbitmq.com'', gvr_Version = ''v1beta1'', gvr_Resource = ''bindings''\<rparr>"

definition bindingsKind :: GroupVersionKind where
  "bindingsKind = \<lparr>gvk_Group = ''rabbitmq.com'', gvk_Version = ''v1beta1'', gvk_Kind = ''Binding''\<rparr>"

definition FakeBindings :: "string \<Rightarrow> (Binding, 'p, 'r, 'w) client_ops" where
  "FakeBindings namespace = fake_at bindingsResource bindingsKind namespace"

definition exchangesResource :: GroupVersionResource where
  "exchangesResource = \<lparr>gvr_Group = ''rabbitmq.com'', gvr_Version = ''v1beta1'', gvr_Resource = ''exchanges''\<rparr>"

definition exchangesKind :: GroupVersionKind where
  "exchangesKind = \<lparr>gvk_Group = ''rabbitmq.com'', gvk_Version = ''v1beta1'', gvk_Kind = ''Exchange''\<rparr>"

definition FakeExchanges :: "string \<Rightarrow> (Exchange, 'p, 'r, 'w) client_ops" where
  "FakeExchanges namespace = fake_at exchangesResource exchangesKind namespace"

definition federationsResource :: GroupVersionResource where
  "federationsResource = \<lparr>gvr_Group = ''rabbitmq.com'', gvr_Version = ''v1beta1'', gvr_Resource = ''federations''\<rparr>"

definition federationsKind :: GroupVersionKind where
  "federationsKind = \<lparr>gvk_Group = ''rabbitmq.com'', gvk_Version = ''v1beta1'', gvk_Kind = ''Federation''\<rparr>"

definition FakeFederations :: "string \<Rightarrow> (Federation, 'p, 'r, 'w) client_ops" where
  "FakeFederations namespace = fake_at federationsResource federationsKind namespace"

definition operatorpoliciesResource :: GroupVersionResource where
  "operatorpoliciesResource = WithResource v1beta1_SchemeGroupVersion ''operatorpolicies''"

definition operatorpoliciesKind :: GroupVersionKind where
  "operatorpoliciesKind = WithKind v1beta1_SchemeGroupVersion ''OperatorPolicy''"

definition FakeOperatorPolicies :: "string \<Rightarrow> (OperatorPolicy, 'p, 'r, 'w) client_ops" where
  "FakeOperatorPolicies namespace = fake_at operatorpoliciesResource operatorpoliciesKind namespace"

definition permissionsResource :: GroupVersionResource where
  "permissionsResource = \<lparr>gvr_Group = ''rabbitmq.com'', gvr_Version = ''v1beta1'', gvr_Resource = ''permissions''\<rparr>"

definition permissionsKind :: GroupVersionKind where
  "permissionsKind = \<lparr>gvk_Group = ''rabbitmq.com'', gvk_Version = ''v1beta1'', gvk_Kind = ''Permission''\<rparr>"

definition FakePermissions :: "string \<Rightarrow> (Permission, 'p, 'r, 'w) client_ops" where
  "FakePermissions namespace = fake_at permissionsResource permissionsKind namespace"

definition policiesResource :: GroupVersionResource where
  "policiesResource = \<lparr>gvr_Group = ''rabbitmq.com'', gvr_Version = ''v1beta1'', gvr_Resource = ''policies''\<rparr>"

definition policiesKind :: GroupVersionKind where
  "policiesKind = \<lparr>gvk_Group = ''rabbitmq.com'', gvk_Version = ''v1beta1'', gvk_Kind = ''Policy''\<rparr>"

definition FakePolicies :: "string \<Rightarrow> (Policy, 'p, 'r, 'w) client_ops" where
  "FakePolicies namespace = fake_at policiesResource policiesKind namespace"

definition queuesResource :: GroupVersionResource where
  "queuesResource = \<lparr>gvr_Group = ''rabbitmq.com'', gvr_Version = ''v1beta1'', gvr_Resource = ''queues''\<rparr>"

definition queuesKind :: GroupVersionKind where
  "queuesKind = \<lparr>gvk_Group = ''rabbitmq.com'', gvk_Version = ''v1beta1'', gvk_Kind = ''Queue''\<rparr>"

definition FakeQueues :: "string \<Rightarrow> (Queue, 'p, 'r, 'w) client_ops" where
  "FakeQueues namespace = fake_at queuesResource queuesKind namespace"

definition schemareplicationsResource :: GroupVersionResource where
  "schemareplicationsResource = \<lparr>gvr_Group = ''rabbitmq.com'', gvr_Version = ''v1beta1'', gvr_Resource = ''schemareplications''\<rparr>"

definition schemareplicationsKind :: GroupVersionKind where
  "schemareplicationsKind = \<lparr>gvk_Group = ''rabbitmq.com'', gvk_Version = ''v1beta1'', gvk_Kind = ''SchemaReplication''\<rparr>"

definition FakeSchemaReplications :: "string \<Rightarrow> (SchemaReplication, 'p, 'r, 'w) client_ops" where
  "FakeSchemaReplications namespace = fake_at schemareplicationsResource schemareplicationsKind namespace"

definition shovelsResource :: GroupVersionResource where
  "shovelsResource = \<lparr>gvr_Group = ''rabbitmq.com'', gvr_Version = ''v1beta1'', gvr_Resource = ''shovels''\<rparr>"

definition shovelsKind :: GroupVersionKind where
  "shovelsKind = \<lparr>gvk_Group = ''rabbitmq.com'', gvk_Version = ''v1beta1'', gvk_Kind = ''Shovel''\<rparr>"

definition FakeShovels :: "string \<Rightarrow> (Shovel, 'p, 'r, 'w) client_ops" where
  "FakeShovels namespace = fake_at shovelsResource shovelsKind namespace"

definition usersResource :: GroupVersionResource where
  "usersResource = \<lparr>gvr_Group = ''rabbitmq.com'', gvr_Version = ''v1beta1'', gvr_Resource = ''users''\<rparr>"

definition usersKind :: GroupVersionKind where
  "usersKind = \<lparr>gvk_Group = ''rabbitmq.com'', gvk_Version = ''v1beta1'', gvk_Kind = ''User''\<rparr>"

definition FakeUsers :: "string \<Rightarrow> (User, 'p, 'r, 'w) client_ops" where
  "FakeUsers namespace = fake_at usersResource usersKind namespace"

definition vhostsResource :: GroupVersionResource where
  "vhostsResource = \<lparr>gvr_Group = ''rabbitmq.com'', gvr_Version = ''v1beta1'', gvr_Resource = ''vhosts''\<rparr>"

definition vhostsKind :: GroupVersionKind where
  "vhostsKind = \<lparr>gvk_Group = ''rabbitmq.com'', gvk_Version = ''v1beta1'', gvk_Kind = ''Vhost''\<rparr>"

definition FakeVhosts :: "string \<Rightarrow> (Vhost, 'p, 'r, 'w) client_ops" where
  "FakeVhosts namespace = fake_at vhostsResource vhostsKind namespace"

definition superstreamsResource :: GroupVersionResource where
  "superstreamsResource = \<lparr>gvr_Group = ''rabbitmq.com'', gvr_Version = ''v1alpha1'', gvr_Resource = ''superstreams''\<rparr>"

definition superstreamsKind :: GroupVersionKind where
  "superstreamsKind = \<lparr>gvk_Group = ''rabbitmq.com'', gvk_Version = ''v1alpha1'', gvk_Kind = ''SuperStream''\<rparr>"

definition FakeSuperStreams :: "string \<Rightarrow> (SuperStream, 'p, 'r, 'w) client_ops" where
  "FakeSuperStreams namespace = fake_at superstreamsResource superstreamsKind namespace"

lemmas fake_resources =
  bindingsResource_def exchangesResource_def federationsResource_def operatorpoliciesResource_def permissionsResource_def policiesResource_def queuesResource_def schemareplicationsResource_def shovelsResource_def usersResource_def vhostsResource_def superstreamsResource_def WithResource_def v1beta1_SchemeGroupVersion_def

lemma Bindings_implements:
  "client_interface ''bindings'' ns (Bindings (Some g) ns :: (Binding, 'p, 'r, 'w) client_ops)"
  "client_interface ''bindings'' ns (FakeBindings ns :: (Binding, 'p, 'r, 'w) client_ops)"
  using rest_client.client_interface_axioms fake_client.client_interface_axioms [of bindingsResource ns bindingsKind]
  by (simp_all add: Bindings_def bindings_client_def new_typed_client_def RESTClient_def FakeBindings_def fake_resources)

lemma Exchanges_implements:
  "client_interface ''exchanges'' ns (Exchanges (Some g) ns :: (Exchange, 'p, 'r, 'w) client_ops)"
  "client_interface ''exchanges'' ns (FakeExchanges ns :: (Exchange, 'p, 'r, 'w) client_ops)"
  using rest_client.client_interface_axioms fake_client.client_interface_axioms [of exchangesResource ns exchangesKind]
  by (simp_all add: Exchanges_def exchanges_client_def new_typed_client_def RESTClient_def FakeExchanges_def fake_resources)

lemma Federations_implements:
  "client_interface ''federations'' ns (Federations (Some g) ns :: (Federation, 'p, 'r, 'w) client_ops)"
  "client_interface ''federations'' ns (FakeFederations ns :: (Federation, 'p, 'r, 'w) client_ops)"
  using rest_client.client_interface_axioms fake_client.client_interface_axioms [of federationsResource ns federationsKind]
  by (simp_all add: Federations_def federations_client_def new_typed_client_def RESTClient_def FakeFederations_def fake_resources)

lemma OperatorPolicies_implements:
  "client_interface ''operatorpolicies'' ns (OperatorPolicies (Some g) ns :: (OperatorPolicy, 'p, 'r, 'w) client_ops)"
  "client_interface ''operatorpolicies'' ns (FakeOperatorPolicies ns :: (OperatorPolicy, 'p, 'r, 'w) client_ops)"
  using rest_client.client_interface_axioms fake_client.client_interface_axioms [of operatorpoliciesResource ns operatorpoliciesKind]
  by (simp_all add: OperatorPolicies_def operatorPolicies_client_def new_typed_client_def RESTClient_def FakeOperatorPolicies_def fake_resources)

lemma Permissions_implements:
  "client_interface ''permissions'' ns (Permissions (Some g) ns :: (Permission, 'p, 'r, 'w) client_ops)"
  "client_interface ''permissions'' ns (FakePermissions ns :: (Permission, 'p, 'r, 'w) client_ops)"
  using rest_client.client_interface_axioms fake_client.client_interface_axioms [of permissionsResource ns permissionsKind]
  by (simp_all add: Permissions_def permissions_client_def new_typed_client_def RESTClient_def FakePermissions_def fake_resources)

lemma Policies_implements:
  "client_interface ''policies'' ns (Policies (Some g) ns :: (Policy, 'p, 'r, 'w) client_ops)"
  "client_interface ''policies'' ns (FakePolicies ns :: (Policy, 'p, 'r, 'w) client_ops)"
  using rest_client.client_interface_axioms fake_client.client_interface_axioms [of policiesResource ns policiesKind]
  by (simp_all add: Policies_def policies_client_def new_typed_client_def RESTClient_def FakePolicies_def fake_resources)

lemma Queues_implements:
  "client_interface ''queues'' ns (Queues (Some g) ns :: (Queue, 'p, 'r, 'w) client_ops)"
  "client_interface ''queues'' ns (FakeQueues ns :: (Queue, 'p, 'r, 'w) client_ops)"
  using rest_client.client_interface_axioms fake_client.client_interface_axioms [of queuesResource ns queuesKind]
  by (simp_all add: Queues_def queues_client_def new_typed_client_def RESTClient_def FakeQueues_def fake_resources)

lemma SchemaReplications_implements:
  "client_interface ''schemareplications'' ns (SchemaReplications (Some g) ns :: (SchemaReplication, 'p, 'r, 'w) client_ops)"
  "client_interface ''schemareplications'' ns (FakeSchemaReplications ns :: (SchemaReplication, 'p, 'r, 'w) client_ops)"
  using rest_client.client_interface_axioms fake_client.client_interface_axioms [of schemareplicationsResource ns schemareplicationsKind]
  by (simp_all add: SchemaReplications_def schemaReplications_client_def new_typed_client_def RESTClient_def FakeSchemaReplications_def fake_resources)

lemma Shovels_implements:
  "client_interface ''shovels'' ns (Shovels (Some g) ns :: (Shovel, 'p, 'r, 'w) client_ops)"
  "client_interface ''shovels'' ns (FakeShovels ns :: (Shovel, 'p, 'r, 'w) client_ops)"
  using rest_client.client_interface_axioms fake_client.client_interface_axioms [of shovelsResource ns shovelsKind]
  by (simp_all add: Shovels_def shovels_client_def new_typed_client_def RESTClient_def FakeShovels_def fake_resources)

lemma Users_implements:
  "client_interface ''users'' ns (Users (Some g) ns :: (User, 'p, 'r, 'w) client_ops)"
  "client_interface ''users'' ns (FakeUsers ns :: (User, 'p, 'r, 'w) client_ops)"
  using rest_client.client_interface_axioms fake_client.client_interface_axioms [of usersResource ns usersKind]
  by (simp_all add: Users_def users_client_def new_typed_client_def RESTClient_def FakeUsers_def fake_resources)

lemma Vhosts_implements:
  "client_interface ''vhosts'' ns (Vhosts (Some g) ns :: (Vhost, 'p, 'r, 'w) client_ops)"
  "client_interface ''vhosts'' ns (FakeVhosts ns :: (Vhost, 'p, 'r, 'w) client_ops)"
  using rest_client.client_interface_axioms fake_client.client_interface_axioms [of vhostsResource ns vhostsKind]
  by (simp_all add: Vhosts_def vhosts_client_def new_typed_client_def RESTClient_def FakeVhosts_def fake_resources)

lemma SuperStreams_implements:
  "client_interface ''superstreams'' ns (SuperStreams (Some g) ns :: (SuperStream, 'p, 'r, 'w) client_ops)"
  "client_interface ''superstreams'' ns (FakeSuperStreams ns :: (SuperStream, 'p, 'r, 'w) client_ops)"
  using rest_client.client_interface_axioms fake_client.client_interface_axioms [of superstreamsResource ns superstreamsKind]
  by (simp_all add: SuperStreams_def superStreams_client_def new_typed_client_def RESTClient_def FakeSuperStreams_def fake_resources)

text \<open>
  C30. The generated clients and their fakes are interchangeable. For each of the twelve kinds, every
  operation of the client of a namespace makes exactly one call, which means what the operation's name
  says on that kind's resource in that namespace, and the fake makes a call of the same meaning: the
  same operation, name, subresource, object, patch and selectors.
\<close>

theorem clients_interchangeable:
  "client_interface ''bindings'' ns (Bindings (Some g) ns) \<and> client_interface ''bindings'' ns (FakeBindings ns) \<and>
   client_interface ''exchanges'' ns (Exchanges (Some g) ns) \<and> client_interface ''exchanges'' ns (FakeExchanges ns) \<and>
   client_interface ''federations'' ns (Federations (Some g) ns) \<and> client_interface ''federations'' ns (FakeFederations ns) \<and>
   client_interface ''operatorpolicies'' ns (OperatorPolicies (Some g) ns) \<and> client_interface ''operatorpolicies'' ns (FakeOperatorPolicies ns) \<and>
   client_interface ''permissions'' ns (Permissions (Some g) ns) \<and> client_interface ''permissions'' ns (FakePermissions ns) \<and>
   client_interface ''policies'' ns (Policies (Some g) ns) \<and> client_interface ''policies'' ns (FakePolicies ns) \<and>
   client_interface ''queues'' ns (Queues (Some g) ns) \<and> client_interface ''queues'' ns (FakeQueues ns) \<and>
   client_interface ''schemareplications'' ns (SchemaReplications (Some g) ns) \<and> client_interface ''schemareplications'' ns (FakeSchemaReplications ns) \<and>
   client_interface ''shovels'' ns (Shovels (Some g) ns) \<and> client_interface ''shovels'' ns (FakeShovels ns) \<and>
   client_interface ''users'' ns (Users (Some g) ns) \<and> client_interface ''users'' ns (FakeUsers ns) \<and>
   client_interface ''vhosts'' ns (Vhosts (Some g) ns) \<and> client_interface ''vhosts'' ns (FakeVhosts ns) \<and>
   client_interface ''superstreams'' ns (SuperStreams (Some g) ns) \<and> client_interface ''superstreams'' ns (FakeSuperStreams ns)"
  by (intro conjI Bindings_implements Exchanges_implements Federations_implements OperatorPolicies_implements Permissions_implements Policies_implements Queues_implements SchemaReplications_implements Shovels_implements Users_implements Vhosts_implements SuperStreams_implements)

end
