(* ===== verification/Clientset.thy ===== *)
theory Clientset
  imports Typed_Clients
begin

text \<open>
  The generated clientset, \<open>pkg/generated/clientset/versioned/clientset.go\<close>, and the constructors of
  the two group clients, \<open>typed/rabbitmq.com/{v1alpha1,v1beta1}/rabbitmq.com_client.go\<close>. A
  configuration is the part of \<open>rest.Config\<close> that this code reads or writes, together with the host,
  which stands for the rest of it. The constructors of client-go are the record \<open>rest_lib\<close>: the HTTP
  client for a configuration, a REST client and a discovery client for a configuration and an HTTP
  client, the rate limiter for a rate and a burst. Only the sign of the rate is looked at.
\<close>


section \<open>Configurations\<close>

record ('q, 'l) rest_config =
  cfg_Host :: string
  cfg_GroupVersion :: "GroupVersion option"
  cfg_APIPath :: string
  cfg_NegotiatedSerializer :: "string option"
  cfg_UserAgent :: string
  cfg_RateLimiter :: "'l option"
  cfg_QPS :: 'q
  cfg_Burst :: int

record ('q, 'l, 'h, 'r, 'd) rest_lib =
  DefaultKubernetesUserAgent :: string
  HTTPClientFor :: "('q, 'l) rest_config \<Rightarrow> go_error + 'h"
  RESTClientForConfigAndClient :: "('q, 'l) rest_config \<Rightarrow> 'h \<Rightarrow> go_error + 'r"
  NewTokenBucketRateLimiter :: "'q \<Rightarrow> int \<Rightarrow> 'l"
  NewDiscoveryClientForConfigAndClient :: "('q, 'l) rest_config \<Rightarrow> 'h \<Rightarrow> go_error + 'd"
  NewDiscoveryClient :: "'r \<Rightarrow> 'd"

definition default_user_agent ::
  "('q, 'l, 'h, 'r, 'd) rest_lib \<Rightarrow> ('q, 'l) rest_config \<Rightarrow> ('q, 'l) rest_config" where
  "default_user_agent L config =
     (if cfg_UserAgent config = [] then config\<lparr>cfg_UserAgent := DefaultKubernetesUserAgent L\<rparr> else config)"

definition setConfigDefaults ::
  "('q, 'l, 'h, 'r, 'd) rest_lib \<Rightarrow> GroupVersion \<Rightarrow> ('q, 'l) rest_config \<Rightarrow> ('q, 'l) rest_config" where
  "setConfigDefaults L gv config =
     default_user_agent L (config\<lparr>cfg_GroupVersion := Some gv, cfg_APIPath := ''/apis'',
       cfg_NegotiatedSerializer := Some ''Codecs.WithoutConversion''\<rparr>)"


section \<open>Group clients\<close>

text \<open>
  The files of the two versions differ in names and in the group version, which is an argument. The
  error of \<open>setConfigDefaults\<close> is always nil.
\<close>

definition group_NewForConfigAndClient ::
  "('q, 'l, 'h, 'r, 'd) rest_lib \<Rightarrow> GroupVersion \<Rightarrow> ('q, 'l) rest_config \<Rightarrow> 'h \<Rightarrow> go_error + 'r group_client" where
  "group_NewForConfigAndClient L gv c h =
     (let config = setConfigDefaults L gv c in
      case RESTClientForConfigAndClient L config h of
        Inl err \<Rightarrow> Inl err
      | Inr client \<Rightarrow> Inr \<lparr>restClient = client\<rparr>)"

definition group_NewForConfig ::
  "('q, 'l, 'h, 'r, 'd) rest_lib \<Rightarrow> GroupVersion \<Rightarrow> ('q, 'l) rest_config \<Rightarrow> go_error + 'r group_client" where
  "group_NewForConfig L gv c =
     (let config = setConfigDefaults L gv c in
      case HTTPClientFor L config of
        Inl err \<Rightarrow> Inl err
      | Inr httpClient \<Rightarrow> group_NewForConfigAndClient L gv config httpClient)"

definition group_NewForConfigOrDie ::
  "('q, 'l, 'h, 'r, 'd) rest_lib \<Rightarrow> GroupVersion \<Rightarrow> ('q, 'l) rest_config \<Rightarrow> 'r group_client outcome" where
  "group_NewForConfigOrDie L gv c =
     (case group_NewForConfig L gv c of Inl err \<Rightarrow> Panicked (err_Error err) | Inr client \<Rightarrow> Ret client)"

definition group_New :: "'r \<Rightarrow> 'r group_client" where
  "group_New c = \<lparr>restClient = c\<rparr>"

definition v1alpha1_NewForConfigAndClient ::
  "('q, 'l, 'h, 'r, 'd) rest_lib \<Rightarrow> ('q, 'l) rest_config \<Rightarrow> 'h \<Rightarrow> go_error + 'r group_client" where
  "v1alpha1_NewForConfigAndClient L = group_NewForConfigAndClient L v1alpha1_SchemeGroupVersion"

definition v1beta1_NewForConfigAndClient ::
  "('q, 'l, 'h, 'r, 'd) rest_lib \<Rightarrow> ('q, 'l) rest_config \<Rightarrow> 'h \<Rightarrow> go_error + 'r group_client" where
  "v1beta1_NewForConfigAndClient L = group_NewForConfigAndClient L v1beta1_SchemeGroupVersion"

definition v1alpha1_NewForConfig ::
  "('q, 'l, 'h, 'r, 'd) rest_lib \<Rightarrow> ('q, 'l) rest_config \<Rightarrow> go_error + 'r group_client" where
  "v1alpha1_NewForConfig L = group_NewForConfig L v1alpha1_SchemeGroupVersion"

definition v1beta1_NewForConfig ::
  "('q, 'l, 'h, 'r, 'd) rest_lib \<Rightarrow> ('q, 'l) rest_config \<Rightarrow> go_error + 'r group_client" where
  "v1beta1_NewForConfig L = group_NewForConfig L v1beta1_SchemeGroupVersion"


section \<open>The clientset\<close>

record ('r, 'd) clientset =
  cs_DiscoveryClient :: 'd
  cs_rabbitmqV1alpha1 :: "'r group_client"
  cs_rabbitmqV1beta1 :: "'r group_client"

definition Discovery :: "('r, 'd) clientset option \<Rightarrow> 'd option" where
  "Discovery c = (case c of None \<Rightarrow> None | Some cs \<Rightarrow> Some (cs_DiscoveryClient cs))"

definition burst_required :: go_error where
  "burst_required =
     ErrText ''burst is required to be greater than 0 when RateLimiter is not set and QPS is set to greater than 0''"

definition NewForConfigAndClient ::
  "('q::{zero,ord}, 'l, 'h, 'r, 'd) rest_lib \<Rightarrow> ('q, 'l) rest_config \<Rightarrow> 'h \<Rightarrow> go_error + ('r, 'd) clientset" where
  "NewForConfigAndClient L c httpClient =
     (if cfg_RateLimiter c = None \<and> 0 < cfg_QPS c \<and> cfg_Burst c \<le> 0 then Inl burst_required
      else
        let configShallowCopy =
              (if cfg_RateLimiter c = None \<and> 0 < cfg_QPS c
               then c\<lparr>cfg_RateLimiter := Some (NewTokenBucketRateLimiter L (cfg_QPS c) (cfg_Burst c))\<rparr> else c) in
        case v1alpha1_NewForConfigAndClient L configShallowCopy httpClient of
          Inl err \<Rightarrow> Inl err
        | Inr alpha \<Rightarrow>
            case v1beta1_NewForConfigAndClient L configShallowCopy httpClient of
              Inl err \<Rightarrow> Inl err
            | Inr beta \<Rightarrow>
                case NewDiscoveryClientForConfigAndClient L configShallowCopy httpClient of
                  Inl err \<Rightarrow> Inl err
                | Inr disc \<Rightarrow>
                    Inr \<lparr>cs_DiscoveryClient = disc, cs_rabbitmqV1alpha1 = alpha, cs_rabbitmqV1beta1 = beta\<rparr>)"

definition NewForConfig ::
  "('q::{zero,ord}, 'l, 'h, 'r, 'd) rest_lib \<Rightarrow> ('q, 'l) rest_config \<Rightarrow> go_error + ('r, 'd) clientset" where
  "NewForConfig L c =
     (let configShallowCopy = default_user_agent L c in
      case HTTPClientFor L configShallowCopy of
        Inl err \<Rightarrow> Inl err
      | Inr httpClient \<Rightarrow> NewForConfigAndClient L configShallowCopy httpClient)"

definition NewForConfigOrDie ::
  "('q::{zero,ord}, 'l, 'h, 'r, 'd) rest_lib \<Rightarrow> ('q, 'l) rest_config \<Rightarrow> ('r, 'd) clientset outcome" where
  "NewForConfigOrDie L c = (case NewForConfig L c of Inl err \<Rightarrow> Panicked (err_Error err) | Inr cs \<Rightarrow> Ret cs)"

definition New :: "('q, 'l, 'h, 'r, 'd) rest_lib \<Rightarrow> 'r \<Rightarrow> ('r, 'd) clientset" where
  "New L c =
     \<lparr>cs_DiscoveryClient = NewDiscoveryClient L c, cs_rabbitmqV1alpha1 = group_New c, cs_rabbitmqV1beta1 = group_New c\<rparr>"


section \<open>What a clientset is made of\<close>

text \<open>
  The configuration of one client of the set: the caller's, with a user agent, and with the group
  version and path of the client.
\<close>

definition shared_config ::
  "('q::{zero,ord}, 'l, 'h, 'r, 'd) rest_lib \<Rightarrow> ('q, 'l) rest_config \<Rightarrow> ('q, 'l) rest_config" where
  "shared_config L c =
     (let c = default_user_agent L c in
      if cfg_RateLimiter c = None \<and> 0 < cfg_QPS c
      then c\<lparr>cfg_RateLimiter := Some (NewTokenBucketRateLimiter L (cfg_QPS c) (cfg_Burst c))\<rparr> else c)"

lemma default_user_agent_fields [simp]:
  "cfg_RateLimiter (default_user_agent L c) = cfg_RateLimiter c"
  "cfg_QPS (default_user_agent L c) = cfg_QPS c"
  "cfg_Burst (default_user_agent L c) = cfg_Burst c"
  "cfg_GroupVersion (default_user_agent L c) = cfg_GroupVersion c"
  "cfg_APIPath (default_user_agent L c) = cfg_APIPath c"
  by (simp_all add: default_user_agent_def)

text \<open>
  A clientset for a configuration exists exactly when the burst is positive if a limiter has to
  be made, and the HTTP client, the two REST clients and the discovery client can be made. All of
  them share one HTTP client and one rate limiter, the caller's if there is one, and the REST clients
  are made for the group versions \<open>rabbitmq.com/v1alpha1\<close> and \<open>rabbitmq.com/v1beta1\<close> under \<open>/apis\<close>.
\<close>

theorem clientset_made_iff:
  "NewForConfig L c = Inr cs \<longleftrightarrow>
     (\<exists>h. \<not> (cfg_RateLimiter c = None \<and> 0 < cfg_QPS c \<and> cfg_Burst c \<le> 0) \<and>
        HTTPClientFor L (default_user_agent L c) = Inr h \<and>
        RESTClientForConfigAndClient L (setConfigDefaults L v1alpha1_SchemeGroupVersion (shared_config L c)) h =
          Inr (restClient (cs_rabbitmqV1alpha1 cs)) \<and>
        RESTClientForConfigAndClient L (setConfigDefaults L v1beta1_SchemeGroupVersion (shared_config L c)) h =
          Inr (restClient (cs_rabbitmqV1beta1 cs)) \<and>
        NewDiscoveryClientForConfigAndClient L (shared_config L c) h = Inr (cs_DiscoveryClient cs))"
proof -
  have group: "group_NewForConfigAndClient L gv c' h = Inr g \<longleftrightarrow>
      RESTClientForConfigAndClient L (setConfigDefaults L gv c') h = Inr (restClient g)" for gv c' h g
    by (cases g) (auto simp: group_NewForConfigAndClient_def Let_def split: sum.splits)
  have made: "NewForConfigAndClient L (default_user_agent L c) h = Inr cs \<longleftrightarrow>
      \<not> (cfg_RateLimiter c = None \<and> 0 < cfg_QPS c \<and> cfg_Burst c \<le> 0) \<and>
      v1alpha1_NewForConfigAndClient L (shared_config L c) h = Inr (cs_rabbitmqV1alpha1 cs) \<and>
      v1beta1_NewForConfigAndClient L (shared_config L c) h = Inr (cs_rabbitmqV1beta1 cs) \<and>
      NewDiscoveryClientForConfigAndClient L (shared_config L c) h = Inr (cs_DiscoveryClient cs)" for h
    by (cases cs) (auto simp: NewForConfigAndClient_def shared_config_def Let_def split: sum.splits if_splits)
  show ?thesis
    by (auto simp: NewForConfig_def Let_def made v1alpha1_NewForConfigAndClient_def v1beta1_NewForConfigAndClient_def group
        split: sum.splits)
qed

end
