(* ===== verification/Informers.thy ===== *)
theory Informers
  imports Clientset "HOL-Library.Transitive_Closure_Table"
begin

text \<open>
  The generated listers and informers, \<open>pkg/generated/listers\<close> and \<open>pkg/generated/informers\<close>.

  \<^item> Listers read a \<open>cache.Indexer\<close> of client-go, here a record of its answers; the predicate
    \<open>keyed_store\<close> is its documented contract for the key function the informers use.
  \<^item> An informer is the data its closures capture: the client, the namespace, the tweak of the list
    options, the resync period, the indexers and the type of its objects, with an identity, since two
    informers with equal data are two objects. What its \<open>ListFunc\<close> and \<open>WatchFunc\<close> do is read off it.
  \<^item> The shared informer factory is a state machine. Its mutex makes \<open>Start\<close> and \<open>InformerFor\<close>
    atomic, so every interleaving of goroutines is a sequence of steps. \<open>Start\<close> visits the informers
    in any order, as the iteration of a Go map does.
\<close>


section \<open>Listers\<close>

record 'o indexer =
  ix_ListAll :: "label_selector \<Rightarrow> 'o dynamic list \<times> go_error option"
  ix_ListAllByNamespace :: "string \<Rightarrow> label_selector \<Rightarrow> 'o dynamic list \<times> go_error option"
  ix_GetByKey :: "string \<Rightarrow> 'o dynamic option \<times> bool \<times> go_error option"

text \<open>The append function given to \<open>cache.ListAll\<close>: it asserts the type of each object.\<close>

fun append_all :: "'o dynamic list \<Rightarrow> 'o option list \<Rightarrow> 'o option list outcome" where
  "append_all [] ret = Ret ret"
| "append_all (DObject x # ms) ret = append_all ms (ret @ [x])"
| "append_all (_ # ms) ret = Panicked ''interface conversion''"

definition lister_List ::
  "'o indexer \<Rightarrow> label_selector \<Rightarrow> ('o option list \<times> go_error option) outcome" where
  "lister_List indexer selector =
     (case ix_ListAll indexer selector of (ms, err) \<Rightarrow>
        case append_all ms [] of Panicked s \<Rightarrow> Panicked s | Ret ret \<Rightarrow> Ret (ret, err))"

definition namespaceLister_List ::
  "'o indexer \<Rightarrow> string \<Rightarrow> label_selector \<Rightarrow> ('o option list \<times> go_error option) outcome" where
  "namespaceLister_List indexer namespace selector =
     (case ix_ListAllByNamespace indexer namespace selector of (ms, err) \<Rightarrow>
        case append_all ms [] of Panicked s \<Rightarrow> Panicked s | Ret ret \<Rightarrow> Ret (ret, err))"

definition NewNotFound :: "GroupResource \<Rightarrow> string \<Rightarrow> go_error" where
  "NewNotFound gr name =
     StatusError StatusReasonNotFound (gr_Resource gr @ ''.'' @ gr_Group gr @ '' '' @ strconv_Quote name @ '' not found'')"

definition namespaceLister_Get ::
  "GroupResource \<Rightarrow> 'o indexer \<Rightarrow> string \<Rightarrow> string \<Rightarrow> ('o option \<times> go_error option) outcome" where
  "namespaceLister_Get resource indexer namespace name =
     (case ix_GetByKey indexer (namespace @ ''/'' @ name) of (obj, exists, err) \<Rightarrow>
        if err \<noteq> None then Ret (None, err)
        else if \<not> exists then Ret (None, Some (NewNotFound resource name))
        else (case obj of Some (DObject x) \<Rightarrow> Ret (x, None) | _ \<Rightarrow> Panicked ''interface conversion''))"

text \<open>
  The lister of a kind, with the lister of a namespace: \<open>NewBindingLister(indexer)\<close>, and
  \<open>Bindings(namespace)\<close> of it.
\<close>

record 'o lister_ops =
  ls_List :: "label_selector \<Rightarrow> ('o option list \<times> go_error option) outcome"
  ls_NamespaceList :: "string \<Rightarrow> label_selector \<Rightarrow> ('o option list \<times> go_error option) outcome"
  ls_NamespaceGet :: "string \<Rightarrow> string \<Rightarrow> ('o option \<times> go_error option) outcome"

definition lister_at :: "GroupResource \<Rightarrow> 'o indexer \<Rightarrow> 'o lister_ops" where
  "lister_at resource indexer =
     \<lparr>ls_List = lister_List indexer, ls_NamespaceList = namespaceLister_List indexer,
      ls_NamespaceGet = namespaceLister_Get resource indexer\<rparr>"

text \<open>
  The contract of the indexer, as \<open>cache.MetaNamespaceKeyFunc\<close> keys it: \<open>objs\<close> holds the objects, each
  under its namespace and name.
\<close>

definition meta_namespace_key :: "('sp, 'st) kobject \<Rightarrow> string" where
  "meta_namespace_key x =
     (if om_Namespace (obj_Meta x) = [] then om_Name (obj_Meta x)
      else om_Namespace (obj_Meta x) @ ''/'' @ om_Name (obj_Meta x))"

definition keyed_store :: "('sp, 'st) kobject indexer \<Rightarrow> (string \<rightharpoonup> ('sp, 'st) kobject) \<Rightarrow> bool" where
  "keyed_store ix objs \<longleftrightarrow>
     (\<forall>k. ix_GetByKey ix k =
        (case objs k of None \<Rightarrow> (None, False, None) | Some x \<Rightarrow> (Some (DObject (Some x)), True, None))) \<and>
     (\<forall>k x. objs k = Some x \<longrightarrow> meta_namespace_key x = k) \<and>
     (\<forall>sel. \<exists>xs. ix_ListAll ix sel = (map (DObject \<circ> Some) xs, None) \<and>
        set xs = {x \<in> ran objs. sel (om_Labels (obj_Meta x))}) \<and>
     (\<forall>ns sel. \<exists>xs. ix_ListAllByNamespace ix ns sel = (map (DObject \<circ> Some) xs, None) \<and>
        set xs = {x \<in> ran objs. om_Namespace (obj_Meta x) = ns \<and> sel (om_Labels (obj_Meta x))})"

lemma append_all_objects [simp]: "append_all (map (DObject \<circ> Some) xs) ret = Ret (ret @ map Some xs)"
  by (induction xs arbitrary: ret) simp_all

lemma key_parts:
  assumes "CHR ''/'' \<notin> set ns" and "CHR ''/'' \<notin> set (om_Namespace (obj_Meta x))"
    and "CHR ''/'' \<notin> set (om_Name (obj_Meta x))"
  shows "meta_namespace_key x = ns @ ''/'' @ name \<longleftrightarrow>
    om_Namespace (obj_Meta x) \<noteq> [] \<and> om_Namespace (obj_Meta x) = ns \<and> om_Name (obj_Meta x) = name"
proof -
  have split: "us @ CHR ''/'' # vs = us' @ CHR ''/'' # vs' \<longleftrightarrow> us = us' \<and> vs = vs'"
    if "CHR ''/'' \<notin> set us" "CHR ''/'' \<notin> set us'" for us vs us' vs' :: string
    using that by (auto simp: append_eq_append_conv2 append_eq_Cons_conv Cons_eq_append_conv)
  have "om_Name (obj_Meta x) \<noteq> ns @ ''/'' @ name" using assms(3) by auto
  with split assms(1,2) show ?thesis by (simp add: meta_namespace_key_def)
qed

section \<open>Informers\<close>

text \<open>\<open>versioned.Interface\<close>: the clientset or its fake.\<close>

datatype ('r, 'd) versioned = RealClientset "('r, 'd) clientset" | FakeClientset

type_synonym tweak = "(ListOptions \<Rightarrow> ListOptions) option"

record 'c informer =
  si_id :: nat
  si_client :: 'c
  si_type :: string
  si_namespace :: string
  si_resync :: int
  si_indexers :: "string list"
  si_tweak :: tweak

text \<open>The informers made so far, by identity, and the ones that \<open>Run\<close> has been called on, in order.\<close>

record informer_world =
  iw_next :: nat
  iw_runs :: "nat list"

definition tweaked :: "tweak \<Rightarrow> ListOptions \<Rightarrow> ListOptions" where
  "tweaked tweakListOptions options = (case tweakListOptions of None \<Rightarrow> options | Some f \<Rightarrow> f options)"

definition informer_ListFunc ::
  "(string \<Rightarrow> ('o, 'p, 'r, 'w) client_ops) \<Rightarrow> string \<Rightarrow> tweak \<Rightarrow> ListOptions \<Rightarrow>
   ('o, 'p, 'r, 'w, 'o klist option \<times> go_error option) client_prog" where
  "informer_ListFunc getter namespace tweakListOptions options =
     op_List (getter namespace) (tweaked tweakListOptions options)"

definition informer_WatchFunc ::
  "(string \<Rightarrow> ('o, 'p, 'r, 'w) client_ops) \<Rightarrow> string \<Rightarrow> tweak \<Rightarrow> ListOptions \<Rightarrow>
   ('o, 'p, 'r, 'w, 'w \<times> go_error option) client_prog" where
  "informer_WatchFunc getter namespace tweakListOptions options =
     op_Watch (getter namespace) (tweaked tweakListOptions options)"

text \<open>\<open>cache.NewSharedIndexInformer\<close> makes a new informer from the closures, the type and the options.\<close>

definition NewSharedIndexInformer ::
  "'c \<Rightarrow> string \<Rightarrow> string \<Rightarrow> tweak \<Rightarrow> int \<Rightarrow> string list \<Rightarrow> informer_world \<Rightarrow> 'c informer \<times> informer_world" where
  "NewSharedIndexInformer client type namespace tweakListOptions resyncPeriod indexers w =
     (\<lparr>si_id = iw_next w, si_client = client, si_type = type, si_namespace = namespace, si_resync = resyncPeriod,
       si_indexers = indexers, si_tweak = tweakListOptions\<rparr>, w\<lparr>iw_next := Suc (iw_next w)\<rparr>)"

text \<open>
  What the informers need of a client: for each namespace one that keeps the contract of its kind.
\<close>

locale client_getter =
  fixes resource :: string and getter :: "string \<Rightarrow> (('sp, 'st) kobject, 'p, 'r, 'w) client_ops"
  assumes getter: "client_interface resource ns (getter ns)"
begin

lemma ListFunc_does:
  "does (informer_ListFunc getter ns t options)
     ((no_operation OpList resource ns)\<lparr>o_selectors := Some (selectors (tweaked t options))\<rparr>)"
  unfolding informer_ListFunc_def by (rule client_interface.does_List [OF getter])

lemma WatchFunc_does:
  "does (informer_WatchFunc getter ns t options)
     ((no_operation OpWatch resource ns)\<lparr>o_selectors := Some (selectors (tweaked t options))\<rparr>)"
  unfolding informer_WatchFunc_def by (rule client_interface.does_Watch [OF getter])

end


section \<open>The shared informer factory\<close>

record 'c sharedInformerFactory =
  sf_client :: 'c
  sf_namespace :: string
  sf_tweakListOptions :: tweak
  sf_defaultResync :: int
  sf_customResync :: "string \<rightharpoonup> int"
  sf_informers :: "string \<rightharpoonup> 'c informer"
  sf_startedInformers :: "string \<rightharpoonup> bool"

type_synonym 'c factory_state = "'c sharedInformerFactory \<times> informer_world"
type_synonym 'c shared_option = "'c sharedInformerFactory \<Rightarrow> 'c sharedInformerFactory"

text \<open>The configuration of \<open>WithCustomResyncConfig\<close> is listed in the order of its iteration.\<close>

definition WithCustomResyncConfig :: "(string \<times> int) list \<Rightarrow> 'c shared_option" where
  "WithCustomResyncConfig resyncConfig factory =
     fold (\<lambda>(k, v) f. f\<lparr>sf_customResync := (sf_customResync f)(k \<mapsto> v)\<rparr>) resyncConfig factory"

definition WithTweakListOptions :: "tweak \<Rightarrow> 'c shared_option" where
  "WithTweakListOptions tweakListOptions factory = factory\<lparr>sf_tweakListOptions := tweakListOptions\<rparr>"

definition WithNamespace :: "string \<Rightarrow> 'c shared_option" where
  "WithNamespace namespace factory = factory\<lparr>sf_namespace := namespace\<rparr>"

definition NewSharedInformerFactoryWithOptions :: "'c \<Rightarrow> int \<Rightarrow> 'c shared_option list \<Rightarrow> 'c sharedInformerFactory" where
  "NewSharedInformerFactoryWithOptions client defaultResync options =
     fold (\<lambda>opt factory. opt factory) options
       \<lparr>sf_client = client, sf_namespace = [], sf_tweakListOptions = None, sf_defaultResync = defaultResync,
        sf_customResync = Map.empty, sf_informers = Map.empty, sf_startedInformers = Map.empty\<rparr>"

definition NewSharedInformerFactory :: "'c \<Rightarrow> int \<Rightarrow> 'c sharedInformerFactory" where
  "NewSharedInformerFactory client defaultResync = NewSharedInformerFactoryWithOptions client defaultResync []"

definition NewFilteredSharedInformerFactory :: "'c \<Rightarrow> int \<Rightarrow> string \<Rightarrow> tweak \<Rightarrow> 'c sharedInformerFactory" where
  "NewFilteredSharedInformerFactory client defaultResync namespace tweakListOptions =
     NewSharedInformerFactoryWithOptions client defaultResync
       [WithNamespace namespace, WithTweakListOptions tweakListOptions]"

definition start_informer :: "string \<Rightarrow> 'c factory_state \<Rightarrow> 'c factory_state" where
  "start_informer informerType s =
     (case s of (f, w) \<Rightarrow>
        case sf_informers f informerType of
          None \<Rightarrow> (f, w)
        | Some informer \<Rightarrow>
            if sf_startedInformers f informerType = Some True then (f, w)
            else (f\<lparr>sf_startedInformers := (sf_startedInformers f)(informerType \<mapsto> True)\<rparr>,
                  w\<lparr>iw_runs := iw_runs w @ [si_id informer]\<rparr>))"

definition Start :: "string list \<Rightarrow> 'c factory_state \<Rightarrow> 'c factory_state" where
  "Start order s = fold start_informer order s"

definition started_informers :: "'c sharedInformerFactory \<Rightarrow> string \<rightharpoonup> 'c informer" where
  "started_informers f informerType =
     (if sf_startedInformers f informerType = Some True then sf_informers f informerType else None)"

text \<open>\<open>synced\<close> is what \<open>cache.WaitForCacheSync\<close> returns for an informer.\<close>

definition WaitForCacheSync :: "('c informer \<Rightarrow> bool) \<Rightarrow> 'c sharedInformerFactory \<Rightarrow> string \<rightharpoonup> bool" where
  "WaitForCacheSync synced f = (\<lambda>informerType. map_option synced (started_informers f informerType))"

type_synonym 'c new_informer = "'c \<Rightarrow> int \<Rightarrow> informer_world \<Rightarrow> 'c informer \<times> informer_world"

definition InformerFor :: "string \<Rightarrow> 'c new_informer \<Rightarrow> 'c factory_state \<Rightarrow> 'c informer \<times> 'c factory_state" where
  "InformerFor informerType newFunc s =
     (case s of (f, w) \<Rightarrow>
        case sf_informers f informerType of
          Some informer \<Rightarrow> (informer, f, w)
        | None \<Rightarrow>
            let resyncPeriod = (case sf_customResync f informerType of Some d \<Rightarrow> d | None \<Rightarrow> sf_defaultResync f) in
            case newFunc (sf_client f) resyncPeriod w of (informer, w') \<Rightarrow>
              (informer, f\<lparr>sf_informers := (sf_informers f)(informerType \<mapsto> informer)\<rparr>, w'))"

text \<open>\<open>Rabbitmq()\<close>, \<open>V1alpha1()\<close> and \<open>V1beta1()\<close> hand on the namespace and the tweak of the factory.\<close>

record informer_scope =
  is_namespace :: string
  is_tweakListOptions :: tweak

definition scope_New :: "string \<Rightarrow> tweak \<Rightarrow> informer_scope" where
  "scope_New namespace tweakListOptions = \<lparr>is_namespace = namespace, is_tweakListOptions = tweakListOptions\<rparr>"

definition Rabbitmq :: "'c sharedInformerFactory \<Rightarrow> informer_scope" where
  "Rabbitmq f = scope_New (sf_namespace f) (sf_tweakListOptions f)"

definition V1alpha1 :: "informer_scope \<Rightarrow> informer_scope" where
  "V1alpha1 g = scope_New (is_namespace g) (is_tweakListOptions g)"

definition V1beta1 :: "informer_scope \<Rightarrow> informer_scope" where
  "V1beta1 g = scope_New (is_namespace g) (is_tweakListOptions g)"

definition defaultInformer ::
  "('c \<Rightarrow> string \<Rightarrow> int \<Rightarrow> string list \<Rightarrow> tweak \<Rightarrow> informer_world \<Rightarrow> 'c informer \<times> informer_world) \<Rightarrow>
   informer_scope \<Rightarrow> 'c new_informer" where
  "defaultInformer newFiltered f client resyncPeriod =
     newFiltered client (is_namespace f) resyncPeriod [''namespace''] (is_tweakListOptions f)"

subsection \<open>The factory as a state machine\<close>

text \<open>
  A constructor given to \<open>InformerFor\<close> makes one new informer of the type, with the period it is
  given. A step of the factory is a call of \<open>InformerFor\<close> with such a constructor, or of \<open>Start\<close> with
  the informers visited in some order.
\<close>

definition constructs :: "string \<Rightarrow> 'c new_informer \<Rightarrow> bool" where
  "constructs t newFunc \<longleftrightarrow>
     (\<forall>c d w. \<exists>i. newFunc c d w = (i, w\<lparr>iw_next := Suc (iw_next w)\<rparr>) \<and>
        si_id i = iw_next w \<and> si_type i = t \<and> si_resync i = d)"

definition visits :: "string list \<Rightarrow> 'c sharedInformerFactory \<Rightarrow> bool" where
  "visits order f \<longleftrightarrow> distinct order \<and> set order = dom (sf_informers f)"

inductive factory_step :: "'c factory_state \<Rightarrow> 'c factory_state \<Rightarrow> bool" where
  step_InformerFor: "constructs t newFunc \<Longrightarrow> InformerFor t newFunc s = (i, s') \<Longrightarrow> factory_step s s'"
| step_Start: "visits order (fst s) \<Longrightarrow> factory_step s (Start order s)"

definition resync_for :: "'c sharedInformerFactory \<Rightarrow> string \<Rightarrow> int" where
  "resync_for f t = (case sf_customResync f t of Some d \<Rightarrow> d | None \<Rightarrow> sf_defaultResync f)"

definition factory_inv :: "'c factory_state \<Rightarrow> bool" where
  "factory_inv s \<longleftrightarrow>
     (case s of (f, w) \<Rightarrow>
        (\<forall>t i. sf_informers f t = Some i \<longrightarrow>
           si_id i < iw_next w \<and> si_type i = t \<and> si_resync i = resync_for f t) \<and>
        inj_on (\<lambda>t. si_id (the (sf_informers f t))) (dom (sf_informers f)) \<and>
        {t. sf_startedInformers f t = Some True} \<subseteq> dom (sf_informers f) \<and>
        distinct (iw_runs w) \<and>
        set (iw_runs w) = si_id ` ran (started_informers f))"

text \<open>What a step leaves alone: the configuration and every informer that exists.\<close>

definition factory_kept :: "'c factory_state \<Rightarrow> 'c factory_state \<Rightarrow> bool" where
  "factory_kept s s' \<longleftrightarrow> sf_informers (fst s) \<subseteq>\<^sub>m sf_informers (fst s') \<and> resync_for (fst s') = resync_for (fst s)"

lemma resync_for_unchanged [simp]:
  "resync_for (f\<lparr>sf_informers := m\<rparr>) = resync_for f"
  "resync_for (f\<lparr>sf_startedInformers := b\<rparr>) = resync_for f"
  by (simp_all add: fun_eq_iff resync_for_def split: option.split)

lemma started_informers_None [simp]: "sf_informers f t = None \<Longrightarrow> started_informers f t = None"
  by (simp add: started_informers_def)

lemma factory_kept_refl [simp]: "factory_kept s s"
  by (simp add: factory_kept_def)

lemma factory_kept_trans: "factory_kept s s' \<Longrightarrow> factory_kept s' s'' \<Longrightarrow> factory_kept s s''"
  by (auto simp: factory_kept_def intro: map_le_trans)

lemma start_informer_unchanged [simp]:
  "sf_informers (fst (start_informer t s)) = sf_informers (fst s)"
  "resync_for (fst (start_informer t s)) = resync_for (fst s)"
  by (auto simp: start_informer_def resync_for_def split: prod.splits option.splits)

lemma Start_unchanged [simp]:
  "sf_informers (fst (Start order s)) = sf_informers (fst s)"
  "resync_for (fst (Start order s)) = resync_for (fst s)"
  unfolding Start_def by (induction order arbitrary: s) simp_all

lemma start_informer_started:
  "started_informers (fst (start_informer t s)) =
     (if sf_informers (fst s) t = None then started_informers (fst s)
      else (started_informers (fst s))(t := sf_informers (fst s) t))"
  by (auto simp: start_informer_def started_informers_def fun_eq_iff split: prod.splits option.splits)

lemma ids_inj:
  assumes "factory_inv (f, w)" and "sf_informers f t = Some i" and "sf_informers f t' = Some i'" and "si_id i = si_id i'"
  shows "t = t'"
  using assms inj_onD [of "\<lambda>t. si_id (the (sf_informers f t))" "dom (sf_informers f)" t t'] by (auto simp: factory_inv_def)

lemma start_informer_inv:
  assumes inv: "factory_inv s"
  shows "factory_inv (start_informer t s)"
proof -
  obtain f w where s: "s = (f, w)" by (cases s)
  show ?thesis
  proof (cases "sf_informers f t = None \<or> sf_startedInformers f t = Some True")
    case True
    then show ?thesis using inv by (auto simp: s start_informer_def split: option.splits)
  next
    case False
    then obtain i where i: "sf_informers f t = Some i" and ns: "sf_startedInformers f t \<noteq> Some True" by auto
    let ?f = "f\<lparr>sf_startedInformers := (sf_startedInformers f)(t \<mapsto> True)\<rparr>"
    have st: "start_informer t s = (?f, w\<lparr>iw_runs := iw_runs w @ [si_id i]\<rparr>)"
      using i ns by (simp add: s start_informer_def)
    have eq: "started_informers ?f = (started_informers f)(t \<mapsto> i)"
      using start_informer_started [of t s] i by (simp add: s st [unfolded s])
    have none: "started_informers f t = None" using ns by (simp add: started_informers_def)
    have runs: "set (iw_runs w) = si_id ` ran (started_informers f)" "distinct (iw_runs w)"
      using inv by (simp_all add: s factory_inv_def)
    have "si_id i \<notin> set (iw_runs w)"
    proof
      assume "si_id i \<in> set (iw_runs w)"
      then obtain t' i' where "started_informers f t' = Some i'" "si_id i = si_id i'" by (auto simp: runs ran_def)
      moreover from this have "sf_informers f t' = Some i'" by (auto simp: started_informers_def split: if_splits)
      ultimately have "t = t'" using ids_inj [OF inv [unfolded s] i] by blast
      with none \<open>started_informers f t' = Some i'\<close> show False by simp
    qed
    then show ?thesis
      unfolding st using inv runs none i by (auto simp: eq s factory_inv_def ran_map_upd)
  qed
qed

lemma Start_inv: "factory_inv s \<Longrightarrow> factory_inv (Start order s)"
  unfolding Start_def by (induction order arbitrary: s) (simp_all add: start_informer_inv)

lemma InformerFor_cases:
  assumes "constructs t newFunc" and "InformerFor t newFunc (f, w) = (i, s')"
  obtains (shared) "sf_informers f t = Some i" "s' = (f, w)"
  | (made) "sf_informers f t = None" "si_id i = iw_next w" "si_type i = t" "si_resync i = resync_for f t"
      "s' = (f\<lparr>sf_informers := (sf_informers f)(t \<mapsto> i)\<rparr>, w\<lparr>iw_next := Suc (iw_next w)\<rparr>)"
proof (cases "sf_informers f t")
  case None
  from assms(1) obtain j where
    "newFunc (sf_client f) (resync_for f t) w = (j, w\<lparr>iw_next := Suc (iw_next w)\<rparr>)"
    "si_id j = iw_next w" "si_type j = t" "si_resync j = resync_for f t" unfolding constructs_def by blast
  with None assms(2) show ?thesis by (intro made) (auto simp: InformerFor_def Let_def resync_for_def)
qed (use assms(2) in \<open>auto simp: InformerFor_def intro: shared\<close>)

lemma InformerFor_inv:
  assumes inv: "factory_inv (f, w)" and "constructs t newFunc" and "InformerFor t newFunc (f, w) = (i, s')"
  shows "factory_inv s'"
  using assms(2,3)
proof (cases rule: InformerFor_cases)
  case made
  let ?f = "f\<lparr>sf_informers := (sf_informers f)(t \<mapsto> i)\<rparr>"
  have old: "si_id j < iw_next w" if "sf_informers f u = Some j" for u j using inv that by (auto simp: factory_inv_def)
  have "sf_startedInformers f t \<noteq> Some True" using inv made(1) by (auto simp: factory_inv_def)
  then have eq: "started_informers ?f = started_informers f" by (auto simp: started_informers_def fun_eq_iff)
  have "inj_on (\<lambda>u. si_id (the (sf_informers ?f u))) (dom (sf_informers ?f))"
  proof -
    have "inj_on (\<lambda>u. si_id (the (sf_informers ?f u))) (dom (sf_informers f))"
      using inv made(1) by (subst inj_on_cong [where g = "\<lambda>u. si_id (the (sf_informers f u))"]) (auto simp: factory_inv_def)
    moreover have "iw_next w \<notin> (\<lambda>u. si_id (the (sf_informers ?f u))) ` (dom (sf_informers f) - {t})"
    proof
      assume "iw_next w \<in> (\<lambda>u. si_id (the (sf_informers ?f u))) ` (dom (sf_informers f) - {t})"
      then obtain u where u: "u \<in> dom (sf_informers f)" "u \<noteq> t" "iw_next w = si_id (the (sf_informers ?f u))" by blast
      then obtain j where "sf_informers f u = Some j" by blast
      with u old [of u j] show False by simp
    qed
    ultimately show ?thesis using made(2) by simp
  qed
  with made(2-4) old inv show ?thesis
    unfolding made(5) by (auto simp: eq factory_inv_def less_SucI)
qed (use inv in simp)

lemma factory_step_inv:
  assumes "factory_step s s'" and "factory_inv s"
  shows "factory_inv s' \<and> factory_kept s s'"
  using assms
proof cases
  case (step_InformerFor t newFunc i)
  obtain f w where s: "s = (f, w)" by (cases s)
  have "factory_inv s'" using step_InformerFor assms(2) by (auto simp: s intro: InformerFor_inv)
  moreover have "factory_kept s s'"
    using step_InformerFor(1) step_InformerFor(2) [unfolded s]
    by (cases rule: InformerFor_cases) (auto simp: s factory_kept_def map_le_def)
  ultimately show ?thesis ..
qed (simp add: Start_inv factory_kept_def)

lemma factory_steps_inv:
  assumes "factory_step\<^sup>*\<^sup>* s s'" and "factory_inv s"
  shows "factory_inv s' \<and> factory_kept s s'"
  using assms(1)
proof (induction rule: rtranclp_induct)
  case (step s' s'')
  then show ?case using factory_step_inv factory_kept_trans by blast
qed (use assms(2) in simp)

lemma Start_starts:
  "t \<in> set order \<Longrightarrow> started_informers (fst (Start order s)) t = sf_informers (fst s) t"
  unfolding Start_def
proof (induction order arbitrary: s)
  case (Cons u order)
  show ?case
  proof (cases "t \<in> set order")
    case True
    with Cons.IH [of "start_informer u s"] show ?thesis by simp
  next
    case False
    have "started_informers (fst (fold start_informer order s')) t = started_informers (fst s') t" for s' :: "'c factory_state"
      using False by (induction order arbitrary: s') (auto simp: start_informer_started)
    from this [of "start_informer u s"] Cons.prems False show ?thesis by (auto simp: start_informer_started)
  qed
qed simp


section \<open>The listers and informers of the kinds\<close>

text \<open>
  Which client of the clientset or of its fake the informers of a kind use, and what the closures of
  an informer do with it.
\<close>

definition versioned_Bindings :: "('r, 'd) versioned \<Rightarrow> string \<Rightarrow> (Binding, 'p, 'r, 'w) client_ops" where
  "versioned_Bindings client namespace =
     (case client of
        RealClientset cs \<Rightarrow> Bindings (Some (cs_rabbitmqV1beta1 cs)) namespace
      | FakeClientset \<Rightarrow> FakeBindings namespace)"

interpretation bindings_getter: client_getter "''bindings''" "versioned_Bindings client"
  for client
  by (rule client_getter.intro) (simp add: versioned_Bindings_def Bindings_implements split: versioned.split)

definition binding_ListFunc :: "('r, 'd) versioned informer \<Rightarrow> ListOptions \<Rightarrow>
    (Binding, 'p, 'r, 'w, Binding klist option \<times> go_error option) client_prog" where
  "binding_ListFunc i = informer_ListFunc (versioned_Bindings (si_client i)) (si_namespace i) (si_tweak i)"

definition binding_WatchFunc :: "('r, 'd) versioned informer \<Rightarrow> ListOptions \<Rightarrow>
    (Binding, 'p, 'r, 'w, 'w \<times> go_error option) client_prog" where
  "binding_WatchFunc i = informer_WatchFunc (versioned_Bindings (si_client i)) (si_namespace i) (si_tweak i)"

definition versioned_Exchanges :: "('r, 'd) versioned \<Rightarrow> string \<Rightarrow> (Exchange, 'p, 'r, 'w) client_ops" where
  "versioned_Exchanges client namespace =
     (case client of
        RealClientset cs \<Rightarrow> Exchanges (Some (cs_rabbitmqV1beta1 cs)) namespace
      | FakeClientset \<Rightarrow> FakeExchanges namespace)"

interpretation exchanges_getter: client_getter "''exchanges''" "versioned_Exchanges client"
  for client
  by (rule client_getter.intro) (simp add: versioned_Exchanges_def Exchanges_implements split: versioned.split)

definition exchange_ListFunc :: "('r, 'd) versioned informer \<Rightarrow> ListOptions \<Rightarrow>
    (Exchange, 'p, 'r, 'w, Exchange klist option \<times> go_error option) client_prog" where
  "exchange_ListFunc i = informer_ListFunc (versioned_Exchanges (si_client i)) (si_namespace i) (si_tweak i)"

definition exchange_WatchFunc :: "('r, 'd) versioned informer \<Rightarrow> ListOptions \<Rightarrow>
    (Exchange, 'p, 'r, 'w, 'w \<times> go_error option) client_prog" where
  "exchange_WatchFunc i = informer_WatchFunc (versioned_Exchanges (si_client i)) (si_namespace i) (si_tweak i)"

definition versioned_Federations :: "('r, 'd) versioned \<Rightarrow> string \<Rightarrow> (Federation, 'p, 'r, 'w) client_ops" where
  "versioned_Federations client namespace =
     (case client of
        RealClientset cs \<Rightarrow> Federations (Some (cs_rabbitmqV1beta1 cs)) namespace
      | FakeClientset \<Rightarrow> FakeFederations namespace)"

interpretation federations_getter: client_getter "''federations''" "versioned_Federations client"
  for client
  by (rule client_getter.intro) (simp add: versioned_Federations_def Federations_implements split: versioned.split)

definition federation_ListFunc :: "('r, 'd) versioned informer \<Rightarrow> ListOptions \<Rightarrow>
    (Federation, 'p, 'r, 'w, Federation klist option \<times> go_error option) client_prog" where
  "federation_ListFunc i = informer_ListFunc (versioned_Federations (si_client i)) (si_namespace i) (si_tweak i)"

definition federation_WatchFunc :: "('r, 'd) versioned informer \<Rightarrow> ListOptions \<Rightarrow>
    (Federation, 'p, 'r, 'w, 'w \<times> go_error option) client_prog" where
  "federation_WatchFunc i = informer_WatchFunc (versioned_Federations (si_client i)) (si_namespace i) (si_tweak i)"

definition versioned_OperatorPolicies :: "('r, 'd) versioned \<Rightarrow> string \<Rightarrow> (OperatorPolicy, 'p, 'r, 'w) client_ops" where
  "versioned_OperatorPolicies client namespace =
     (case client of
        RealClientset cs \<Rightarrow> OperatorPolicies (Some (cs_rabbitmqV1beta1 cs)) namespace
      | FakeClientset \<Rightarrow> FakeOperatorPolicies namespace)"

interpretation operatorPolicies_getter: client_getter "''operatorpolicies''" "versioned_OperatorPolicies client"
  for client
  by (rule client_getter.intro) (simp add: versioned_OperatorPolicies_def OperatorPolicies_implements split: versioned.split)

definition operatorPolicy_ListFunc :: "('r, 'd) versioned informer \<Rightarrow> ListOptions \<Rightarrow>
    (OperatorPolicy, 'p, 'r, 'w, OperatorPolicy klist option \<times> go_error option) client_prog" where
  "operatorPolicy_ListFunc i = informer_ListFunc (versioned_OperatorPolicies (si_client i)) (si_namespace i) (si_tweak i)"

definition operatorPolicy_WatchFunc :: "('r, 'd) versioned informer \<Rightarrow> ListOptions \<Rightarrow>
    (OperatorPolicy, 'p, 'r, 'w, 'w \<times> go_error option) client_prog" where
  "operatorPolicy_WatchFunc i = informer_WatchFunc (versioned_OperatorPolicies (si_client i)) (si_namespace i) (si_tweak i)"

definition versioned_Permissions :: "('r, 'd) versioned \<Rightarrow> string \<Rightarrow> (Permission, 'p, 'r, 'w) client_ops" where
  "versioned_Permissions client namespace =
     (case client of
        RealClientset cs \<Rightarrow> Permissions (Some (cs_rabbitmqV1beta1 cs)) namespace
      | FakeClientset \<Rightarrow> FakePermissions namespace)"

interpretation permissions_getter: client_getter "''permissions''" "versioned_Permissions client"
  for client
  by (rule client_getter.intro) (simp add: versioned_Permissions_def Permissions_implements split: versioned.split)

definition permission_ListFunc :: "('r, 'd) versioned informer \<Rightarrow> ListOptions \<Rightarrow>
    (Permission, 'p, 'r, 'w, Permission klist option \<times> go_error option) client_prog" where
  "permission_ListFunc i = informer_ListFunc (versioned_Permissions (si_client i)) (si_namespace i) (si_tweak i)"

definition permission_WatchFunc :: "('r, 'd) versioned informer \<Rightarrow> ListOptions \<Rightarrow>
    (Permission, 'p, 'r, 'w, 'w \<times> go_error option) client_prog" where
  "permission_WatchFunc i = informer_WatchFunc (versioned_Permissions (si_client i)) (si_namespace i) (si_tweak i)"

definition versioned_Policies :: "('r, 'd) versioned \<Rightarrow> string \<Rightarrow> (Policy, 'p, 'r, 'w) client_ops" where
  "versioned_Policies client namespace =
     (case client of
        RealClientset cs \<Rightarrow> Policies (Some (cs_rabbitmqV1beta1 cs)) namespace
      | FakeClientset \<Rightarrow> FakePolicies namespace)"

interpretation policies_getter: client_getter "''policies''" "versioned_Policies client"
  for client
  by (rule client_getter.intro) (simp add: versioned_Policies_def Policies_implements split: versioned.split)

definition policy_ListFunc :: "('r, 'd) versioned informer \<Rightarrow> ListOptions \<Rightarrow>
    (Policy, 'p, 'r, 'w, Policy klist option \<times> go_error option) client_prog" where
  "policy_ListFunc i = informer_ListFunc (versioned_Policies (si_client i)) (si_namespace i) (si_tweak i)"

definition policy_WatchFunc :: "('r, 'd) versioned informer \<Rightarrow> ListOptions \<Rightarrow>
    (Policy, 'p, 'r, 'w, 'w \<times> go_error option) client_prog" where
  "policy_WatchFunc i = informer_WatchFunc (versioned_Policies (si_client i)) (si_namespace i) (si_tweak i)"

definition versioned_Queues :: "('r, 'd) versioned \<Rightarrow> string \<Rightarrow> (Queue, 'p, 'r, 'w) client_ops" where
  "versioned_Queues client namespace =
     (case client of
        RealClientset cs \<Rightarrow> Queues (Some (cs_rabbitmqV1beta1 cs)) namespace
      | FakeClientset \<Rightarrow> FakeQueues namespace)"

interpretation queues_getter: client_getter "''queues''" "versioned_Queues client"
  for client
  by (rule client_getter.intro) (simp add: versioned_Queues_def Queues_implements split: versioned.split)

definition queue_ListFunc :: "('r, 'd) versioned informer \<Rightarrow> ListOptions \<Rightarrow>
    (Queue, 'p, 'r, 'w, Queue klist option \<times> go_error option) client_prog" where
  "queue_ListFunc i = informer_ListFunc (versioned_Queues (si_client i)) (si_namespace i) (si_tweak i)"

definition queue_WatchFunc :: "('r, 'd) versioned informer \<Rightarrow> ListOptions \<Rightarrow>
    (Queue, 'p, 'r, 'w, 'w \<times> go_error option) client_prog" where
  "queue_WatchFunc i = informer_WatchFunc (versioned_Queues (si_client i)) (si_namespace i) (si_tweak i)"

definition versioned_SchemaReplications :: "('r, 'd) versioned \<Rightarrow> string \<Rightarrow> (SchemaReplication, 'p, 'r, 'w) client_ops" where
  "versioned_SchemaReplications client namespace =
     (case client of
        RealClientset cs \<Rightarrow> SchemaReplications (Some (cs_rabbitmqV1beta1 cs)) namespace
      | FakeClientset \<Rightarrow> FakeSchemaReplications namespace)"

interpretation schemaReplications_getter: client_getter "''schemareplications''" "versioned_SchemaReplications client"
  for client
  by (rule client_getter.intro) (simp add: versioned_SchemaReplications_def SchemaReplications_implements split: versioned.split)

definition schemaReplication_ListFunc :: "('r, 'd) versioned informer \<Rightarrow> ListOptions \<Rightarrow>
    (SchemaReplication, 'p, 'r, 'w, SchemaReplication klist option \<times> go_error option) client_prog" where
  "schemaReplication_ListFunc i = informer_ListFunc (versioned_SchemaReplications (si_client i)) (si_namespace i) (si_tweak i)"

definition schemaReplication_WatchFunc :: "('r, 'd) versioned informer \<Rightarrow> ListOptions \<Rightarrow>
    (SchemaReplication, 'p, 'r, 'w, 'w \<times> go_error option) client_prog" where
  "schemaReplication_WatchFunc i = informer_WatchFunc (versioned_SchemaReplications (si_client i)) (si_namespace i) (si_tweak i)"

definition versioned_Shovels :: "('r, 'd) versioned \<Rightarrow> string \<Rightarrow> (Shovel, 'p, 'r, 'w) client_ops" where
  "versioned_Shovels client namespace =
     (case client of
        RealClientset cs \<Rightarrow> Shovels (Some (cs_rabbitmqV1beta1 cs)) namespace
      | FakeClientset \<Rightarrow> FakeShovels namespace)"

interpretation shovels_getter: client_getter "''shovels''" "versioned_Shovels client"
  for client
  by (rule client_getter.intro) (simp add: versioned_Shovels_def Shovels_implements split: versioned.split)

definition shovel_ListFunc :: "('r, 'd) versioned informer \<Rightarrow> ListOptions \<Rightarrow>
    (Shovel, 'p, 'r, 'w, Shovel klist option \<times> go_error option) client_prog" where
  "shovel_ListFunc i = informer_ListFunc (versioned_Shovels (si_client i)) (si_namespace i) (si_tweak i)"

definition shovel_WatchFunc :: "('r, 'd) versioned informer \<Rightarrow> ListOptions \<Rightarrow>
    (Shovel, 'p, 'r, 'w, 'w \<times> go_error option) client_prog" where
  "shovel_WatchFunc i = informer_WatchFunc (versioned_Shovels (si_client i)) (si_namespace i) (si_tweak i)"

definition versioned_Users :: "('r, 'd) versioned \<Rightarrow> string \<Rightarrow> (User, 'p, 'r, 'w) client_ops" where
  "versioned_Users client namespace =
     (case client of
        RealClientset cs \<Rightarrow> Users (Some (cs_rabbitmqV1beta1 cs)) namespace
      | FakeClientset \<Rightarrow> FakeUsers namespace)"

interpretation users_getter: client_getter "''users''" "versioned_Users client"
  for client
  by (rule client_getter.intro) (simp add: versioned_Users_def Users_implements split: versioned.split)

definition user_ListFunc :: "('r, 'd) versioned informer \<Rightarrow> ListOptions \<Rightarrow>
    (User, 'p, 'r, 'w, User klist option \<times> go_error option) client_prog" where
  "user_ListFunc i = informer_ListFunc (versioned_Users (si_client i)) (si_namespace i) (si_tweak i)"

definition user_WatchFunc :: "('r, 'd) versioned informer \<Rightarrow> ListOptions \<Rightarrow>
    (User, 'p, 'r, 'w, 'w \<times> go_error option) client_prog" where
  "user_WatchFunc i = informer_WatchFunc (versioned_Users (si_client i)) (si_namespace i) (si_tweak i)"

definition versioned_Vhosts :: "('r, 'd) versioned \<Rightarrow> string \<Rightarrow> (Vhost, 'p, 'r, 'w) client_ops" where
  "versioned_Vhosts client namespace =
     (case client of
        RealClientset cs \<Rightarrow> Vhosts (Some (cs_rabbitmqV1beta1 cs)) namespace
      | FakeClientset \<Rightarrow> FakeVhosts namespace)"

interpretation vhosts_getter: client_getter "''vhosts''" "versioned_Vhosts client"
  for client
  by (rule client_getter.intro) (simp add: versioned_Vhosts_def Vhosts_implements split: versioned.split)

definition vhost_ListFunc :: "('r, 'd) versioned informer \<Rightarrow> ListOptions \<Rightarrow>
    (Vhost, 'p, 'r, 'w, Vhost klist option \<times> go_error option) client_prog" where
  "vhost_ListFunc i = informer_ListFunc (versioned_Vhosts (si_client i)) (si_namespace i) (si_tweak i)"

definition vhost_WatchFunc :: "('r, 'd) versioned informer \<Rightarrow> ListOptions \<Rightarrow>
    (Vhost, 'p, 'r, 'w, 'w \<times> go_error option) client_prog" where
  "vhost_WatchFunc i = informer_WatchFunc (versioned_Vhosts (si_client i)) (si_namespace i) (si_tweak i)"

definition versioned_SuperStreams :: "('r, 'd) versioned \<Rightarrow> string \<Rightarrow> (SuperStream, 'p, 'r, 'w) client_ops" where
  "versioned_SuperStreams client namespace =
     (case client of
        RealClientset cs \<Rightarrow> SuperStreams (Some (cs_rabbitmqV1alpha1 cs)) namespace
      | FakeClientset \<Rightarrow> FakeSuperStreams namespace)"

interpretation superStreams_getter: client_getter "''superstreams''" "versioned_SuperStreams client"
  for client
  by (rule client_getter.intro) (simp add: versioned_SuperStreams_def SuperStreams_implements split: versioned.split)

definition superStream_ListFunc :: "('r, 'd) versioned informer \<Rightarrow> ListOptions \<Rightarrow>
    (SuperStream, 'p, 'r, 'w, SuperStream klist option \<times> go_error option) client_prog" where
  "superStream_ListFunc i = informer_ListFunc (versioned_SuperStreams (si_client i)) (si_namespace i) (si_tweak i)"

definition superStream_WatchFunc :: "('r, 'd) versioned informer \<Rightarrow> ListOptions \<Rightarrow>
    (SuperStream, 'p, 'r, 'w, 'w \<times> go_error option) client_prog" where
  "superStream_WatchFunc i = informer_WatchFunc (versioned_SuperStreams (si_client i)) (si_namespace i) (si_tweak i)"

definition bindingLister :: "Binding indexer \<Rightarrow> Binding lister_ops" where
  "bindingLister = lister_at (v1beta1_Resource ''binding'')"

definition exchangeLister :: "Exchange indexer \<Rightarrow> Exchange lister_ops" where
  "exchangeLister = lister_at (v1beta1_Resource ''exchange'')"

definition federationLister :: "Federation indexer \<Rightarrow> Federation lister_ops" where
  "federationLister = lister_at (v1beta1_Resource ''federation'')"

definition operatorPolicyLister :: "OperatorPolicy indexer \<Rightarrow> OperatorPolicy lister_ops" where
  "operatorPolicyLister = lister_at (v1beta1_Resource ''operatorpolicy'')"

definition permissionLister :: "Permission indexer \<Rightarrow> Permission lister_ops" where
  "permissionLister = lister_at (v1beta1_Resource ''permission'')"

definition policyLister :: "Policy indexer \<Rightarrow> Policy lister_ops" where
  "policyLister = lister_at (v1beta1_Resource ''policy'')"

definition queueLister :: "Queue indexer \<Rightarrow> Queue lister_ops" where
  "queueLister = lister_at (v1beta1_Resource ''queue'')"

definition schemaReplicationLister :: "SchemaReplication indexer \<Rightarrow> SchemaReplication lister_ops" where
  "schemaReplicationLister = lister_at (v1beta1_Resource ''schemareplication'')"

definition shovelLister :: "Shovel indexer \<Rightarrow> Shovel lister_ops" where
  "shovelLister = lister_at (v1beta1_Resource ''shovel'')"

definition userLister :: "User indexer \<Rightarrow> User lister_ops" where
  "userLister = lister_at (v1beta1_Resource ''user'')"

definition vhostLister :: "Vhost indexer \<Rightarrow> Vhost lister_ops" where
  "vhostLister = lister_at (v1beta1_Resource ''vhost'')"

definition superStreamLister :: "SuperStream indexer \<Rightarrow> SuperStream lister_ops" where
  "superStreamLister = lister_at (v1alpha1_Resource ''superstream'')"

text \<open>The constructors and accessors. The key of a type is what \<open>reflect.TypeOf\<close> gives for its pointer.\<close>

definition NewFilteredBindingInformer ::
  "'c \<Rightarrow> string \<Rightarrow> int \<Rightarrow> string list \<Rightarrow> tweak \<Rightarrow> informer_world \<Rightarrow> 'c informer \<times> informer_world" where
  "NewFilteredBindingInformer client namespace resyncPeriod indexers tweakListOptions =
     NewSharedIndexInformer client ''*v1beta1.Binding'' namespace tweakListOptions resyncPeriod indexers"

definition NewBindingInformer ::
  "'c \<Rightarrow> string \<Rightarrow> int \<Rightarrow> string list \<Rightarrow> informer_world \<Rightarrow> 'c informer \<times> informer_world" where
  "NewBindingInformer client namespace resyncPeriod indexers =
     NewFilteredBindingInformer client namespace resyncPeriod indexers None"

definition bindingInformer_Informer :: "informer_scope \<Rightarrow> 'c factory_state \<Rightarrow> 'c informer \<times> 'c factory_state" where
  "bindingInformer_Informer f = InformerFor ''*v1beta1.Binding'' (defaultInformer NewFilteredBindingInformer f)"

definition bindingInformer_Lister ::
  "('c informer \<Rightarrow> Binding indexer) \<Rightarrow> informer_scope \<Rightarrow> 'c factory_state \<Rightarrow> Binding lister_ops \<times> 'c factory_state" where
  "bindingInformer_Lister getIndexer f s = (case bindingInformer_Informer f s of (i, s') \<Rightarrow> (bindingLister (getIndexer i), s'))"

definition NewFilteredExchangeInformer ::
  "'c \<Rightarrow> string \<Rightarrow> int \<Rightarrow> string list \<Rightarrow> tweak \<Rightarrow> informer_world \<Rightarrow> 'c informer \<times> informer_world" where
  "NewFilteredExchangeInformer client namespace resyncPeriod indexers tweakListOptions =
     NewSharedIndexInformer client ''*v1beta1.Exchange'' namespace tweakListOptions resyncPeriod indexers"

definition NewExchangeInformer ::
  "'c \<Rightarrow> string \<Rightarrow> int \<Rightarrow> string list \<Rightarrow> informer_world \<Rightarrow> 'c informer \<times> informer_world" where
  "NewExchangeInformer client namespace resyncPeriod indexers =
     NewFilteredExchangeInformer client namespace resyncPeriod indexers None"

definition exchangeInformer_Informer :: "informer_scope \<Rightarrow> 'c factory_state \<Rightarrow> 'c informer \<times> 'c factory_state" where
  "exchangeInformer_Informer f = InformerFor ''*v1beta1.Exchange'' (defaultInformer NewFilteredExchangeInformer f)"

definition exchangeInformer_Lister ::
  "('c informer \<Rightarrow> Exchange indexer) \<Rightarrow> informer_scope \<Rightarrow> 'c factory_state \<Rightarrow> Exchange lister_ops \<times> 'c factory_state" where
  "exchangeInformer_Lister getIndexer f s = (case exchangeInformer_Informer f s of (i, s') \<Rightarrow> (exchangeLister (getIndexer i), s'))"

definition NewFilteredFederationInformer ::
  "'c \<Rightarrow> string \<Rightarrow> int \<Rightarrow> string list \<Rightarrow> tweak \<Rightarrow> informer_world \<Rightarrow> 'c informer \<times> informer_world" where
  "NewFilteredFederationInformer client namespace resyncPeriod indexers tweakListOptions =
     NewSharedIndexInformer client ''*v1beta1.Federation'' namespace tweakListOptions resyncPeriod indexers"

definition NewFederationInformer ::
  "'c \<Rightarrow> string \<Rightarrow> int \<Rightarrow> string list \<Rightarrow> informer_world \<Rightarrow> 'c informer \<times> informer_world" where
  "NewFederationInformer client namespace resyncPeriod indexers =
     NewFilteredFederationInformer client namespace resyncPeriod indexers None"

definition federationInformer_Informer :: "informer_scope \<Rightarrow> 'c factory_state \<Rightarrow> 'c informer \<times> 'c factory_state" where
  "federationInformer_Informer f = InformerFor ''*v1beta1.Federation'' (defaultInformer NewFilteredFederationInformer f)"

definition federationInformer_Lister ::
  "('c informer \<Rightarrow> Federation indexer) \<Rightarrow> informer_scope \<Rightarrow> 'c factory_state \<Rightarrow> Federation lister_ops \<times> 'c factory_state" where
  "federationInformer_Lister getIndexer f s = (case federationInformer_Informer f s of (i, s') \<Rightarrow> (federationLister (getIndexer i), s'))"

definition NewFilteredOperatorPolicyInformer ::
  "'c \<Rightarrow> string \<Rightarrow> int \<Rightarrow> string list \<Rightarrow> tweak \<Rightarrow> informer_world \<Rightarrow> 'c informer \<times> informer_world" where
  "NewFilteredOperatorPolicyInformer client namespace resyncPeriod indexers tweakListOptions =
     NewSharedIndexInformer client ''*v1beta1.OperatorPolicy'' namespace tweakListOptions resyncPeriod indexers"

definition NewOperatorPolicyInformer ::
  "'c \<Rightarrow> string \<Rightarrow> int \<Rightarrow> string list \<Rightarrow> informer_world \<Rightarrow> 'c informer \<times> informer_world" where
  "NewOperatorPolicyInformer client namespace resyncPeriod indexers =
     NewFilteredOperatorPolicyInformer client namespace resyncPeriod indexers None"

definition operatorPolicyInformer_Informer :: "informer_scope \<Rightarrow> 'c factory_state \<Rightarrow> 'c informer \<times> 'c factory_state" where
  "operatorPolicyInformer_Informer f = InformerFor ''*v1beta1.OperatorPolicy'' (defaultInformer NewFilteredOperatorPolicyInformer f)"

definition operatorPolicyInformer_Lister ::
  "('c informer \<Rightarrow> OperatorPolicy indexer) \<Rightarrow> informer_scope \<Rightarrow> 'c factory_state \<Rightarrow> OperatorPolicy lister_ops \<times> 'c factory_state" where
  "operatorPolicyInformer_Lister getIndexer f s = (case operatorPolicyInformer_Informer f s of (i, s') \<Rightarrow> (operatorPolicyLister (getIndexer i), s'))"

definition NewFilteredPermissionInformer ::
  "'c \<Rightarrow> string \<Rightarrow> int \<Rightarrow> string list \<Rightarrow> tweak \<Rightarrow> informer_world \<Rightarrow> 'c informer \<times> informer_world" where
  "NewFilteredPermissionInformer client namespace resyncPeriod indexers tweakListOptions =
     NewSharedIndexInformer client ''*v1beta1.Permission'' namespace tweakListOptions resyncPeriod indexers"

definition NewPermissionInformer ::
  "'c \<Rightarrow> string \<Rightarrow> int \<Rightarrow> string list \<Rightarrow> informer_world \<Rightarrow> 'c informer \<times> informer_world" where
  "NewPermissionInformer client namespace resyncPeriod indexers =
     NewFilteredPermissionInformer client namespace resyncPeriod indexers None"

definition permissionInformer_Informer :: "informer_scope \<Rightarrow> 'c factory_state \<Rightarrow> 'c informer \<times> 'c factory_state" where
  "permissionInformer_Informer f = InformerFor ''*v1beta1.Permission'' (defaultInformer NewFilteredPermissionInformer f)"

definition permissionInformer_Lister ::
  "('c informer \<Rightarrow> Permission indexer) \<Rightarrow> informer_scope \<Rightarrow> 'c factory_state \<Rightarrow> Permission lister_ops \<times> 'c factory_state" where
  "permissionInformer_Lister getIndexer f s = (case permissionInformer_Informer f s of (i, s') \<Rightarrow> (permissionLister (getIndexer i), s'))"

definition NewFilteredPolicyInformer ::
  "'c \<Rightarrow> string \<Rightarrow> int \<Rightarrow> string list \<Rightarrow> tweak \<Rightarrow> informer_world \<Rightarrow> 'c informer \<times> informer_world" where
  "NewFilteredPolicyInformer client namespace resyncPeriod indexers tweakListOptions =
     NewSharedIndexInformer client ''*v1beta1.Policy'' namespace tweakListOptions resyncPeriod indexers"

definition NewPolicyInformer ::
  "'c \<Rightarrow> string \<Rightarrow> int \<Rightarrow> string list \<Rightarrow> informer_world \<Rightarrow> 'c informer \<times> informer_world" where
  "NewPolicyInformer client namespace resyncPeriod indexers =
     NewFilteredPolicyInformer client namespace resyncPeriod indexers None"

definition policyInformer_Informer :: "informer_scope \<Rightarrow> 'c factory_state \<Rightarrow> 'c informer \<times> 'c factory_state" where
  "policyInformer_Informer f = InformerFor ''*v1beta1.Policy'' (defaultInformer NewFilteredPolicyInformer f)"

definition policyInformer_Lister ::
  "('c informer \<Rightarrow> Policy indexer) \<Rightarrow> informer_scope \<Rightarrow> 'c factory_state \<Rightarrow> Policy lister_ops \<times> 'c factory_state" where
  "policyInformer_Lister getIndexer f s = (case policyInformer_Informer f s of (i, s') \<Rightarrow> (policyLister (getIndexer i), s'))"

definition NewFilteredQueueInformer ::
  "'c \<Rightarrow> string \<Rightarrow> int \<Rightarrow> string list \<Rightarrow> tweak \<Rightarrow> informer_world \<Rightarrow> 'c informer \<times> informer_world" where
  "NewFilteredQueueInformer client namespace resyncPeriod indexers tweakListOptions =
     NewSharedIndexInformer client ''*v1beta1.Queue'' namespace tweakListOptions resyncPeriod indexers"

definition NewQueueInformer ::
  "'c \<Rightarrow> string \<Rightarrow> int \<Rightarrow> string list \<Rightarrow> informer_world \<Rightarrow> 'c informer \<times> informer_world" where
  "NewQueueInformer client namespace resyncPeriod indexers =
     NewFilteredQueueInformer client namespace resyncPeriod indexers None"

definition queueInformer_Informer :: "informer_scope \<Rightarrow> 'c factory_state \<Rightarrow> 'c informer \<times> 'c factory_state" where
  "queueInformer_Informer f = InformerFor ''*v1beta1.Queue'' (defaultInformer NewFilteredQueueInformer f)"

definition queueInformer_Lister ::
  "('c informer \<Rightarrow> Queue indexer) \<Rightarrow> informer_scope \<Rightarrow> 'c factory_state \<Rightarrow> Queue lister_ops \<times> 'c factory_state" where
  "queueInformer_Lister getIndexer f s = (case queueInformer_Informer f s of (i, s') \<Rightarrow> (queueLister (getIndexer i), s'))"

definition NewFilteredSchemaReplicationInformer ::
  "'c \<Rightarrow> string \<Rightarrow> int \<Rightarrow> string list \<Rightarrow> tweak \<Rightarrow> informer_world \<Rightarrow> 'c informer \<times> informer_world" where
  "NewFilteredSchemaReplicationInformer client namespace resyncPeriod indexers tweakListOptions =
     NewSharedIndexInformer client ''*v1beta1.SchemaReplication'' namespace tweakListOptions resyncPeriod indexers"

definition NewSchemaReplicationInformer ::
  "'c \<Rightarrow> string \<Rightarrow> int \<Rightarrow> string list \<Rightarrow> informer_world \<Rightarrow> 'c informer \<times> informer_world" where
  "NewSchemaReplicationInformer client namespace resyncPeriod indexers =
     NewFilteredSchemaReplicationInformer client namespace resyncPeriod indexers None"

definition schemaReplicationInformer_Informer :: "informer_scope \<Rightarrow> 'c factory_state \<Rightarrow> 'c informer \<times> 'c factory_state" where
  "schemaReplicationInformer_Informer f = InformerFor ''*v1beta1.SchemaReplication'' (defaultInformer NewFilteredSchemaReplicationInformer f)"

definition schemaReplicationInformer_Lister ::
  "('c informer \<Rightarrow> SchemaReplication indexer) \<Rightarrow> informer_scope \<Rightarrow> 'c factory_state \<Rightarrow> SchemaReplication lister_ops \<times> 'c factory_state" where
  "schemaReplicationInformer_Lister getIndexer f s = (case schemaReplicationInformer_Informer f s of (i, s') \<Rightarrow> (schemaReplicationLister (getIndexer i), s'))"

definition NewFilteredShovelInformer ::
  "'c \<Rightarrow> string \<Rightarrow> int \<Rightarrow> string list \<Rightarrow> tweak \<Rightarrow> informer_world \<Rightarrow> 'c informer \<times> informer_world" where
  "NewFilteredShovelInformer client namespace resyncPeriod indexers tweakListOptions =
     NewSharedIndexInformer client ''*v1beta1.Shovel'' namespace tweakListOptions resyncPeriod indexers"

definition NewShovelInformer ::
  "'c \<Rightarrow> string \<Rightarrow> int \<Rightarrow> string list \<Rightarrow> informer_world \<Rightarrow> 'c informer \<times> informer_world" where
  "NewShovelInformer client namespace resyncPeriod indexers =
     NewFilteredShovelInformer client namespace resyncPeriod indexers None"

definition shovelInformer_Informer :: "informer_scope \<Rightarrow> 'c factory_state \<Rightarrow> 'c informer \<times> 'c factory_state" where
  "shovelInformer_Informer f = InformerFor ''*v1beta1.Shovel'' (defaultInformer NewFilteredShovelInformer f)"

definition shovelInformer_Lister ::
  "('c informer \<Rightarrow> Shovel indexer) \<Rightarrow> informer_scope \<Rightarrow> 'c factory_state \<Rightarrow> Shovel lister_ops \<times> 'c factory_state" where
  "shovelInformer_Lister getIndexer f s = (case shovelInformer_Informer f s of (i, s') \<Rightarrow> (shovelLister (getIndexer i), s'))"

definition NewFilteredUserInformer ::
  "'c \<Rightarrow> string \<Rightarrow> int \<Rightarrow> string list \<Rightarrow> tweak \<Rightarrow> informer_world \<Rightarrow> 'c informer \<times> informer_world" where
  "NewFilteredUserInformer client namespace resyncPeriod indexers tweakListOptions =
     NewSharedIndexInformer client ''*v1beta1.User'' namespace tweakListOptions resyncPeriod indexers"

definition NewUserInformer ::
  "'c \<Rightarrow> string \<Rightarrow> int \<Rightarrow> string list \<Rightarrow> informer_world \<Rightarrow> 'c informer \<times> informer_world" where
  "NewUserInformer client namespace resyncPeriod indexers =
     NewFilteredUserInformer client namespace resyncPeriod indexers None"

definition userInformer_Informer :: "informer_scope \<Rightarrow> 'c factory_state \<Rightarrow> 'c informer \<times> 'c factory_state" where
  "userInformer_Informer f = InformerFor ''*v1beta1.User'' (defaultInformer NewFilteredUserInformer f)"

definition userInformer_Lister ::
  "('c informer \<Rightarrow> User indexer) \<Rightarrow> informer_scope \<Rightarrow> 'c factory_state \<Rightarrow> User lister_ops \<times> 'c factory_state" where
  "userInformer_Lister getIndexer f s = (case userInformer_Informer f s of (i, s') \<Rightarrow> (userLister (getIndexer i), s'))"

definition NewFilteredVhostInformer ::
  "'c \<Rightarrow> string \<Rightarrow> int \<Rightarrow> string list \<Rightarrow> tweak \<Rightarrow> informer_world \<Rightarrow> 'c informer \<times> informer_world" where
  "NewFilteredVhostInformer client namespace resyncPeriod indexers tweakListOptions =
     NewSharedIndexInformer client ''*v1beta1.Vhost'' namespace tweakListOptions resyncPeriod indexers"

definition NewVhostInformer ::
  "'c \<Rightarrow> string \<Rightarrow> int \<Rightarrow> string list \<Rightarrow> informer_world \<Rightarrow> 'c informer \<times> informer_world" where
  "NewVhostInformer client namespace resyncPeriod indexers =
     NewFilteredVhostInformer client namespace resyncPeriod indexers None"

definition vhostInformer_Informer :: "informer_scope \<Rightarrow> 'c factory_state \<Rightarrow> 'c informer \<times> 'c factory_state" where
  "vhostInformer_Informer f = InformerFor ''*v1beta1.Vhost'' (defaultInformer NewFilteredVhostInformer f)"

definition vhostInformer_Lister ::
  "('c informer \<Rightarrow> Vhost indexer) \<Rightarrow> informer_scope \<Rightarrow> 'c factory_state \<Rightarrow> Vhost lister_ops \<times> 'c factory_state" where
  "vhostInformer_Lister getIndexer f s = (case vhostInformer_Informer f s of (i, s') \<Rightarrow> (vhostLister (getIndexer i), s'))"

definition NewFilteredSuperStreamInformer ::
  "'c \<Rightarrow> string \<Rightarrow> int \<Rightarrow> string list \<Rightarrow> tweak \<Rightarrow> informer_world \<Rightarrow> 'c informer \<times> informer_world" where
  "NewFilteredSuperStreamInformer client namespace resyncPeriod indexers tweakListOptions =
     NewSharedIndexInformer client ''*v1alpha1.SuperStream'' namespace tweakListOptions resyncPeriod indexers"

definition NewSuperStreamInformer ::
  "'c \<Rightarrow> string \<Rightarrow> int \<Rightarrow> string list \<Rightarrow> informer_world \<Rightarrow> 'c informer \<times> informer_world" where
  "NewSuperStreamInformer client namespace resyncPeriod indexers =
     NewFilteredSuperStreamInformer client namespace resyncPeriod indexers None"

definition superStreamInformer_Informer :: "informer_scope \<Rightarrow> 'c factory_state \<Rightarrow> 'c informer \<times> 'c factory_state" where
  "superStreamInformer_Informer f = InformerFor ''*v1alpha1.SuperStream'' (defaultInformer NewFilteredSuperStreamInformer f)"

definition superStreamInformer_Lister ::
  "('c informer \<Rightarrow> SuperStream indexer) \<Rightarrow> informer_scope \<Rightarrow> 'c factory_state \<Rightarrow> SuperStream lister_ops \<times> 'c factory_state" where
  "superStreamInformer_Lister getIndexer f s = (case superStreamInformer_Informer f s of (i, s') \<Rightarrow> (superStreamLister (getIndexer i), s'))"

text \<open>\<open>ForResource\<close>: the cases of the switch in their order.\<close>

type_synonym 'c informer_table = "(GroupVersionResource \<times> ('c factory_state \<Rightarrow> 'c informer \<times> 'c factory_state)) list"

definition resource_informers :: "'c informer_table" where
  "resource_informers =
     [(WithResource v1alpha1_SchemeGroupVersion ''superstreams'', \<lambda>s. superStreamInformer_Informer (V1alpha1 (Rabbitmq (fst s))) s),
      (WithResource v1beta1_SchemeGroupVersion ''bindings'', \<lambda>s. bindingInformer_Informer (V1beta1 (Rabbitmq (fst s))) s),
      (WithResource v1beta1_SchemeGroupVersion ''exchanges'', \<lambda>s. exchangeInformer_Informer (V1beta1 (Rabbitmq (fst s))) s),
      (WithResource v1beta1_SchemeGroupVersion ''federations'', \<lambda>s. federationInformer_Informer (V1beta1 (Rabbitmq (fst s))) s),
      (WithResource v1beta1_SchemeGroupVersion ''operatorpolicies'', \<lambda>s. operatorPolicyInformer_Informer (V1beta1 (Rabbitmq (fst s))) s),
      (WithResource v1beta1_SchemeGroupVersion ''permissions'', \<lambda>s. permissionInformer_Informer (V1beta1 (Rabbitmq (fst s))) s),
      (WithResource v1beta1_SchemeGroupVersion ''policies'', \<lambda>s. policyInformer_Informer (V1beta1 (Rabbitmq (fst s))) s),
      (WithResource v1beta1_SchemeGroupVersion ''queues'', \<lambda>s. queueInformer_Informer (V1beta1 (Rabbitmq (fst s))) s),
      (WithResource v1beta1_SchemeGroupVersion ''schemareplications'', \<lambda>s. schemaReplicationInformer_Informer (V1beta1 (Rabbitmq (fst s))) s),
      (WithResource v1beta1_SchemeGroupVersion ''shovels'', \<lambda>s. shovelInformer_Informer (V1beta1 (Rabbitmq (fst s))) s),
      (WithResource v1beta1_SchemeGroupVersion ''users'', \<lambda>s. userInformer_Informer (V1beta1 (Rabbitmq (fst s))) s),
      (WithResource v1beta1_SchemeGroupVersion ''vhosts'', \<lambda>s. vhostInformer_Informer (V1beta1 (Rabbitmq (fst s))) s)]"

definition ForResource ::
  "GroupVersionResource \<Rightarrow> 'c factory_state \<Rightarrow> (go_error + GroupResource \<times> 'c informer) \<times> 'c factory_state" where
  "ForResource resource s =
     (case map_of resource_informers resource of
        Some ask \<Rightarrow>
          (case ask s of (i, s') \<Rightarrow>
             (Inr (\<lparr>gr_Group = gvr_Group resource, gr_Resource = gvr_Resource resource\<rparr>, i), s'))
      | None \<Rightarrow>
          (Inl (ErrText (''no informer found for '' @ gvr_Group resource @ ''/'' @ gvr_Version resource @
             '', Resource='' @ gvr_Resource resource)), s))"


lemmas informer_constructors =
  NewFilteredBindingInformer_def
  NewFilteredExchangeInformer_def
  NewFilteredFederationInformer_def
  NewFilteredOperatorPolicyInformer_def
  NewFilteredPermissionInformer_def
  NewFilteredPolicyInformer_def
  NewFilteredQueueInformer_def
  NewFilteredSchemaReplicationInformer_def
  NewFilteredShovelInformer_def
  NewFilteredUserInformer_def
  NewFilteredVhostInformer_def
  NewFilteredSuperStreamInformer_def

lemmas informer_accessors =
  bindingInformer_Informer_def
  exchangeInformer_Informer_def
  federationInformer_Informer_def
  operatorPolicyInformer_Informer_def
  permissionInformer_Informer_def
  policyInformer_Informer_def
  queueInformer_Informer_def
  schemaReplicationInformer_Informer_def
  shovelInformer_Informer_def
  userInformer_Informer_def
  vhostInformer_Informer_def
  superStreamInformer_Informer_def

lemma kind_constructs:
  "constructs ''*v1beta1.Binding'' (defaultInformer NewFilteredBindingInformer f)"
  "constructs ''*v1beta1.Exchange'' (defaultInformer NewFilteredExchangeInformer f)"
  "constructs ''*v1beta1.Federation'' (defaultInformer NewFilteredFederationInformer f)"
  "constructs ''*v1beta1.OperatorPolicy'' (defaultInformer NewFilteredOperatorPolicyInformer f)"
  "constructs ''*v1beta1.Permission'' (defaultInformer NewFilteredPermissionInformer f)"
  "constructs ''*v1beta1.Policy'' (defaultInformer NewFilteredPolicyInformer f)"
  "constructs ''*v1beta1.Queue'' (defaultInformer NewFilteredQueueInformer f)"
  "constructs ''*v1beta1.SchemaReplication'' (defaultInformer NewFilteredSchemaReplicationInformer f)"
  "constructs ''*v1beta1.Shovel'' (defaultInformer NewFilteredShovelInformer f)"
  "constructs ''*v1beta1.User'' (defaultInformer NewFilteredUserInformer f)"
  "constructs ''*v1beta1.Vhost'' (defaultInformer NewFilteredVhostInformer f)"
  "constructs ''*v1alpha1.SuperStream'' (defaultInformer NewFilteredSuperStreamInformer f)"
  by (simp_all add: constructs_def defaultInformer_def NewSharedIndexInformer_def informer_constructors)

definition asks_factory :: "('c factory_state \<Rightarrow> 'c informer \<times> 'c factory_state) \<Rightarrow> bool" where
  "asks_factory ask \<longleftrightarrow> (\<forall>s. \<exists>t newFunc. constructs t newFunc \<and> ask s = InformerFor t newFunc s)"

lemma asks_factoryI:
  "(\<And>s. constructs t (newFunc s)) \<Longrightarrow> asks_factory (\<lambda>s. InformerFor t (newFunc s) s)"
  unfolding asks_factory_def by blast

lemma kind_asks_factory:
  "asks_factory (\<lambda>s. bindingInformer_Informer (g s) s)"
  "asks_factory (\<lambda>s. exchangeInformer_Informer (g s) s)"
  "asks_factory (\<lambda>s. federationInformer_Informer (g s) s)"
  "asks_factory (\<lambda>s. operatorPolicyInformer_Informer (g s) s)"
  "asks_factory (\<lambda>s. permissionInformer_Informer (g s) s)"
  "asks_factory (\<lambda>s. policyInformer_Informer (g s) s)"
  "asks_factory (\<lambda>s. queueInformer_Informer (g s) s)"
  "asks_factory (\<lambda>s. schemaReplicationInformer_Informer (g s) s)"
  "asks_factory (\<lambda>s. shovelInformer_Informer (g s) s)"
  "asks_factory (\<lambda>s. userInformer_Informer (g s) s)"
  "asks_factory (\<lambda>s. vhostInformer_Informer (g s) s)"
  "asks_factory (\<lambda>s. superStreamInformer_Informer (g s) s)"
  unfolding informer_accessors by (rule asks_factoryI, rule kind_constructs)+

lemma resource_informers_ask: "list_all (asks_factory \<circ> snd) resource_informers"
  by (simp add: resource_informers_def kind_asks_factory)

text \<open>\<open>ForResource\<close> is a step of the factory, or an error for a resource that no case names.\<close>

lemma ForResource_step:
  fixes s :: "'c factory_state"
  assumes "ForResource resource s = (r, s')"
  shows "(case r of
      Inr _ \<Rightarrow> factory_step s s'
    | Inl _ \<Rightarrow> s' = s \<and> resource \<notin> fst ` set (resource_informers :: 'c informer_table))"
proof (cases "map_of (resource_informers :: 'c informer_table) resource")
  case None
  then have "resource \<notin> fst ` set (resource_informers :: 'c informer_table)" by (simp add: map_of_eq_None_iff)
  with None assms show ?thesis by (auto simp: ForResource_def)
next
  case (Some ask)
  have "asks_factory ask" using resource_informers_ask map_of_SomeD [OF Some] by (auto simp: list_all_iff)
  then obtain t newFunc where "constructs t newFunc" "ask s = InformerFor t newFunc s"
    unfolding asks_factory_def by blast
  with Some assms show ?thesis by (auto simp: ForResource_def intro: step_InformerFor split: prod.splits)
qed

lemma ForResource_no_topicpermissions:
  "ForResource (WithResource v1beta1_SchemeGroupVersion ''topicpermissions'') s =
     (Inl (ErrText ''no informer found for rabbitmq.com/v1beta1, Resource=topicpermissions''), s)"
  by (simp add: ForResource_def resource_informers_def WithResource_def v1beta1_SchemeGroupVersion_def v1alpha1_SchemeGroupVersion_def)


text \<open>The options of the package.\<close>

inductive shared_option :: "'c shared_option \<Rightarrow> bool" where
  "shared_option (WithCustomResyncConfig resyncConfig)"
| "shared_option (WithTweakListOptions t)"
| "shared_option (WithNamespace namespace)"

lemma shared_option_keeps:
  assumes "shared_option opt"
  shows "sf_informers (opt f) = sf_informers f \<and> sf_startedInformers (opt f) = sf_startedInformers f"
  using assms
proof cases
  case (1 resyncConfig)
  then show ?thesis
    unfolding WithCustomResyncConfig_def by (induction resyncConfig arbitrary: f opt) (auto split: prod.splits)
qed (simp_all add: WithTweakListOptions_def WithNamespace_def)

lemma new_factory_inv:
  assumes "list_all shared_option opts" and "iw_runs w = []"
  shows "factory_inv (NewSharedInformerFactoryWithOptions client defaultResync opts, w)"
proof -
  have "sf_informers (fold (\<lambda>opt f. opt f) opts f) = sf_informers f \<and>
      sf_startedInformers (fold (\<lambda>opt f. opt f) opts f) = sf_startedInformers f" for f
    using assms(1) by (induction opts arbitrary: f) (auto simp: shared_option_keeps)
  then have "sf_informers (NewSharedInformerFactoryWithOptions client defaultResync opts) = Map.empty"
      "sf_startedInformers (NewSharedInformerFactoryWithOptions client defaultResync opts) = Map.empty"
    by (simp_all add: NewSharedInformerFactoryWithOptions_def)
  moreover from this have "started_informers (NewSharedInformerFactoryWithOptions client defaultResync opts) = Map.empty"
    by (simp add: fun_eq_iff)
  ultimately show ?thesis using assms(2) by (simp add: factory_inv_def)
qed

text \<open>
  C29. The factory shares its informers and starts each once. From a factory made with any of the
  package's options, after any sequence of \<open>InformerFor\<close> and \<open>Start\<close> calls, in any interleaving:
  no informer has been run twice, the informers that were run are exactly the started ones, every
  informer is of the type it is filed under and has the custom resync period of its type or the
  default, any further calls leave it in place, and \<open>Start\<close> leaves every informer running.
\<close>

theorem factory_shares_informers:
  assumes "list_all shared_option opts" and "iw_runs w = []"
    and "factory_step\<^sup>*\<^sup>* (NewSharedInformerFactoryWithOptions client defaultResync opts, w) (f, w')"
  shows "distinct (iw_runs w') \<and> set (iw_runs w') = si_id ` ran (started_informers f) \<and>
    (\<forall>t i. sf_informers f t = Some i \<longrightarrow>
       si_type i = t \<and> si_resync i = resync_for f t \<and>
       (\<forall>s. factory_step\<^sup>*\<^sup>* (f, w') s \<longrightarrow> sf_informers (fst s) t = Some i)) \<and>
    (\<forall>order. visits order f \<longrightarrow> set (iw_runs (snd (Start order (f, w')))) = si_id ` ran (sf_informers f))"
proof (intro conjI allI impI)
  have inv: "factory_inv (f, w')" using factory_steps_inv [OF assms(3) new_factory_inv [OF assms(1,2)]] by simp
  then show "distinct (iw_runs w')" "set (iw_runs w') = si_id ` ran (started_informers f)"
    by (simp_all add: factory_inv_def)
  fix t i assume ti: "sf_informers f t = Some i"
  with inv show "si_type i = t" "si_resync i = resync_for f t" by (auto simp: factory_inv_def)
  fix s assume "factory_step\<^sup>*\<^sup>* (f, w') s"
  with inv have "factory_kept (f, w') s" using factory_steps_inv by blast
  with ti show "sf_informers (fst s) t = Some i" by (auto simp: factory_kept_def map_le_def dom_def)
next
  fix order assume v: "visits order f"
  have inv: "factory_inv (f, w')" using factory_steps_inv [OF assms(3) new_factory_inv [OF assms(1,2)]] by simp
  obtain f2 w2 where st: "Start order (f, w') = (f2, w2)" by (cases "Start order (f, w')")
  have "started_informers f2 = sf_informers f"
  proof
    fix t show "started_informers f2 t = sf_informers f t"
      using Start_starts [of t order "(f, w')"] Start_unchanged(1) [of order "(f, w')"] v st
      by (cases "t \<in> set order") (auto simp: visits_def)
  qed
  with Start_inv [OF inv, of order] st show "set (iw_runs (snd (Start order (f, w')))) = si_id ` ran (sf_informers f)"
    by (simp add: factory_inv_def)
qed

text \<open>
  A factory with two informers, one of them with its own resync period, started twice.
\<close>

definition sample_factory :: "unit sharedInformerFactory" where
  "sample_factory =
     NewSharedInformerFactoryWithOptions () 30 [WithNamespace ''ns'', WithCustomResyncConfig [(''*v1beta1.Queue'', 5)]]"

definition sample_factory_run :: "unit factory_state" where
  "sample_factory_run =
     (let s = snd (queueInformer_Informer (V1beta1 (Rabbitmq sample_factory)) (sample_factory, \<lparr>iw_next = 0, iw_runs = []\<rparr>));
          s = Start [''*v1beta1.Queue''] s;
          s = snd (userInformer_Informer (V1beta1 (Rabbitmq sample_factory)) s) in
      Start [''*v1beta1.User'', ''*v1beta1.Queue''] s)"

lemma sample_factory_steps:
  "factory_step\<^sup>*\<^sup>* (sample_factory, \<lparr>iw_next = 0, iw_runs = []\<rparr>) sample_factory_run"
proof -
  let ?s0 = "(sample_factory, \<lparr>iw_next = 0, iw_runs = []\<rparr>) :: unit factory_state"
  let ?scope = "V1beta1 (Rabbitmq sample_factory)"
  let ?s1 = "snd (queueInformer_Informer ?scope ?s0)"
  let ?s2 = "Start [''*v1beta1.Queue''] ?s1"
  let ?s3 = "snd (userInformer_Informer ?scope ?s2)"
  note defs = sample_factory_def NewSharedInformerFactoryWithOptions_def WithNamespace_def WithCustomResyncConfig_def
    InformerFor_def queueInformer_Informer_def userInformer_Informer_def informer_constructors
    defaultInformer_def NewSharedIndexInformer_def
  have "factory_step ?s0 ?s1"
    unfolding queueInformer_Informer_def by (rule step_InformerFor [OF kind_constructs(7)]) (rule prod.collapse [symmetric])
  moreover have "factory_step ?s1 ?s2" by (rule step_Start) (auto simp: visits_def defs)
  moreover have "factory_step ?s2 ?s3"
    unfolding userInformer_Informer_def by (rule step_InformerFor [OF kind_constructs(10)]) (rule prod.collapse [symmetric])
  moreover have "factory_step ?s3 sample_factory_run"
    unfolding sample_factory_run_def Let_def
    by (rule step_Start) (auto simp: visits_def defs Start_def start_informer_def)
  ultimately show ?thesis by (meson converse_rtranclp_into_rtranclp rtranclp.rtrancl_refl)
qed

theorem factory_shares_informers_witness:
  "distinct (iw_runs (snd sample_factory_run)) \<and>
   set (iw_runs (snd sample_factory_run)) = si_id ` ran (started_informers (fst sample_factory_run)) \<and>
   iw_runs (snd sample_factory_run) = [0, 1]"
proof -
  have "factory_step\<^sup>*\<^sup>*
     (NewSharedInformerFactoryWithOptions () 30 [WithNamespace ''ns'', WithCustomResyncConfig [(''*v1beta1.Queue'', 5)]],
        \<lparr>iw_next = 0, iw_runs = []\<rparr>) (fst sample_factory_run, snd sample_factory_run)"
    using sample_factory_steps by (simp add: sample_factory_def)
  from factory_shares_informers [OF _ _ this]
  have "distinct (iw_runs (snd sample_factory_run)) \<and>
     set (iw_runs (snd sample_factory_run)) = si_id ` ran (started_informers (fst sample_factory_run))"
    by (simp add: shared_option.intros)
  moreover have "iw_runs (snd sample_factory_run) = [0, 1]"
    by (simp add: sample_factory_run_def sample_factory_def NewSharedInformerFactoryWithOptions_def WithNamespace_def
        WithCustomResyncConfig_def InformerFor_def queueInformer_Informer_def userInformer_Informer_def informer_constructors
        defaultInformer_def NewSharedIndexInformer_def Start_def start_informer_def)
  ultimately show ?thesis by simp
qed


section \<open>What the listers return\<close>

text \<open>An indexer over a list of objects with distinct keys keeps the contract.\<close>

definition list_indexer :: "('sp, 'st) kobject list \<Rightarrow> ('sp, 'st) kobject indexer" where
  "list_indexer xs =
     \<lparr>ix_ListAll = \<lambda>sel. (map (DObject \<circ> Some) (filter (\<lambda>x. sel (om_Labels (obj_Meta x))) xs), None),
      ix_ListAllByNamespace = \<lambda>ns sel.
        (map (DObject \<circ> Some) (filter (\<lambda>x. om_Namespace (obj_Meta x) = ns \<and> sel (om_Labels (obj_Meta x))) xs), None),
      ix_GetByKey = \<lambda>k.
        (case map_of (map (\<lambda>x. (meta_namespace_key x, x)) xs) k of
           None \<Rightarrow> (None, False, None) | Some x \<Rightarrow> (Some (DObject (Some x)), True, None))\<rparr>"

lemma list_indexer_keyed:
  assumes "distinct (map meta_namespace_key xs)"
  shows "keyed_store (list_indexer xs) (map_of (map (\<lambda>x. (meta_namespace_key x, x)) xs))"
proof -
  have "distinct (map fst (map (\<lambda>x. (meta_namespace_key x, x)) xs))" using assms by (simp add: comp_def)
  from ran_distinct [OF this] have "ran (map_of (map (\<lambda>x. (meta_namespace_key x, x)) xs)) = set xs" by force
  then show ?thesis by (auto simp: keyed_store_def list_indexer_def dest!: map_of_SomeD)
qed

lemma keyed_storeD:
  assumes "keyed_store ix objs"
  shows "ix_GetByKey ix k =
      (case objs k of None \<Rightarrow> (None, False, None) | Some x \<Rightarrow> (Some (DObject (Some x)), True, None))"
    and "objs k = Some x \<Longrightarrow> meta_namespace_key x = k"
    and "\<exists>xs. ix_ListAll ix sel = (map (DObject \<circ> Some) xs, None) \<and> set xs = {x \<in> ran objs. sel (om_Labels (obj_Meta x))}"
    and "\<exists>xs. ix_ListAllByNamespace ix ns sel = (map (DObject \<circ> Some) xs, None) \<and>
      set xs = {x \<in> ran objs. om_Namespace (obj_Meta x) = ns \<and> sel (om_Labels (obj_Meta x))}"
  using assms unfolding keyed_store_def by simp_all

lemma stored_at:
  assumes k: "keyed_store ix objs"
    and n: "\<forall>x \<in> ran objs. CHR ''/'' \<notin> set (om_Namespace (obj_Meta x)) \<and> CHR ''/'' \<notin> set (om_Name (obj_Meta x))"
    and ns: "ns \<noteq> []" "CHR ''/'' \<notin> set ns"
  shows "objs (ns @ ''/'' @ name) = Some x \<longleftrightarrow>
    x \<in> ran objs \<and> om_Namespace (obj_Meta x) = ns \<and> om_Name (obj_Meta x) = name"
proof (cases "x \<in> ran objs")
  case True
  then obtain l where l: "objs l = Some x" by (auto simp: ran_def)
  have "meta_namespace_key x = ns @ ''/'' @ name \<longleftrightarrow> om_Namespace (obj_Meta x) = ns \<and> om_Name (obj_Meta x) = name"
    using key_parts [OF ns(2), of x name] n True ns(1) by blast
  moreover have "meta_namespace_key x = ns @ ''/'' @ name \<longleftrightarrow> objs (ns @ ''/'' @ name) = Some x"
    using keyed_storeD(2) [OF k l] keyed_storeD(2) [OF k, of "ns @ ''/'' @ name" x] l by auto
  ultimately show ?thesis using True by simp
qed (simp add: ran_def)

lemma namespaceLister_Get_keyed:
  assumes "keyed_store ix objs"
  shows "namespaceLister_Get res ix ns name =
    Ret (case objs (ns @ ''/'' @ name) of None \<Rightarrow> (None, Some (NewNotFound res name)) | Some x \<Rightarrow> (Some x, None))"
  unfolding namespaceLister_Get_def keyed_storeD(1) [OF assms] by (cases "objs (ns @ ''/'' @ name)") simp_all

lemma namespaceLister_List_keyed:
  assumes "keyed_store ix objs"
  shows "\<exists>xs. namespaceLister_List ix ns sel = Ret (map Some xs, None) \<and>
    set xs = {x \<in> ran objs. om_Namespace (obj_Meta x) = ns \<and> sel (om_Labels (obj_Meta x))}"
  using keyed_storeD(4) [OF assms, of ns sel] by (auto simp: namespaceLister_List_def)

lemma lister_List_keyed:
  assumes "keyed_store ix objs"
  shows "\<exists>xs. lister_List ix sel = Ret (map Some xs, None) \<and> set xs = {x \<in> ran objs. sel (om_Labels (obj_Meta x))}"
  using keyed_storeD(3) [OF assms, of sel] by (auto simp: lister_List_def)


definition sample_stored :: "string \<Rightarrow> (unit, unit) kobject" where
  "sample_stored name =
     \<lparr>obj_Group = ''rabbitmq.com'', obj_Kind = ''Queue'',
      obj_Meta = \<lparr>om_Name = name, om_Namespace = ''ns'', om_Generation = 1, om_DeletionTimestamp = None,
        om_Finalizers = [], om_Labels = Map.empty, om_Annotations = Map.empty, om_OwnerReferences = []\<rparr>,
      obj_Spec = (), obj_Status = ()\<rparr>"

end
