(* ===== verification/Go_Heap.thy ===== *)
theory Go_Heap
  imports Main "HOL-Library.State_Monad"
begin

text \<open>
  The memory of a Go program, as far as the generated deep copies need it: cells at addresses,
  allocation, slices, and what it means for a copy to be deep.

  \<^item> A pointer is an optional address, nil is \<open>None\<close>. A slice is nil or an array with an offset
    and a length. The type \<open>'c\<close> of the contents of a cell is a parameter.
  \<^item> Programs on the memory are in the state monad of the library.
  \<^item> The locale \<open>deep_copier\<close> is the contract of a \<open>DeepCopyInto\<close>: the copy reads like the
    original and consists of cells that did not exist before. What callers rely on, that no write
    through one of the two shows in the other, is proved in it.
  \<^item> One lemma per form of statement that the generator emits gives the contract for compound data.
\<close>

section \<open>Memory\<close>

type_synonym addr = nat
type_synonym slice = "(addr \<times> nat \<times> nat) option"

record 'c heap =
  hp_next :: addr
  hp_cells :: "addr \<Rightarrow> 'c"

type_synonym ('c, 'a) mem = "('c heap, 'a) state"

definition load :: "addr \<Rightarrow> ('c, 'c) mem" where
  "load a = State (\<lambda>h. (hp_cells h a, h))"

definition store :: "addr \<Rightarrow> 'c \<Rightarrow> ('c, unit) mem" where
  "store a v = State (\<lambda>h. ((), h\<lparr>hp_cells := (hp_cells h)(a := v)\<rparr>))"

definition alloc :: "'c \<Rightarrow> ('c, addr) mem" where
  "alloc v = State (\<lambda>h. (hp_next h, h\<lparr>hp_next := Suc (hp_next h), hp_cells := (hp_cells h)(hp_next h := v)\<rparr>))"

lemma run_mem [simp]:
  "run_state (load a) h = (hp_cells h a, h)"
  "run_state (store a v) h = ((), h\<lparr>hp_cells := (hp_cells h)(a := v)\<rparr>)"
  "run_state (alloc v) h = (hp_next h, h\<lparr>hp_next := Suc (hp_next h), hp_cells := (hp_cells h)(hp_next h := v)\<rparr>)"
  by (simp_all add: load_def store_def alloc_def)


section \<open>The statements of the generated code\<close>

text \<open>
  \<open>if p != nil { q = new(T); p.DeepCopyInto(q) }\<close>. The first statement of every \<open>DeepCopyInto\<close>
  is the assignment of the struct, so the new cell starts with the contents of the old one. With
  \<open>return\<close> for the copy it is the form for a struct without pointers, where the assignment is all.
\<close>

definition new_DeepCopyInto ::
  "('c \<Rightarrow> 'v) \<Rightarrow> ('v \<Rightarrow> 'c) \<Rightarrow> ('v \<Rightarrow> ('c, 'v) mem) \<Rightarrow>
   addr option \<Rightarrow> ('c, addr option) mem" where
  "new_DeepCopyInto sel con copy p =
     (case p of
        None \<Rightarrow> State_Monad.return None
      | Some a \<Rightarrow> do {
          v \<leftarrow> load a;
          b \<leftarrow> alloc v;
          v' \<leftarrow> copy (sel v);
          store b (con v');
          State_Monad.return (Some b)
        })"

text \<open>
  \<open>if s != nil { t = make([]T, len(s)); for i := range s { s[i].DeepCopyInto(&t[i]) } }\<close>. Nothing
  reads the new array before the loop is done, so its contents are written once. With \<open>return\<close>
  it is \<open>copy(t, s)\<close>.
\<close>

definition slice_elems :: "('c \<Rightarrow> 'v list) \<Rightarrow> 'c heap \<Rightarrow> slice \<Rightarrow> 'v list" where
  "slice_elems sel h s = (case s of None \<Rightarrow> [] | Some (a, off, len) \<Rightarrow> take len (drop off (sel (hp_cells h a))))"

definition make_DeepCopyInto ::
  "('c \<Rightarrow> 'v list) \<Rightarrow> ('v list \<Rightarrow> 'c) \<Rightarrow> ('v \<Rightarrow> ('c, 'v) mem) \<Rightarrow>
   slice \<Rightarrow> ('c, slice) mem" where
  "make_DeepCopyInto sel con copy s =
     (case s of
        None \<Rightarrow> State_Monad.return None
      | Some (a, off, len) \<Rightarrow> do {
          v \<leftarrow> load a;
          b \<leftarrow> alloc (con []);
          xs \<leftarrow> State_Monad.traverse_list copy (take len (drop off (sel v)));
          store b (con xs);
          State_Monad.return (Some (b, 0, length xs))
        })"


section \<open>Deep copies\<close>

definition allocated :: "'c heap \<Rightarrow> addr set" where
  "allocated h = {..<hp_next h}"

definition agree :: "'c heap \<Rightarrow> 'c heap \<Rightarrow> addr set \<Rightarrow> bool" where
  "agree h h' A \<longleftrightarrow> (\<forall>a \<in> A. hp_cells h' a = hp_cells h a)"

definition extends :: "'c heap \<Rightarrow> 'c heap \<Rightarrow> bool" where
  "extends h h' \<longleftrightarrow> hp_next h \<le> hp_next h' \<and> agree h h' (allocated h)"

lemma agree_mono: "agree h h' B \<Longrightarrow> A \<subseteq> B \<Longrightarrow> agree h h' A"
  by (auto simp: agree_def)

lemma agree_trans: "agree h h' A \<Longrightarrow> agree h' h'' A \<Longrightarrow> agree h h'' A"
  by (simp add: agree_def)

lemma extends_refl [simp]: "extends h h"
  by (simp add: extends_def agree_def)

lemma extends_trans: "extends h h' \<Longrightarrow> extends h' h'' \<Longrightarrow> extends h h''"
  by (auto simp: extends_def agree_def allocated_def)

lemma extends_allocated: "extends h h' \<Longrightarrow> allocated h \<subseteq> allocated h'"
  by (auto simp: extends_def allocated_def)

lemma extends_agree: "extends h h' \<Longrightarrow> A \<subseteq> allocated h \<Longrightarrow> agree h h' A"
  unfolding extends_def by (blast intro: agree_mono)

text \<open>
  The contract: \<open>view\<close> is the value that a struct in memory stands for, \<open>foot\<close> the cells that it
  reaches, and both depend on those cells only.
\<close>

text \<open>
  What callers rely on: the copy reads like the original, and neither a write to the cells of the
  copy shows in the original nor a write to the cells of the original in the copy.
\<close>

definition independent_copy ::
  "('c heap \<Rightarrow> 'v \<Rightarrow> 'w) \<Rightarrow> ('c heap \<Rightarrow> 'v \<Rightarrow> addr set) \<Rightarrow> ('v \<Rightarrow> ('c, 'v) mem) \<Rightarrow> bool" where
  "independent_copy view foot copy \<longleftrightarrow>
     (\<forall>h v v' h'. foot h v \<subseteq> allocated h \<and> run_state (copy v) h = (v', h') \<longrightarrow>
        view h' v' = view h v \<and>
        (\<forall>h2. agree h' h2 (- foot h' v') \<longrightarrow> view h2 v = view h v) \<and>
        (\<forall>h2. agree h' h2 (- foot h v) \<longrightarrow> view h2 v' = view h v))"

locale deep_copier =
  fixes view :: "'c heap \<Rightarrow> 'v \<Rightarrow> 'w"
    and foot :: "'c heap \<Rightarrow> 'v \<Rightarrow> addr set"
    and copy :: "'v \<Rightarrow> ('c, 'v) mem"
  assumes view_stable: "agree h h' (foot h v) \<Longrightarrow> view h' v = view h v"
    and foot_stable: "agree h h' (foot h v) \<Longrightarrow> foot h' v = foot h v"
    and copy_extends: "foot h v \<subseteq> allocated h \<Longrightarrow> run_state (copy v) h = (v', h') \<Longrightarrow> extends h h'"
    and copy_view: "foot h v \<subseteq> allocated h \<Longrightarrow> run_state (copy v) h = (v', h') \<Longrightarrow> view h' v' = view h v"
    and copy_fresh: "foot h v \<subseteq> allocated h \<Longrightarrow> run_state (copy v) h = (v', h') \<Longrightarrow>
      foot h' v' \<subseteq> allocated h' - allocated h"
begin

lemma stable_extends:
  assumes "foot h v \<subseteq> allocated h" and "extends h h'"
  shows "view h' v = view h v" "foot h' v = foot h v"
  using extends_agree [OF assms(2,1)] view_stable foot_stable by auto

lemma original_kept:
  assumes "foot h v \<subseteq> allocated h" and "run_state (copy v) h = (v', h')" and "agree h' h2 (- foot h' v')"
  shows "view h2 v = view h v"
proof -
  have "agree h h' (foot h v)" using copy_extends [OF assms(1,2)] assms(1) by (rule extends_agree)
  moreover have "foot h v \<inter> foot h' v' = {}" using assms(1) copy_fresh [OF assms(1,2)] by blast
  ultimately have "agree h h2 (foot h v)"
    by (auto intro!: agree_trans [of h h'] agree_mono [OF assms(3)])
  then show ?thesis by (rule view_stable)
qed

lemma copy_kept:
  assumes "foot h v \<subseteq> allocated h" and "run_state (copy v) h = (v', h')" and "agree h' h2 (- foot h v)"
  shows "view h2 v' = view h v"
proof -
  have "foot h' v' \<inter> foot h v = {}" using assms(1) copy_fresh [OF assms(1,2)] by blast
  then have "agree h' h2 (foot h' v')" by (auto intro: agree_mono [OF assms(3)])
  then show ?thesis using view_stable copy_view [OF assms(1,2)] by metis
qed

theorem independent: "independent_copy view foot copy"
  unfolding independent_copy_def using copy_view original_kept copy_kept by blast

end


section \<open>Copies of compound data\<close>

text \<open>A value without pointers: the assignment is the copy.\<close>

lemma deep_copier_value: "deep_copier (\<lambda>h v. v) (\<lambda>h v. {}) State_Monad.return"
  by unfold_locales simp_all

text \<open>Two parts of a struct, one after the other.\<close>

definition pair_copy ::
  "('a \<Rightarrow> ('c, 'a) mem) \<Rightarrow> ('b \<Rightarrow> ('c, 'b) mem) \<Rightarrow> 'a \<times> 'b \<Rightarrow> ('c, 'a \<times> 'b) mem" where
  "pair_copy c1 c2 p = do { a \<leftarrow> c1 (fst p); b \<leftarrow> c2 (snd p); State_Monad.return (a, b) }"

lemma deep_copier_pair:
  assumes d1: "deep_copier V1 F1 C1" and d2: "deep_copier V2 F2 C2"
  shows "deep_copier (\<lambda>h p. (V1 h (fst p), V2 h (snd p))) (\<lambda>h p. F1 h (fst p) \<union> F2 h (snd p)) (pair_copy C1 C2)"
proof unfold_locales
  fix h h' p assume "agree h h' (F1 h (fst p) \<union> F2 h (snd p))"
  then have "agree h h' (F1 h (fst p))" "agree h h' (F2 h (snd p))" by (auto simp: agree_def)
  then show "(V1 h' (fst p), V2 h' (snd p)) = (V1 h (fst p), V2 h (snd p))"
      "F1 h' (fst p) \<union> F2 h' (snd p) = F1 h (fst p) \<union> F2 h (snd p)"
    using deep_copier.view_stable [OF d1] deep_copier.view_stable [OF d2]
      deep_copier.foot_stable [OF d1] deep_copier.foot_stable [OF d2] by simp_all
next
  fix h p p' h' assume foot: "F1 h (fst p) \<union> F2 h (snd p) \<subseteq> allocated h" and run: "run_state (pair_copy C1 C2 p) h = (p', h')"
  obtain a' h1 where 1: "run_state (C1 (fst p)) h = (a', h1)" by fastforce
  obtain b' where 2: "run_state (C2 (snd p)) h1 = (b', h')" and p': "p' = (a', b')"
    using run 1 by (auto simp: pair_copy_def split: prod.splits)
  have f: "F1 h (fst p) \<subseteq> allocated h" "F2 h (snd p) \<subseteq> allocated h" using foot by auto
  note c1 = deep_copier.copy_extends [OF d1 f(1) 1] deep_copier.copy_view [OF d1 f(1) 1] deep_copier.copy_fresh [OF d1 f(1) 1]
  note s2 = deep_copier.stable_extends [OF d2 f(2) c1(1)]
  have f2: "F2 h1 (snd p) \<subseteq> allocated h1" using f(2) s2(2) extends_allocated [OF c1(1)] by simp
  note c2 = deep_copier.copy_extends [OF d2 f2 2] deep_copier.copy_view [OF d2 f2 2] deep_copier.copy_fresh [OF d2 f2 2]
  have "F1 h1 a' \<subseteq> allocated h1" using c1(3) by blast
  note s1 = deep_copier.stable_extends [OF d1 this c2(1)]
  show "extends h h'" using c1(1) c2(1) by (rule extends_trans)
  show "(V1 h' (fst p'), V2 h' (snd p')) = (V1 h (fst p), V2 h (snd p))" using c1(2) s1(1) c2(2) s2(1) by (simp add: p')
  show "F1 h' (fst p') \<union> F2 h' (snd p') \<subseteq> allocated h' - allocated h"
    using c1(3) s1(2) c2(3) extends_allocated [OF c1(1)] extends_allocated [OF c2(1)] by (auto simp: p')
qed

text \<open>The elements of an array.\<close>

lemma deep_copier_list:
  assumes d: "deep_copier V F C"
  shows "deep_copier (\<lambda>h. map (V h)) (\<lambda>h xs. \<Union>x \<in> set xs. F h x) (State_Monad.traverse_list C)"
proof -
  let ?V = "\<lambda>h. map (V h)" and ?F = "\<lambda>h xs. \<Union>x \<in> set xs. F h x"
  have ag: "agree h h' (F h x)" if "agree h h' (?F h xs)" "x \<in> set xs" for h h' xs x
    using that(2) by (intro agree_mono [OF that(1)]) blast
  have copied: "extends h h' \<and> ?V h' xs' = ?V h xs \<and> ?F h' xs' \<subseteq> allocated h' - allocated h"
    if "?F h xs \<subseteq> allocated h" "run_state (State_Monad.traverse_list C xs) h = (xs', h')" for h xs xs' h'
    using that
  proof (induction xs arbitrary: h xs')
    case (Cons x xs)
    obtain x' h1 where 1: "run_state (C x) h = (x', h1)" by fastforce
    obtain ys where 2: "run_state (State_Monad.traverse_list C xs) h1 = (ys, h')" and xs': "xs' = x' # ys"
      using Cons.prems(2) 1 by (auto split: prod.splits)
    have f: "F h x \<subseteq> allocated h" "\<And>y. y \<in> set xs \<Longrightarrow> F h y \<subseteq> allocated h" using Cons.prems(1) by auto
    note c = deep_copier.copy_extends [OF d f(1) 1] deep_copier.copy_view [OF d f(1) 1] deep_copier.copy_fresh [OF d f(1) 1]
    have s: "V h1 y = V h y" "F h1 y = F h y" if "y \<in> set xs" for y
      using deep_copier.stable_extends [OF d f(2) c(1)] that by auto
    have "?F h1 xs \<subseteq> allocated h1" using f(2) s(2) extends_allocated [OF c(1)] by fastforce
    from Cons.IH [OF this 2] have ih: "extends h1 h'" "map (V h') ys = map (V h1) xs" "?F h' ys \<subseteq> allocated h' - allocated h1"
      by auto
    have "F h1 x' \<subseteq> allocated h1" using c(3) by blast
    note s1 = deep_copier.stable_extends [OF d this ih(1)]
    have "V h' x' = V h x" "F h' x' \<subseteq> allocated h' - allocated h"
      using c(2,3) s1 extends_allocated [OF ih(1)] by auto
    moreover have "map (V h') ys = map (V h) xs" using ih(2) s(1) by simp
    moreover have "?F h' ys \<subseteq> allocated h' - allocated h" using ih(3) extends_allocated [OF c(1)] by blast
    ultimately show ?case using extends_trans [OF c(1) ih(1)] by (simp add: xs')
  qed simp
  show ?thesis
  proof unfold_locales
    fix h h' xs assume "agree h h' (?F h xs)"
    then have "V h' x = V h x" "F h' x = F h x" if "x \<in> set xs" for x
      using ag [OF _ that] deep_copier.view_stable [OF d] deep_copier.foot_stable [OF d] by blast+
    then show "?V h' xs = ?V h xs" "?F h' xs = ?F h xs" by auto
  next
    fix h xs xs' h' assume "?F h xs \<subseteq> allocated h" and "run_state (State_Monad.traverse_list C xs) h = (xs', h')"
    from copied [OF this] show "extends h h'" "?V h' xs' = ?V h xs" "?F h' xs' \<subseteq> allocated h' - allocated h" by auto
  qed
qed

text \<open>A pointer, and the struct it points to.\<close>

definition ptr_view :: "('c \<Rightarrow> 'v) \<Rightarrow> ('c heap \<Rightarrow> 'v \<Rightarrow> 'w) \<Rightarrow> 'c heap \<Rightarrow> addr option \<Rightarrow> 'w option" where
  "ptr_view sel V h p = map_option (\<lambda>a. V h (sel (hp_cells h a))) p"

definition ptr_foot :: "('c \<Rightarrow> 'v) \<Rightarrow> ('c heap \<Rightarrow> 'v \<Rightarrow> addr set) \<Rightarrow> 'c heap \<Rightarrow> addr option \<Rightarrow> addr set" where
  "ptr_foot sel F h p = (case p of None \<Rightarrow> {} | Some a \<Rightarrow> insert a (F h (sel (hp_cells h a))))"

text \<open>
  A copy into a cell that was allocated first: \<open>b\<close> is the new cell, filled with \<open>c\<close> when the copy
  of the contents is done.
\<close>

lemma copy_into_cell:
  assumes d: "deep_copier V F C" and f: "F h v \<subseteq> allocated h"
    and h1: "h1 = h\<lparr>hp_next := Suc (hp_next h), hp_cells := (hp_cells h)(hp_next h := w)\<rparr>"
    and run: "run_state (C v) h1 = (v', h2)"
    and h3: "h3 = h2\<lparr>hp_cells := (hp_cells h2)(hp_next h := c)\<rparr>"
  shows "extends h h3" "V h3 v' = V h v" "F h3 v' \<subseteq> allocated h3 - allocated h" "hp_next h \<in> allocated h3 - allocated h"
    "hp_cells h3 (hp_next h) = c"
proof -
  have e: "extends h h1" by (auto simp: h1 extends_def agree_def allocated_def)
  note s = deep_copier.stable_extends [OF d f e]
  have f1: "F h1 v \<subseteq> allocated h1" using f s(2) extends_allocated [OF e] by simp
  note k = deep_copier.copy_extends [OF d f1 run] deep_copier.copy_view [OF d f1 run] deep_copier.copy_fresh [OF d f1 run]
  have b: "hp_next h \<in> allocated h1" by (simp add: h1 allocated_def)
  then have "agree h2 h3 (F h2 v')" using k(3) by (auto simp: agree_def h3)
  note s3 = deep_copier.view_stable [OF d this] deep_copier.foot_stable [OF d this]
  show "extends h h3"
    using e k(1) by (auto simp: extends_def agree_def allocated_def h1 h3)
  show "V h3 v' = V h v" using s3(1) k(2) s(1) by simp
  show "F h3 v' \<subseteq> allocated h3 - allocated h"
    using s3(2) k(3) extends_allocated [OF e] by (auto simp: h3 allocated_def)
  show "hp_next h \<in> allocated h3 - allocated h"
    using b extends_allocated [OF k(1)] by (auto simp: h3 allocated_def)
  show "hp_cells h3 (hp_next h) = c" by (simp add: h3)
qed

lemma deep_copier_ptr:
  assumes d: "deep_copier V F C" and sel: "\<And>v. sel (con v) = v"
  shows "deep_copier (ptr_view sel V) (ptr_foot sel F) (new_DeepCopyInto sel con C)"
proof unfold_locales
  fix h h' p assume ag: "agree h h' (ptr_foot sel F h p)"
  have "hp_cells h' a = hp_cells h a" "V h' (sel (hp_cells h a)) = V h (sel (hp_cells h a))"
      "F h' (sel (hp_cells h a)) = F h (sel (hp_cells h a))" if "p = Some a" for a
  proof -
    have "agree h h' (F h (sel (hp_cells h a)))" using ag that by (auto simp: ptr_foot_def agree_def)
    then show "V h' (sel (hp_cells h a)) = V h (sel (hp_cells h a))" "F h' (sel (hp_cells h a)) = F h (sel (hp_cells h a))"
      using deep_copier.view_stable [OF d] deep_copier.foot_stable [OF d] by auto
    show "hp_cells h' a = hp_cells h a" using ag that by (simp add: ptr_foot_def agree_def)
  qed
  then show "ptr_view sel V h' p = ptr_view sel V h p" "ptr_foot sel F h' p = ptr_foot sel F h p"
    by (cases p; simp add: ptr_view_def ptr_foot_def)+
next
  fix h p p' h' assume foot: "ptr_foot sel F h p \<subseteq> allocated h" and run: "run_state (new_DeepCopyInto sel con C p) h = (p', h')"
  have "extends h h' \<and> ptr_view sel V h' p' = ptr_view sel V h p \<and> ptr_foot sel F h' p' \<subseteq> allocated h' - allocated h"
  proof (cases p)
    case None
    then show ?thesis using run by (simp add: new_DeepCopyInto_def ptr_view_def ptr_foot_def)
  next
    case (Some a)
    let ?v = "sel (hp_cells h a)"
      and ?h1 = "h\<lparr>hp_next := Suc (hp_next h), hp_cells := (hp_cells h)(hp_next h := hp_cells h a)\<rparr>"
    obtain v' h2 where c: "run_state (C ?v) ?h1 = (v', h2)" by fastforce
    have f: "F h ?v \<subseteq> allocated h" using foot Some by (simp add: ptr_foot_def)
    have "p' = Some (hp_next h)" "h' = h2\<lparr>hp_cells := (hp_cells h2)(hp_next h := con v')\<rparr>"
      using run c Some by (simp_all add: new_DeepCopyInto_def)
    with copy_into_cell [OF d f refl c this(2)] show ?thesis using Some sel by (auto simp: ptr_view_def ptr_foot_def)
  qed
  then show "extends h h'" "ptr_view sel V h' p' = ptr_view sel V h p" "ptr_foot sel F h' p' \<subseteq> allocated h' - allocated h"
    by blast+
qed

text \<open>A slice, and the elements of its array that it covers.\<close>

definition slice_view ::
  "('c \<Rightarrow> 'v list) \<Rightarrow> ('c heap \<Rightarrow> 'v \<Rightarrow> 'w) \<Rightarrow> 'c heap \<Rightarrow> slice \<Rightarrow> 'w list" where
  "slice_view sel V h s = map (V h) (slice_elems sel h s)"

definition slice_foot ::
  "('c \<Rightarrow> 'v list) \<Rightarrow> ('c heap \<Rightarrow> 'v \<Rightarrow> addr set) \<Rightarrow> 'c heap \<Rightarrow> slice \<Rightarrow> addr set" where
  "slice_foot sel F h s =
     (case s of None \<Rightarrow> {} | Some (a, off, len) \<Rightarrow> insert a (\<Union>x \<in> set (slice_elems sel h s). F h x))"

lemma deep_copier_slice:
  assumes d: "deep_copier V F C" and sel: "\<And>v. sel (con v) = v"
  shows "deep_copier (slice_view sel V) (slice_foot sel F) (make_DeepCopyInto sel con C)"
proof unfold_locales
  note l = deep_copier_list [OF d]
  fix h h' s assume ag: "agree h h' (slice_foot sel F h s)"
  have "slice_elems sel h' s = slice_elems sel h s"
    using ag by (auto simp: slice_elems_def slice_foot_def agree_def split: option.split)
  moreover have "agree h h' (\<Union>x \<in> set (slice_elems sel h s). F h x)"
    using ag by (auto simp: slice_foot_def slice_elems_def agree_def split: option.splits)
  note deep_copier.view_stable [OF l this] deep_copier.foot_stable [OF l this]
  ultimately show "slice_view sel V h' s = slice_view sel V h s" "slice_foot sel F h' s = slice_foot sel F h s"
    by (auto simp: slice_view_def slice_foot_def split: option.split)
next
  note l = deep_copier_list [OF d]
  fix h s s' h' assume foot: "slice_foot sel F h s \<subseteq> allocated h" and run: "run_state (make_DeepCopyInto sel con C s) h = (s', h')"
  have "extends h h' \<and> slice_view sel V h' s' = slice_view sel V h s \<and> slice_foot sel F h' s' \<subseteq> allocated h' - allocated h"
  proof (cases s)
    case None
    then show ?thesis using run by (simp add: make_DeepCopyInto_def slice_view_def slice_foot_def slice_elems_def)
  next
    case (Some t)
    obtain a off len where t: "t = (a, off, len)" by (cases t)
    let ?xs = "take len (drop off (sel (hp_cells h a)))"
      and ?h1 = "h\<lparr>hp_next := Suc (hp_next h), hp_cells := (hp_cells h)(hp_next h := con [])\<rparr>"
    obtain xs h2 where c: "run_state (State_Monad.traverse_list C ?xs) ?h1 = (xs, h2)" by fastforce
    have f: "(\<Union>x \<in> set ?xs. F h x) \<subseteq> allocated h" using foot Some t by (simp add: slice_foot_def slice_elems_def)
    have "s' = Some (hp_next h, 0, length xs)" "h' = h2\<lparr>hp_cells := (hp_cells h2)(hp_next h := con xs)\<rparr>"
      using run c Some t by (simp_all add: make_DeepCopyInto_def)
    with copy_into_cell [OF l f refl c this(2)] show ?thesis
      using Some t sel by (auto simp: slice_view_def slice_foot_def slice_elems_def)
  qed
  then show "extends h h'" "slice_view sel V h' s' = slice_view sel V h s" "slice_foot sel F h' s' \<subseteq> allocated h' - allocated h"
    by blast+
qed

text \<open>
  A struct: \<open>parts\<close> are the fields that the function copies, \<open>put\<close> writes them back over the
  assigned struct, and the rest of the struct has no pointers.
\<close>

lemma deep_copier_struct:
  assumes d: "deep_copier V F C"
    and parts: "\<And>x t. parts (put x t) = x" "\<And>t. put (parts t) t = t"
    and view: "\<And>h h' t x. V h' x = V h (parts t) \<Longrightarrow> W h' (put x t) = W h t"
    and run: "\<And>h t. run_state (copy t) h = (case run_state (C (parts t)) h of (x, h') \<Rightarrow> (put x t, h'))"
    and foot: "\<And>h t. G h t = F h (parts t)"
  shows "deep_copier W G copy"
  unfolding foot [abs_def]
proof unfold_locales
  fix h h' t assume "agree h h' (F h (parts t))"
  from deep_copier.view_stable [OF d this] deep_copier.foot_stable [OF d this]
  show "W h' t = W h t" "F h' (parts t) = F h (parts t)" using view [of h' "parts t" h t] parts(2) by auto
next
  fix h t t' h' assume f: "F h (parts t) \<subseteq> allocated h" and "run_state (copy t) h = (t', h')"
  then obtain x where x: "run_state (C (parts t)) h = (x, h')" "t' = put x t" by (auto simp: run split: prod.splits)
  note deep_copier.copy_extends [OF d f x(1)] deep_copier.copy_view [OF d f x(1)] deep_copier.copy_fresh [OF d f x(1)]
  then show "extends h h'" "W h' t' = W h t" "F h' (parts t') \<subseteq> allocated h' - allocated h"
    using view parts(1) by (auto simp: x(2))
qed

end
