(* ===== verification/Deep_Copy.thy ===== *)
theory Deep_Copy
  imports Api_Types Go_Heap
begin

text \<open>
  The generated deep copies (\<open>api/v1beta1/zz_generated.deepcopy.go\<close>,
  \<open>api/v1alpha1/zz_generated.deepcopy.go\<close>) over the memory of \<open>Go_Heap\<close>: for every type
  \<open>DeepCopyInto\<close>, \<open>DeepCopy\<close> and, for the objects and their lists, \<open>DeepCopyObject\<close>.

  A record with the prefix \<open>m\<close> is a struct as it lies in memory, with addresses for its pointers and
  slices; its function \<open>_view\<close> gives the value of \<open>Api_Types\<close> that it stands for and \<open>_foot\<close> the
  cells it reaches. \<open>DeepCopyInto\<close> takes the contents of \<open>*in\<close> and returns the contents of
  \<open>*out\<close>; the statements are in the order of the source.

  The structs of apimachinery (\<open>ObjectMeta\<close>, \<open>ListMeta\<close>, \<open>RawExtension\<close>, \<open>Time\<close>) and their copies
  are not code of the repository: their values have the type \<open>'x\<close>, and the record \<open>lib\<close> holds what
  the sources use of them.
\<close>

section \<open>Structs in memory\<close>

record 'x mCondition =
  mcond_Type :: ConditionType
  mcond_Status :: string
  mcond_LastTransitionTime :: 'x
  mcond_Reason :: string
  mcond_Message :: string

record mstatus =
  mst_ObservedGeneration :: int
  mst_Conditions :: slice

record mRabbitmqClusterReference =
  mref_Name :: string
  mref_Namespace :: string
  mref_ConnectionSecret :: "addr option"

record mSecretBackend =
  msb_Vault :: "addr option"

record mVhostLimits =
  mvl_Connections :: "addr option"
  mvl_Queues :: "addr option"

record mUserLimits =
  mul_Connections :: "addr option"
  mul_Channels :: "addr option"

record mBindingSpec =
  mb_Vhost :: string
  mb_Source :: string
  mb_Destination :: string
  mb_DestinationType :: string
  mb_RoutingKey :: string
  mb_Arguments :: "addr option"
  mb_RabbitmqClusterReference :: mRabbitmqClusterReference

record mExchangeSpec =
  mex_Name :: string
  mex_Vhost :: string
  mex_Type :: string
  mex_Durable :: bool
  mex_AutoDelete :: bool
  mex_Arguments :: "addr option"
  mex_RabbitmqClusterReference :: mRabbitmqClusterReference

record mQueueSpec =
  mq_Name :: string
  mq_Vhost :: string
  mq_Type :: string
  mq_Durable :: "addr option"
  mq_AutoDelete :: bool
  mq_DeleteIfEmpty :: bool
  mq_DeleteIfUnused :: bool
  mq_Arguments :: "addr option"
  mq_RabbitmqClusterReference :: mRabbitmqClusterReference
  mq_DeletionPolicy :: string

record mVhostSpec =
  mvh_Name :: string
  mvh_Tracing :: bool
  mvh_Tags :: slice
  mvh_DefaultQueueType :: string
  mvh_RabbitmqClusterReference :: mRabbitmqClusterReference
  mvh_DeletionPolicy :: string
  mvh_VhostLimits :: "addr option"

record mUserSpec =
  mu_Tags :: slice
  mu_RabbitmqClusterReference :: mRabbitmqClusterReference
  mu_ImportCredentialsSecret :: "addr option"
  mu_UsernameFromMeta :: bool
  mu_UserLimits :: "addr option"

record mPermissionSpec =
  mp_User :: string
  mp_UserReference :: "addr option"
  mp_Vhost :: string
  mp_Permissions :: VhostPermissions
  mp_RabbitmqClusterReference :: mRabbitmqClusterReference

record mTopicPermissionSpec =
  mtp_User :: string
  mtp_UserReference :: "addr option"
  mtp_Vhost :: string
  mtp_Permissions :: TopicPermissionConfig
  mtp_RabbitmqClusterReference :: mRabbitmqClusterReference

record mPolicySpec =
  mpol_Name :: string
  mpol_Vhost :: string
  mpol_Pattern :: string
  mpol_ApplyTo :: string
  mpol_Priority :: int
  mpol_Definition :: "addr option"
  mpol_RabbitmqClusterReference :: mRabbitmqClusterReference

record mOperatorPolicySpec =
  mop_Name :: string
  mop_Vhost :: string
  mop_Pattern :: string
  mop_ApplyTo :: string
  mop_Priority :: int
  mop_Definition :: "addr option"
  mop_RabbitmqClusterReference :: mRabbitmqClusterReference

record mFederationSpec =
  mf_Name :: string
  mf_Vhost :: string
  mf_RabbitmqClusterReference :: mRabbitmqClusterReference
  mf_UriSecret :: "addr option"
  mf_PrefetchCount :: int
  mf_AckMode :: string
  mf_Expires :: int
  mf_MessageTTL :: int
  mf_MaxHops :: int
  mf_ReconnectDelay :: "addr option"
  mf_TrustUserId :: bool
  mf_Exchange :: string
  mf_Queue :: string
  mf_DeletionPolicy :: string
  mf_QueueType :: string
  mf_ResourceCleanupMode :: string

record mShovelSpec =
  ms_Name :: string
  ms_Vhost :: string
  ms_RabbitmqClusterReference :: mRabbitmqClusterReference
  ms_UriSecret :: "addr option"
  ms_AckMode :: string
  ms_PrefetchCount :: int
  ms_ReconnectDelay :: int
  ms_AddForwardHeaders :: bool
  ms_DeleteAfter :: string
  ms_SourceDeleteAfter :: string
  ms_SourcePrefetchCount :: int
  ms_DestinationAddForwardHeaders :: bool
  ms_DestinationAddTimestampHeader :: bool
  ms_SourceQueueArgs :: "addr option"
  ms_DestinationQueueArgs :: "addr option"
  ms_DestinationProtocol :: string
  ms_DestinationQueue :: string
  ms_DestinationExchange :: string
  ms_DestinationExchangeKey :: string
  ms_DestinationPublishProperties :: "addr option"
  ms_DestinationAddress :: string
  ms_DestinationApplicationProperties :: "addr option"
  ms_DestinationProperties :: "addr option"
  ms_DestinationMessageAnnotations :: "addr option"
  ms_SourceProtocol :: string
  ms_SourceQueue :: string
  ms_SourceExchange :: string
  ms_SourceExchangeKey :: string
  ms_SourceConsumerArgs :: "addr option"
  ms_SourceAddress :: string
  ms_DeletionPolicy :: string

record mSchemaReplicationSpec =
  msr_RabbitmqClusterReference :: mRabbitmqClusterReference
  msr_UpstreamSecret :: "addr option"
  msr_Endpoints :: string
  msr_SecretBackend :: mSecretBackend

record mSuperStreamSpec =
  mss_Name :: string
  mss_Vhost :: string
  mss_Partitions :: int
  mss_RoutingKeys :: slice
  mss_RabbitmqClusterReference :: mRabbitmqClusterReference

record mUserStatus =
  mus_ObservedGeneration :: int
  mus_Conditions :: slice
  mus_Credentials :: "addr option"
  mus_Username :: string

record mSuperStreamStatus =
  msss_ObservedGeneration :: int
  msss_Conditions :: slice
  msss_Partitions :: slice

record ('x, 'sp, 'st) mobject =
  mo_Group :: string
  mo_Kind :: string
  mo_Meta :: 'x
  mo_Spec :: 'sp
  mo_Status :: 'st

record 'x mlist =
  ml_Group :: string
  ml_Kind :: string
  ml_Meta :: 'x
  ml_Items :: slice

type_synonym 'x mBinding = "('x, mBindingSpec, mstatus) mobject"
type_synonym 'x mExchange = "('x, mExchangeSpec, mstatus) mobject"
type_synonym 'x mQueue = "('x, mQueueSpec, mstatus) mobject"
type_synonym 'x mVhost = "('x, mVhostSpec, mstatus) mobject"
type_synonym 'x mUser = "('x, mUserSpec, mUserStatus) mobject"
type_synonym 'x mPermission = "('x, mPermissionSpec, mstatus) mobject"
type_synonym 'x mTopicPermission = "('x, mTopicPermissionSpec, mstatus) mobject"
type_synonym 'x mPolicy = "('x, mPolicySpec, mstatus) mobject"
type_synonym 'x mOperatorPolicy = "('x, mOperatorPolicySpec, mstatus) mobject"
type_synonym 'x mFederation = "('x, mFederationSpec, mstatus) mobject"
type_synonym 'x mShovel = "('x, mShovelSpec, mstatus) mobject"
type_synonym 'x mSchemaReplication = "('x, mSchemaReplicationSpec, mstatus) mobject"
type_synonym 'x mSuperStream = "('x, mSuperStreamSpec, mSuperStreamStatus) mobject"

text \<open>One constructor per kind, for the cells that hold objects and for those that hold specs.\<close>

datatype 'x mobj =
    MBinding (as_Binding: "'x mBinding")
  | MExchange (as_Exchange: "'x mExchange")
  | MQueue (as_Queue: "'x mQueue")
  | MVhost (as_Vhost: "'x mVhost")
  | MUser (as_User: "'x mUser")
  | MPermission (as_Permission: "'x mPermission")
  | MTopicPermission (as_TopicPermission: "'x mTopicPermission")
  | MPolicy (as_Policy: "'x mPolicy")
  | MOperatorPolicy (as_OperatorPolicy: "'x mOperatorPolicy")
  | MFederation (as_Federation: "'x mFederation")
  | MShovel (as_Shovel: "'x mShovel")
  | MSchemaReplication (as_SchemaReplication: "'x mSchemaReplication")
  | MSuperStream (as_SuperStream: "'x mSuperStream")

datatype mspec =
    SBinding (spec_Binding: mBindingSpec)
  | SExchange (spec_Exchange: mExchangeSpec)
  | SQueue (spec_Queue: mQueueSpec)
  | SVhost (spec_Vhost: mVhostSpec)
  | SUser (spec_User: mUserSpec)
  | SPermission (spec_Permission: mPermissionSpec)
  | STopicPermission (spec_TopicPermission: mTopicPermissionSpec)
  | SPolicy (spec_Policy: mPolicySpec)
  | SOperatorPolicy (spec_OperatorPolicy: mOperatorPolicySpec)
  | SFederation (spec_Federation: mFederationSpec)
  | SShovel (spec_Shovel: mShovelSpec)
  | SSchemaReplication (spec_SchemaReplication: mSchemaReplicationSpec)
  | SSuperStream (spec_SuperStream: mSuperStreamSpec)

datatype 'x cell =
    CFree
  | CInt (cInt: int)
  | CBool (cBool: bool)
  | CRef (cRef: LocalObjectReference)
  | CVault (cVault: VaultSpec)
  | CVhostLimits (cVhostLimits: mVhostLimits)
  | CUserLimits (cUserLimits: mUserLimits)
  | CRaw (cRaw: 'x)
  | CStrings (cStrings: "string list")
  | CConditions (cConditions: "'x mCondition list")
  | CObject (cObject: "'x mobj")
  | CObjects (cObjects: "'x mobj list")
  | CList (cList: "'x mlist")
  | CSpec (cSpec: mspec)
  | CStatus (cStatus: mstatus)
  | CUserStatus (cUserStatus: mUserStatus)
  | CSuperStreamStatus (cSuperStreamStatus: mSuperStreamStatus)
  | CCondition (cCondition: "'x mCondition")
  | CReference (cReference: mRabbitmqClusterReference)
  | CBackend (cBackend: mSecretBackend)
  | CPermissions (cPermissions: VhostPermissions)
  | CTopicPermissions (cTopicPermissions: TopicPermissionConfig)
  | CLib (cLib: 'x)

text \<open>
  What the sources use of apimachinery: the four copies. The views and the cells that these structs
  reach say what they stand for.
\<close>

record 'x lib =
  ObjectMeta_DeepCopyInto :: "'x \<Rightarrow> ('x cell, 'x) mem"
  ListMeta_DeepCopyInto :: "'x \<Rightarrow> ('x cell, 'x) mem"
  RawExtension_DeepCopyInto :: "'x \<Rightarrow> ('x cell, 'x) mem"
  Time_DeepCopyInto :: "'x \<Rightarrow> ('x cell, 'x) mem"
  ObjectMeta_view :: "'x cell heap \<Rightarrow> 'x \<Rightarrow> object_meta"
  ListMeta_view :: "'x cell heap \<Rightarrow> 'x \<Rightarrow> list_meta"
  RawExtension_view :: "'x cell heap \<Rightarrow> 'x \<Rightarrow> raw_extension"
  Time_view :: "'x cell heap \<Rightarrow> 'x \<Rightarrow> go_time"
  ObjectMeta_foot :: "'x cell heap \<Rightarrow> 'x \<Rightarrow> addr set"
  ListMeta_foot :: "'x cell heap \<Rightarrow> 'x \<Rightarrow> addr set"
  RawExtension_foot :: "'x cell heap \<Rightarrow> 'x \<Rightarrow> addr set"
  Time_foot :: "'x cell heap \<Rightarrow> 'x \<Rightarrow> addr set"


section \<open>Structs without pointers\<close>

definition VaultSpec_DeepCopyInto :: "VaultSpec \<Rightarrow> ('x cell, VaultSpec) mem" where
  "VaultSpec_DeepCopyInto inn = State_Monad.return inn"

definition VhostPermissions_DeepCopyInto :: "VhostPermissions \<Rightarrow> ('x cell, VhostPermissions) mem" where
  "VhostPermissions_DeepCopyInto inn = State_Monad.return inn"

definition TopicPermissionConfig_DeepCopyInto :: "TopicPermissionConfig \<Rightarrow> ('x cell, TopicPermissionConfig) mem" where
  "TopicPermissionConfig_DeepCopyInto inn = State_Monad.return inn"


section \<open>Parts of specs and statuses\<close>

definition RabbitmqClusterReference_view :: "'x cell heap \<Rightarrow> mRabbitmqClusterReference \<Rightarrow> RabbitmqClusterReference" where
  "RabbitmqClusterReference_view h s =
     \<lparr>ref_Name = mref_Name s,
      ref_Namespace = mref_Namespace s,
      ref_ConnectionSecret = ptr_view cRef (\<lambda>h v. v) h (mref_ConnectionSecret s)\<rparr>"

definition RabbitmqClusterReference_foot :: "'x cell heap \<Rightarrow> mRabbitmqClusterReference \<Rightarrow> addr set" where
  "RabbitmqClusterReference_foot h s =
     ptr_foot cRef (\<lambda>h v. {}) h (mref_ConnectionSecret s)"

definition RabbitmqClusterReference_DeepCopyInto :: "mRabbitmqClusterReference \<Rightarrow> ('x cell, mRabbitmqClusterReference) mem" where
  "RabbitmqClusterReference_DeepCopyInto inn = do {
     let out = inn;
     v \<leftarrow> new_DeepCopyInto cRef CRef State_Monad.return (mref_ConnectionSecret inn);
     let out = out\<lparr>mref_ConnectionSecret := v\<rparr>;
     State_Monad.return out
   }"

definition SecretBackend_view :: "'x cell heap \<Rightarrow> mSecretBackend \<Rightarrow> SecretBackend" where
  "SecretBackend_view h s =
     \<lparr>sb_Vault = ptr_view cVault (\<lambda>h v. v) h (msb_Vault s)\<rparr>"

definition SecretBackend_foot :: "'x cell heap \<Rightarrow> mSecretBackend \<Rightarrow> addr set" where
  "SecretBackend_foot h s =
     ptr_foot cVault (\<lambda>h v. {}) h (msb_Vault s)"

definition SecretBackend_DeepCopyInto :: "mSecretBackend \<Rightarrow> ('x cell, mSecretBackend) mem" where
  "SecretBackend_DeepCopyInto inn = do {
     let out = inn;
     v \<leftarrow> new_DeepCopyInto cVault CVault State_Monad.return (msb_Vault inn);
     let out = out\<lparr>msb_Vault := v\<rparr>;
     State_Monad.return out
   }"

definition VhostLimits_view :: "'x cell heap \<Rightarrow> mVhostLimits \<Rightarrow> VhostLimits" where
  "VhostLimits_view h s =
     \<lparr>vl_Connections = ptr_view cInt (\<lambda>h v. v) h (mvl_Connections s),
      vl_Queues = ptr_view cInt (\<lambda>h v. v) h (mvl_Queues s)\<rparr>"

definition VhostLimits_foot :: "'x cell heap \<Rightarrow> mVhostLimits \<Rightarrow> addr set" where
  "VhostLimits_foot h s =
     ptr_foot cInt (\<lambda>h v. {}) h (mvl_Connections s) \<union>
     (ptr_foot cInt (\<lambda>h v. {}) h (mvl_Queues s))"

definition VhostLimits_DeepCopyInto :: "mVhostLimits \<Rightarrow> ('x cell, mVhostLimits) mem" where
  "VhostLimits_DeepCopyInto inn = do {
     let out = inn;
     v \<leftarrow> new_DeepCopyInto cInt CInt State_Monad.return (mvl_Connections inn);
     let out = out\<lparr>mvl_Connections := v\<rparr>;
     v \<leftarrow> new_DeepCopyInto cInt CInt State_Monad.return (mvl_Queues inn);
     let out = out\<lparr>mvl_Queues := v\<rparr>;
     State_Monad.return out
   }"

definition UserLimits_view :: "'x cell heap \<Rightarrow> mUserLimits \<Rightarrow> UserLimits" where
  "UserLimits_view h s =
     \<lparr>ul_Connections = ptr_view cInt (\<lambda>h v. v) h (mul_Connections s),
      ul_Channels = ptr_view cInt (\<lambda>h v. v) h (mul_Channels s)\<rparr>"

definition UserLimits_foot :: "'x cell heap \<Rightarrow> mUserLimits \<Rightarrow> addr set" where
  "UserLimits_foot h s =
     ptr_foot cInt (\<lambda>h v. {}) h (mul_Connections s) \<union>
     (ptr_foot cInt (\<lambda>h v. {}) h (mul_Channels s))"

definition UserLimits_DeepCopyInto :: "mUserLimits \<Rightarrow> ('x cell, mUserLimits) mem" where
  "UserLimits_DeepCopyInto inn = do {
     let out = inn;
     v \<leftarrow> new_DeepCopyInto cInt CInt State_Monad.return (mul_Connections inn);
     let out = out\<lparr>mul_Connections := v\<rparr>;
     v \<leftarrow> new_DeepCopyInto cInt CInt State_Monad.return (mul_Channels inn);
     let out = out\<lparr>mul_Channels := v\<rparr>;
     State_Monad.return out
   }"

definition Condition_view :: "'x lib \<Rightarrow> 'x cell heap \<Rightarrow> 'x mCondition \<Rightarrow> Condition" where
  "Condition_view L h s =
     \<lparr>cond_Type = mcond_Type s,
      cond_Status = mcond_Status s,
      cond_LastTransitionTime = Time_view L h (mcond_LastTransitionTime s),
      cond_Reason = mcond_Reason s,
      cond_Message = mcond_Message s\<rparr>"

definition Condition_foot :: "'x lib \<Rightarrow> 'x cell heap \<Rightarrow> 'x mCondition \<Rightarrow> addr set" where
  "Condition_foot L h s = Time_foot L h (mcond_LastTransitionTime s)"

definition Condition_DeepCopyInto :: "'x lib \<Rightarrow> 'x mCondition \<Rightarrow> ('x cell, 'x mCondition) mem" where
  "Condition_DeepCopyInto L inn = do {
     let out = inn;
     v \<leftarrow> Time_DeepCopyInto L (mcond_LastTransitionTime inn);
     let out = out\<lparr>mcond_LastTransitionTime := v\<rparr>;
     State_Monad.return out
   }"


section \<open>Specs\<close>

definition BindingSpec_view :: "'x lib \<Rightarrow> 'x cell heap \<Rightarrow> mBindingSpec \<Rightarrow> BindingSpec" where
  "BindingSpec_view L h s =
     \<lparr>b_Vhost = mb_Vhost s,
      b_Source = mb_Source s,
      b_Destination = mb_Destination s,
      b_DestinationType = mb_DestinationType s,
      b_RoutingKey = mb_RoutingKey s,
      b_Arguments = ptr_view cRaw (RawExtension_view L) h (mb_Arguments s),
      b_RabbitmqClusterReference = RabbitmqClusterReference_view h (mb_RabbitmqClusterReference s)\<rparr>"

definition BindingSpec_foot :: "'x lib \<Rightarrow> 'x cell heap \<Rightarrow> mBindingSpec \<Rightarrow> addr set" where
  "BindingSpec_foot L h s =
     ptr_foot cRaw (RawExtension_foot L) h (mb_Arguments s) \<union>
     (RabbitmqClusterReference_foot h (mb_RabbitmqClusterReference s))"

definition BindingSpec_DeepCopyInto :: "'x lib \<Rightarrow> mBindingSpec \<Rightarrow> ('x cell, mBindingSpec) mem" where
  "BindingSpec_DeepCopyInto L inn = do {
     let out = inn;
     v \<leftarrow> new_DeepCopyInto cRaw CRaw (RawExtension_DeepCopyInto L) (mb_Arguments inn);
     let out = out\<lparr>mb_Arguments := v\<rparr>;
     v \<leftarrow> RabbitmqClusterReference_DeepCopyInto (mb_RabbitmqClusterReference inn);
     let out = out\<lparr>mb_RabbitmqClusterReference := v\<rparr>;
     State_Monad.return out
   }"

definition ExchangeSpec_view :: "'x lib \<Rightarrow> 'x cell heap \<Rightarrow> mExchangeSpec \<Rightarrow> ExchangeSpec" where
  "ExchangeSpec_view L h s =
     \<lparr>ex_Name = mex_Name s,
      ex_Vhost = mex_Vhost s,
      ex_Type = mex_Type s,
      ex_Durable = mex_Durable s,
      ex_AutoDelete = mex_AutoDelete s,
      ex_Arguments = ptr_view cRaw (RawExtension_view L) h (mex_Arguments s),
      ex_RabbitmqClusterReference = RabbitmqClusterReference_view h (mex_RabbitmqClusterReference s)\<rparr>"

definition ExchangeSpec_foot :: "'x lib \<Rightarrow> 'x cell heap \<Rightarrow> mExchangeSpec \<Rightarrow> addr set" where
  "ExchangeSpec_foot L h s =
     ptr_foot cRaw (RawExtension_foot L) h (mex_Arguments s) \<union>
     (RabbitmqClusterReference_foot h (mex_RabbitmqClusterReference s))"

definition ExchangeSpec_DeepCopyInto :: "'x lib \<Rightarrow> mExchangeSpec \<Rightarrow> ('x cell, mExchangeSpec) mem" where
  "ExchangeSpec_DeepCopyInto L inn = do {
     let out = inn;
     v \<leftarrow> new_DeepCopyInto cRaw CRaw (RawExtension_DeepCopyInto L) (mex_Arguments inn);
     let out = out\<lparr>mex_Arguments := v\<rparr>;
     v \<leftarrow> RabbitmqClusterReference_DeepCopyInto (mex_RabbitmqClusterReference inn);
     let out = out\<lparr>mex_RabbitmqClusterReference := v\<rparr>;
     State_Monad.return out
   }"

definition QueueSpec_view :: "'x lib \<Rightarrow> 'x cell heap \<Rightarrow> mQueueSpec \<Rightarrow> QueueSpec" where
  "QueueSpec_view L h s =
     \<lparr>q_Name = mq_Name s,
      q_Vhost = mq_Vhost s,
      q_Type = mq_Type s,
      q_Durable = ptr_view cBool (\<lambda>h v. v) h (mq_Durable s),
      q_AutoDelete = mq_AutoDelete s,
      q_DeleteIfEmpty = mq_DeleteIfEmpty s,
      q_DeleteIfUnused = mq_DeleteIfUnused s,
      q_Arguments = ptr_view cRaw (RawExtension_view L) h (mq_Arguments s),
      q_RabbitmqClusterReference = RabbitmqClusterReference_view h (mq_RabbitmqClusterReference s),
      q_DeletionPolicy = mq_DeletionPolicy s\<rparr>"

definition QueueSpec_foot :: "'x lib \<Rightarrow> 'x cell heap \<Rightarrow> mQueueSpec \<Rightarrow> addr set" where
  "QueueSpec_foot L h s =
     ptr_foot cBool (\<lambda>h v. {}) h (mq_Durable s) \<union>
     (ptr_foot cRaw (RawExtension_foot L) h (mq_Arguments s) \<union>
     (RabbitmqClusterReference_foot h (mq_RabbitmqClusterReference s)))"

definition QueueSpec_DeepCopyInto :: "'x lib \<Rightarrow> mQueueSpec \<Rightarrow> ('x cell, mQueueSpec) mem" where
  "QueueSpec_DeepCopyInto L inn = do {
     let out = inn;
     v \<leftarrow> new_DeepCopyInto cBool CBool State_Monad.return (mq_Durable inn);
     let out = out\<lparr>mq_Durable := v\<rparr>;
     v \<leftarrow> new_DeepCopyInto cRaw CRaw (RawExtension_DeepCopyInto L) (mq_Arguments inn);
     let out = out\<lparr>mq_Arguments := v\<rparr>;
     v \<leftarrow> RabbitmqClusterReference_DeepCopyInto (mq_RabbitmqClusterReference inn);
     let out = out\<lparr>mq_RabbitmqClusterReference := v\<rparr>;
     State_Monad.return out
   }"

definition VhostSpec_view :: "'x cell heap \<Rightarrow> mVhostSpec \<Rightarrow> VhostSpec" where
  "VhostSpec_view h s =
     \<lparr>vh_Name = mvh_Name s,
      vh_Tracing = mvh_Tracing s,
      vh_Tags = slice_view cStrings (\<lambda>h v. v) h (mvh_Tags s),
      vh_DefaultQueueType = mvh_DefaultQueueType s,
      vh_RabbitmqClusterReference = RabbitmqClusterReference_view h (mvh_RabbitmqClusterReference s),
      vh_DeletionPolicy = mvh_DeletionPolicy s,
      vh_VhostLimits = ptr_view cVhostLimits VhostLimits_view h (mvh_VhostLimits s)\<rparr>"

definition VhostSpec_foot :: "'x cell heap \<Rightarrow> mVhostSpec \<Rightarrow> addr set" where
  "VhostSpec_foot h s =
     slice_foot cStrings (\<lambda>h v. {}) h (mvh_Tags s) \<union>
     (RabbitmqClusterReference_foot h (mvh_RabbitmqClusterReference s) \<union>
     (ptr_foot cVhostLimits VhostLimits_foot h (mvh_VhostLimits s)))"

definition VhostSpec_DeepCopyInto :: "mVhostSpec \<Rightarrow> ('x cell, mVhostSpec) mem" where
  "VhostSpec_DeepCopyInto inn = do {
     let out = inn;
     v \<leftarrow> make_DeepCopyInto cStrings CStrings State_Monad.return (mvh_Tags inn);
     let out = out\<lparr>mvh_Tags := v\<rparr>;
     v \<leftarrow> RabbitmqClusterReference_DeepCopyInto (mvh_RabbitmqClusterReference inn);
     let out = out\<lparr>mvh_RabbitmqClusterReference := v\<rparr>;
     v \<leftarrow> new_DeepCopyInto cVhostLimits CVhostLimits VhostLimits_DeepCopyInto (mvh_VhostLimits inn);
     let out = out\<lparr>mvh_VhostLimits := v\<rparr>;
     State_Monad.return out
   }"

definition UserSpec_view :: "'x cell heap \<Rightarrow> mUserSpec \<Rightarrow> UserSpec" where
  "UserSpec_view h s =
     \<lparr>u_Tags = slice_view cStrings (\<lambda>h v. v) h (mu_Tags s),
      u_RabbitmqClusterReference = RabbitmqClusterReference_view h (mu_RabbitmqClusterReference s),
      u_ImportCredentialsSecret = ptr_view cRef (\<lambda>h v. v) h (mu_ImportCredentialsSecret s),
      u_UsernameFromMeta = mu_UsernameFromMeta s,
      u_UserLimits = ptr_view cUserLimits UserLimits_view h (mu_UserLimits s)\<rparr>"

definition UserSpec_foot :: "'x cell heap \<Rightarrow> mUserSpec \<Rightarrow> addr set" where
  "UserSpec_foot h s =
     slice_foot cStrings (\<lambda>h v. {}) h (mu_Tags s) \<union>
     (RabbitmqClusterReference_foot h (mu_RabbitmqClusterReference s) \<union>
     (ptr_foot cRef (\<lambda>h v. {}) h (mu_ImportCredentialsSecret s) \<union>
     (ptr_foot cUserLimits UserLimits_foot h (mu_UserLimits s))))"

definition UserSpec_DeepCopyInto :: "mUserSpec \<Rightarrow> ('x cell, mUserSpec) mem" where
  "UserSpec_DeepCopyInto inn = do {
     let out = inn;
     v \<leftarrow> make_DeepCopyInto cStrings CStrings State_Monad.return (mu_Tags inn);
     let out = out\<lparr>mu_Tags := v\<rparr>;
     v \<leftarrow> RabbitmqClusterReference_DeepCopyInto (mu_RabbitmqClusterReference inn);
     let out = out\<lparr>mu_RabbitmqClusterReference := v\<rparr>;
     v \<leftarrow> new_DeepCopyInto cRef CRef State_Monad.return (mu_ImportCredentialsSecret inn);
     let out = out\<lparr>mu_ImportCredentialsSecret := v\<rparr>;
     v \<leftarrow> new_DeepCopyInto cUserLimits CUserLimits UserLimits_DeepCopyInto (mu_UserLimits inn);
     let out = out\<lparr>mu_UserLimits := v\<rparr>;
     State_Monad.return out
   }"

definition PermissionSpec_view :: "'x cell heap \<Rightarrow> mPermissionSpec \<Rightarrow> PermissionSpec" where
  "PermissionSpec_view h s =
     \<lparr>p_User = mp_User s,
      p_UserReference = ptr_view cRef (\<lambda>h v. v) h (mp_UserReference s),
      p_Vhost = mp_Vhost s,
      p_Permissions = mp_Permissions s,
      p_RabbitmqClusterReference = RabbitmqClusterReference_view h (mp_RabbitmqClusterReference s)\<rparr>"

definition PermissionSpec_foot :: "'x cell heap \<Rightarrow> mPermissionSpec \<Rightarrow> addr set" where
  "PermissionSpec_foot h s =
     ptr_foot cRef (\<lambda>h v. {}) h (mp_UserReference s) \<union>
     (RabbitmqClusterReference_foot h (mp_RabbitmqClusterReference s))"

definition PermissionSpec_DeepCopyInto :: "mPermissionSpec \<Rightarrow> ('x cell, mPermissionSpec) mem" where
  "PermissionSpec_DeepCopyInto inn = do {
     let out = inn;
     v \<leftarrow> new_DeepCopyInto cRef CRef State_Monad.return (mp_UserReference inn);
     let out = out\<lparr>mp_UserReference := v\<rparr>;
     let out = out\<lparr>mp_Permissions := mp_Permissions inn\<rparr>;
     v \<leftarrow> RabbitmqClusterReference_DeepCopyInto (mp_RabbitmqClusterReference inn);
     let out = out\<lparr>mp_RabbitmqClusterReference := v\<rparr>;
     State_Monad.return out
   }"

definition TopicPermissionSpec_view :: "'x cell heap \<Rightarrow> mTopicPermissionSpec \<Rightarrow> TopicPermissionSpec" where
  "TopicPermissionSpec_view h s =
     \<lparr>tp_User = mtp_User s,
      tp_UserReference = ptr_view cRef (\<lambda>h v. v) h (mtp_UserReference s),
      tp_Vhost = mtp_Vhost s,
      tp_Permissions = mtp_Permissions s,
      tp_RabbitmqClusterReference = RabbitmqClusterReference_view h (mtp_RabbitmqClusterReference s)\<rparr>"

definition TopicPermissionSpec_foot :: "'x cell heap \<Rightarrow> mTopicPermissionSpec \<Rightarrow> addr set" where
  "TopicPermissionSpec_foot h s =
     ptr_foot cRef (\<lambda>h v. {}) h (mtp_UserReference s) \<union>
     (RabbitmqClusterReference_foot h (mtp_RabbitmqClusterReference s))"

definition TopicPermissionSpec_DeepCopyInto :: "mTopicPermissionSpec \<Rightarrow> ('x cell, mTopicPermissionSpec) mem" where
  "TopicPermissionSpec_DeepCopyInto inn = do {
     let out = inn;
     v \<leftarrow> new_DeepCopyInto cRef CRef State_Monad.return (mtp_UserReference inn);
     let out = out\<lparr>mtp_UserReference := v\<rparr>;
     let out = out\<lparr>mtp_Permissions := mtp_Permissions inn\<rparr>;
     v \<leftarrow> RabbitmqClusterReference_DeepCopyInto (mtp_RabbitmqClusterReference inn);
     let out = out\<lparr>mtp_RabbitmqClusterReference := v\<rparr>;
     State_Monad.return out
   }"

definition PolicySpec_view :: "'x lib \<Rightarrow> 'x cell heap \<Rightarrow> mPolicySpec \<Rightarrow> PolicySpec" where
  "PolicySpec_view L h s =
     \<lparr>pol_Name = mpol_Name s,
      pol_Vhost = mpol_Vhost s,
      pol_Pattern = mpol_Pattern s,
      pol_ApplyTo = mpol_ApplyTo s,
      pol_Priority = mpol_Priority s,
      pol_Definition = ptr_view cRaw (RawExtension_view L) h (mpol_Definition s),
      pol_RabbitmqClusterReference = RabbitmqClusterReference_view h (mpol_RabbitmqClusterReference s)\<rparr>"

definition PolicySpec_foot :: "'x lib \<Rightarrow> 'x cell heap \<Rightarrow> mPolicySpec \<Rightarrow> addr set" where
  "PolicySpec_foot L h s =
     ptr_foot cRaw (RawExtension_foot L) h (mpol_Definition s) \<union>
     (RabbitmqClusterReference_foot h (mpol_RabbitmqClusterReference s))"

definition PolicySpec_DeepCopyInto :: "'x lib \<Rightarrow> mPolicySpec \<Rightarrow> ('x cell, mPolicySpec) mem" where
  "PolicySpec_DeepCopyInto L inn = do {
     let out = inn;
     v \<leftarrow> new_DeepCopyInto cRaw CRaw (RawExtension_DeepCopyInto L) (mpol_Definition inn);
     let out = out\<lparr>mpol_Definition := v\<rparr>;
     v \<leftarrow> RabbitmqClusterReference_DeepCopyInto (mpol_RabbitmqClusterReference inn);
     let out = out\<lparr>mpol_RabbitmqClusterReference := v\<rparr>;
     State_Monad.return out
   }"

definition OperatorPolicySpec_view :: "'x lib \<Rightarrow> 'x cell heap \<Rightarrow> mOperatorPolicySpec \<Rightarrow> OperatorPolicySpec" where
  "OperatorPolicySpec_view L h s =
     \<lparr>op_Name = mop_Name s,
      op_Vhost = mop_Vhost s,
      op_Pattern = mop_Pattern s,
      op_ApplyTo = mop_ApplyTo s,
      op_Priority = mop_Priority s,
      op_Definition = ptr_view cRaw (RawExtension_view L) h (mop_Definition s),
      op_RabbitmqClusterReference = RabbitmqClusterReference_view h (mop_RabbitmqClusterReference s)\<rparr>"

definition OperatorPolicySpec_foot :: "'x lib \<Rightarrow> 'x cell heap \<Rightarrow> mOperatorPolicySpec \<Rightarrow> addr set" where
  "OperatorPolicySpec_foot L h s =
     ptr_foot cRaw (RawExtension_foot L) h (mop_Definition s) \<union>
     (RabbitmqClusterReference_foot h (mop_RabbitmqClusterReference s))"

definition OperatorPolicySpec_DeepCopyInto :: "'x lib \<Rightarrow> mOperatorPolicySpec \<Rightarrow> ('x cell, mOperatorPolicySpec) mem" where
  "OperatorPolicySpec_DeepCopyInto L inn = do {
     let out = inn;
     v \<leftarrow> new_DeepCopyInto cRaw CRaw (RawExtension_DeepCopyInto L) (mop_Definition inn);
     let out = out\<lparr>mop_Definition := v\<rparr>;
     v \<leftarrow> RabbitmqClusterReference_DeepCopyInto (mop_RabbitmqClusterReference inn);
     let out = out\<lparr>mop_RabbitmqClusterReference := v\<rparr>;
     State_Monad.return out
   }"

definition FederationSpec_view :: "'x cell heap \<Rightarrow> mFederationSpec \<Rightarrow> FederationSpec" where
  "FederationSpec_view h s =
     \<lparr>f_Name = mf_Name s,
      f_Vhost = mf_Vhost s,
      f_RabbitmqClusterReference = RabbitmqClusterReference_view h (mf_RabbitmqClusterReference s),
      f_UriSecret = ptr_view cRef (\<lambda>h v. v) h (mf_UriSecret s),
      f_PrefetchCount = mf_PrefetchCount s,
      f_AckMode = mf_AckMode s,
      f_Expires = mf_Expires s,
      f_MessageTTL = mf_MessageTTL s,
      f_MaxHops = mf_MaxHops s,
      f_ReconnectDelay = ptr_view cInt (\<lambda>h v. v) h (mf_ReconnectDelay s),
      f_TrustUserId = mf_TrustUserId s,
      f_Exchange = mf_Exchange s,
      f_Queue = mf_Queue s,
      f_DeletionPolicy = mf_DeletionPolicy s,
      f_QueueType = mf_QueueType s,
      f_ResourceCleanupMode = mf_ResourceCleanupMode s\<rparr>"

definition FederationSpec_foot :: "'x cell heap \<Rightarrow> mFederationSpec \<Rightarrow> addr set" where
  "FederationSpec_foot h s =
     RabbitmqClusterReference_foot h (mf_RabbitmqClusterReference s) \<union>
     (ptr_foot cRef (\<lambda>h v. {}) h (mf_UriSecret s) \<union>
     (ptr_foot cInt (\<lambda>h v. {}) h (mf_ReconnectDelay s)))"

definition FederationSpec_DeepCopyInto :: "mFederationSpec \<Rightarrow> ('x cell, mFederationSpec) mem" where
  "FederationSpec_DeepCopyInto inn = do {
     let out = inn;
     v \<leftarrow> RabbitmqClusterReference_DeepCopyInto (mf_RabbitmqClusterReference inn);
     let out = out\<lparr>mf_RabbitmqClusterReference := v\<rparr>;
     v \<leftarrow> new_DeepCopyInto cRef CRef State_Monad.return (mf_UriSecret inn);
     let out = out\<lparr>mf_UriSecret := v\<rparr>;
     v \<leftarrow> new_DeepCopyInto cInt CInt State_Monad.return (mf_ReconnectDelay inn);
     let out = out\<lparr>mf_ReconnectDelay := v\<rparr>;
     State_Monad.return out
   }"

definition ShovelSpec_view :: "'x lib \<Rightarrow> 'x cell heap \<Rightarrow> mShovelSpec \<Rightarrow> ShovelSpec" where
  "ShovelSpec_view L h s =
     \<lparr>s_Name = ms_Name s,
      s_Vhost = ms_Vhost s,
      s_RabbitmqClusterReference = RabbitmqClusterReference_view h (ms_RabbitmqClusterReference s),
      s_UriSecret = ptr_view cRef (\<lambda>h v. v) h (ms_UriSecret s),
      s_AckMode = ms_AckMode s,
      s_PrefetchCount = ms_PrefetchCount s,
      s_ReconnectDelay = ms_ReconnectDelay s,
      s_AddForwardHeaders = ms_AddForwardHeaders s,
      s_DeleteAfter = ms_DeleteAfter s,
      s_SourceDeleteAfter = ms_SourceDeleteAfter s,
      s_SourcePrefetchCount = ms_SourcePrefetchCount s,
      s_DestinationAddForwardHeaders = ms_DestinationAddForwardHeaders s,
      s_DestinationAddTimestampHeader = ms_DestinationAddTimestampHeader s,
      s_SourceQueueArgs = ptr_view cRaw (RawExtension_view L) h (ms_SourceQueueArgs s),
      s_DestinationQueueArgs = ptr_view cRaw (RawExtension_view L) h (ms_DestinationQueueArgs s),
      s_DestinationProtocol = ms_DestinationProtocol s,
      s_DestinationQueue = ms_DestinationQueue s,
      s_DestinationExchange = ms_DestinationExchange s,
      s_DestinationExchangeKey = ms_DestinationExchangeKey s,
      s_DestinationPublishProperties = ptr_view cRaw (RawExtension_view L) h (ms_DestinationPublishProperties s),
      s_DestinationAddress = ms_DestinationAddress s,
      s_DestinationApplicationProperties = ptr_view cRaw (RawExtension_view L) h (ms_DestinationApplicationProperties s),
      s_DestinationProperties = ptr_view cRaw (RawExtension_view L) h (ms_DestinationProperties s),
      s_DestinationMessageAnnotations = ptr_view cRaw (RawExtension_view L) h (ms_DestinationMessageAnnotations s),
      s_SourceProtocol = ms_SourceProtocol s,
      s_SourceQueue = ms_SourceQueue s,
      s_SourceExchange = ms_SourceExchange s,
      s_SourceExchangeKey = ms_SourceExchangeKey s,
      s_SourceConsumerArgs = ptr_view cRaw (RawExtension_view L) h (ms_SourceConsumerArgs s),
      s_SourceAddress = ms_SourceAddress s,
      s_DeletionPolicy = ms_DeletionPolicy s\<rparr>"

definition ShovelSpec_foot :: "'x lib \<Rightarrow> 'x cell heap \<Rightarrow> mShovelSpec \<Rightarrow> addr set" where
  "ShovelSpec_foot L h s =
     RabbitmqClusterReference_foot h (ms_RabbitmqClusterReference s) \<union>
     (ptr_foot cRef (\<lambda>h v. {}) h (ms_UriSecret s) \<union>
     (ptr_foot cRaw (RawExtension_foot L) h (ms_SourceQueueArgs s) \<union>
     (ptr_foot cRaw (RawExtension_foot L) h (ms_DestinationQueueArgs s) \<union>
     (ptr_foot cRaw (RawExtension_foot L) h (ms_DestinationPublishProperties s) \<union>
     (ptr_foot cRaw (RawExtension_foot L) h (ms_DestinationApplicationProperties s) \<union>
     (ptr_foot cRaw (RawExtension_foot L) h (ms_DestinationProperties s) \<union>
     (ptr_foot cRaw (RawExtension_foot L) h (ms_DestinationMessageAnnotations s) \<union>
     (ptr_foot cRaw (RawExtension_foot L) h (ms_SourceConsumerArgs s)))))))))"

definition ShovelSpec_DeepCopyInto :: "'x lib \<Rightarrow> mShovelSpec \<Rightarrow> ('x cell, mShovelSpec) mem" where
  "ShovelSpec_DeepCopyInto L inn = do {
     let out = inn;
     v \<leftarrow> RabbitmqClusterReference_DeepCopyInto (ms_RabbitmqClusterReference inn);
     let out = out\<lparr>ms_RabbitmqClusterReference := v\<rparr>;
     v \<leftarrow> new_DeepCopyInto cRef CRef State_Monad.return (ms_UriSecret inn);
     let out = out\<lparr>ms_UriSecret := v\<rparr>;
     v \<leftarrow> new_DeepCopyInto cRaw CRaw (RawExtension_DeepCopyInto L) (ms_SourceQueueArgs inn);
     let out = out\<lparr>ms_SourceQueueArgs := v\<rparr>;
     v \<leftarrow> new_DeepCopyInto cRaw CRaw (RawExtension_DeepCopyInto L) (ms_DestinationQueueArgs inn);
     let out = out\<lparr>ms_DestinationQueueArgs := v\<rparr>;
     v \<leftarrow> new_DeepCopyInto cRaw CRaw (RawExtension_DeepCopyInto L) (ms_DestinationPublishProperties inn);
     let out = out\<lparr>ms_DestinationPublishProperties := v\<rparr>;
     v \<leftarrow> new_DeepCopyInto cRaw CRaw (RawExtension_DeepCopyInto L) (ms_DestinationApplicationProperties inn);
     let out = out\<lparr>ms_DestinationApplicationProperties := v\<rparr>;
     v \<leftarrow> new_DeepCopyInto cRaw CRaw (RawExtension_DeepCopyInto L) (ms_DestinationProperties inn);
     let out = out\<lparr>ms_DestinationProperties := v\<rparr>;
     v \<leftarrow> new_DeepCopyInto cRaw CRaw (RawExtension_DeepCopyInto L) (ms_DestinationMessageAnnotations inn);
     let out = out\<lparr>ms_DestinationMessageAnnotations := v\<rparr>;
     v \<leftarrow> new_DeepCopyInto cRaw CRaw (RawExtension_DeepCopyInto L) (ms_SourceConsumerArgs inn);
     let out = out\<lparr>ms_SourceConsumerArgs := v\<rparr>;
     State_Monad.return out
   }"

definition SchemaReplicationSpec_view :: "'x cell heap \<Rightarrow> mSchemaReplicationSpec \<Rightarrow> SchemaReplicationSpec" where
  "SchemaReplicationSpec_view h s =
     \<lparr>sr_RabbitmqClusterReference = RabbitmqClusterReference_view h (msr_RabbitmqClusterReference s),
      sr_UpstreamSecret = ptr_view cRef (\<lambda>h v. v) h (msr_UpstreamSecret s),
      sr_Endpoints = msr_Endpoints s,
      sr_SecretBackend = SecretBackend_view h (msr_SecretBackend s)\<rparr>"

definition SchemaReplicationSpec_foot :: "'x cell heap \<Rightarrow> mSchemaReplicationSpec \<Rightarrow> addr set" where
  "SchemaReplicationSpec_foot h s =
     RabbitmqClusterReference_foot h (msr_RabbitmqClusterReference s) \<union>
     (ptr_foot cRef (\<lambda>h v. {}) h (msr_UpstreamSecret s) \<union>
     (SecretBackend_foot h (msr_SecretBackend s)))"

definition SchemaReplicationSpec_DeepCopyInto :: "mSchemaReplicationSpec \<Rightarrow> ('x cell, mSchemaReplicationSpec) mem" where
  "SchemaReplicationSpec_DeepCopyInto inn = do {
     let out = inn;
     v \<leftarrow> RabbitmqClusterReference_DeepCopyInto (msr_RabbitmqClusterReference inn);
     let out = out\<lparr>msr_RabbitmqClusterReference := v\<rparr>;
     v \<leftarrow> new_DeepCopyInto cRef CRef State_Monad.return (msr_UpstreamSecret inn);
     let out = out\<lparr>msr_UpstreamSecret := v\<rparr>;
     v \<leftarrow> SecretBackend_DeepCopyInto (msr_SecretBackend inn);
     let out = out\<lparr>msr_SecretBackend := v\<rparr>;
     State_Monad.return out
   }"

definition SuperStreamSpec_view :: "'x cell heap \<Rightarrow> mSuperStreamSpec \<Rightarrow> SuperStreamSpec" where
  "SuperStreamSpec_view h s =
     \<lparr>ss_Name = mss_Name s,
      ss_Vhost = mss_Vhost s,
      ss_Partitions = mss_Partitions s,
      ss_RoutingKeys = slice_view cStrings (\<lambda>h v. v) h (mss_RoutingKeys s),
      ss_RabbitmqClusterReference = RabbitmqClusterReference_view h (mss_RabbitmqClusterReference s)\<rparr>"

definition SuperStreamSpec_foot :: "'x cell heap \<Rightarrow> mSuperStreamSpec \<Rightarrow> addr set" where
  "SuperStreamSpec_foot h s =
     slice_foot cStrings (\<lambda>h v. {}) h (mss_RoutingKeys s) \<union>
     (RabbitmqClusterReference_foot h (mss_RabbitmqClusterReference s))"

definition SuperStreamSpec_DeepCopyInto :: "mSuperStreamSpec \<Rightarrow> ('x cell, mSuperStreamSpec) mem" where
  "SuperStreamSpec_DeepCopyInto inn = do {
     let out = inn;
     v \<leftarrow> make_DeepCopyInto cStrings CStrings State_Monad.return (mss_RoutingKeys inn);
     let out = out\<lparr>mss_RoutingKeys := v\<rparr>;
     v \<leftarrow> RabbitmqClusterReference_DeepCopyInto (mss_RabbitmqClusterReference inn);
     let out = out\<lparr>mss_RabbitmqClusterReference := v\<rparr>;
     State_Monad.return out
   }"


section \<open>Statuses\<close>

text \<open>Eleven statuses are the same struct and have the same copy.\<close>

definition status_view :: "'x lib \<Rightarrow> 'x cell heap \<Rightarrow> mstatus \<Rightarrow> topology_status" where
  "status_view L h s =
     \<lparr>ObservedGeneration = mst_ObservedGeneration s,
      Conditions = slice_view cConditions (Condition_view L) h (mst_Conditions s)\<rparr>"

definition status_foot :: "'x lib \<Rightarrow> 'x cell heap \<Rightarrow> mstatus \<Rightarrow> addr set" where
  "status_foot L h s =
     slice_foot cConditions (Condition_foot L) h (mst_Conditions s)"

definition status_DeepCopyInto :: "'x lib \<Rightarrow> mstatus \<Rightarrow> ('x cell, mstatus) mem" where
  "status_DeepCopyInto L inn = do {
     let out = inn;
     v \<leftarrow> make_DeepCopyInto cConditions CConditions (Condition_DeepCopyInto L) (mst_Conditions inn);
     let out = out\<lparr>mst_Conditions := v\<rparr>;
     State_Monad.return out
   }"

definition BindingStatus_DeepCopyInto :: "'x lib \<Rightarrow> mstatus \<Rightarrow> ('x cell, mstatus) mem" where
  "BindingStatus_DeepCopyInto L = status_DeepCopyInto L"

definition ExchangeStatus_DeepCopyInto :: "'x lib \<Rightarrow> mstatus \<Rightarrow> ('x cell, mstatus) mem" where
  "ExchangeStatus_DeepCopyInto L = status_DeepCopyInto L"

definition QueueStatus_DeepCopyInto :: "'x lib \<Rightarrow> mstatus \<Rightarrow> ('x cell, mstatus) mem" where
  "QueueStatus_DeepCopyInto L = status_DeepCopyInto L"

definition VhostStatus_DeepCopyInto :: "'x lib \<Rightarrow> mstatus \<Rightarrow> ('x cell, mstatus) mem" where
  "VhostStatus_DeepCopyInto L = status_DeepCopyInto L"

definition PermissionStatus_DeepCopyInto :: "'x lib \<Rightarrow> mstatus \<Rightarrow> ('x cell, mstatus) mem" where
  "PermissionStatus_DeepCopyInto L = status_DeepCopyInto L"

definition TopicPermissionStatus_DeepCopyInto :: "'x lib \<Rightarrow> mstatus \<Rightarrow> ('x cell, mstatus) mem" where
  "TopicPermissionStatus_DeepCopyInto L = status_DeepCopyInto L"

definition PolicyStatus_DeepCopyInto :: "'x lib \<Rightarrow> mstatus \<Rightarrow> ('x cell, mstatus) mem" where
  "PolicyStatus_DeepCopyInto L = status_DeepCopyInto L"

definition OperatorPolicyStatus_DeepCopyInto :: "'x lib \<Rightarrow> mstatus \<Rightarrow> ('x cell, mstatus) mem" where
  "OperatorPolicyStatus_DeepCopyInto L = status_DeepCopyInto L"

definition FederationStatus_DeepCopyInto :: "'x lib \<Rightarrow> mstatus \<Rightarrow> ('x cell, mstatus) mem" where
  "FederationStatus_DeepCopyInto L = status_DeepCopyInto L"

definition ShovelStatus_DeepCopyInto :: "'x lib \<Rightarrow> mstatus \<Rightarrow> ('x cell, mstatus) mem" where
  "ShovelStatus_DeepCopyInto L = status_DeepCopyInto L"

definition SchemaReplicationStatus_DeepCopyInto :: "'x lib \<Rightarrow> mstatus \<Rightarrow> ('x cell, mstatus) mem" where
  "SchemaReplicationStatus_DeepCopyInto L = status_DeepCopyInto L"

definition UserStatus_view :: "'x lib \<Rightarrow> 'x cell heap \<Rightarrow> mUserStatus \<Rightarrow> UserStatus" where
  "UserStatus_view L h s =
     \<lparr>ObservedGeneration = mus_ObservedGeneration s,
      Conditions = slice_view cConditions (Condition_view L) h (mus_Conditions s),
      us_Credentials = ptr_view cRef (\<lambda>h v. v) h (mus_Credentials s),
      us_Username = mus_Username s\<rparr>"

definition UserStatus_foot :: "'x lib \<Rightarrow> 'x cell heap \<Rightarrow> mUserStatus \<Rightarrow> addr set" where
  "UserStatus_foot L h s =
     slice_foot cConditions (Condition_foot L) h (mus_Conditions s) \<union>
     (ptr_foot cRef (\<lambda>h v. {}) h (mus_Credentials s))"

definition UserStatus_DeepCopyInto :: "'x lib \<Rightarrow> mUserStatus \<Rightarrow> ('x cell, mUserStatus) mem" where
  "UserStatus_DeepCopyInto L inn = do {
     let out = inn;
     v \<leftarrow> make_DeepCopyInto cConditions CConditions (Condition_DeepCopyInto L) (mus_Conditions inn);
     let out = out\<lparr>mus_Conditions := v\<rparr>;
     v \<leftarrow> new_DeepCopyInto cRef CRef State_Monad.return (mus_Credentials inn);
     let out = out\<lparr>mus_Credentials := v\<rparr>;
     State_Monad.return out
   }"

definition SuperStreamStatus_view :: "'x lib \<Rightarrow> 'x cell heap \<Rightarrow> mSuperStreamStatus \<Rightarrow> SuperStreamStatus" where
  "SuperStreamStatus_view L h s =
     \<lparr>ObservedGeneration = msss_ObservedGeneration s,
      Conditions = slice_view cConditions (Condition_view L) h (msss_Conditions s),
      sss_Partitions = slice_view cStrings (\<lambda>h v. v) h (msss_Partitions s)\<rparr>"

definition SuperStreamStatus_foot :: "'x lib \<Rightarrow> 'x cell heap \<Rightarrow> mSuperStreamStatus \<Rightarrow> addr set" where
  "SuperStreamStatus_foot L h s =
     slice_foot cConditions (Condition_foot L) h (msss_Conditions s) \<union>
     (slice_foot cStrings (\<lambda>h v. {}) h (msss_Partitions s))"

definition SuperStreamStatus_DeepCopyInto :: "'x lib \<Rightarrow> mSuperStreamStatus \<Rightarrow> ('x cell, mSuperStreamStatus) mem" where
  "SuperStreamStatus_DeepCopyInto L inn = do {
     let out = inn;
     v \<leftarrow> make_DeepCopyInto cConditions CConditions (Condition_DeepCopyInto L) (msss_Conditions inn);
     let out = out\<lparr>msss_Conditions := v\<rparr>;
     v \<leftarrow> make_DeepCopyInto cStrings CStrings State_Monad.return (msss_Partitions inn);
     let out = out\<lparr>msss_Partitions := v\<rparr>;
     State_Monad.return out
   }"


section \<open>Objects\<close>

definition object_view ::
  "'x lib \<Rightarrow> ('x cell heap \<Rightarrow> 'sp \<Rightarrow> 'a) \<Rightarrow> ('x cell heap \<Rightarrow> 'st \<Rightarrow> 'b) \<Rightarrow> 'x cell heap \<Rightarrow> ('x, 'sp, 'st) mobject \<Rightarrow> ('a, 'b) kobject" where
  "object_view L spec status h s =
     \<lparr>obj_Group = mo_Group s, obj_Kind = mo_Kind s, obj_Meta = ObjectMeta_view L h (mo_Meta s),
      obj_Spec = spec h (mo_Spec s), obj_Status = status h (mo_Status s)\<rparr>"

definition object_foot ::
  "'x lib \<Rightarrow> ('x cell heap \<Rightarrow> 'sp \<Rightarrow> addr set) \<Rightarrow> ('x cell heap \<Rightarrow> 'st \<Rightarrow> addr set) \<Rightarrow> 'x cell heap \<Rightarrow> ('x, 'sp, 'st) mobject \<Rightarrow> addr set" where
  "object_foot L spec status h s = ObjectMeta_foot L h (mo_Meta s) \<union> (spec h (mo_Spec s) \<union> status h (mo_Status s))"

definition object_DeepCopyInto ::
  "'x lib \<Rightarrow> ('sp \<Rightarrow> ('x cell, 'sp) mem) \<Rightarrow> ('st \<Rightarrow> ('x cell, 'st) mem) \<Rightarrow> ('x, 'sp, 'st) mobject \<Rightarrow> ('x cell, ('x, 'sp, 'st) mobject) mem" where
  "object_DeepCopyInto L spec status inn = do {
     let out = inn;
     let out = out\<lparr>mo_Group := mo_Group inn, mo_Kind := mo_Kind inn\<rparr>;
     v \<leftarrow> ObjectMeta_DeepCopyInto L (mo_Meta inn);
     let out = out\<lparr>mo_Meta := v\<rparr>;
     v \<leftarrow> spec (mo_Spec inn);
     let out = out\<lparr>mo_Spec := v\<rparr>;
     v \<leftarrow> status (mo_Status inn);
     let out = out\<lparr>mo_Status := v\<rparr>;
     State_Monad.return out
   }"

definition list_view ::
  "'x lib \<Rightarrow> ('x cell \<Rightarrow> 'o list) \<Rightarrow> ('x cell heap \<Rightarrow> 'o \<Rightarrow> 'a) \<Rightarrow> 'x cell heap \<Rightarrow> 'x mlist \<Rightarrow> 'a klist" where
  "list_view L sel elem h s =
     \<lparr>kl_Group = ml_Group s, kl_Kind = ml_Kind s, kl_Meta = ListMeta_view L h (ml_Meta s),
      kl_Items = slice_view sel elem h (ml_Items s)\<rparr>"

definition list_foot ::
  "'x lib \<Rightarrow> ('x cell \<Rightarrow> 'o list) \<Rightarrow> ('x cell heap \<Rightarrow> 'o \<Rightarrow> addr set) \<Rightarrow> 'x cell heap \<Rightarrow> 'x mlist \<Rightarrow> addr set" where
  "list_foot L sel elem h s = ListMeta_foot L h (ml_Meta s) \<union> slice_foot sel elem h (ml_Items s)"

definition list_DeepCopyInto ::
  "'x lib \<Rightarrow> ('x cell \<Rightarrow> 'o list) \<Rightarrow> ('o list \<Rightarrow> 'x cell) \<Rightarrow> ('o \<Rightarrow> ('x cell, 'o) mem) \<Rightarrow> 'x mlist \<Rightarrow> ('x cell, 'x mlist) mem" where
  "list_DeepCopyInto L sel con elem inn = do {
     let out = inn;
     let out = out\<lparr>ml_Group := ml_Group inn, ml_Kind := ml_Kind inn\<rparr>;
     v \<leftarrow> ListMeta_DeepCopyInto L (ml_Meta inn);
     let out = out\<lparr>ml_Meta := v\<rparr>;
     v \<leftarrow> make_DeepCopyInto sel con elem (ml_Items inn);
     let out = out\<lparr>ml_Items := v\<rparr>;
     State_Monad.return out
   }"

text \<open>
  \<open>DeepCopyObject\<close> returns an interface value: nil, or a type with a pointer, which may itself be nil.
\<close>

type_synonym runtime_Object = "(string \<times> addr option) option"

definition DeepCopyObject ::
  "string \<Rightarrow> (addr option \<Rightarrow> ('x cell, addr option) mem) \<Rightarrow> addr option \<Rightarrow> ('x cell, runtime_Object) mem" where
  "DeepCopyObject kind deepCopy inn = do {
     c \<leftarrow> deepCopy inn;
     State_Monad.return (if c \<noteq> None then Some (kind, c) else None)
   }"

definition Binding_view :: "'x lib \<Rightarrow> 'x cell heap \<Rightarrow> 'x mBinding \<Rightarrow> Binding" where
  "Binding_view L = object_view L (BindingSpec_view L) (status_view L)"

definition Binding_foot :: "'x lib \<Rightarrow> 'x cell heap \<Rightarrow> 'x mBinding \<Rightarrow> addr set" where
  "Binding_foot L = object_foot L (BindingSpec_foot L) (status_foot L)"

definition Binding_DeepCopyInto :: "'x lib \<Rightarrow> 'x mBinding \<Rightarrow> ('x cell, 'x mBinding) mem" where
  "Binding_DeepCopyInto L = object_DeepCopyInto L (BindingSpec_DeepCopyInto L) (BindingStatus_DeepCopyInto L)"

definition BindingList_DeepCopyInto :: "'x lib \<Rightarrow> 'x mlist \<Rightarrow> ('x cell, 'x mlist) mem" where
  "BindingList_DeepCopyInto L =
     list_DeepCopyInto L (map as_Binding \<circ> cObjects) (CObjects \<circ> map MBinding) (Binding_DeepCopyInto L)"

definition Exchange_view :: "'x lib \<Rightarrow> 'x cell heap \<Rightarrow> 'x mExchange \<Rightarrow> Exchange" where
  "Exchange_view L = object_view L (ExchangeSpec_view L) (status_view L)"

definition Exchange_foot :: "'x lib \<Rightarrow> 'x cell heap \<Rightarrow> 'x mExchange \<Rightarrow> addr set" where
  "Exchange_foot L = object_foot L (ExchangeSpec_foot L) (status_foot L)"

definition Exchange_DeepCopyInto :: "'x lib \<Rightarrow> 'x mExchange \<Rightarrow> ('x cell, 'x mExchange) mem" where
  "Exchange_DeepCopyInto L = object_DeepCopyInto L (ExchangeSpec_DeepCopyInto L) (ExchangeStatus_DeepCopyInto L)"

definition ExchangeList_DeepCopyInto :: "'x lib \<Rightarrow> 'x mlist \<Rightarrow> ('x cell, 'x mlist) mem" where
  "ExchangeList_DeepCopyInto L =
     list_DeepCopyInto L (map as_Exchange \<circ> cObjects) (CObjects \<circ> map MExchange) (Exchange_DeepCopyInto L)"

definition Queue_view :: "'x lib \<Rightarrow> 'x cell heap \<Rightarrow> 'x mQueue \<Rightarrow> Queue" where
  "Queue_view L = object_view L (QueueSpec_view L) (status_view L)"

definition Queue_foot :: "'x lib \<Rightarrow> 'x cell heap \<Rightarrow> 'x mQueue \<Rightarrow> addr set" where
  "Queue_foot L = object_foot L (QueueSpec_foot L) (status_foot L)"

definition Queue_DeepCopyInto :: "'x lib \<Rightarrow> 'x mQueue \<Rightarrow> ('x cell, 'x mQueue) mem" where
  "Queue_DeepCopyInto L = object_DeepCopyInto L (QueueSpec_DeepCopyInto L) (QueueStatus_DeepCopyInto L)"

definition QueueList_DeepCopyInto :: "'x lib \<Rightarrow> 'x mlist \<Rightarrow> ('x cell, 'x mlist) mem" where
  "QueueList_DeepCopyInto L =
     list_DeepCopyInto L (map as_Queue \<circ> cObjects) (CObjects \<circ> map MQueue) (Queue_DeepCopyInto L)"

definition Vhost_view :: "'x lib \<Rightarrow> 'x cell heap \<Rightarrow> 'x mVhost \<Rightarrow> Vhost" where
  "Vhost_view L = object_view L VhostSpec_view (status_view L)"

definition Vhost_foot :: "'x lib \<Rightarrow> 'x cell heap \<Rightarrow> 'x mVhost \<Rightarrow> addr set" where
  "Vhost_foot L = object_foot L VhostSpec_foot (status_foot L)"

definition Vhost_DeepCopyInto :: "'x lib \<Rightarrow> 'x mVhost \<Rightarrow> ('x cell, 'x mVhost) mem" where
  "Vhost_DeepCopyInto L = object_DeepCopyInto L VhostSpec_DeepCopyInto (VhostStatus_DeepCopyInto L)"

definition VhostList_DeepCopyInto :: "'x lib \<Rightarrow> 'x mlist \<Rightarrow> ('x cell, 'x mlist) mem" where
  "VhostList_DeepCopyInto L =
     list_DeepCopyInto L (map as_Vhost \<circ> cObjects) (CObjects \<circ> map MVhost) (Vhost_DeepCopyInto L)"

definition User_view :: "'x lib \<Rightarrow> 'x cell heap \<Rightarrow> 'x mUser \<Rightarrow> User" where
  "User_view L = object_view L UserSpec_view (UserStatus_view L)"

definition User_foot :: "'x lib \<Rightarrow> 'x cell heap \<Rightarrow> 'x mUser \<Rightarrow> addr set" where
  "User_foot L = object_foot L UserSpec_foot (UserStatus_foot L)"

definition User_DeepCopyInto :: "'x lib \<Rightarrow> 'x mUser \<Rightarrow> ('x cell, 'x mUser) mem" where
  "User_DeepCopyInto L = object_DeepCopyInto L UserSpec_DeepCopyInto (UserStatus_DeepCopyInto L)"

definition UserList_DeepCopyInto :: "'x lib \<Rightarrow> 'x mlist \<Rightarrow> ('x cell, 'x mlist) mem" where
  "UserList_DeepCopyInto L =
     list_DeepCopyInto L (map as_User \<circ> cObjects) (CObjects \<circ> map MUser) (User_DeepCopyInto L)"

definition Permission_view :: "'x lib \<Rightarrow> 'x cell heap \<Rightarrow> 'x mPermission \<Rightarrow> Permission" where
  "Permission_view L = object_view L PermissionSpec_view (status_view L)"

definition Permission_foot :: "'x lib \<Rightarrow> 'x cell heap \<Rightarrow> 'x mPermission \<Rightarrow> addr set" where
  "Permission_foot L = object_foot L PermissionSpec_foot (status_foot L)"

definition Permission_DeepCopyInto :: "'x lib \<Rightarrow> 'x mPermission \<Rightarrow> ('x cell, 'x mPermission) mem" where
  "Permission_DeepCopyInto L = object_DeepCopyInto L PermissionSpec_DeepCopyInto (PermissionStatus_DeepCopyInto L)"

definition PermissionList_DeepCopyInto :: "'x lib \<Rightarrow> 'x mlist \<Rightarrow> ('x cell, 'x mlist) mem" where
  "PermissionList_DeepCopyInto L =
     list_DeepCopyInto L (map as_Permission \<circ> cObjects) (CObjects \<circ> map MPermission) (Permission_DeepCopyInto L)"

definition TopicPermission_view :: "'x lib \<Rightarrow> 'x cell heap \<Rightarrow> 'x mTopicPermission \<Rightarrow> TopicPermission" where
  "TopicPermission_view L = object_view L TopicPermissionSpec_view (status_view L)"

definition TopicPermission_foot :: "'x lib \<Rightarrow> 'x cell heap \<Rightarrow> 'x mTopicPermission \<Rightarrow> addr set" where
  "TopicPermission_foot L = object_foot L TopicPermissionSpec_foot (status_foot L)"

definition TopicPermission_DeepCopyInto :: "'x lib \<Rightarrow> 'x mTopicPermission \<Rightarrow> ('x cell, 'x mTopicPermission) mem" where
  "TopicPermission_DeepCopyInto L = object_DeepCopyInto L TopicPermissionSpec_DeepCopyInto (TopicPermissionStatus_DeepCopyInto L)"

definition TopicPermissionList_DeepCopyInto :: "'x lib \<Rightarrow> 'x mlist \<Rightarrow> ('x cell, 'x mlist) mem" where
  "TopicPermissionList_DeepCopyInto L =
     list_DeepCopyInto L (map as_TopicPermission \<circ> cObjects) (CObjects \<circ> map MTopicPermission) (TopicPermission_DeepCopyInto L)"

definition Policy_view :: "'x lib \<Rightarrow> 'x cell heap \<Rightarrow> 'x mPolicy \<Rightarrow> Policy" where
  "Policy_view L = object_view L (PolicySpec_view L) (status_view L)"

definition Policy_foot :: "'x lib \<Rightarrow> 'x cell heap \<Rightarrow> 'x mPolicy \<Rightarrow> addr set" where
  "Policy_foot L = object_foot L (PolicySpec_foot L) (status_foot L)"

definition Policy_DeepCopyInto :: "'x lib \<Rightarrow> 'x mPolicy \<Rightarrow> ('x cell, 'x mPolicy) mem" where
  "Policy_DeepCopyInto L = object_DeepCopyInto L (PolicySpec_DeepCopyInto L) (PolicyStatus_DeepCopyInto L)"

definition PolicyList_DeepCopyInto :: "'x lib \<Rightarrow> 'x mlist \<Rightarrow> ('x cell, 'x mlist) mem" where
  "PolicyList_DeepCopyInto L =
     list_DeepCopyInto L (map as_Policy \<circ> cObjects) (CObjects \<circ> map MPolicy) (Policy_DeepCopyInto L)"

definition OperatorPolicy_view :: "'x lib \<Rightarrow> 'x cell heap \<Rightarrow> 'x mOperatorPolicy \<Rightarrow> OperatorPolicy" where
  "OperatorPolicy_view L = object_view L (OperatorPolicySpec_view L) (status_view L)"

definition OperatorPolicy_foot :: "'x lib \<Rightarrow> 'x cell heap \<Rightarrow> 'x mOperatorPolicy \<Rightarrow> addr set" where
  "OperatorPolicy_foot L = object_foot L (OperatorPolicySpec_foot L) (status_foot L)"

definition OperatorPolicy_DeepCopyInto :: "'x lib \<Rightarrow> 'x mOperatorPolicy \<Rightarrow> ('x cell, 'x mOperatorPolicy) mem" where
  "OperatorPolicy_DeepCopyInto L = object_DeepCopyInto L (OperatorPolicySpec_DeepCopyInto L) (OperatorPolicyStatus_DeepCopyInto L)"

definition OperatorPolicyList_DeepCopyInto :: "'x lib \<Rightarrow> 'x mlist \<Rightarrow> ('x cell, 'x mlist) mem" where
  "OperatorPolicyList_DeepCopyInto L =
     list_DeepCopyInto L (map as_OperatorPolicy \<circ> cObjects) (CObjects \<circ> map MOperatorPolicy) (OperatorPolicy_DeepCopyInto L)"

definition Federation_view :: "'x lib \<Rightarrow> 'x cell heap \<Rightarrow> 'x mFederation \<Rightarrow> Federation" where
  "Federation_view L = object_view L FederationSpec_view (status_view L)"

definition Federation_foot :: "'x lib \<Rightarrow> 'x cell heap \<Rightarrow> 'x mFederation \<Rightarrow> addr set" where
  "Federation_foot L = object_foot L FederationSpec_foot (status_foot L)"

definition Federation_DeepCopyInto :: "'x lib \<Rightarrow> 'x mFederation \<Rightarrow> ('x cell, 'x mFederation) mem" where
  "Federation_DeepCopyInto L = object_DeepCopyInto L FederationSpec_DeepCopyInto (FederationStatus_DeepCopyInto L)"

definition FederationList_DeepCopyInto :: "'x lib \<Rightarrow> 'x mlist \<Rightarrow> ('x cell, 'x mlist) mem" where
  "FederationList_DeepCopyInto L =
     list_DeepCopyInto L (map as_Federation \<circ> cObjects) (CObjects \<circ> map MFederation) (Federation_DeepCopyInto L)"

definition Shovel_view :: "'x lib \<Rightarrow> 'x cell heap \<Rightarrow> 'x mShovel \<Rightarrow> Shovel" where
  "Shovel_view L = object_view L (ShovelSpec_view L) (status_view L)"

definition Shovel_foot :: "'x lib \<Rightarrow> 'x cell heap \<Rightarrow> 'x mShovel \<Rightarrow> addr set" where
  "Shovel_foot L = object_foot L (ShovelSpec_foot L) (status_foot L)"

definition Shovel_DeepCopyInto :: "'x lib \<Rightarrow> 'x mShovel \<Rightarrow> ('x cell, 'x mShovel) mem" where
  "Shovel_DeepCopyInto L = object_DeepCopyInto L (ShovelSpec_DeepCopyInto L) (ShovelStatus_DeepCopyInto L)"

definition ShovelList_DeepCopyInto :: "'x lib \<Rightarrow> 'x mlist \<Rightarrow> ('x cell, 'x mlist) mem" where
  "ShovelList_DeepCopyInto L =
     list_DeepCopyInto L (map as_Shovel \<circ> cObjects) (CObjects \<circ> map MShovel) (Shovel_DeepCopyInto L)"

definition SchemaReplication_view :: "'x lib \<Rightarrow> 'x cell heap \<Rightarrow> 'x mSchemaReplication \<Rightarrow> SchemaReplication" where
  "SchemaReplication_view L = object_view L SchemaReplicationSpec_view (status_view L)"

definition SchemaReplication_foot :: "'x lib \<Rightarrow> 'x cell heap \<Rightarrow> 'x mSchemaReplication \<Rightarrow> addr set" where
  "SchemaReplication_foot L = object_foot L SchemaReplicationSpec_foot (status_foot L)"

definition SchemaReplication_DeepCopyInto :: "'x lib \<Rightarrow> 'x mSchemaReplication \<Rightarrow> ('x cell, 'x mSchemaReplication) mem" where
  "SchemaReplication_DeepCopyInto L = object_DeepCopyInto L SchemaReplicationSpec_DeepCopyInto (SchemaReplicationStatus_DeepCopyInto L)"

definition SchemaReplicationList_DeepCopyInto :: "'x lib \<Rightarrow> 'x mlist \<Rightarrow> ('x cell, 'x mlist) mem" where
  "SchemaReplicationList_DeepCopyInto L =
     list_DeepCopyInto L (map as_SchemaReplication \<circ> cObjects) (CObjects \<circ> map MSchemaReplication) (SchemaReplication_DeepCopyInto L)"

definition SuperStream_view :: "'x lib \<Rightarrow> 'x cell heap \<Rightarrow> 'x mSuperStream \<Rightarrow> SuperStream" where
  "SuperStream_view L = object_view L SuperStreamSpec_view (SuperStreamStatus_view L)"

definition SuperStream_foot :: "'x lib \<Rightarrow> 'x cell heap \<Rightarrow> 'x mSuperStream \<Rightarrow> addr set" where
  "SuperStream_foot L = object_foot L SuperStreamSpec_foot (SuperStreamStatus_foot L)"

definition SuperStream_DeepCopyInto :: "'x lib \<Rightarrow> 'x mSuperStream \<Rightarrow> ('x cell, 'x mSuperStream) mem" where
  "SuperStream_DeepCopyInto L = object_DeepCopyInto L SuperStreamSpec_DeepCopyInto (SuperStreamStatus_DeepCopyInto L)"

definition SuperStreamList_DeepCopyInto :: "'x lib \<Rightarrow> 'x mlist \<Rightarrow> ('x cell, 'x mlist) mem" where
  "SuperStreamList_DeepCopyInto L =
     list_DeepCopyInto L (map as_SuperStream \<circ> cObjects) (CObjects \<circ> map MSuperStream) (SuperStream_DeepCopyInto L)"


section \<open>DeepCopy and DeepCopyObject\<close>

definition Binding_DeepCopy :: "'x lib \<Rightarrow> addr option \<Rightarrow> ('x cell, addr option) mem" where
  "Binding_DeepCopy L = new_DeepCopyInto (as_Binding \<circ> cObject) (CObject \<circ> MBinding) (Binding_DeepCopyInto L)"

definition BindingList_DeepCopy :: "'x lib \<Rightarrow> addr option \<Rightarrow> ('x cell, addr option) mem" where
  "BindingList_DeepCopy L = new_DeepCopyInto cList CList (BindingList_DeepCopyInto L)"

definition BindingSpec_DeepCopy :: "'x lib \<Rightarrow> addr option \<Rightarrow> ('x cell, addr option) mem" where
  "BindingSpec_DeepCopy L = new_DeepCopyInto (spec_Binding \<circ> cSpec) (CSpec \<circ> SBinding) (BindingSpec_DeepCopyInto L)"

definition BindingStatus_DeepCopy :: "'x lib \<Rightarrow> addr option \<Rightarrow> ('x cell, addr option) mem" where
  "BindingStatus_DeepCopy L = new_DeepCopyInto cStatus CStatus (BindingStatus_DeepCopyInto L)"

definition Binding_DeepCopyObject :: "'x lib \<Rightarrow> addr option \<Rightarrow> ('x cell, runtime_Object) mem" where
  "Binding_DeepCopyObject L = DeepCopyObject ''Binding'' (Binding_DeepCopy L)"

definition BindingList_DeepCopyObject :: "'x lib \<Rightarrow> addr option \<Rightarrow> ('x cell, runtime_Object) mem" where
  "BindingList_DeepCopyObject L = DeepCopyObject ''BindingList'' (BindingList_DeepCopy L)"

definition Exchange_DeepCopy :: "'x lib \<Rightarrow> addr option \<Rightarrow> ('x cell, addr option) mem" where
  "Exchange_DeepCopy L = new_DeepCopyInto (as_Exchange \<circ> cObject) (CObject \<circ> MExchange) (Exchange_DeepCopyInto L)"

definition ExchangeList_DeepCopy :: "'x lib \<Rightarrow> addr option \<Rightarrow> ('x cell, addr option) mem" where
  "ExchangeList_DeepCopy L = new_DeepCopyInto cList CList (ExchangeList_DeepCopyInto L)"

definition ExchangeSpec_DeepCopy :: "'x lib \<Rightarrow> addr option \<Rightarrow> ('x cell, addr option) mem" where
  "ExchangeSpec_DeepCopy L = new_DeepCopyInto (spec_Exchange \<circ> cSpec) (CSpec \<circ> SExchange) (ExchangeSpec_DeepCopyInto L)"

definition ExchangeStatus_DeepCopy :: "'x lib \<Rightarrow> addr option \<Rightarrow> ('x cell, addr option) mem" where
  "ExchangeStatus_DeepCopy L = new_DeepCopyInto cStatus CStatus (ExchangeStatus_DeepCopyInto L)"

definition Exchange_DeepCopyObject :: "'x lib \<Rightarrow> addr option \<Rightarrow> ('x cell, runtime_Object) mem" where
  "Exchange_DeepCopyObject L = DeepCopyObject ''Exchange'' (Exchange_DeepCopy L)"

definition ExchangeList_DeepCopyObject :: "'x lib \<Rightarrow> addr option \<Rightarrow> ('x cell, runtime_Object) mem" where
  "ExchangeList_DeepCopyObject L = DeepCopyObject ''ExchangeList'' (ExchangeList_DeepCopy L)"

definition Queue_DeepCopy :: "'x lib \<Rightarrow> addr option \<Rightarrow> ('x cell, addr option) mem" where
  "Queue_DeepCopy L = new_DeepCopyInto (as_Queue \<circ> cObject) (CObject \<circ> MQueue) (Queue_DeepCopyInto L)"

definition QueueList_DeepCopy :: "'x lib \<Rightarrow> addr option \<Rightarrow> ('x cell, addr option) mem" where
  "QueueList_DeepCopy L = new_DeepCopyInto cList CList (QueueList_DeepCopyInto L)"

definition QueueSpec_DeepCopy :: "'x lib \<Rightarrow> addr option \<Rightarrow> ('x cell, addr option) mem" where
  "QueueSpec_DeepCopy L = new_DeepCopyInto (spec_Queue \<circ> cSpec) (CSpec \<circ> SQueue) (QueueSpec_DeepCopyInto L)"

definition QueueStatus_DeepCopy :: "'x lib \<Rightarrow> addr option \<Rightarrow> ('x cell, addr option) mem" where
  "QueueStatus_DeepCopy L = new_DeepCopyInto cStatus CStatus (QueueStatus_DeepCopyInto L)"

definition Queue_DeepCopyObject :: "'x lib \<Rightarrow> addr option \<Rightarrow> ('x cell, runtime_Object) mem" where
  "Queue_DeepCopyObject L = DeepCopyObject ''Queue'' (Queue_DeepCopy L)"

definition QueueList_DeepCopyObject :: "'x lib \<Rightarrow> addr option \<Rightarrow> ('x cell, runtime_Object) mem" where
  "QueueList_DeepCopyObject L = DeepCopyObject ''QueueList'' (QueueList_DeepCopy L)"

definition Vhost_DeepCopy :: "'x lib \<Rightarrow> addr option \<Rightarrow> ('x cell, addr option) mem" where
  "Vhost_DeepCopy L = new_DeepCopyInto (as_Vhost \<circ> cObject) (CObject \<circ> MVhost) (Vhost_DeepCopyInto L)"

definition VhostList_DeepCopy :: "'x lib \<Rightarrow> addr option \<Rightarrow> ('x cell, addr option) mem" where
  "VhostList_DeepCopy L = new_DeepCopyInto cList CList (VhostList_DeepCopyInto L)"

definition VhostSpec_DeepCopy :: "addr option \<Rightarrow> ('x cell, addr option) mem" where
  "VhostSpec_DeepCopy = new_DeepCopyInto (spec_Vhost \<circ> cSpec) (CSpec \<circ> SVhost) VhostSpec_DeepCopyInto"

definition VhostStatus_DeepCopy :: "'x lib \<Rightarrow> addr option \<Rightarrow> ('x cell, addr option) mem" where
  "VhostStatus_DeepCopy L = new_DeepCopyInto cStatus CStatus (VhostStatus_DeepCopyInto L)"

definition Vhost_DeepCopyObject :: "'x lib \<Rightarrow> addr option \<Rightarrow> ('x cell, runtime_Object) mem" where
  "Vhost_DeepCopyObject L = DeepCopyObject ''Vhost'' (Vhost_DeepCopy L)"

definition VhostList_DeepCopyObject :: "'x lib \<Rightarrow> addr option \<Rightarrow> ('x cell, runtime_Object) mem" where
  "VhostList_DeepCopyObject L = DeepCopyObject ''VhostList'' (VhostList_DeepCopy L)"

definition User_DeepCopy :: "'x lib \<Rightarrow> addr option \<Rightarrow> ('x cell, addr option) mem" where
  "User_DeepCopy L = new_DeepCopyInto (as_User \<circ> cObject) (CObject \<circ> MUser) (User_DeepCopyInto L)"

definition UserList_DeepCopy :: "'x lib \<Rightarrow> addr option \<Rightarrow> ('x cell, addr option) mem" where
  "UserList_DeepCopy L = new_DeepCopyInto cList CList (UserList_DeepCopyInto L)"

definition UserSpec_DeepCopy :: "addr option \<Rightarrow> ('x cell, addr option) mem" where
  "UserSpec_DeepCopy = new_DeepCopyInto (spec_User \<circ> cSpec) (CSpec \<circ> SUser) UserSpec_DeepCopyInto"

definition UserStatus_DeepCopy :: "'x lib \<Rightarrow> addr option \<Rightarrow> ('x cell, addr option) mem" where
  "UserStatus_DeepCopy L = new_DeepCopyInto cUserStatus CUserStatus (UserStatus_DeepCopyInto L)"

definition User_DeepCopyObject :: "'x lib \<Rightarrow> addr option \<Rightarrow> ('x cell, runtime_Object) mem" where
  "User_DeepCopyObject L = DeepCopyObject ''User'' (User_DeepCopy L)"

definition UserList_DeepCopyObject :: "'x lib \<Rightarrow> addr option \<Rightarrow> ('x cell, runtime_Object) mem" where
  "UserList_DeepCopyObject L = DeepCopyObject ''UserList'' (UserList_DeepCopy L)"

definition Permission_DeepCopy :: "'x lib \<Rightarrow> addr option \<Rightarrow> ('x cell, addr option) mem" where
  "Permission_DeepCopy L = new_DeepCopyInto (as_Permission \<circ> cObject) (CObject \<circ> MPermission) (Permission_DeepCopyInto L)"

definition PermissionList_DeepCopy :: "'x lib \<Rightarrow> addr option \<Rightarrow> ('x cell, addr option) mem" where
  "PermissionList_DeepCopy L = new_DeepCopyInto cList CList (PermissionList_DeepCopyInto L)"

definition PermissionSpec_DeepCopy :: "addr option \<Rightarrow> ('x cell, addr option) mem" where
  "PermissionSpec_DeepCopy = new_DeepCopyInto (spec_Permission \<circ> cSpec) (CSpec \<circ> SPermission) PermissionSpec_DeepCopyInto"

definition PermissionStatus_DeepCopy :: "'x lib \<Rightarrow> addr option \<Rightarrow> ('x cell, addr option) mem" where
  "PermissionStatus_DeepCopy L = new_DeepCopyInto cStatus CStatus (PermissionStatus_DeepCopyInto L)"

definition Permission_DeepCopyObject :: "'x lib \<Rightarrow> addr option \<Rightarrow> ('x cell, runtime_Object) mem" where
  "Permission_DeepCopyObject L = DeepCopyObject ''Permission'' (Permission_DeepCopy L)"

definition PermissionList_DeepCopyObject :: "'x lib \<Rightarrow> addr option \<Rightarrow> ('x cell, runtime_Object) mem" where
  "PermissionList_DeepCopyObject L = DeepCopyObject ''PermissionList'' (PermissionList_DeepCopy L)"

definition TopicPermission_DeepCopy :: "'x lib \<Rightarrow> addr option \<Rightarrow> ('x cell, addr option) mem" where
  "TopicPermission_DeepCopy L = new_DeepCopyInto (as_TopicPermission \<circ> cObject) (CObject \<circ> MTopicPermission) (TopicPermission_DeepCopyInto L)"

definition TopicPermissionList_DeepCopy :: "'x lib \<Rightarrow> addr option \<Rightarrow> ('x cell, addr option) mem" where
  "TopicPermissionList_DeepCopy L = new_DeepCopyInto cList CList (TopicPermissionList_DeepCopyInto L)"

definition TopicPermissionSpec_DeepCopy :: "addr option \<Rightarrow> ('x cell, addr option) mem" where
  "TopicPermissionSpec_DeepCopy = new_DeepCopyInto (spec_TopicPermission \<circ> cSpec) (CSpec \<circ> STopicPermission) TopicPermissionSpec_DeepCopyInto"

definition TopicPermissionStatus_DeepCopy :: "'x lib \<Rightarrow> addr option \<Rightarrow> ('x cell, addr option) mem" where
  "TopicPermissionStatus_DeepCopy L = new_DeepCopyInto cStatus CStatus (TopicPermissionStatus_DeepCopyInto L)"

definition TopicPermission_DeepCopyObject :: "'x lib \<Rightarrow> addr option \<Rightarrow> ('x cell, runtime_Object) mem" where
  "TopicPermission_DeepCopyObject L = DeepCopyObject ''TopicPermission'' (TopicPermission_DeepCopy L)"

definition TopicPermissionList_DeepCopyObject :: "'x lib \<Rightarrow> addr option \<Rightarrow> ('x cell, runtime_Object) mem" where
  "TopicPermissionList_DeepCopyObject L = DeepCopyObject ''TopicPermissionList'' (TopicPermissionList_DeepCopy L)"

definition Policy_DeepCopy :: "'x lib \<Rightarrow> addr option \<Rightarrow> ('x cell, addr option) mem" where
  "Policy_DeepCopy L = new_DeepCopyInto (as_Policy \<circ> cObject) (CObject \<circ> MPolicy) (Policy_DeepCopyInto L)"

definition PolicyList_DeepCopy :: "'x lib \<Rightarrow> addr option \<Rightarrow> ('x cell, addr option) mem" where
  "PolicyList_DeepCopy L = new_DeepCopyInto cList CList (PolicyList_DeepCopyInto L)"

definition PolicySpec_DeepCopy :: "'x lib \<Rightarrow> addr option \<Rightarrow> ('x cell, addr option) mem" where
  "PolicySpec_DeepCopy L = new_DeepCopyInto (spec_Policy \<circ> cSpec) (CSpec \<circ> SPolicy) (PolicySpec_DeepCopyInto L)"

definition PolicyStatus_DeepCopy :: "'x lib \<Rightarrow> addr option \<Rightarrow> ('x cell, addr option) mem" where
  "PolicyStatus_DeepCopy L = new_DeepCopyInto cStatus CStatus (PolicyStatus_DeepCopyInto L)"

definition Policy_DeepCopyObject :: "'x lib \<Rightarrow> addr option \<Rightarrow> ('x cell, runtime_Object) mem" where
  "Policy_DeepCopyObject L = DeepCopyObject ''Policy'' (Policy_DeepCopy L)"

definition PolicyList_DeepCopyObject :: "'x lib \<Rightarrow> addr option \<Rightarrow> ('x cell, runtime_Object) mem" where
  "PolicyList_DeepCopyObject L = DeepCopyObject ''PolicyList'' (PolicyList_DeepCopy L)"

definition OperatorPolicy_DeepCopy :: "'x lib \<Rightarrow> addr option \<Rightarrow> ('x cell, addr option) mem" where
  "OperatorPolicy_DeepCopy L = new_DeepCopyInto (as_OperatorPolicy \<circ> cObject) (CObject \<circ> MOperatorPolicy) (OperatorPolicy_DeepCopyInto L)"

definition OperatorPolicyList_DeepCopy :: "'x lib \<Rightarrow> addr option \<Rightarrow> ('x cell, addr option) mem" where
  "OperatorPolicyList_DeepCopy L = new_DeepCopyInto cList CList (OperatorPolicyList_DeepCopyInto L)"

definition OperatorPolicySpec_DeepCopy :: "'x lib \<Rightarrow> addr option \<Rightarrow> ('x cell, addr option) mem" where
  "OperatorPolicySpec_DeepCopy L = new_DeepCopyInto (spec_OperatorPolicy \<circ> cSpec) (CSpec \<circ> SOperatorPolicy) (OperatorPolicySpec_DeepCopyInto L)"

definition OperatorPolicyStatus_DeepCopy :: "'x lib \<Rightarrow> addr option \<Rightarrow> ('x cell, addr option) mem" where
  "OperatorPolicyStatus_DeepCopy L = new_DeepCopyInto cStatus CStatus (OperatorPolicyStatus_DeepCopyInto L)"

definition OperatorPolicy_DeepCopyObject :: "'x lib \<Rightarrow> addr option \<Rightarrow> ('x cell, runtime_Object) mem" where
  "OperatorPolicy_DeepCopyObject L = DeepCopyObject ''OperatorPolicy'' (OperatorPolicy_DeepCopy L)"

definition OperatorPolicyList_DeepCopyObject :: "'x lib \<Rightarrow> addr option \<Rightarrow> ('x cell, runtime_Object) mem" where
  "OperatorPolicyList_DeepCopyObject L = DeepCopyObject ''OperatorPolicyList'' (OperatorPolicyList_DeepCopy L)"

definition Federation_DeepCopy :: "'x lib \<Rightarrow> addr option \<Rightarrow> ('x cell, addr option) mem" where
  "Federation_DeepCopy L = new_DeepCopyInto (as_Federation \<circ> cObject) (CObject \<circ> MFederation) (Federation_DeepCopyInto L)"

definition FederationList_DeepCopy :: "'x lib \<Rightarrow> addr option \<Rightarrow> ('x cell, addr option) mem" where
  "FederationList_DeepCopy L = new_DeepCopyInto cList CList (FederationList_DeepCopyInto L)"

definition FederationSpec_DeepCopy :: "addr option \<Rightarrow> ('x cell, addr option) mem" where
  "FederationSpec_DeepCopy = new_DeepCopyInto (spec_Federation \<circ> cSpec) (CSpec \<circ> SFederation) FederationSpec_DeepCopyInto"

definition FederationStatus_DeepCopy :: "'x lib \<Rightarrow> addr option \<Rightarrow> ('x cell, addr option) mem" where
  "FederationStatus_DeepCopy L = new_DeepCopyInto cStatus CStatus (FederationStatus_DeepCopyInto L)"

definition Federation_DeepCopyObject :: "'x lib \<Rightarrow> addr option \<Rightarrow> ('x cell, runtime_Object) mem" where
  "Federation_DeepCopyObject L = DeepCopyObject ''Federation'' (Federation_DeepCopy L)"

definition FederationList_DeepCopyObject :: "'x lib \<Rightarrow> addr option \<Rightarrow> ('x cell, runtime_Object) mem" where
  "FederationList_DeepCopyObject L = DeepCopyObject ''FederationList'' (FederationList_DeepCopy L)"

definition Shovel_DeepCopy :: "'x lib \<Rightarrow> addr option \<Rightarrow> ('x cell, addr option) mem" where
  "Shovel_DeepCopy L = new_DeepCopyInto (as_Shovel \<circ> cObject) (CObject \<circ> MShovel) (Shovel_DeepCopyInto L)"

definition ShovelList_DeepCopy :: "'x lib \<Rightarrow> addr option \<Rightarrow> ('x cell, addr option) mem" where
  "ShovelList_DeepCopy L = new_DeepCopyInto cList CList (ShovelList_DeepCopyInto L)"

definition ShovelSpec_DeepCopy :: "'x lib \<Rightarrow> addr option \<Rightarrow> ('x cell, addr option) mem" where
  "ShovelSpec_DeepCopy L = new_DeepCopyInto (spec_Shovel \<circ> cSpec) (CSpec \<circ> SShovel) (ShovelSpec_DeepCopyInto L)"

definition ShovelStatus_DeepCopy :: "'x lib \<Rightarrow> addr option \<Rightarrow> ('x cell, addr option) mem" where
  "ShovelStatus_DeepCopy L = new_DeepCopyInto cStatus CStatus (ShovelStatus_DeepCopyInto L)"

definition Shovel_DeepCopyObject :: "'x lib \<Rightarrow> addr option \<Rightarrow> ('x cell, runtime_Object) mem" where
  "Shovel_DeepCopyObject L = DeepCopyObject ''Shovel'' (Shovel_DeepCopy L)"

definition ShovelList_DeepCopyObject :: "'x lib \<Rightarrow> addr option \<Rightarrow> ('x cell, runtime_Object) mem" where
  "ShovelList_DeepCopyObject L = DeepCopyObject ''ShovelList'' (ShovelList_DeepCopy L)"

definition SchemaReplication_DeepCopy :: "'x lib \<Rightarrow> addr option \<Rightarrow> ('x cell, addr option) mem" where
  "SchemaReplication_DeepCopy L = new_DeepCopyInto (as_SchemaReplication \<circ> cObject) (CObject \<circ> MSchemaReplication) (SchemaReplication_DeepCopyInto L)"

definition SchemaReplicationList_DeepCopy :: "'x lib \<Rightarrow> addr option \<Rightarrow> ('x cell, addr option) mem" where
  "SchemaReplicationList_DeepCopy L = new_DeepCopyInto cList CList (SchemaReplicationList_DeepCopyInto L)"

definition SchemaReplicationSpec_DeepCopy :: "addr option \<Rightarrow> ('x cell, addr option) mem" where
  "SchemaReplicationSpec_DeepCopy = new_DeepCopyInto (spec_SchemaReplication \<circ> cSpec) (CSpec \<circ> SSchemaReplication) SchemaReplicationSpec_DeepCopyInto"

definition SchemaReplicationStatus_DeepCopy :: "'x lib \<Rightarrow> addr option \<Rightarrow> ('x cell, addr option) mem" where
  "SchemaReplicationStatus_DeepCopy L = new_DeepCopyInto cStatus CStatus (SchemaReplicationStatus_DeepCopyInto L)"

definition SchemaReplication_DeepCopyObject :: "'x lib \<Rightarrow> addr option \<Rightarrow> ('x cell, runtime_Object) mem" where
  "SchemaReplication_DeepCopyObject L = DeepCopyObject ''SchemaReplication'' (SchemaReplication_DeepCopy L)"

definition SchemaReplicationList_DeepCopyObject :: "'x lib \<Rightarrow> addr option \<Rightarrow> ('x cell, runtime_Object) mem" where
  "SchemaReplicationList_DeepCopyObject L = DeepCopyObject ''SchemaReplicationList'' (SchemaReplicationList_DeepCopy L)"

definition SuperStream_DeepCopy :: "'x lib \<Rightarrow> addr option \<Rightarrow> ('x cell, addr option) mem" where
  "SuperStream_DeepCopy L = new_DeepCopyInto (as_SuperStream \<circ> cObject) (CObject \<circ> MSuperStream) (SuperStream_DeepCopyInto L)"

definition SuperStreamList_DeepCopy :: "'x lib \<Rightarrow> addr option \<Rightarrow> ('x cell, addr option) mem" where
  "SuperStreamList_DeepCopy L = new_DeepCopyInto cList CList (SuperStreamList_DeepCopyInto L)"

definition SuperStreamSpec_DeepCopy :: "addr option \<Rightarrow> ('x cell, addr option) mem" where
  "SuperStreamSpec_DeepCopy = new_DeepCopyInto (spec_SuperStream \<circ> cSpec) (CSpec \<circ> SSuperStream) SuperStreamSpec_DeepCopyInto"

definition SuperStreamStatus_DeepCopy :: "'x lib \<Rightarrow> addr option \<Rightarrow> ('x cell, addr option) mem" where
  "SuperStreamStatus_DeepCopy L = new_DeepCopyInto cSuperStreamStatus CSuperStreamStatus (SuperStreamStatus_DeepCopyInto L)"

definition SuperStream_DeepCopyObject :: "'x lib \<Rightarrow> addr option \<Rightarrow> ('x cell, runtime_Object) mem" where
  "SuperStream_DeepCopyObject L = DeepCopyObject ''SuperStream'' (SuperStream_DeepCopy L)"

definition SuperStreamList_DeepCopyObject :: "'x lib \<Rightarrow> addr option \<Rightarrow> ('x cell, runtime_Object) mem" where
  "SuperStreamList_DeepCopyObject L = DeepCopyObject ''SuperStreamList'' (SuperStreamList_DeepCopy L)"

definition Condition_DeepCopy :: "'x lib \<Rightarrow> addr option \<Rightarrow> ('x cell, addr option) mem" where
  "Condition_DeepCopy L = new_DeepCopyInto cCondition CCondition (Condition_DeepCopyInto L)"

definition RabbitmqClusterReference_DeepCopy :: "addr option \<Rightarrow> ('x cell, addr option) mem" where
  "RabbitmqClusterReference_DeepCopy = new_DeepCopyInto cReference CReference RabbitmqClusterReference_DeepCopyInto"

definition SecretBackend_DeepCopy :: "addr option \<Rightarrow> ('x cell, addr option) mem" where
  "SecretBackend_DeepCopy = new_DeepCopyInto cBackend CBackend SecretBackend_DeepCopyInto"

definition VaultSpec_DeepCopy :: "addr option \<Rightarrow> ('x cell, addr option) mem" where
  "VaultSpec_DeepCopy = new_DeepCopyInto cVault CVault VaultSpec_DeepCopyInto"

definition VhostLimits_DeepCopy :: "addr option \<Rightarrow> ('x cell, addr option) mem" where
  "VhostLimits_DeepCopy = new_DeepCopyInto cVhostLimits CVhostLimits VhostLimits_DeepCopyInto"

definition UserLimits_DeepCopy :: "addr option \<Rightarrow> ('x cell, addr option) mem" where
  "UserLimits_DeepCopy = new_DeepCopyInto cUserLimits CUserLimits UserLimits_DeepCopyInto"

definition VhostPermissions_DeepCopy :: "addr option \<Rightarrow> ('x cell, addr option) mem" where
  "VhostPermissions_DeepCopy = new_DeepCopyInto cPermissions CPermissions VhostPermissions_DeepCopyInto"

definition TopicPermissionConfig_DeepCopy :: "addr option \<Rightarrow> ('x cell, addr option) mem" where
  "TopicPermissionConfig_DeepCopy = new_DeepCopyInto cTopicPermissions CTopicPermissions TopicPermissionConfig_DeepCopyInto"

end
