(* ===== verification/Deep_Copy_Laws.thy ===== *)
theory Deep_Copy_Laws
  imports Deep_Copy
begin

text \<open>
  The generated copies satisfy the contract of \<open>Go_Heap\<close>, given that those of apimachinery do: the
  locale \<open>copy_library\<close>. What the reconciler relies on follows: it reads every object into a deep
  copy of one prototype that all its runs share.
\<close>

section \<open>Pointers to values and slices of strings\<close>

lemma ref_ptr_copier: "deep_copier (ptr_view cRef (\<lambda>h v. v)) (ptr_foot cRef (\<lambda>h v. {})) (new_DeepCopyInto cRef CRef State_Monad.return)"
  by (rule deep_copier_ptr [OF deep_copier_value]) simp

lemma int_ptr_copier: "deep_copier (ptr_view cInt (\<lambda>h v. v)) (ptr_foot cInt (\<lambda>h v. {})) (new_DeepCopyInto cInt CInt State_Monad.return)"
  by (rule deep_copier_ptr [OF deep_copier_value]) simp

lemma bool_ptr_copier: "deep_copier (ptr_view cBool (\<lambda>h v. v)) (ptr_foot cBool (\<lambda>h v. {})) (new_DeepCopyInto cBool CBool State_Monad.return)"
  by (rule deep_copier_ptr [OF deep_copier_value]) simp

lemma vault_ptr_copier: "deep_copier (ptr_view cVault (\<lambda>h v. v)) (ptr_foot cVault (\<lambda>h v. {})) (new_DeepCopyInto cVault CVault State_Monad.return)"
  by (rule deep_copier_ptr [OF deep_copier_value]) simp

lemma strings_copier: "deep_copier (slice_view cStrings (\<lambda>h v. v)) (slice_foot cStrings (\<lambda>h v. {})) (make_DeepCopyInto cStrings CStrings State_Monad.return)"
  by (rule deep_copier_slice [OF deep_copier_value]) simp


section \<open>Structs that need no library\<close>

lemma RabbitmqClusterReference_copier: "deep_copier (RabbitmqClusterReference_view) (RabbitmqClusterReference_foot) (RabbitmqClusterReference_DeepCopyInto)"
  by (rule deep_copier_struct [OF ref_ptr_copier,
        where parts = "\<lambda>s. mref_ConnectionSecret s" and
          put = "\<lambda>x1 s. s\<lparr>mref_ConnectionSecret := x1\<rparr>"])
    (auto simp: RabbitmqClusterReference_view_def RabbitmqClusterReference_foot_def RabbitmqClusterReference_DeepCopyInto_def pair_copy_def split: prod.splits)

lemma SecretBackend_copier: "deep_copier (SecretBackend_view) (SecretBackend_foot) (SecretBackend_DeepCopyInto)"
  by (rule deep_copier_struct [OF vault_ptr_copier,
        where parts = "\<lambda>s. msb_Vault s" and
          put = "\<lambda>x1 s. s\<lparr>msb_Vault := x1\<rparr>"])
    (auto simp: SecretBackend_view_def SecretBackend_foot_def SecretBackend_DeepCopyInto_def pair_copy_def split: prod.splits)

lemma VhostLimits_copier: "deep_copier (VhostLimits_view) (VhostLimits_foot) (VhostLimits_DeepCopyInto)"
  by (rule deep_copier_struct [OF deep_copier_pair [OF int_ptr_copier int_ptr_copier],
        where parts = "\<lambda>s. (mvl_Connections s, mvl_Queues s)" and
          put = "\<lambda>(x1, x2) s. s\<lparr>mvl_Connections := x1, mvl_Queues := x2\<rparr>"])
    (auto simp: VhostLimits_view_def VhostLimits_foot_def VhostLimits_DeepCopyInto_def pair_copy_def split: prod.splits)

lemma UserLimits_copier: "deep_copier (UserLimits_view) (UserLimits_foot) (UserLimits_DeepCopyInto)"
  by (rule deep_copier_struct [OF deep_copier_pair [OF int_ptr_copier int_ptr_copier],
        where parts = "\<lambda>s. (mul_Connections s, mul_Channels s)" and
          put = "\<lambda>(x1, x2) s. s\<lparr>mul_Connections := x1, mul_Channels := x2\<rparr>"])
    (auto simp: UserLimits_view_def UserLimits_foot_def UserLimits_DeepCopyInto_def pair_copy_def split: prod.splits)

lemma VhostLimits_ptr_copier:
  "deep_copier (ptr_view cVhostLimits VhostLimits_view) (ptr_foot cVhostLimits VhostLimits_foot)
     (new_DeepCopyInto cVhostLimits CVhostLimits VhostLimits_DeepCopyInto)"
  by (rule deep_copier_ptr [OF VhostLimits_copier]) simp

lemma UserLimits_ptr_copier:
  "deep_copier (ptr_view cUserLimits UserLimits_view) (ptr_foot cUserLimits UserLimits_foot)
     (new_DeepCopyInto cUserLimits CUserLimits UserLimits_DeepCopyInto)"
  by (rule deep_copier_ptr [OF UserLimits_copier]) simp

lemma VhostSpec_copier: "deep_copier (VhostSpec_view) (VhostSpec_foot) (VhostSpec_DeepCopyInto)"
  by (rule deep_copier_struct [OF deep_copier_pair [OF strings_copier deep_copier_pair [OF RabbitmqClusterReference_copier VhostLimits_ptr_copier]],
        where parts = "\<lambda>s. (mvh_Tags s, (mvh_RabbitmqClusterReference s, mvh_VhostLimits s))" and
          put = "\<lambda>(x1, (x2, x3)) s. s\<lparr>mvh_Tags := x1, mvh_RabbitmqClusterReference := x2, mvh_VhostLimits := x3\<rparr>"])
    (auto simp: VhostSpec_view_def VhostSpec_foot_def VhostSpec_DeepCopyInto_def pair_copy_def split: prod.splits)

lemma UserSpec_copier: "deep_copier (UserSpec_view) (UserSpec_foot) (UserSpec_DeepCopyInto)"
  by (rule deep_copier_struct [OF deep_copier_pair [OF strings_copier deep_copier_pair [OF RabbitmqClusterReference_copier deep_copier_pair [OF ref_ptr_copier UserLimits_ptr_copier]]],
        where parts = "\<lambda>s. (mu_Tags s, (mu_RabbitmqClusterReference s, (mu_ImportCredentialsSecret s, mu_UserLimits s)))" and
          put = "\<lambda>(x1, (x2, (x3, x4))) s. s\<lparr>mu_Tags := x1, mu_RabbitmqClusterReference := x2, mu_ImportCredentialsSecret := x3, mu_UserLimits := x4\<rparr>"])
    (auto simp: UserSpec_view_def UserSpec_foot_def UserSpec_DeepCopyInto_def pair_copy_def split: prod.splits)

lemma PermissionSpec_copier: "deep_copier (PermissionSpec_view) (PermissionSpec_foot) (PermissionSpec_DeepCopyInto)"
  by (rule deep_copier_struct [OF deep_copier_pair [OF ref_ptr_copier RabbitmqClusterReference_copier],
        where parts = "\<lambda>s. (mp_UserReference s, mp_RabbitmqClusterReference s)" and
          put = "\<lambda>(x1, x2) s. s\<lparr>mp_UserReference := x1, mp_RabbitmqClusterReference := x2\<rparr>"])
    (auto simp: PermissionSpec_view_def PermissionSpec_foot_def PermissionSpec_DeepCopyInto_def pair_copy_def split: prod.splits)

lemma TopicPermissionSpec_copier: "deep_copier (TopicPermissionSpec_view) (TopicPermissionSpec_foot) (TopicPermissionSpec_DeepCopyInto)"
  by (rule deep_copier_struct [OF deep_copier_pair [OF ref_ptr_copier RabbitmqClusterReference_copier],
        where parts = "\<lambda>s. (mtp_UserReference s, mtp_RabbitmqClusterReference s)" and
          put = "\<lambda>(x1, x2) s. s\<lparr>mtp_UserReference := x1, mtp_RabbitmqClusterReference := x2\<rparr>"])
    (auto simp: TopicPermissionSpec_view_def TopicPermissionSpec_foot_def TopicPermissionSpec_DeepCopyInto_def pair_copy_def split: prod.splits)

lemma FederationSpec_copier: "deep_copier (FederationSpec_view) (FederationSpec_foot) (FederationSpec_DeepCopyInto)"
  by (rule deep_copier_struct [OF deep_copier_pair [OF RabbitmqClusterReference_copier deep_copier_pair [OF ref_ptr_copier int_ptr_copier]],
        where parts = "\<lambda>s. (mf_RabbitmqClusterReference s, (mf_UriSecret s, mf_ReconnectDelay s))" and
          put = "\<lambda>(x1, (x2, x3)) s. s\<lparr>mf_RabbitmqClusterReference := x1, mf_UriSecret := x2, mf_ReconnectDelay := x3\<rparr>"])
    (auto simp: FederationSpec_view_def FederationSpec_foot_def FederationSpec_DeepCopyInto_def pair_copy_def split: prod.splits)

lemma SchemaReplicationSpec_copier: "deep_copier (SchemaReplicationSpec_view) (SchemaReplicationSpec_foot) (SchemaReplicationSpec_DeepCopyInto)"
  by (rule deep_copier_struct [OF deep_copier_pair [OF RabbitmqClusterReference_copier deep_copier_pair [OF ref_ptr_copier SecretBackend_copier]],
        where parts = "\<lambda>s. (msr_RabbitmqClusterReference s, (msr_UpstreamSecret s, msr_SecretBackend s))" and
          put = "\<lambda>(x1, (x2, x3)) s. s\<lparr>msr_RabbitmqClusterReference := x1, msr_UpstreamSecret := x2, msr_SecretBackend := x3\<rparr>"])
    (auto simp: SchemaReplicationSpec_view_def SchemaReplicationSpec_foot_def SchemaReplicationSpec_DeepCopyInto_def pair_copy_def split: prod.splits)

lemma SuperStreamSpec_copier: "deep_copier (SuperStreamSpec_view) (SuperStreamSpec_foot) (SuperStreamSpec_DeepCopyInto)"
  by (rule deep_copier_struct [OF deep_copier_pair [OF strings_copier RabbitmqClusterReference_copier],
        where parts = "\<lambda>s. (mss_RoutingKeys s, mss_RabbitmqClusterReference s)" and
          put = "\<lambda>(x1, x2) s. s\<lparr>mss_RoutingKeys := x1, mss_RabbitmqClusterReference := x2\<rparr>"])
    (auto simp: SuperStreamSpec_view_def SuperStreamSpec_foot_def SuperStreamSpec_DeepCopyInto_def pair_copy_def split: prod.splits)


section \<open>The copies of apimachinery\<close>

text \<open>The documented behaviour of the four copies of apimachinery: each is a deep copy.\<close>

locale copy_library =
  fixes L :: "'x lib"
  assumes ObjectMeta: "deep_copier (ObjectMeta_view L) (ObjectMeta_foot L) (ObjectMeta_DeepCopyInto L)"
    and ListMeta: "deep_copier (ListMeta_view L) (ListMeta_foot L) (ListMeta_DeepCopyInto L)"
    and RawExtension: "deep_copier (RawExtension_view L) (RawExtension_foot L) (RawExtension_DeepCopyInto L)"
    and Time: "deep_copier (Time_view L) (Time_foot L) (Time_DeepCopyInto L)"
begin

lemma raw_ptr_copier:
  "deep_copier (ptr_view cRaw (RawExtension_view L)) (ptr_foot cRaw (RawExtension_foot L))
     (new_DeepCopyInto cRaw CRaw (RawExtension_DeepCopyInto L))"
  by (rule deep_copier_ptr [OF RawExtension]) simp

lemma Condition_copier: "deep_copier (Condition_view L) (Condition_foot L) (Condition_DeepCopyInto L)"
  by (rule deep_copier_struct [OF Time, where parts = mcond_LastTransitionTime and
          put = "\<lambda>x s. s\<lparr>mcond_LastTransitionTime := x\<rparr>"])
    (auto simp: Condition_view_def Condition_foot_def Condition_DeepCopyInto_def split: prod.splits)

lemma conditions_copier:
  "deep_copier (slice_view cConditions (Condition_view L)) (slice_foot cConditions (Condition_foot L))
     (make_DeepCopyInto cConditions CConditions (Condition_DeepCopyInto L))"
  by (rule deep_copier_slice [OF Condition_copier]) simp

lemma BindingSpec_copier: "deep_copier (BindingSpec_view L) (BindingSpec_foot L) (BindingSpec_DeepCopyInto L)"
  by (rule deep_copier_struct [OF deep_copier_pair [OF raw_ptr_copier RabbitmqClusterReference_copier],
        where parts = "\<lambda>s. (mb_Arguments s, mb_RabbitmqClusterReference s)" and
          put = "\<lambda>(x1, x2) s. s\<lparr>mb_Arguments := x1, mb_RabbitmqClusterReference := x2\<rparr>"])
    (auto simp: BindingSpec_view_def BindingSpec_foot_def BindingSpec_DeepCopyInto_def pair_copy_def split: prod.splits)

lemma ExchangeSpec_copier: "deep_copier (ExchangeSpec_view L) (ExchangeSpec_foot L) (ExchangeSpec_DeepCopyInto L)"
  by (rule deep_copier_struct [OF deep_copier_pair [OF raw_ptr_copier RabbitmqClusterReference_copier],
        where parts = "\<lambda>s. (mex_Arguments s, mex_RabbitmqClusterReference s)" and
          put = "\<lambda>(x1, x2) s. s\<lparr>mex_Arguments := x1, mex_RabbitmqClusterReference := x2\<rparr>"])
    (auto simp: ExchangeSpec_view_def ExchangeSpec_foot_def ExchangeSpec_DeepCopyInto_def pair_copy_def split: prod.splits)

lemma QueueSpec_copier: "deep_copier (QueueSpec_view L) (QueueSpec_foot L) (QueueSpec_DeepCopyInto L)"
  by (rule deep_copier_struct [OF deep_copier_pair [OF bool_ptr_copier deep_copier_pair [OF raw_ptr_copier RabbitmqClusterReference_copier]],
        where parts = "\<lambda>s. (mq_Durable s, (mq_Arguments s, mq_RabbitmqClusterReference s))" and
          put = "\<lambda>(x1, (x2, x3)) s. s\<lparr>mq_Durable := x1, mq_Arguments := x2, mq_RabbitmqClusterReference := x3\<rparr>"])
    (auto simp: QueueSpec_view_def QueueSpec_foot_def QueueSpec_DeepCopyInto_def pair_copy_def split: prod.splits)

lemma PolicySpec_copier: "deep_copier (PolicySpec_view L) (PolicySpec_foot L) (PolicySpec_DeepCopyInto L)"
  by (rule deep_copier_struct [OF deep_copier_pair [OF raw_ptr_copier RabbitmqClusterReference_copier],
        where parts = "\<lambda>s. (mpol_Definition s, mpol_RabbitmqClusterReference s)" and
          put = "\<lambda>(x1, x2) s. s\<lparr>mpol_Definition := x1, mpol_RabbitmqClusterReference := x2\<rparr>"])
    (auto simp: PolicySpec_view_def PolicySpec_foot_def PolicySpec_DeepCopyInto_def pair_copy_def split: prod.splits)

lemma OperatorPolicySpec_copier: "deep_copier (OperatorPolicySpec_view L) (OperatorPolicySpec_foot L) (OperatorPolicySpec_DeepCopyInto L)"
  by (rule deep_copier_struct [OF deep_copier_pair [OF raw_ptr_copier RabbitmqClusterReference_copier],
        where parts = "\<lambda>s. (mop_Definition s, mop_RabbitmqClusterReference s)" and
          put = "\<lambda>(x1, x2) s. s\<lparr>mop_Definition := x1, mop_RabbitmqClusterReference := x2\<rparr>"])
    (auto simp: OperatorPolicySpec_view_def OperatorPolicySpec_foot_def OperatorPolicySpec_DeepCopyInto_def pair_copy_def split: prod.splits)

lemma ShovelSpec_copier: "deep_copier (ShovelSpec_view L) (ShovelSpec_foot L) (ShovelSpec_DeepCopyInto L)"
  by (rule deep_copier_struct [OF deep_copier_pair [OF RabbitmqClusterReference_copier deep_copier_pair [OF ref_ptr_copier deep_copier_pair [OF raw_ptr_copier deep_copier_pair [OF raw_ptr_copier deep_copier_pair [OF raw_ptr_copier deep_copier_pair [OF raw_ptr_copier deep_copier_pair [OF raw_ptr_copier deep_copier_pair [OF raw_ptr_copier raw_ptr_copier]]]]]]]],
        where parts = "\<lambda>s. (ms_RabbitmqClusterReference s, (ms_UriSecret s, (ms_SourceQueueArgs s, (ms_DestinationQueueArgs s, (ms_DestinationPublishProperties s, (ms_DestinationApplicationProperties s, (ms_DestinationProperties s, (ms_DestinationMessageAnnotations s, ms_SourceConsumerArgs s))))))))" and
          put = "\<lambda>(x1, (x2, (x3, (x4, (x5, (x6, (x7, (x8, x9)))))))) s. s\<lparr>ms_RabbitmqClusterReference := x1, ms_UriSecret := x2, ms_SourceQueueArgs := x3, ms_DestinationQueueArgs := x4, ms_DestinationPublishProperties := x5, ms_DestinationApplicationProperties := x6, ms_DestinationProperties := x7, ms_DestinationMessageAnnotations := x8, ms_SourceConsumerArgs := x9\<rparr>"])
    (auto simp: ShovelSpec_view_def ShovelSpec_foot_def ShovelSpec_DeepCopyInto_def pair_copy_def split: prod.splits)

lemma status_copier: "deep_copier (status_view L) (status_foot L) (status_DeepCopyInto L)"
  by (rule deep_copier_struct [OF conditions_copier, where parts = mst_Conditions and
          put = "\<lambda>x s. s\<lparr>mst_Conditions := x\<rparr>"])
    (auto simp: status_view_def status_foot_def status_DeepCopyInto_def split: prod.splits)

lemma UserStatus_copier: "deep_copier (UserStatus_view L) (UserStatus_foot L) (UserStatus_DeepCopyInto L)"
  by (rule deep_copier_struct [OF deep_copier_pair [OF conditions_copier ref_ptr_copier],
        where parts = "\<lambda>s. (mus_Conditions s, mus_Credentials s)" and
          put = "\<lambda>(x1, x2) s. s\<lparr>mus_Conditions := x1, mus_Credentials := x2\<rparr>"])
    (auto simp: UserStatus_view_def UserStatus_foot_def UserStatus_DeepCopyInto_def pair_copy_def split: prod.splits)

lemma SuperStreamStatus_copier: "deep_copier (SuperStreamStatus_view L) (SuperStreamStatus_foot L) (SuperStreamStatus_DeepCopyInto L)"
  by (rule deep_copier_struct [OF deep_copier_pair [OF conditions_copier strings_copier],
        where parts = "\<lambda>s. (msss_Conditions s, msss_Partitions s)" and
          put = "\<lambda>(x1, x2) s. s\<lparr>msss_Conditions := x1, msss_Partitions := x2\<rparr>"])
    (auto simp: SuperStreamStatus_view_def SuperStreamStatus_foot_def SuperStreamStatus_DeepCopyInto_def pair_copy_def split: prod.splits)

lemma object_copier:
  assumes "deep_copier SV SF SC" and "deep_copier TV TF TC"
  shows "deep_copier (object_view L SV TV) (object_foot L SF TF) (object_DeepCopyInto L SC TC)"
  by (rule deep_copier_struct [OF deep_copier_pair [OF ObjectMeta deep_copier_pair [OF assms]],
        where parts = "\<lambda>s. (mo_Meta s, (mo_Spec s, mo_Status s))" and
          put = "\<lambda>(x1, (x2, x3)) s. s\<lparr>mo_Meta := x1, mo_Spec := x2, mo_Status := x3\<rparr>"])
    (auto simp: object_view_def object_foot_def object_DeepCopyInto_def pair_copy_def split: prod.splits)

lemma list_copier:
  assumes "deep_copier V F C" and "\<And>xs. sel (con xs) = xs"
  shows "deep_copier (list_view L sel V) (list_foot L sel F) (list_DeepCopyInto L sel con C)"
  by (rule deep_copier_struct [OF deep_copier_pair [OF ListMeta deep_copier_slice [of _ _ _ sel con, OF assms]],
        where parts = "\<lambda>s. (ml_Meta s, ml_Items s)" and put = "\<lambda>(x1, x2) s. s\<lparr>ml_Meta := x1, ml_Items := x2\<rparr>"])
    (auto simp: list_view_def list_foot_def list_DeepCopyInto_def pair_copy_def split: prod.splits)


lemma Binding_copier: "deep_copier (Binding_view L) (Binding_foot L) (Binding_DeepCopyInto L)"
  unfolding Binding_view_def Binding_foot_def Binding_DeepCopyInto_def BindingStatus_DeepCopyInto_def
  by (rule object_copier [OF BindingSpec_copier status_copier])

lemma Exchange_copier: "deep_copier (Exchange_view L) (Exchange_foot L) (Exchange_DeepCopyInto L)"
  unfolding Exchange_view_def Exchange_foot_def Exchange_DeepCopyInto_def ExchangeStatus_DeepCopyInto_def
  by (rule object_copier [OF ExchangeSpec_copier status_copier])

lemma Queue_copier: "deep_copier (Queue_view L) (Queue_foot L) (Queue_DeepCopyInto L)"
  unfolding Queue_view_def Queue_foot_def Queue_DeepCopyInto_def QueueStatus_DeepCopyInto_def
  by (rule object_copier [OF QueueSpec_copier status_copier])

lemma Vhost_copier: "deep_copier (Vhost_view L) (Vhost_foot L) (Vhost_DeepCopyInto L)"
  unfolding Vhost_view_def Vhost_foot_def Vhost_DeepCopyInto_def VhostStatus_DeepCopyInto_def
  by (rule object_copier [OF VhostSpec_copier status_copier])

lemma User_copier: "deep_copier (User_view L) (User_foot L) (User_DeepCopyInto L)"
  unfolding User_view_def User_foot_def User_DeepCopyInto_def
  by (rule object_copier [OF UserSpec_copier UserStatus_copier])

lemma Permission_copier: "deep_copier (Permission_view L) (Permission_foot L) (Permission_DeepCopyInto L)"
  unfolding Permission_view_def Permission_foot_def Permission_DeepCopyInto_def PermissionStatus_DeepCopyInto_def
  by (rule object_copier [OF PermissionSpec_copier status_copier])

lemma TopicPermission_copier: "deep_copier (TopicPermission_view L) (TopicPermission_foot L) (TopicPermission_DeepCopyInto L)"
  unfolding TopicPermission_view_def TopicPermission_foot_def TopicPermission_DeepCopyInto_def TopicPermissionStatus_DeepCopyInto_def
  by (rule object_copier [OF TopicPermissionSpec_copier status_copier])

lemma Policy_copier: "deep_copier (Policy_view L) (Policy_foot L) (Policy_DeepCopyInto L)"
  unfolding Policy_view_def Policy_foot_def Policy_DeepCopyInto_def PolicyStatus_DeepCopyInto_def
  by (rule object_copier [OF PolicySpec_copier status_copier])

lemma OperatorPolicy_copier: "deep_copier (OperatorPolicy_view L) (OperatorPolicy_foot L) (OperatorPolicy_DeepCopyInto L)"
  unfolding OperatorPolicy_view_def OperatorPolicy_foot_def OperatorPolicy_DeepCopyInto_def OperatorPolicyStatus_DeepCopyInto_def
  by (rule object_copier [OF OperatorPolicySpec_copier status_copier])

lemma Federation_copier: "deep_copier (Federation_view L) (Federation_foot L) (Federation_DeepCopyInto L)"
  unfolding Federation_view_def Federation_foot_def Federation_DeepCopyInto_def FederationStatus_DeepCopyInto_def
  by (rule object_copier [OF FederationSpec_copier status_copier])

lemma Shovel_copier: "deep_copier (Shovel_view L) (Shovel_foot L) (Shovel_DeepCopyInto L)"
  unfolding Shovel_view_def Shovel_foot_def Shovel_DeepCopyInto_def ShovelStatus_DeepCopyInto_def
  by (rule object_copier [OF ShovelSpec_copier status_copier])

lemma SchemaReplication_copier: "deep_copier (SchemaReplication_view L) (SchemaReplication_foot L) (SchemaReplication_DeepCopyInto L)"
  unfolding SchemaReplication_view_def SchemaReplication_foot_def SchemaReplication_DeepCopyInto_def SchemaReplicationStatus_DeepCopyInto_def
  by (rule object_copier [OF SchemaReplicationSpec_copier status_copier])

lemma SuperStream_copier: "deep_copier (SuperStream_view L) (SuperStream_foot L) (SuperStream_DeepCopyInto L)"
  unfolding SuperStream_view_def SuperStream_foot_def SuperStream_DeepCopyInto_def
  by (rule object_copier [OF SuperStreamSpec_copier SuperStreamStatus_copier])

lemma BindingList_copier:
  "deep_copier (list_view L (map as_Binding \<circ> cObjects) (Binding_view L)) (list_foot L (map as_Binding \<circ> cObjects) (Binding_foot L))
     (BindingList_DeepCopyInto L)"
  unfolding BindingList_DeepCopyInto_def by (rule list_copier [OF Binding_copier]) (simp add: map_idI)

lemma ExchangeList_copier:
  "deep_copier (list_view L (map as_Exchange \<circ> cObjects) (Exchange_view L)) (list_foot L (map as_Exchange \<circ> cObjects) (Exchange_foot L))
     (ExchangeList_DeepCopyInto L)"
  unfolding ExchangeList_DeepCopyInto_def by (rule list_copier [OF Exchange_copier]) (simp add: map_idI)

lemma QueueList_copier:
  "deep_copier (list_view L (map as_Queue \<circ> cObjects) (Queue_view L)) (list_foot L (map as_Queue \<circ> cObjects) (Queue_foot L))
     (QueueList_DeepCopyInto L)"
  unfolding QueueList_DeepCopyInto_def by (rule list_copier [OF Queue_copier]) (simp add: map_idI)

lemma VhostList_copier:
  "deep_copier (list_view L (map as_Vhost \<circ> cObjects) (Vhost_view L)) (list_foot L (map as_Vhost \<circ> cObjects) (Vhost_foot L))
     (VhostList_DeepCopyInto L)"
  unfolding VhostList_DeepCopyInto_def by (rule list_copier [OF Vhost_copier]) (simp add: map_idI)

lemma UserList_copier:
  "deep_copier (list_view L (map as_User \<circ> cObjects) (User_view L)) (list_foot L (map as_User \<circ> cObjects) (User_foot L))
     (UserList_DeepCopyInto L)"
  unfolding UserList_DeepCopyInto_def by (rule list_copier [OF User_copier]) (simp add: map_idI)

lemma PermissionList_copier:
  "deep_copier (list_view L (map as_Permission \<circ> cObjects) (Permission_view L)) (list_foot L (map as_Permission \<circ> cObjects) (Permission_foot L))
     (PermissionList_DeepCopyInto L)"
  unfolding PermissionList_DeepCopyInto_def by (rule list_copier [OF Permission_copier]) (simp add: map_idI)

lemma TopicPermissionList_copier:
  "deep_copier (list_view L (map as_TopicPermission \<circ> cObjects) (TopicPermission_view L)) (list_foot L (map as_TopicPermission \<circ> cObjects) (TopicPermission_foot L))
     (TopicPermissionList_DeepCopyInto L)"
  unfolding TopicPermissionList_DeepCopyInto_def by (rule list_copier [OF TopicPermission_copier]) (simp add: map_idI)

lemma PolicyList_copier:
  "deep_copier (list_view L (map as_Policy \<circ> cObjects) (Policy_view L)) (list_foot L (map as_Policy \<circ> cObjects) (Policy_foot L))
     (PolicyList_DeepCopyInto L)"
  unfolding PolicyList_DeepCopyInto_def by (rule list_copier [OF Policy_copier]) (simp add: map_idI)

lemma OperatorPolicyList_copier:
  "deep_copier (list_view L (map as_OperatorPolicy \<circ> cObjects) (OperatorPolicy_view L)) (list_foot L (map as_OperatorPolicy \<circ> cObjects) (OperatorPolicy_foot L))
     (OperatorPolicyList_DeepCopyInto L)"
  unfolding OperatorPolicyList_DeepCopyInto_def by (rule list_copier [OF OperatorPolicy_copier]) (simp add: map_idI)

lemma FederationList_copier:
  "deep_copier (list_view L (map as_Federation \<circ> cObjects) (Federation_view L)) (list_foot L (map as_Federation \<circ> cObjects) (Federation_foot L))
     (FederationList_DeepCopyInto L)"
  unfolding FederationList_DeepCopyInto_def by (rule list_copier [OF Federation_copier]) (simp add: map_idI)

lemma ShovelList_copier:
  "deep_copier (list_view L (map as_Shovel \<circ> cObjects) (Shovel_view L)) (list_foot L (map as_Shovel \<circ> cObjects) (Shovel_foot L))
     (ShovelList_DeepCopyInto L)"
  unfolding ShovelList_DeepCopyInto_def by (rule list_copier [OF Shovel_copier]) (simp add: map_idI)

lemma SchemaReplicationList_copier:
  "deep_copier (list_view L (map as_SchemaReplication \<circ> cObjects) (SchemaReplication_view L)) (list_foot L (map as_SchemaReplication \<circ> cObjects) (SchemaReplication_foot L))
     (SchemaReplicationList_DeepCopyInto L)"
  unfolding SchemaReplicationList_DeepCopyInto_def by (rule list_copier [OF SchemaReplication_copier]) (simp add: map_idI)

lemma SuperStreamList_copier:
  "deep_copier (list_view L (map as_SuperStream \<circ> cObjects) (SuperStream_view L)) (list_foot L (map as_SuperStream \<circ> cObjects) (SuperStream_foot L))
     (SuperStreamList_DeepCopyInto L)"
  unfolding SuperStreamList_DeepCopyInto_def by (rule list_copier [OF SuperStream_copier]) (simp add: map_idI)

end


section \<open>Interpretations\<close>

text \<open>
  \<open>DeepCopy\<close> on a pointer: a deep copy of the struct it points to.
\<close>

interpretation cluster_reference: deep_copier "ptr_view cReference RabbitmqClusterReference_view"
  "ptr_foot cReference RabbitmqClusterReference_foot" RabbitmqClusterReference_DeepCopy
  unfolding RabbitmqClusterReference_DeepCopy_def by (rule deep_copier_ptr [OF RabbitmqClusterReference_copier]) simp

interpretation secret_backend: deep_copier "ptr_view cBackend SecretBackend_view"
  "ptr_foot cBackend SecretBackend_foot" SecretBackend_DeepCopy
  unfolding SecretBackend_DeepCopy_def by (rule deep_copier_ptr [OF SecretBackend_copier]) simp

interpretation vhost_limits: deep_copier "ptr_view cVhostLimits VhostLimits_view"
  "ptr_foot cVhostLimits VhostLimits_foot" VhostLimits_DeepCopy
  unfolding VhostLimits_DeepCopy_def by (rule VhostLimits_ptr_copier)

interpretation user_limits: deep_copier "ptr_view cUserLimits UserLimits_view"
  "ptr_foot cUserLimits UserLimits_foot" UserLimits_DeepCopy
  unfolding UserLimits_DeepCopy_def by (rule UserLimits_ptr_copier)

sublocale copy_library \<subseteq> binding: deep_copier "ptr_view (as_Binding \<circ> cObject) (Binding_view L)"
  "ptr_foot (as_Binding \<circ> cObject) (Binding_foot L)" "Binding_DeepCopy L"
  unfolding Binding_DeepCopy_def by (rule deep_copier_ptr [OF Binding_copier]) simp

sublocale copy_library \<subseteq> exchange: deep_copier "ptr_view (as_Exchange \<circ> cObject) (Exchange_view L)"
  "ptr_foot (as_Exchange \<circ> cObject) (Exchange_foot L)" "Exchange_DeepCopy L"
  unfolding Exchange_DeepCopy_def by (rule deep_copier_ptr [OF Exchange_copier]) simp

sublocale copy_library \<subseteq> queue: deep_copier "ptr_view (as_Queue \<circ> cObject) (Queue_view L)"
  "ptr_foot (as_Queue \<circ> cObject) (Queue_foot L)" "Queue_DeepCopy L"
  unfolding Queue_DeepCopy_def by (rule deep_copier_ptr [OF Queue_copier]) simp

sublocale copy_library \<subseteq> vhost: deep_copier "ptr_view (as_Vhost \<circ> cObject) (Vhost_view L)"
  "ptr_foot (as_Vhost \<circ> cObject) (Vhost_foot L)" "Vhost_DeepCopy L"
  unfolding Vhost_DeepCopy_def by (rule deep_copier_ptr [OF Vhost_copier]) simp

sublocale copy_library \<subseteq> user: deep_copier "ptr_view (as_User \<circ> cObject) (User_view L)"
  "ptr_foot (as_User \<circ> cObject) (User_foot L)" "User_DeepCopy L"
  unfolding User_DeepCopy_def by (rule deep_copier_ptr [OF User_copier]) simp

sublocale copy_library \<subseteq> permission: deep_copier "ptr_view (as_Permission \<circ> cObject) (Permission_view L)"
  "ptr_foot (as_Permission \<circ> cObject) (Permission_foot L)" "Permission_DeepCopy L"
  unfolding Permission_DeepCopy_def by (rule deep_copier_ptr [OF Permission_copier]) simp

sublocale copy_library \<subseteq> topic_permission: deep_copier "ptr_view (as_TopicPermission \<circ> cObject) (TopicPermission_view L)"
  "ptr_foot (as_TopicPermission \<circ> cObject) (TopicPermission_foot L)" "TopicPermission_DeepCopy L"
  unfolding TopicPermission_DeepCopy_def by (rule deep_copier_ptr [OF TopicPermission_copier]) simp

sublocale copy_library \<subseteq> policy: deep_copier "ptr_view (as_Policy \<circ> cObject) (Policy_view L)"
  "ptr_foot (as_Policy \<circ> cObject) (Policy_foot L)" "Policy_DeepCopy L"
  unfolding Policy_DeepCopy_def by (rule deep_copier_ptr [OF Policy_copier]) simp

sublocale copy_library \<subseteq> operator_policy: deep_copier "ptr_view (as_OperatorPolicy \<circ> cObject) (OperatorPolicy_view L)"
  "ptr_foot (as_OperatorPolicy \<circ> cObject) (OperatorPolicy_foot L)" "OperatorPolicy_DeepCopy L"
  unfolding OperatorPolicy_DeepCopy_def by (rule deep_copier_ptr [OF OperatorPolicy_copier]) simp

sublocale copy_library \<subseteq> federation: deep_copier "ptr_view (as_Federation \<circ> cObject) (Federation_view L)"
  "ptr_foot (as_Federation \<circ> cObject) (Federation_foot L)" "Federation_DeepCopy L"
  unfolding Federation_DeepCopy_def by (rule deep_copier_ptr [OF Federation_copier]) simp

sublocale copy_library \<subseteq> shovel: deep_copier "ptr_view (as_Shovel \<circ> cObject) (Shovel_view L)"
  "ptr_foot (as_Shovel \<circ> cObject) (Shovel_foot L)" "Shovel_DeepCopy L"
  unfolding Shovel_DeepCopy_def by (rule deep_copier_ptr [OF Shovel_copier]) simp

sublocale copy_library \<subseteq> schema_replication: deep_copier "ptr_view (as_SchemaReplication \<circ> cObject) (SchemaReplication_view L)"
  "ptr_foot (as_SchemaReplication \<circ> cObject) (SchemaReplication_foot L)" "SchemaReplication_DeepCopy L"
  unfolding SchemaReplication_DeepCopy_def by (rule deep_copier_ptr [OF SchemaReplication_copier]) simp

sublocale copy_library \<subseteq> super_stream: deep_copier "ptr_view (as_SuperStream \<circ> cObject) (SuperStream_view L)"
  "ptr_foot (as_SuperStream \<circ> cObject) (SuperStream_foot L)" "SuperStream_DeepCopy L"
  unfolding SuperStream_DeepCopy_def by (rule deep_copier_ptr [OF SuperStream_copier]) simp

sublocale copy_library \<subseteq> binding_list: deep_copier "ptr_view cList (list_view L (map as_Binding \<circ> cObjects) (Binding_view L))"
  "ptr_foot cList (list_foot L (map as_Binding \<circ> cObjects) (Binding_foot L))" "BindingList_DeepCopy L"
  unfolding BindingList_DeepCopy_def by (rule deep_copier_ptr [OF BindingList_copier]) simp

sublocale copy_library \<subseteq> exchange_list: deep_copier "ptr_view cList (list_view L (map as_Exchange \<circ> cObjects) (Exchange_view L))"
  "ptr_foot cList (list_foot L (map as_Exchange \<circ> cObjects) (Exchange_foot L))" "ExchangeList_DeepCopy L"
  unfolding ExchangeList_DeepCopy_def by (rule deep_copier_ptr [OF ExchangeList_copier]) simp

sublocale copy_library \<subseteq> queue_list: deep_copier "ptr_view cList (list_view L (map as_Queue \<circ> cObjects) (Queue_view L))"
  "ptr_foot cList (list_foot L (map as_Queue \<circ> cObjects) (Queue_foot L))" "QueueList_DeepCopy L"
  unfolding QueueList_DeepCopy_def by (rule deep_copier_ptr [OF QueueList_copier]) simp

sublocale copy_library \<subseteq> vhost_list: deep_copier "ptr_view cList (list_view L (map as_Vhost \<circ> cObjects) (Vhost_view L))"
  "ptr_foot cList (list_foot L (map as_Vhost \<circ> cObjects) (Vhost_foot L))" "VhostList_DeepCopy L"
  unfolding VhostList_DeepCopy_def by (rule deep_copier_ptr [OF VhostList_copier]) simp

sublocale copy_library \<subseteq> user_list: deep_copier "ptr_view cList (list_view L (map as_User \<circ> cObjects) (User_view L))"
  "ptr_foot cList (list_foot L (map as_User \<circ> cObjects) (User_foot L))" "UserList_DeepCopy L"
  unfolding UserList_DeepCopy_def by (rule deep_copier_ptr [OF UserList_copier]) simp

sublocale copy_library \<subseteq> permission_list: deep_copier "ptr_view cList (list_view L (map as_Permission \<circ> cObjects) (Permission_view L))"
  "ptr_foot cList (list_foot L (map as_Permission \<circ> cObjects) (Permission_foot L))" "PermissionList_DeepCopy L"
  unfolding PermissionList_DeepCopy_def by (rule deep_copier_ptr [OF PermissionList_copier]) simp

sublocale copy_library \<subseteq> topic_permission_list: deep_copier "ptr_view cList (list_view L (map as_TopicPermission \<circ> cObjects) (TopicPermission_view L))"
  "ptr_foot cList (list_foot L (map as_TopicPermission \<circ> cObjects) (TopicPermission_foot L))" "TopicPermissionList_DeepCopy L"
  unfolding TopicPermissionList_DeepCopy_def by (rule deep_copier_ptr [OF TopicPermissionList_copier]) simp

sublocale copy_library \<subseteq> policy_list: deep_copier "ptr_view cList (list_view L (map as_Policy \<circ> cObjects) (Policy_view L))"
  "ptr_foot cList (list_foot L (map as_Policy \<circ> cObjects) (Policy_foot L))" "PolicyList_DeepCopy L"
  unfolding PolicyList_DeepCopy_def by (rule deep_copier_ptr [OF PolicyList_copier]) simp

sublocale copy_library \<subseteq> operator_policy_list: deep_copier "ptr_view cList (list_view L (map as_OperatorPolicy \<circ> cObjects) (OperatorPolicy_view L))"
  "ptr_foot cList (list_foot L (map as_OperatorPolicy \<circ> cObjects) (OperatorPolicy_foot L))" "OperatorPolicyList_DeepCopy L"
  unfolding OperatorPolicyList_DeepCopy_def by (rule deep_copier_ptr [OF OperatorPolicyList_copier]) simp

sublocale copy_library \<subseteq> federation_list: deep_copier "ptr_view cList (list_view L (map as_Federation \<circ> cObjects) (Federation_view L))"
  "ptr_foot cList (list_foot L (map as_Federation \<circ> cObjects) (Federation_foot L))" "FederationList_DeepCopy L"
  unfolding FederationList_DeepCopy_def by (rule deep_copier_ptr [OF FederationList_copier]) simp

sublocale copy_library \<subseteq> shovel_list: deep_copier "ptr_view cList (list_view L (map as_Shovel \<circ> cObjects) (Shovel_view L))"
  "ptr_foot cList (list_foot L (map as_Shovel \<circ> cObjects) (Shovel_foot L))" "ShovelList_DeepCopy L"
  unfolding ShovelList_DeepCopy_def by (rule deep_copier_ptr [OF ShovelList_copier]) simp

sublocale copy_library \<subseteq> schema_replication_list: deep_copier "ptr_view cList (list_view L (map as_SchemaReplication \<circ> cObjects) (SchemaReplication_view L))"
  "ptr_foot cList (list_foot L (map as_SchemaReplication \<circ> cObjects) (SchemaReplication_foot L))" "SchemaReplicationList_DeepCopy L"
  unfolding SchemaReplicationList_DeepCopy_def by (rule deep_copier_ptr [OF SchemaReplicationList_copier]) simp

sublocale copy_library \<subseteq> super_stream_list: deep_copier "ptr_view cList (list_view L (map as_SuperStream \<circ> cObjects) (SuperStream_view L))"
  "ptr_foot cList (list_foot L (map as_SuperStream \<circ> cObjects) (SuperStream_foot L))" "SuperStreamList_DeepCopy L"
  unfolding SuperStreamList_DeepCopy_def by (rule deep_copier_ptr [OF SuperStreamList_copier]) simp

text \<open>
  A library that satisfies the hypotheses: a struct is a string and a pointer to a cell of the
  library, and the copy copies that cell.
\<close>

type_synonym sample_struct = "string \<times> addr option"

definition sample_copy :: "sample_struct \<Rightarrow> (sample_struct cell, sample_struct) mem" where
  "sample_copy x = do { p \<leftarrow> new_DeepCopyInto cLib CLib State_Monad.return (snd x); State_Monad.return (fst x, p) }"

definition sample_value :: "sample_struct cell heap \<Rightarrow> sample_struct \<Rightarrow> string \<times> string option" where
  "sample_value h x = (fst x, ptr_view cLib (\<lambda>h v. fst v) h (snd x))"

definition sample_lib :: "sample_struct lib" where
  "sample_lib =
     \<lparr>ObjectMeta_DeepCopyInto = sample_copy, ListMeta_DeepCopyInto = sample_copy,
      RawExtension_DeepCopyInto = sample_copy, Time_DeepCopyInto = sample_copy,
      ObjectMeta_view = \<lambda>h x. \<lparr>om_Name = fst x, om_Namespace = '''', om_Generation = 0, om_DeletionTimestamp = None,
        om_Finalizers = [], om_Labels = (case snd (sample_value h x) of None \<Rightarrow> Map.empty | Some s \<Rightarrow> [''label'' \<mapsto> s]),
        om_Annotations = Map.empty, om_OwnerReferences = []\<rparr>,
      ListMeta_view = \<lambda>h x. \<lparr>lm_ResourceVersion = fst x, lm_Continue = '''', lm_RemainingItemCount = None\<rparr>,
      RawExtension_view = \<lambda>h x. fst x,
      Time_view = \<lambda>h x. int (length (fst x)),
      ObjectMeta_foot = \<lambda>h x. ptr_foot cLib (\<lambda>h v. {}) h (snd x),
      ListMeta_foot = \<lambda>h x. ptr_foot cLib (\<lambda>h v. {}) h (snd x),
      RawExtension_foot = \<lambda>h x. ptr_foot cLib (\<lambda>h v. {}) h (snd x),
      Time_foot = \<lambda>h x. ptr_foot cLib (\<lambda>h v. {}) h (snd x)\<rparr>"

lemma sample_copier:
  assumes "\<And>h h' x x'. sample_value h' x' = sample_value h x \<Longrightarrow> W h' x' = W h x"
  shows "deep_copier W (\<lambda>h x. ptr_foot cLib (\<lambda>h v. {}) h (snd x)) sample_copy"
proof (rule deep_copier_struct [where parts = snd and put = "\<lambda>p x. (fst x, p)"])
  have "deep_copier (\<lambda>h v. fst v) (\<lambda>h v. {}) State_Monad.return" by unfold_locales simp_all
  then show "deep_copier (ptr_view cLib (\<lambda>h v. fst v)) (ptr_foot cLib (\<lambda>h v. {})) (new_DeepCopyInto cLib CLib State_Monad.return)"
    by (rule deep_copier_ptr) simp
qed (auto simp: sample_copy_def sample_value_def intro!: assms split: prod.splits)

interpretation sample: copy_library sample_lib
  by (rule copy_library.intro; simp add: sample_lib_def; rule sample_copier; simp add: sample_value_def)

section \<open>Copies of the prototypes\<close>

text \<open>
  \<open>DeepCopyObject\<close> of a type: \<open>DeepCopy\<close> is independent, a nil pointer gives the nil interface,
  and any other pointer gives an object of the type at a cell that was not allocated before.
\<close>

definition copies_object ::
  "string \<Rightarrow> ('c heap \<Rightarrow> addr option \<Rightarrow> 'w) \<Rightarrow> ('c heap \<Rightarrow> addr option \<Rightarrow> addr set) \<Rightarrow>
   (addr option \<Rightarrow> ('c, addr option) mem) \<Rightarrow> (addr option \<Rightarrow> ('c, runtime_Object) mem) \<Rightarrow> bool" where
  "copies_object kind view foot deepCopy deepCopyObject \<longleftrightarrow>
     independent_copy view foot deepCopy \<and>
     (\<forall>h. run_state (deepCopyObject None) h = (None, h)) \<and>
     (\<forall>h a r h'. foot h (Some a) \<subseteq> allocated h \<and> run_state (deepCopyObject (Some a)) h = (r, h') \<longrightarrow>
        (\<exists>b. r = Some (kind, Some b) \<and> b \<notin> allocated h \<and> run_state (deepCopy (Some a)) h = (Some b, h')))"

lemma copies_object_ptr:
  assumes d: "deep_copier (ptr_view sel V) (ptr_foot sel F) deepCopy"
    and ptr: "deepCopy = new_DeepCopyInto sel con C"
  shows "copies_object kind (ptr_view sel V) (ptr_foot sel F) deepCopy (DeepCopyObject kind deepCopy)"
  unfolding copies_object_def
proof (intro conjI allI impI)
  show "independent_copy (ptr_view sel V) (ptr_foot sel F) deepCopy" by (rule deep_copier.independent [OF d])
next
  fix h show "run_state (DeepCopyObject kind deepCopy None) h = (None, h)"
    by (simp add: DeepCopyObject_def ptr new_DeepCopyInto_def)
next
  fix h a r h'
  assume a: "ptr_foot sel F h (Some a) \<subseteq> allocated h \<and> run_state (DeepCopyObject kind deepCopy (Some a)) h = (r, h')"
  obtain c h1 where c: "run_state (deepCopy (Some a)) h = (c, h1)" by fastforce
  moreover obtain b where b: "c = Some b" using c by (auto simp: ptr new_DeepCopyInto_def split: prod.splits)
  moreover have "b \<notin> allocated h"
    using deep_copier.copy_fresh [OF d conjunct1 [OF a] c] b by (auto simp: ptr_foot_def)
  ultimately show "\<exists>b. r = Some (kind, Some b) \<and> b \<notin> allocated h \<and> run_state (deepCopy (Some a)) h = (Some b, h')"
    using a by (auto simp: DeepCopyObject_def)
qed

context copy_library
begin

lemma copies_Binding:
  "copies_object ''Binding'' (ptr_view (as_Binding \<circ> cObject) (Binding_view L)) (ptr_foot (as_Binding \<circ> cObject) (Binding_foot L))
       (Binding_DeepCopy L) (Binding_DeepCopyObject L)"
  unfolding Binding_DeepCopyObject_def by (rule copies_object_ptr [OF binding.deep_copier_axioms Binding_DeepCopy_def])

lemma copies_BindingList:
  "copies_object ''BindingList'' (ptr_view cList (list_view L (map as_Binding \<circ> cObjects) (Binding_view L)))
       (ptr_foot cList (list_foot L (map as_Binding \<circ> cObjects) (Binding_foot L))) (BindingList_DeepCopy L) (BindingList_DeepCopyObject L)"
  unfolding BindingList_DeepCopyObject_def by (rule copies_object_ptr [OF binding_list.deep_copier_axioms BindingList_DeepCopy_def])

lemma copies_Exchange:
  "copies_object ''Exchange'' (ptr_view (as_Exchange \<circ> cObject) (Exchange_view L)) (ptr_foot (as_Exchange \<circ> cObject) (Exchange_foot L))
       (Exchange_DeepCopy L) (Exchange_DeepCopyObject L)"
  unfolding Exchange_DeepCopyObject_def by (rule copies_object_ptr [OF exchange.deep_copier_axioms Exchange_DeepCopy_def])

lemma copies_ExchangeList:
  "copies_object ''ExchangeList'' (ptr_view cList (list_view L (map as_Exchange \<circ> cObjects) (Exchange_view L)))
       (ptr_foot cList (list_foot L (map as_Exchange \<circ> cObjects) (Exchange_foot L))) (ExchangeList_DeepCopy L) (ExchangeList_DeepCopyObject L)"
  unfolding ExchangeList_DeepCopyObject_def by (rule copies_object_ptr [OF exchange_list.deep_copier_axioms ExchangeList_DeepCopy_def])

lemma copies_Queue:
  "copies_object ''Queue'' (ptr_view (as_Queue \<circ> cObject) (Queue_view L)) (ptr_foot (as_Queue \<circ> cObject) (Queue_foot L))
       (Queue_DeepCopy L) (Queue_DeepCopyObject L)"
  unfolding Queue_DeepCopyObject_def by (rule copies_object_ptr [OF queue.deep_copier_axioms Queue_DeepCopy_def])

lemma copies_QueueList:
  "copies_object ''QueueList'' (ptr_view cList (list_view L (map as_Queue \<circ> cObjects) (Queue_view L)))
       (ptr_foot cList (list_foot L (map as_Queue \<circ> cObjects) (Queue_foot L))) (QueueList_DeepCopy L) (QueueList_DeepCopyObject L)"
  unfolding QueueList_DeepCopyObject_def by (rule copies_object_ptr [OF queue_list.deep_copier_axioms QueueList_DeepCopy_def])

lemma copies_Vhost:
  "copies_object ''Vhost'' (ptr_view (as_Vhost \<circ> cObject) (Vhost_view L)) (ptr_foot (as_Vhost \<circ> cObject) (Vhost_foot L))
       (Vhost_DeepCopy L) (Vhost_DeepCopyObject L)"
  unfolding Vhost_DeepCopyObject_def by (rule copies_object_ptr [OF vhost.deep_copier_axioms Vhost_DeepCopy_def])

lemma copies_VhostList:
  "copies_object ''VhostList'' (ptr_view cList (list_view L (map as_Vhost \<circ> cObjects) (Vhost_view L)))
       (ptr_foot cList (list_foot L (map as_Vhost \<circ> cObjects) (Vhost_foot L))) (VhostList_DeepCopy L) (VhostList_DeepCopyObject L)"
  unfolding VhostList_DeepCopyObject_def by (rule copies_object_ptr [OF vhost_list.deep_copier_axioms VhostList_DeepCopy_def])

lemma copies_User:
  "copies_object ''User'' (ptr_view (as_User \<circ> cObject) (User_view L)) (ptr_foot (as_User \<circ> cObject) (User_foot L))
       (User_DeepCopy L) (User_DeepCopyObject L)"
  unfolding User_DeepCopyObject_def by (rule copies_object_ptr [OF user.deep_copier_axioms User_DeepCopy_def])

lemma copies_UserList:
  "copies_object ''UserList'' (ptr_view cList (list_view L (map as_User \<circ> cObjects) (User_view L)))
       (ptr_foot cList (list_foot L (map as_User \<circ> cObjects) (User_foot L))) (UserList_DeepCopy L) (UserList_DeepCopyObject L)"
  unfolding UserList_DeepCopyObject_def by (rule copies_object_ptr [OF user_list.deep_copier_axioms UserList_DeepCopy_def])

lemma copies_Permission:
  "copies_object ''Permission'' (ptr_view (as_Permission \<circ> cObject) (Permission_view L)) (ptr_foot (as_Permission \<circ> cObject) (Permission_foot L))
       (Permission_DeepCopy L) (Permission_DeepCopyObject L)"
  unfolding Permission_DeepCopyObject_def by (rule copies_object_ptr [OF permission.deep_copier_axioms Permission_DeepCopy_def])

lemma copies_PermissionList:
  "copies_object ''PermissionList'' (ptr_view cList (list_view L (map as_Permission \<circ> cObjects) (Permission_view L)))
       (ptr_foot cList (list_foot L (map as_Permission \<circ> cObjects) (Permission_foot L))) (PermissionList_DeepCopy L) (PermissionList_DeepCopyObject L)"
  unfolding PermissionList_DeepCopyObject_def by (rule copies_object_ptr [OF permission_list.deep_copier_axioms PermissionList_DeepCopy_def])

lemma copies_TopicPermission:
  "copies_object ''TopicPermission'' (ptr_view (as_TopicPermission \<circ> cObject) (TopicPermission_view L)) (ptr_foot (as_TopicPermission \<circ> cObject) (TopicPermission_foot L))
       (TopicPermission_DeepCopy L) (TopicPermission_DeepCopyObject L)"
  unfolding TopicPermission_DeepCopyObject_def by (rule copies_object_ptr [OF topic_permission.deep_copier_axioms TopicPermission_DeepCopy_def])

lemma copies_TopicPermissionList:
  "copies_object ''TopicPermissionList'' (ptr_view cList (list_view L (map as_TopicPermission \<circ> cObjects) (TopicPermission_view L)))
       (ptr_foot cList (list_foot L (map as_TopicPermission \<circ> cObjects) (TopicPermission_foot L))) (TopicPermissionList_DeepCopy L) (TopicPermissionList_DeepCopyObject L)"
  unfolding TopicPermissionList_DeepCopyObject_def by (rule copies_object_ptr [OF topic_permission_list.deep_copier_axioms TopicPermissionList_DeepCopy_def])

lemma copies_Policy:
  "copies_object ''Policy'' (ptr_view (as_Policy \<circ> cObject) (Policy_view L)) (ptr_foot (as_Policy \<circ> cObject) (Policy_foot L))
       (Policy_DeepCopy L) (Policy_DeepCopyObject L)"
  unfolding Policy_DeepCopyObject_def by (rule copies_object_ptr [OF policy.deep_copier_axioms Policy_DeepCopy_def])

lemma copies_PolicyList:
  "copies_object ''PolicyList'' (ptr_view cList (list_view L (map as_Policy \<circ> cObjects) (Policy_view L)))
       (ptr_foot cList (list_foot L (map as_Policy \<circ> cObjects) (Policy_foot L))) (PolicyList_DeepCopy L) (PolicyList_DeepCopyObject L)"
  unfolding PolicyList_DeepCopyObject_def by (rule copies_object_ptr [OF policy_list.deep_copier_axioms PolicyList_DeepCopy_def])

lemma copies_OperatorPolicy:
  "copies_object ''OperatorPolicy'' (ptr_view (as_OperatorPolicy \<circ> cObject) (OperatorPolicy_view L)) (ptr_foot (as_OperatorPolicy \<circ> cObject) (OperatorPolicy_foot L))
       (OperatorPolicy_DeepCopy L) (OperatorPolicy_DeepCopyObject L)"
  unfolding OperatorPolicy_DeepCopyObject_def by (rule copies_object_ptr [OF operator_policy.deep_copier_axioms OperatorPolicy_DeepCopy_def])

lemma copies_OperatorPolicyList:
  "copies_object ''OperatorPolicyList'' (ptr_view cList (list_view L (map as_OperatorPolicy \<circ> cObjects) (OperatorPolicy_view L)))
       (ptr_foot cList (list_foot L (map as_OperatorPolicy \<circ> cObjects) (OperatorPolicy_foot L))) (OperatorPolicyList_DeepCopy L) (OperatorPolicyList_DeepCopyObject L)"
  unfolding OperatorPolicyList_DeepCopyObject_def by (rule copies_object_ptr [OF operator_policy_list.deep_copier_axioms OperatorPolicyList_DeepCopy_def])

lemma copies_Federation:
  "copies_object ''Federation'' (ptr_view (as_Federation \<circ> cObject) (Federation_view L)) (ptr_foot (as_Federation \<circ> cObject) (Federation_foot L))
       (Federation_DeepCopy L) (Federation_DeepCopyObject L)"
  unfolding Federation_DeepCopyObject_def by (rule copies_object_ptr [OF federation.deep_copier_axioms Federation_DeepCopy_def])

lemma copies_FederationList:
  "copies_object ''FederationList'' (ptr_view cList (list_view L (map as_Federation \<circ> cObjects) (Federation_view L)))
       (ptr_foot cList (list_foot L (map as_Federation \<circ> cObjects) (Federation_foot L))) (FederationList_DeepCopy L) (FederationList_DeepCopyObject L)"
  unfolding FederationList_DeepCopyObject_def by (rule copies_object_ptr [OF federation_list.deep_copier_axioms FederationList_DeepCopy_def])

lemma copies_Shovel:
  "copies_object ''Shovel'' (ptr_view (as_Shovel \<circ> cObject) (Shovel_view L)) (ptr_foot (as_Shovel \<circ> cObject) (Shovel_foot L))
       (Shovel_DeepCopy L) (Shovel_DeepCopyObject L)"
  unfolding Shovel_DeepCopyObject_def by (rule copies_object_ptr [OF shovel.deep_copier_axioms Shovel_DeepCopy_def])

lemma copies_ShovelList:
  "copies_object ''ShovelList'' (ptr_view cList (list_view L (map as_Shovel \<circ> cObjects) (Shovel_view L)))
       (ptr_foot cList (list_foot L (map as_Shovel \<circ> cObjects) (Shovel_foot L))) (ShovelList_DeepCopy L) (ShovelList_DeepCopyObject L)"
  unfolding ShovelList_DeepCopyObject_def by (rule copies_object_ptr [OF shovel_list.deep_copier_axioms ShovelList_DeepCopy_def])

lemma copies_SchemaReplication:
  "copies_object ''SchemaReplication'' (ptr_view (as_SchemaReplication \<circ> cObject) (SchemaReplication_view L)) (ptr_foot (as_SchemaReplication \<circ> cObject) (SchemaReplication_foot L))
       (SchemaReplication_DeepCopy L) (SchemaReplication_DeepCopyObject L)"
  unfolding SchemaReplication_DeepCopyObject_def by (rule copies_object_ptr [OF schema_replication.deep_copier_axioms SchemaReplication_DeepCopy_def])

lemma copies_SchemaReplicationList:
  "copies_object ''SchemaReplicationList'' (ptr_view cList (list_view L (map as_SchemaReplication \<circ> cObjects) (SchemaReplication_view L)))
       (ptr_foot cList (list_foot L (map as_SchemaReplication \<circ> cObjects) (SchemaReplication_foot L))) (SchemaReplicationList_DeepCopy L) (SchemaReplicationList_DeepCopyObject L)"
  unfolding SchemaReplicationList_DeepCopyObject_def by (rule copies_object_ptr [OF schema_replication_list.deep_copier_axioms SchemaReplicationList_DeepCopy_def])

lemma copies_SuperStream:
  "copies_object ''SuperStream'' (ptr_view (as_SuperStream \<circ> cObject) (SuperStream_view L)) (ptr_foot (as_SuperStream \<circ> cObject) (SuperStream_foot L))
       (SuperStream_DeepCopy L) (SuperStream_DeepCopyObject L)"
  unfolding SuperStream_DeepCopyObject_def by (rule copies_object_ptr [OF super_stream.deep_copier_axioms SuperStream_DeepCopy_def])

lemma copies_SuperStreamList:
  "copies_object ''SuperStreamList'' (ptr_view cList (list_view L (map as_SuperStream \<circ> cObjects) (SuperStream_view L)))
       (ptr_foot cList (list_foot L (map as_SuperStream \<circ> cObjects) (SuperStream_foot L))) (SuperStreamList_DeepCopy L) (SuperStreamList_DeepCopyObject L)"
  unfolding SuperStreamList_DeepCopyObject_def by (rule copies_object_ptr [OF super_stream_list.deep_copier_axioms SuperStreamList_DeepCopy_def])

lemmas copies_objects =
  copies_Binding copies_BindingList
  copies_Exchange copies_ExchangeList
  copies_Queue copies_QueueList
  copies_Vhost copies_VhostList
  copies_User copies_UserList
  copies_Permission copies_PermissionList
  copies_TopicPermission copies_TopicPermissionList
  copies_Policy copies_PolicyList
  copies_OperatorPolicy copies_OperatorPolicyList
  copies_Federation copies_FederationList
  copies_Shovel copies_ShovelList
  copies_SchemaReplication copies_SchemaReplicationList
  copies_SuperStream copies_SuperStreamList

end

text \<open>
  C28. The prototypes are never touched. When the library functions copy deeply, the generated
  \<open>DeepCopy\<close> of each kind and of each list returns a value that reads like the original and shares
  no memory with it: whatever is written to the cells of one side, the other reads as before.
  \<open>DeepCopyObject\<close> returns such a copy as an object of the kind at a new address, and the nil
  interface only for a nil pointer. The reconciler starts every run from
  \<open>r.Type.DeepCopyObject()\<close> and every watch handler from a copy of \<open>ListType\<close>.
\<close>

theorem deep_copies_independent:
  assumes "copy_library L"
  shows "copies_object ''Binding'' (ptr_view (as_Binding \<circ> cObject) (Binding_view L)) (ptr_foot (as_Binding \<circ> cObject) (Binding_foot L))
       (Binding_DeepCopy L) (Binding_DeepCopyObject L) \<and>
     copies_object ''BindingList'' (ptr_view cList (list_view L (map as_Binding \<circ> cObjects) (Binding_view L)))
       (ptr_foot cList (list_foot L (map as_Binding \<circ> cObjects) (Binding_foot L))) (BindingList_DeepCopy L) (BindingList_DeepCopyObject L) \<and>
     copies_object ''Exchange'' (ptr_view (as_Exchange \<circ> cObject) (Exchange_view L)) (ptr_foot (as_Exchange \<circ> cObject) (Exchange_foot L))
       (Exchange_DeepCopy L) (Exchange_DeepCopyObject L) \<and>
     copies_object ''ExchangeList'' (ptr_view cList (list_view L (map as_Exchange \<circ> cObjects) (Exchange_view L)))
       (ptr_foot cList (list_foot L (map as_Exchange \<circ> cObjects) (Exchange_foot L))) (ExchangeList_DeepCopy L) (ExchangeList_DeepCopyObject L) \<and>
     copies_object ''Queue'' (ptr_view (as_Queue \<circ> cObject) (Queue_view L)) (ptr_foot (as_Queue \<circ> cObject) (Queue_foot L))
       (Queue_DeepCopy L) (Queue_DeepCopyObject L) \<and>
     copies_object ''QueueList'' (ptr_view cList (list_view L (map as_Queue \<circ> cObjects) (Queue_view L)))
       (ptr_foot cList (list_foot L (map as_Queue \<circ> cObjects) (Queue_foot L))) (QueueList_DeepCopy L) (QueueList_DeepCopyObject L) \<and>
     copies_object ''Vhost'' (ptr_view (as_Vhost \<circ> cObject) (Vhost_view L)) (ptr_foot (as_Vhost \<circ> cObject) (Vhost_foot L))
       (Vhost_DeepCopy L) (Vhost_DeepCopyObject L) \<and>
     copies_object ''VhostList'' (ptr_view cList (list_view L (map as_Vhost \<circ> cObjects) (Vhost_view L)))
       (ptr_foot cList (list_foot L (map as_Vhost \<circ> cObjects) (Vhost_foot L))) (VhostList_DeepCopy L) (VhostList_DeepCopyObject L) \<and>
     copies_object ''User'' (ptr_view (as_User \<circ> cObject) (User_view L)) (ptr_foot (as_User \<circ> cObject) (User_foot L))
       (User_DeepCopy L) (User_DeepCopyObject L) \<and>
     copies_object ''UserList'' (ptr_view cList (list_view L (map as_User \<circ> cObjects) (User_view L)))
       (ptr_foot cList (list_foot L (map as_User \<circ> cObjects) (User_foot L))) (UserList_DeepCopy L) (UserList_DeepCopyObject L) \<and>
     copies_object ''Permission'' (ptr_view (as_Permission \<circ> cObject) (Permission_view L)) (ptr_foot (as_Permission \<circ> cObject) (Permission_foot L))
       (Permission_DeepCopy L) (Permission_DeepCopyObject L) \<and>
     copies_object ''PermissionList'' (ptr_view cList (list_view L (map as_Permission \<circ> cObjects) (Permission_view L)))
       (ptr_foot cList (list_foot L (map as_Permission \<circ> cObjects) (Permission_foot L))) (PermissionList_DeepCopy L) (PermissionList_DeepCopyObject L) \<and>
     copies_object ''TopicPermission'' (ptr_view (as_TopicPermission \<circ> cObject) (TopicPermission_view L)) (ptr_foot (as_TopicPermission \<circ> cObject) (TopicPermission_foot L))
       (TopicPermission_DeepCopy L) (TopicPermission_DeepCopyObject L) \<and>
     copies_object ''TopicPermissionList'' (ptr_view cList (list_view L (map as_TopicPermission \<circ> cObjects) (TopicPermission_view L)))
       (ptr_foot cList (list_foot L (map as_TopicPermission \<circ> cObjects) (TopicPermission_foot L))) (TopicPermissionList_DeepCopy L) (TopicPermissionList_DeepCopyObject L) \<and>
     copies_object ''Policy'' (ptr_view (as_Policy \<circ> cObject) (Policy_view L)) (ptr_foot (as_Policy \<circ> cObject) (Policy_foot L))
       (Policy_DeepCopy L) (Policy_DeepCopyObject L) \<and>
     copies_object ''PolicyList'' (ptr_view cList (list_view L (map as_Policy \<circ> cObjects) (Policy_view L)))
       (ptr_foot cList (list_foot L (map as_Policy \<circ> cObjects) (Policy_foot L))) (PolicyList_DeepCopy L) (PolicyList_DeepCopyObject L) \<and>
     copies_object ''OperatorPolicy'' (ptr_view (as_OperatorPolicy \<circ> cObject) (OperatorPolicy_view L)) (ptr_foot (as_OperatorPolicy \<circ> cObject) (OperatorPolicy_foot L))
       (OperatorPolicy_DeepCopy L) (OperatorPolicy_DeepCopyObject L) \<and>
     copies_object ''OperatorPolicyList'' (ptr_view cList (list_view L (map as_OperatorPolicy \<circ> cObjects) (OperatorPolicy_view L)))
       (ptr_foot cList (list_foot L (map as_OperatorPolicy \<circ> cObjects) (OperatorPolicy_foot L))) (OperatorPolicyList_DeepCopy L) (OperatorPolicyList_DeepCopyObject L) \<and>
     copies_object ''Federation'' (ptr_view (as_Federation \<circ> cObject) (Federation_view L)) (ptr_foot (as_Federation \<circ> cObject) (Federation_foot L))
       (Federation_DeepCopy L) (Federation_DeepCopyObject L) \<and>
     copies_object ''FederationList'' (ptr_view cList (list_view L (map as_Federation \<circ> cObjects) (Federation_view L)))
       (ptr_foot cList (list_foot L (map as_Federation \<circ> cObjects) (Federation_foot L))) (FederationList_DeepCopy L) (FederationList_DeepCopyObject L) \<and>
     copies_object ''Shovel'' (ptr_view (as_Shovel \<circ> cObject) (Shovel_view L)) (ptr_foot (as_Shovel \<circ> cObject) (Shovel_foot L))
       (Shovel_DeepCopy L) (Shovel_DeepCopyObject L) \<and>
     copies_object ''ShovelList'' (ptr_view cList (list_view L (map as_Shovel \<circ> cObjects) (Shovel_view L)))
       (ptr_foot cList (list_foot L (map as_Shovel \<circ> cObjects) (Shovel_foot L))) (ShovelList_DeepCopy L) (ShovelList_DeepCopyObject L) \<and>
     copies_object ''SchemaReplication'' (ptr_view (as_SchemaReplication \<circ> cObject) (SchemaReplication_view L)) (ptr_foot (as_SchemaReplication \<circ> cObject) (SchemaReplication_foot L))
       (SchemaReplication_DeepCopy L) (SchemaReplication_DeepCopyObject L) \<and>
     copies_object ''SchemaReplicationList'' (ptr_view cList (list_view L (map as_SchemaReplication \<circ> cObjects) (SchemaReplication_view L)))
       (ptr_foot cList (list_foot L (map as_SchemaReplication \<circ> cObjects) (SchemaReplication_foot L))) (SchemaReplicationList_DeepCopy L) (SchemaReplicationList_DeepCopyObject L) \<and>
     copies_object ''SuperStream'' (ptr_view (as_SuperStream \<circ> cObject) (SuperStream_view L)) (ptr_foot (as_SuperStream \<circ> cObject) (SuperStream_foot L))
       (SuperStream_DeepCopy L) (SuperStream_DeepCopyObject L) \<and>
     copies_object ''SuperStreamList'' (ptr_view cList (list_view L (map as_SuperStream \<circ> cObjects) (SuperStream_view L)))
       (ptr_foot cList (list_foot L (map as_SuperStream \<circ> cObjects) (SuperStream_foot L))) (SuperStreamList_DeepCopy L) (SuperStreamList_DeepCopyObject L)"
  by (intro conjI copy_library.copies_objects [OF assms])

text \<open>
  A binding with arguments in memory: the raw arguments in cell 0, the object in cell 1.
\<close>

definition sample_memory :: "sample_struct cell heap" where
  "sample_memory =
     \<lparr>hp_next = 2,
      hp_cells = (\<lambda>_. CRaw (''{}'', None))
        (1 := CObject (MBinding
           \<lparr>mo_Group = ''rabbitmq.com'', mo_Kind = ''Binding'', mo_Meta = (''b'', None),
            mo_Spec = \<lparr>mb_Vhost = ''/'', mb_Source = ''x'', mb_Destination = ''q'', mb_DestinationType = ''queue'',
              mb_RoutingKey = ''k'', mb_Arguments = Some 0,
              mb_RabbitmqClusterReference = \<lparr>mref_Name = ''r'', mref_Namespace = ''n'', mref_ConnectionSecret = None\<rparr>\<rparr>,
            mo_Status = \<lparr>mst_ObservedGeneration = 1, mst_Conditions = None\<rparr>\<rparr>))\<rparr>"

lemma sample_memory_foot:
  "ptr_foot (as_Binding \<circ> cObject) (Binding_foot sample_lib) sample_memory (Some 1) \<subseteq> allocated sample_memory"
  by (simp add: sample_memory_def ptr_foot_def Binding_foot_def object_foot_def BindingSpec_foot_def status_foot_def
      RabbitmqClusterReference_foot_def slice_foot_def sample_lib_def allocated_def)

theorem deep_copies_independent_witness:
  "copy_library sample_lib \<and>
   (\<exists>b h'. run_state (Binding_DeepCopyObject sample_lib (Some 1)) sample_memory = (Some (''Binding'', Some b), h') \<and>
      b \<notin> allocated sample_memory)"
  using deep_copies_independent [OF sample.copy_library_axioms, THEN conjunct1] sample_memory_foot sample.copy_library_axioms
  unfolding copies_object_def by (metis surj_pair)

end
