(* ===== verification/Manager.thy ===== *)
theory Manager
  imports Setup
begin

text \<open>
  The start of the operator: \<open>main\<close> of \<open>cmd/main.go\<close> from the flags to \<open>mgr.Start\<close>, with the functions
  \<open>SetupWithManager\<close> of the two reconcilers and the registration of the webhooks.

  The manager is code of controller-runtime. What \<open>main\<close> asks it to do is a sequence of calls, each of
  which it answers with an error or without one. The flags are given as they are after \<open>flag.Parse()\<close>;
  \<open>default_flags\<close> has their defaults. \<open>os.Exit(code)\<close> is the result \<open>Inl code\<close>: nothing after it runs.
\<close>


section \<open>Durations\<close>

text \<open>
  \<open>time.ParseDuration\<close>. The digits before and after the point are read into 64-bit numbers; a
  fraction is scaled with two roundings to float64 and cut to an integer. The sum wraps at 64 bits
  before it is compared with \<open>2 ^ 63\<close>, as in Go.
\<close>

definition duration_units :: "(string \<times> nat) list" where
  "duration_units =
     [(''ns'', 1), (''us'', 1000), ([CHR 0xC2, CHR 0xB5, CHR ''s''], 1000), ([CHR 0xCE, CHR 0xBC, CHR ''s''], 1000),
      (''ms'', 1000000), (''s'', 1000000000), (''m'', 60000000000), (''h'', 3600000000000)]"

fun leadingInt :: "nat \<Rightarrow> string \<Rightarrow> (nat \<times> string) option" where
  "leadingInt x [] = Some (x, [])"
| "leadingInt x (c # s) =
     (if \<not> is_digit c then Some (x, c # s)
      else if x > 2 ^ 63 div 10 then None
      else let y = x * 10 + digit_value c in if y > 2 ^ 63 then None else leadingInt y s)"

fun leadingFraction :: "bool \<Rightarrow> nat \<Rightarrow> nat \<Rightarrow> string \<Rightarrow> nat \<times> nat \<times> string" where
  "leadingFraction overflow x scale [] = (x, scale, [])"
| "leadingFraction overflow x scale (c # s) =
     (if \<not> is_digit c then (x, scale, c # s)
      else if overflow \<or> x > (2 ^ 63 - 1) div 10 then leadingFraction True x scale s
      else let y = x * 10 + digit_value c in
        if y > 2 ^ 63 then leadingFraction True x scale s else leadingFraction False y (scale * 10) s)"

definition float64_round :: "rat \<Rightarrow> rat" where
  "float64_round r = (case quotient_of r of (p, q) \<Rightarrow> case float64_of_ratio p q of Some v \<Rightarrow> v | None \<Rightarrow> 0)"

definition scaled_fraction :: "nat \<Rightarrow> nat \<Rightarrow> nat \<Rightarrow> nat" where
  "scaled_fraction f unit scale =
     nat \<lfloor>float64_round (float64_round (of_nat f) * float64_round (of_nat unit / of_nat scale))\<rfloor>"

definition digit_or_point :: "char \<Rightarrow> bool" where
  "digit_or_point c \<longleftrightarrow> c = CHR ''.'' \<or> is_digit c"

text \<open>
  The number in front of a unit: the digits before the point, the digits after it with their scale,
  and the rest of the text. There must be a digit on one side of the point.
\<close>

definition duration_number :: "string \<Rightarrow> (nat \<times> nat \<times> nat \<times> string) option" where
  "duration_number s =
     (case leadingInt 0 s of
        None \<Rightarrow> None
      | Some (v, s1) \<Rightarrow>
          if prefix ''.'' s1
          then (case leadingFraction False 0 1 (tl s1) of (f, scale, s2) \<Rightarrow>
                  if length s1 = length s \<and> length s2 = length (tl s1) then None else Some (v, f, scale, s2))
          else if length s1 = length s then None else Some (v, 0, 1, s1))"

definition in_nanoseconds :: "nat \<Rightarrow> nat \<Rightarrow> nat \<Rightarrow> nat \<Rightarrow> nat option" where
  "in_nanoseconds v f scale unit =
     (if v > 2 ^ 63 div unit then None
      else let v' = v * unit + (if f > 0 then scaled_fraction f unit scale else 0)
           in if v' > 2 ^ 63 then None else Some v')"

definition duration_part :: "string \<Rightarrow> (nat \<times> string) option" where
  "duration_part s =
     (case duration_number s of
        None \<Rightarrow> None
      | Some (v, f, scale, s2) \<Rightarrow>
          (case map_of duration_units (takeWhile (\<lambda>c. \<not> digit_or_point c) s2) of
             None \<Rightarrow> None
           | Some unit \<Rightarrow>
               map_option (\<lambda>d. (d, dropWhile (\<lambda>c. \<not> digit_or_point c) s2)) (in_nanoseconds v f scale unit)))"

lemma leadingInt_length: "leadingInt x s = Some (v, r) \<Longrightarrow> length r \<le> length s"
  by (induction x s rule: leadingInt.induct) (auto split: if_splits simp: Let_def)

lemma leadingFraction_length: "leadingFraction b x k s = (f, scale, r) \<Longrightarrow> length r \<le> length s"
  by (induction b x k s rule: leadingFraction.induct) (auto split: if_splits simp: Let_def)

lemma duration_number_length: "duration_number s = Some (v, f, scale, r) \<Longrightarrow> length r \<le> length s"
  unfolding duration_number_def
  by (auto split: option.splits if_splits prod.splits dest!: leadingInt_length leadingFraction_length)

lemma duration_part_decreases:
  assumes "duration_part s = Some (v, r)"
  shows "length r < length s"
proof -
  obtain w f scale s2 unit where n: "duration_number s = Some (w, f, scale, s2)"
      and u: "map_of duration_units (takeWhile (\<lambda>c. \<not> digit_or_point c) s2) = Some unit"
      and r: "r = dropWhile (\<lambda>c. \<not> digit_or_point c) s2"
    using assms unfolding duration_part_def by (auto split: option.splits)
  have "takeWhile (\<lambda>c. \<not> digit_or_point c) s2 \<noteq> []" using u by (auto simp: duration_units_def)
  then have "length r < length s2" unfolding r by (rule length_dropWhile_less)
  with duration_number_length [OF n] show ?thesis by simp
qed

text \<open>The loop consumes the text; \<open>d\<close> is the sum so far.\<close>

function duration_sum :: "nat \<Rightarrow> string \<Rightarrow> nat option" where
  "duration_sum d s =
     (if s = [] then Some d
      else if \<not> digit_or_point (hd s) then None
      else case duration_part s of
        None \<Rightarrow> None
      | Some (v, r) \<Rightarrow> let d' = (d + v) mod 2 ^ 64 in if d' > 2 ^ 63 then None else duration_sum d' r)"
  by pat_completeness auto
termination
  by (relation "measure (\<lambda>(d, s). length s)") (auto dest: duration_part_decreases)

declare duration_sum.simps [simp del]

definition time_ParseDuration :: "string \<Rightarrow> int option" where
  "time_ParseDuration orig =
     (let neg = prefix ''-'' orig;
          s = (if prefix ''-'' orig \<or> prefix ''+'' orig then tl orig else orig)
      in if s = ''0'' then Some 0
         else if s = [] then None
         else case duration_sum 0 s of
           None \<Rightarrow> None
         | Some d \<Rightarrow> if neg then Some (- int d) else if d > 2 ^ 63 - 1 then None else Some (int d))"

lemma time_ParseDuration_range:
  assumes "time_ParseDuration s = Some d"
  shows "- (2 ^ 63) \<le> d \<and> d < 2 ^ 63"
proof -
  have "duration_sum x s = Some y \<Longrightarrow> x \<le> 2 ^ 63 \<Longrightarrow> y \<le> 2 ^ 63" for x y s
  proof (induction x s rule: duration_sum.induct)
    case (1 x s)
    from "1.prems" show ?case
      by (subst (asm) duration_sum.simps)
        (auto simp: Let_def split: if_splits option.splits prod.splits dest!: "1.IH" [OF _ _ _ refl refl])
  qed
  from this [of 0] assms show ?thesis
    by (fastforce simp: time_ParseDuration_def Let_def split: if_splits option.splits)
qed


section \<open>Flags and options\<close>

record main_flags =
  metricsAddr :: string
  probeAddr :: string
  enableLeaderElection :: bool
  secureMetrics :: bool
  webhookCertPath :: string
  webhookCertName :: string
  webhookCertKey :: string
  metricsCertPath :: string
  metricsCertName :: string
  metricsCertKey :: string
  enableHTTP2 :: bool

definition default_flags :: main_flags where
  "default_flags =
     \<lparr>metricsAddr = ''0'', probeAddr = '':8081'', enableLeaderElection = False, secureMetrics = True,
      webhookCertPath = '''', webhookCertName = ''tls.crt'', webhookCertKey = ''tls.key'',
      metricsCertPath = '''', metricsCertName = ''tls.crt'', metricsCertKey = ''tls.key'', enableHTTP2 = False\<rparr>"

record tls_config =
  NextProtos :: "string list"

type_synonym tls_option = "tls_config \<Rightarrow> tls_config"

definition disableHTTP2 :: tls_option where
  "disableHTTP2 c = c\<lparr>NextProtos := [''http/1.1'']\<rparr>"

definition tlsOpts :: "main_flags \<Rightarrow> tls_option list" where
  "tlsOpts fl = (if \<not> enableHTTP2 fl then [disableHTTP2] else [])"

record webhook_options =
  wo_TLSOpts :: "tls_option list"
  wo_CertDir :: string
  wo_CertName :: string
  wo_KeyName :: string

definition webhookServerOptions :: "main_flags \<Rightarrow> webhook_options" where
  "webhookServerOptions fl =
     (let o' = \<lparr>wo_TLSOpts = tlsOpts fl, wo_CertDir = '''', wo_CertName = '''', wo_KeyName = ''''\<rparr> in
      if length (webhookCertPath fl) > 0
      then o'\<lparr>wo_CertDir := webhookCertPath fl, wo_CertName := webhookCertName fl, wo_KeyName := webhookCertKey fl\<rparr>
      else o')"

text \<open>\<open>mt_FilterProvider\<close>: whether requests for metrics are authenticated and authorised.\<close>

record metrics_options =
  mt_BindAddress :: string
  mt_SecureServing :: bool
  mt_TLSOpts :: "tls_option list"
  mt_FilterProvider :: bool
  mt_CertDir :: string
  mt_CertName :: string
  mt_KeyName :: string

definition metricsServerOptions :: "main_flags \<Rightarrow> metrics_options" where
  "metricsServerOptions fl =
     (let o1 = \<lparr>mt_BindAddress = metricsAddr fl, mt_SecureServing = secureMetrics fl, mt_TLSOpts = tlsOpts fl,
                mt_FilterProvider = False, mt_CertDir = '''', mt_CertName = '''', mt_KeyName = ''''\<rparr>;
          o2 = (if secureMetrics fl then o1\<lparr>mt_FilterProvider := True\<rparr> else o1)
      in if length (metricsCertPath fl) > 0
         then o2\<lparr>mt_CertDir := metricsCertPath fl, mt_CertName := metricsCertName fl, mt_KeyName := metricsCertKey fl\<rparr>
         else o2)"

text \<open>
  The options of the manager. \<open>mg_Secrets\<close> is the label selector of the cache of secrets, \<open>mg_DisableFor\<close>
  the types that are read from the API server at once.
\<close>

record manager_options =
  mg_Metrics :: metrics_options
  mg_WebhookServer :: webhook_options
  mg_HealthProbeBindAddress :: string
  mg_LeaderElection :: bool
  mg_LeaderElectionNamespace :: string
  mg_LeaderElectionID :: string
  mg_DefaultNamespaces :: "string set option"
  mg_SyncPeriod :: "int option"
  mg_LeaseDuration :: "int option"
  mg_RenewDeadline :: "int option"
  mg_RetryPeriod :: "int option"
  mg_Secrets :: "(string \<times> string) list"
  mg_DisableFor :: "string list"


section \<open>The environment of the process\<close>

text \<open>
  What the builder of a controller is told before it is completed, and the name of the event
  recorder of the reconciler that it is completed with.
\<close>

record controller_setup =
  ct_Recorder :: string
  ct_For :: string
  ct_Owns :: "string list"
  ct_Watches :: "string list"
  ct_MaxConcurrentReconciles :: int

datatype main_event =
    AddDebugPprofEndpoints
  | GetConfigOrDie
  | NewManager manager_options
  | IndexField string string "User \<Rightarrow> string list"
  | Complete controller_setup
  | CompleteWebhook string
  | AddHealthzCheck string
  | AddReadyzCheck string
  | StartManager

record main_env =
  os_LookupEnv :: "string \<Rightarrow> string option"
  os_ReadFile :: "string \<Rightarrow> go_error + string"
  main_answer :: "main_event list \<Rightarrow> main_event \<Rightarrow> go_error option"

type_synonym 'a main_prog = "(main_env, main_event, nat + 'a) io"

definition os_Getenv :: "main_env \<Rightarrow> string \<Rightarrow> string" where
  "os_Getenv n name = (case os_LookupEnv n name of None \<Rightarrow> '''' | Some v \<Rightarrow> v)"

text \<open>\<open>if err := ...; err != nil { os.Exit(1) }\<close>.\<close>

definition register :: "main_event \<Rightarrow> unit main_prog" where
  "register e =
     io_bind (io_call e (\<lambda>n h. main_answer n h e))
       (\<lambda>err. case err of Some _ \<Rightarrow> io_return (Inl 1) | None \<Rightarrow> io_return (Inr ()))"

fun register_all :: "main_event list \<Rightarrow> unit main_prog" where
  "register_all [] = io_return (Inr ())"
| "register_all (e # es) = io_try (register e) (\<lambda>_. register_all es)"


section \<open>Options from the environment\<close>

text \<open>The zero duration of a variable that is not set leaves the option alone. \<open>None\<close> is the exit.\<close>

definition duration_option :: "main_env \<Rightarrow> string \<Rightarrow> int option option" where
  "duration_option n name =
     (case getEnvInDuration (os_LookupEnv n) name of None \<Rightarrow> None | Some d \<Rightarrow> Some (if d \<noteq> 0 then Some d else None))"

definition sync_period :: "main_env \<Rightarrow> int option option" where
  "sync_period n =
     (if os_Getenv n ''SYNC_PERIOD'' \<noteq> ''''
      then case time_ParseDuration (os_Getenv n ''SYNC_PERIOD'') of None \<Rightarrow> None | Some d \<Rightarrow> Some (Some d)
      else Some None)"

definition managerOpts :: "main_env \<Rightarrow> main_flags \<Rightarrow> string \<Rightarrow> manager_options option" where
  "managerOpts n fl operatorNamespace =
     (case sync_period n of None \<Rightarrow> None | Some syncPeriod \<Rightarrow>
      case duration_option n ''LEASE_DURATION'' of None \<Rightarrow> None | Some leaseDuration \<Rightarrow>
      case duration_option n ''RENEW_DEADLINE'' of None \<Rightarrow> None | Some renewDeadline \<Rightarrow>
      case duration_option n ''RETRY_PERIOD'' of None \<Rightarrow> None | Some retryPeriod \<Rightarrow>
        Some \<lparr>mg_Metrics = metricsServerOptions fl, mg_WebhookServer = webhookServerOptions fl,
          mg_HealthProbeBindAddress = probeAddr fl, mg_LeaderElection = enableLeaderElection fl,
          mg_LeaderElectionNamespace = operatorNamespace,
          mg_LeaderElectionID = ''messaging-topology-operator-leader-election'',
          mg_DefaultNamespaces = watched_namespaces (os_Getenv n ''OPERATOR_SCOPE_NAMESPACE''),
          mg_SyncPeriod = syncPeriod, mg_LeaseDuration = leaseDuration, mg_RenewDeadline = renewDeadline,
          mg_RetryPeriod = retryPeriod,
          mg_Secrets = [(TopologyOperatorLabel, TopologyOperatorLabelValue)],
          mg_DisableFor = [''Service'']\<rparr>)"

definition pprofEnabled :: "main_env \<Rightarrow> bool" where
  "pprofEnabled n =
     (case os_LookupEnv n ''ENABLE_DEBUG_PPROF'' of
        None \<Rightarrow> False
      | Some enableDebugPprof \<Rightarrow> strconv_ParseBool enableDebugPprof = Some True)"


section \<open>Controllers and webhooks\<close>

fun kind_name :: "tkind \<Rightarrow> string" where
  "kind_name KBinding = ''Binding''"
| "kind_name KExchange = ''Exchange''"
| "kind_name KQueue = ''Queue''"
| "kind_name KVhost = ''Vhost''"
| "kind_name KUser = ''User''"
| "kind_name KPermission = ''Permission''"
| "kind_name KTopicPermission = ''TopicPermission''"
| "kind_name KPolicy = ''Policy''"
| "kind_name KOperatorPolicy = ''OperatorPolicy''"
| "kind_name KFederation = ''Federation''"
| "kind_name KShovel = ''Shovel''"
| "kind_name KSchemaReplication = ''SchemaReplication''"

text \<open>The names of \<open>common.go\<close>.\<close>

fun controller_name :: "tkind \<Rightarrow> string" where
  "controller_name KVhost = ''vhost-controller''"
| "controller_name KQueue = ''queue-controller''"
| "controller_name KExchange = ''exchange-controller''"
| "controller_name KBinding = ''binding-controller''"
| "controller_name KUser = ''user-controller''"
| "controller_name KPolicy = ''policy-controller''"
| "controller_name KOperatorPolicy = ''operator-policy-controller''"
| "controller_name KPermission = ''permission-controller''"
| "controller_name KSchemaReplication = ''schema-replication-controller''"
| "controller_name KFederation = ''federation-controller''"
| "controller_name KShovel = ''shovel-controller''"
| "controller_name KTopicPermission = ''topic-permission-controller''"

text \<open>
  \<open>SetupWithManager\<close>. Only the reconcile functions of User implement \<open>ControllerBuilder\<close>: they index
  the users by their secret, which may fail, and watch the secrets.
\<close>

definition SetupControllerBuilder :: "controller_setup \<Rightarrow> (main_event list) \<times> controller_setup" where
  "SetupControllerBuilder b =
     ([IndexField ''User'' ''.spec.importCredentialsSecret.name'' importCredentialsSecretIndex], b\<lparr>ct_Watches := ct_Watches b @ [''Secret'']\<rparr>)"

definition SetupWithManager :: "int \<Rightarrow> TopologyReconciler \<Rightarrow> main_event list" where
  "SetupWithManager conc r =
     (let b = \<lparr>ct_Recorder = controller_name (tr_Type r), ct_For = kind_name (tr_Type r), ct_Owns = [],
               ct_Watches = [], ct_MaxConcurrentReconciles = conc\<rparr>;
          b = (if tr_ListType r then b\<lparr>ct_Watches := ct_Watches b @ [''RabbitmqCluster'']\<rparr> else b);
          (es, b) = (if tr_Type r = KUser then SetupControllerBuilder b else ([], b))
      in es @ [Complete b])"

definition superstream_SetupWithManager :: "int \<Rightarrow> main_event list" where
  "superstream_SetupWithManager conc =
     [Complete \<lparr>ct_Recorder = ''super-stream-controller'', ct_For = ''SuperStream'',
        ct_Owns = [''Exchange'', ''Binding'', ''Queue''], ct_Watches = [], ct_MaxConcurrentReconciles = conc\<rparr>]"

definition setup_controllers :: "string \<Rightarrow> bool \<Rightarrow> int \<Rightarrow> main_event list" where
  "setup_controllers d p conc =
     concat (map (SetupWithManager conc) (topology_reconcilers d p)) @ superstream_SetupWithManager conc"

definition setup_webhooks :: "main_env \<Rightarrow> main_event list" where
  "setup_webhooks n =
     concat (map (\<lambda>w. if os_Getenv n ''ENABLE_WEBHOOKS'' \<noteq> ''false'' then [CompleteWebhook w] else [])
       [''Binding'', ''Exchange'', ''Federation'', ''Permission'', ''Policy'', ''Queue'', ''QueueDefaulter'',
        ''SchemaReplication'', ''Vhost'', ''SuperStream'', ''Shovel'', ''User'', ''TopicPermission'', ''OperatorPolicy''])"

definition main :: "main_flags \<Rightarrow> unit main_prog" where
  "main fl =
     io_bind (io_ask (\<lambda>n h. n)) (\<lambda>n.
       case getOperatorNamespace (os_Getenv n) (os_ReadFile n) of Inl err \<Rightarrow> io_return (Inl 1) | Inr operatorNamespace \<Rightarrow>
       let clusterDomain = sanitizeClusterDomainInput (os_Getenv n ''MESSAGING_DOMAIN_NAME'') in
       case getBoolEnv (os_LookupEnv n) ''CONNECT_USING_PLAIN_HTTP'' of None \<Rightarrow> io_return (Inl 1) | Some usePlainHTTP \<Rightarrow>
       case managerOpts n fl operatorNamespace of None \<Rightarrow> io_return (Inl 1) | Some opts \<Rightarrow>
       case maxConcurrentReconciles (os_LookupEnv n) of None \<Rightarrow> io_return (Inl 1) | Some conc \<Rightarrow>
       io_try (register_all (if pprofEnabled n then [AddDebugPprofEndpoints] else [])) (\<lambda>_.
       io_try (register_all [GetConfigOrDie, NewManager opts]) (\<lambda>_.
       io_try (register_all (setup_controllers clusterDomain usePlainHTTP conc)) (\<lambda>_.
       io_try (register_all (setup_webhooks n)) (\<lambda>_.
         register_all [AddHealthzCheck ''healthz'', AddReadyzCheck ''readyz'', StartManager])))))"


section \<open>What has happened before the start\<close>

text \<open>
  The calls of a start in their order; \<open>None\<close> when a variable of the environment does not parse.
\<close>

definition startup :: "main_env \<Rightarrow> main_flags \<Rightarrow> main_event list option" where
  "startup n fl =
     (case (getOperatorNamespace (os_Getenv n) (os_ReadFile n), getBoolEnv (os_LookupEnv n) ''CONNECT_USING_PLAIN_HTTP'') of
        (Inr ns, Some p) \<Rightarrow>
          (case (managerOpts n fl ns, maxConcurrentReconciles (os_LookupEnv n)) of
             (Some opts, Some conc) \<Rightarrow>
               Some ((if pprofEnabled n then [AddDebugPprofEndpoints] else []) @ [GetConfigOrDie, NewManager opts] @
                 setup_controllers (sanitizeClusterDomainInput (os_Getenv n ''MESSAGING_DOMAIN_NAME'')) p conc @
                 setup_webhooks n @ [AddHealthzCheck ''healthz'', AddReadyzCheck ''readyz'', StartManager])
           | _ \<Rightarrow> None)
      | _ \<Rightarrow> None)"

fun accepted :: "main_env \<Rightarrow> main_event list \<Rightarrow> main_event list \<Rightarrow> bool" where
  "accepted n h [] = True"
| "accepted n h (e # es) = (main_answer n h e = None \<and> accepted n (h @ [e]) es)"

lemma accepted_append: "accepted n h (es @ es') \<longleftrightarrow> accepted n h es \<and> accepted n (h @ es) es'"
  by (induction es arbitrary: h) simp_all

lemma register_all_append: "register_all (es @ es') = io_try (register_all es) (\<lambda>_. register_all es')"
  by (induction es) (simp_all add: fun_eq_iff split: prod.splits outcome.splits sum.splits)

lemma register_run: "register e n h = (Ret (if main_answer n h e = None then Inr () else Inl 1), h @ [e])"
  by (simp add: register_def split: option.split)

text \<open>A list of calls runs up to and including the first one that is refused.\<close>

lemma register_all_run:
  obtains (all) "register_all es n h = (Ret (Inr ()), h @ es)" "accepted n h es"
  | (refused) es1 e es2 where "es = es1 @ e # es2" "accepted n h es1" "main_answer n (h @ es1) e \<noteq> None"
      "register_all es n h = (Ret (Inl 1), h @ es1 @ [e])"
proof (induction es arbitrary: h thesis)
  case (Cons a es)
  show ?case
  proof (cases "main_answer n h a = None")
    case True
    show ?thesis
    proof (rule Cons.IH [of "h @ [a]"])
      fix es1 e es2
      assume "es = es1 @ e # es2" "accepted n (h @ [a]) es1" "main_answer n ((h @ [a]) @ es1) e \<noteq> None"
        "register_all es n (h @ [a]) = (Ret (Inl 1), (h @ [a]) @ es1 @ [e])"
      with True show ?thesis by (intro Cons.prems(2) [of "a # es1" e es2]) (simp_all add: register_run)
    qed (use True in \<open>auto intro!: Cons.prems(1) simp: register_run\<close>)
  next
    case False
    then show ?thesis by (intro Cons.prems(2) [of "[]" a es]) (auto simp: register_run)
  qed
qed simp

lemma main_startup:
  "main fl n h = (case startup n fl of None \<Rightarrow> (Ret (Inl 1), h) | Some es \<Rightarrow> register_all es n h)"
  unfolding main_def register_all_append [symmetric] startup_def
  by (simp add: Let_def del: register_all.simps split: sum.split option.split)

text \<open>The controllers of a list of calls, and the webhooks.\<close>

fun completed :: "main_event list \<Rightarrow> controller_setup list" where
  "completed [] = []"
| "completed (Complete b # es) = b # completed es"
| "completed (_ # es) = completed es"

fun served :: "main_event list \<Rightarrow> string list" where
  "served [] = []"
| "served (CompleteWebhook w # es) = w # served es"
| "served (_ # es) = served es"

lemma completed_append [simp]: "completed (es @ es') = completed es @ completed es'"
  by (induction es rule: completed.induct) simp_all

lemma served_append [simp]: "served (es @ es') = served es @ served es'"
  by (induction es rule: served.induct) simp_all

definition all_kinds :: "string list" where
  "all_kinds = [''Queue'', ''Exchange'', ''Binding'', ''User'', ''Vhost'', ''Policy'', ''OperatorPolicy'', ''Permission'',
     ''SchemaReplication'', ''Federation'', ''Shovel'', ''TopicPermission'', ''SuperStream'']"

lemma setup_controllers_completed:
  "map ct_For (completed (setup_controllers d p conc)) = all_kinds"
  "map ct_MaxConcurrentReconciles (completed (setup_controllers d p conc)) = replicate 13 conc"
  "filter (\<lambda>b. ''RabbitmqCluster'' \<notin> set (ct_Watches b)) (completed (setup_controllers d p conc)) =
     completed (superstream_SetupWithManager conc)"
  "served (setup_controllers d p conc) = []" "StartManager \<notin> set (setup_controllers d p conc)"
  by (simp_all add: setup_controllers_def topology_reconcilers_def setup_defs SetupWithManager_def SetupControllerBuilder_def
      superstream_SetupWithManager_def all_kinds_def numeral_eq_Suc)

lemma setup_webhooks_served:
  "served (setup_webhooks n) =
     (if os_Getenv n ''ENABLE_WEBHOOKS'' = ''false'' then []
      else [''Binding'', ''Exchange'', ''Federation'', ''Permission'', ''Policy'', ''Queue'', ''QueueDefaulter'',
        ''SchemaReplication'', ''Vhost'', ''SuperStream'', ''Shovel'', ''User'', ''TopicPermission'', ''OperatorPolicy''])"
  "completed (setup_webhooks n) = []" "StartManager \<notin> set (setup_webhooks n)"
  by (simp_all add: setup_webhooks_def)

text \<open>The protocols that a server with the given options offers.\<close>

definition protocols :: "tls_option list \<Rightarrow> string list" where
  "protocols opts = NextProtos (fold (\<lambda>f c. f c) opts \<lparr>NextProtos = [''h2'', ''http/1.1'']\<rparr>)"

lemma protocols_tlsOpts [simp]: "''h2'' \<in> set (protocols (tlsOpts fl)) \<longleftrightarrow> enableHTTP2 fl"
  by (simp add: tlsOpts_def disableHTTP2_def protocols_def)

lemma server_options [simp]:
  "wo_TLSOpts (webhookServerOptions fl) = tlsOpts fl" "mt_TLSOpts (metricsServerOptions fl) = tlsOpts fl"
  "mt_FilterProvider (metricsServerOptions fl) = secureMetrics fl" "mt_SecureServing (metricsServerOptions fl) = secureMetrics fl"
  by (simp_all add: webhookServerOptions_def metricsServerOptions_def Let_def)

lemma managerOpts_safe:
  assumes "managerOpts n fl ns = Some opts"
  shows "mg_LeaderElectionNamespace opts = ns"
    and "mg_Secrets opts = [(TopologyOperatorLabel, TopologyOperatorLabelValue)]"
    and "mg_WebhookServer opts = webhookServerOptions fl" and "mg_Metrics opts = metricsServerOptions fl"
  using assms by (auto simp: managerOpts_def split: option.splits)

lemma startup_parts:
  assumes "startup n fl = Some es"
  obtains ns opts d p conc where
    "es = (if pprofEnabled n then [AddDebugPprofEndpoints] else []) @ [GetConfigOrDie, NewManager opts] @
       setup_controllers d p conc @ setup_webhooks n @ [AddHealthzCheck ''healthz'', AddReadyzCheck ''readyz'', StartManager]"
    and "getOperatorNamespace (os_Getenv n) (os_ReadFile n) = Inr ns" and "managerOpts n fl ns = Some opts"
  using assms unfolding startup_def by (auto split: sum.splits option.splits prod.splits)

text \<open>What the calls of a start contain, apart from the start itself.\<close>

definition complete_start :: "main_env \<Rightarrow> main_flags \<Rightarrow> main_event list \<Rightarrow> bool" where
  "complete_start n fl es \<longleftrightarrow>
     (\<exists>opts. NewManager opts \<in> set es \<and>
        getOperatorNamespace (os_Getenv n) (os_ReadFile n) = Inr (mg_LeaderElectionNamespace opts) \<and>
        mg_Secrets opts = [(TopologyOperatorLabel, TopologyOperatorLabelValue)] \<and>
        (''h2'' \<in> set (protocols (wo_TLSOpts (mg_WebhookServer opts))) \<union> set (protocols (mt_TLSOpts (mg_Metrics opts))) \<longleftrightarrow>
           enableHTTP2 fl) \<and>
        (mt_FilterProvider (mg_Metrics opts) \<longleftrightarrow> mt_SecureServing (mg_Metrics opts))) \<and>
     map ct_For (completed es) = all_kinds \<and>
     map ct_For (filter (\<lambda>b. ''RabbitmqCluster'' \<notin> set (ct_Watches b)) (completed es)) = [''SuperStream''] \<and>
     length (served es) = (if os_Getenv n ''ENABLE_WEBHOOKS'' = ''false'' then 0 else 14) \<and> distinct (served es)"

lemma startup_complete:
  assumes "startup n fl = Some es"
  obtains es0 where "es = es0 @ [StartManager]" "StartManager \<notin> set es0" "complete_start n fl es0"
proof -
  obtain ns opts d p conc where
    es: "es = (if pprofEnabled n then [AddDebugPprofEndpoints] else []) @ [GetConfigOrDie, NewManager opts] @
       setup_controllers d p conc @ setup_webhooks n @ [AddHealthzCheck ''healthz'', AddReadyzCheck ''readyz'', StartManager]"
    and o: "getOperatorNamespace (os_Getenv n) (os_ReadFile n) = Inr ns" "managerOpts n fl ns = Some opts"
    using assms by (rule startup_parts)
  let ?es0 = "(if pprofEnabled n then [AddDebugPprofEndpoints] else []) @ [GetConfigOrDie, NewManager opts] @
       setup_controllers d p conc @ setup_webhooks n @ [AddHealthzCheck ''healthz'', AddReadyzCheck ''readyz'']"
  have "map ct_For (completed (superstream_SetupWithManager conc)) = [''SuperStream'']"
    by (simp add: superstream_SetupWithManager_def)
  then have "complete_start n fl ?es0"
    using o managerOpts_safe [OF o(2)]
    by (auto simp: complete_start_def setup_controllers_completed setup_webhooks_served)
  moreover have "StartManager \<notin> set ?es0" by (simp add: setup_controllers_completed(5) setup_webhooks_served(3))
  ultimately show ?thesis using es by (intro that [of ?es0]) simp_all
qed

text \<open>Conversely, a start whose variables parse and whose calls are all accepted goes through.\<close>

lemma main_goes_through:
  assumes "startup n fl = Some es" and "accepted n h es"
  shows "main fl n h = (Ret (Inr ()), h @ es)"
proof (rule register_all_run [of es n h])
  fix es1 e es2
  assume "es = es1 @ e # es2" "main_answer n (h @ es1) e \<noteq> None"
  with assms(2) show ?thesis by (simp add: accepted_append)
qed (simp add: main_startup assms(1))

text \<open>
  C34. The operator starts complete or not at all. When \<open>main\<close> gets as far as starting the manager,
  every call before was accepted: the manager was made with the operator's own namespace for the
  leader election, a cache of secrets limited to the operator's label, HTTP/2 offered by no server
  unless it was asked for, and authenticated metrics when they are served securely; all thirteen
  controllers are completed, one for each kind, the twelve of the topology kinds watching the clusters;
  and all fourteen webhooks are served unless \<open>ENABLE_WEBHOOKS\<close> is \<open>false\<close>. The process ends without an
  exit code exactly when the manager ends without an error.
\<close>

theorem manager_starts_complete:
  assumes "main fl n h = (res, h @ es)" and "StartManager \<in> set es"
  shows "\<exists>es0. es = es0 @ [StartManager] \<and> accepted n h es0 \<and> complete_start n fl es0 \<and>
    res = Ret (if main_answer n (h @ es0) StartManager = None then Inr () else Inl 1)"
proof -
  obtain l where l: "startup n fl = Some l" and run: "register_all l n h = (res, h @ es)"
    using assms by (auto simp: main_startup split: option.splits)
  obtain l0 where l0: "l = l0 @ [StartManager]" "StartManager \<notin> set l0" "complete_start n fl l0" using l by (rule startup_complete)
  show ?thesis
  proof (rule register_all_run [of l n h])
    assume "register_all l n h = (Ret (Inr ()), h @ l)" "accepted n h l"
    with run l0 show ?thesis by (auto simp: accepted_append)
  next
    fix es1 e es2
    assume *: "l = es1 @ e # es2" "accepted n h es1" "main_answer n (h @ es1) e \<noteq> None"
      "register_all l n h = (Ret (Inl 1), h @ es1 @ [e])"
    with run assms(2) have "es = es1 @ [e]" "StartManager \<in> set (es1 @ [e])" by auto
    with * l0 have "es2 = []" "e = StartManager" "es1 = l0"
      by (cases es2 rule: rev_cases; auto)+
    with * run l0 show ?thesis by auto
  qed
qed

text \<open>A process that has only the name of its namespace in the environment.\<close>

definition sample_process :: main_env where
  "sample_process =
     \<lparr>os_LookupEnv = [''OPERATOR_NAMESPACE'' \<mapsto> ''ns''], os_ReadFile = \<lambda>_. Inl (ErrText ''no such file''), main_answer = \<lambda>h e. None\<rparr>"

theorem manager_starts_complete_witness:
  "\<exists>es. main default_flags sample_process [] = (Ret (Inr ()), es @ [StartManager]) \<and> complete_start sample_process default_flags es"
proof -
  have env: "os_Getenv sample_process s = (if s = ''OPERATOR_NAMESPACE'' then ''ns'' else '''')" for s
    by (simp add: os_Getenv_def sample_process_def)
  have look: "os_LookupEnv sample_process s = None" if "s \<noteq> ''OPERATOR_NAMESPACE''" for s
    using that by (simp add: sample_process_def)
  have "getOperatorNamespace (os_Getenv sample_process) (os_ReadFile sample_process) = Inr ''ns''"
      "getBoolEnv (os_LookupEnv sample_process) ''CONNECT_USING_PLAIN_HTTP'' = Some False"
      "maxConcurrentReconciles (os_LookupEnv sample_process) = Some 0"
      "\<exists>opts. managerOpts sample_process default_flags ''ns'' = Some opts"
    by (simp_all add: getOperatorNamespace_def env look getBoolEnv_def maxConcurrentReconciles_def getIntEnv_def managerOpts_def
        sync_period_def duration_option_def getEnvInDuration_def)
  then have "startup sample_process default_flags \<noteq> None" by (auto simp: startup_def)
  then obtain es where es: "startup sample_process default_flags = Some es" by blast
  have acc: "accepted sample_process h es'" for h es' by (induction es' arbitrary: h) (simp_all add: sample_process_def)
  have run: "main default_flags sample_process [] = (Ret (Inr ()), [] @ es)" by (rule main_goes_through [OF es acc])
  have "StartManager \<in> set es" using startup_complete [OF es] by (metis in_set_conv_decomp)
  from manager_starts_complete [OF run this] run show ?thesis by auto
qed

end
