(* ===== verification/Call_Bounds.thy ===== *)
theory Call_Bounds
  imports Setup Panic_Freedom
begin

text \<open>
  Every run ends after a bounded number of calls to the outside world, whatever it answers: a
  constant for the twelve reconcilers, and a number linear in the partitions for a super stream.
  The calculus computes the bound along the structure of a program; retries on conflict happen
  inside one call.
\<close>

named_theorems bounded_intros "compositional rules for the number of calls"

definition bounded :: "nat \<Rightarrow> ('n, 'e, 'a) io \<Rightarrow> bool" where
  "bounded k m \<longleftrightarrow> (\<forall>n h. \<exists>r es. m n h = (r, h @ es) \<and> length es \<le> k)"

lemma bounded_le: "bounded a m \<Longrightarrow> a \<le> k \<Longrightarrow> bounded k m"
  unfolding bounded_def by (meson le_trans)

lemma bounded_max: "bounded a m \<Longrightarrow> bounded (max a b) m" "bounded b m \<Longrightarrow> bounded (max a b) m"
  by (erule bounded_le, simp)+

lemma bounded_simple [bounded_intros]:
  "bounded 0 (io_return x)" "bounded 0 (io_panic s)" "bounded 0 (io_ask q)" "bounded 1 (io_call e q)"
  by (simp_all add: bounded_def)

lemma bounded_bind [bounded_intros]:
  assumes "bounded a m" and "\<And>x. bounded b (f x)"
  shows "bounded (a + b) (io_bind m f)"
  unfolding bounded_def
proof (intro allI)
  fix n h
  obtain r es where 1: "m n h = (r, h @ es)" "length es \<le> a" using assms(1) unfolding bounded_def by blast
  show "\<exists>r es. io_bind m f n h = (r, h @ es) \<and> length es \<le> a + b"
  proof (cases r)
    case (Ret x)
    obtain r' es' where "f x n (h @ es) = (r', (h @ es) @ es')" "length es' \<le> b"
      using assms(2) [of x] unfolding bounded_def by blast
    with 1 Ret show ?thesis by (intro exI [of _ r'] exI [of _ "es @ es'"]) simp
  qed (use 1 in simp)
qed

lemma bounded_if [bounded_intros]: "bounded a m \<Longrightarrow> bounded b m' \<Longrightarrow> bounded (max a b) (if c then m else m')"
  by (auto intro: bounded_max)

lemma bounded_option [bounded_intros]:
  "bounded a m \<Longrightarrow> (\<And>y. bounded b (f y)) \<Longrightarrow> bounded (max a b) (case x of None \<Rightarrow> m | Some y \<Rightarrow> f y)"
  by (cases x) (auto intro: bounded_max)

lemma bounded_sum [bounded_intros]:
  "(\<And>e. bounded a (f e)) \<Longrightarrow> (\<And>y. bounded b (g y)) \<Longrightarrow> bounded (max a b) (case x of Inl e \<Rightarrow> f e | Inr y \<Rightarrow> g y)"
  by (cases x) (auto intro: bounded_max)

lemma bounded_prod [bounded_intros]: "(\<And>a b. bounded k (f a b)) \<Longrightarrow> bounded k (case x of (a, b) \<Rightarrow> f a b)"
  by (cases x) simp

lemma bounded_outcome [bounded_intros]:
  "(\<And>y. bounded a (f y)) \<Longrightarrow> (\<And>s. bounded b (g s)) \<Longrightarrow> bounded (max a b) (case x of Ret y \<Rightarrow> f y | Panicked s \<Rightarrow> g s)"
  by (cases x) (auto intro: bounded_max)

lemma bounded_try [bounded_intros]: "bounded a m \<Longrightarrow> (\<And>x. bounded b (f x)) \<Longrightarrow> bounded (a + b) (io_try m f)"
  unfolding io_try_def by (rule bounded_le, (rule bounded_intros | assumption)+) (auto elim: meta_allE)

lemma bounded_then [bounded_intros]: "bounded a m \<Longrightarrow> (\<And>x. bounded b (f x)) \<Longrightarrow> bounded (a + b) (io_then m f)"
  unfolding io_then_def by (rule bounded_le, (rule bounded_intros | assumption)+) (auto elim: meta_allE)

lemma bounded_keep [bounded_intros]: "bounded a m \<Longrightarrow> bounded a (io_keep x m)"
  unfolding io_keep_def by (rule bounded_le, (rule bounded_intros | assumption)+) (auto elim: meta_allE)


section \<open>The reconcile functions\<close>

lemma bounded_calls [bounded_intros]:
  "bounded 1 (call_http c q)" "bounded 1 (call_GetQueue c v nm)" "bounded 1 (call_bindings c q)"
  "bounded 1 (call_limits c q)" "bounded 1 (call_get k ns nm)" "bounded 1 (call_update x)"
  "bounded 1 (call_status_update x)" "bounded 1 (call_secret ns nm)" "bounded 1 (call_record t r a s)" "bounded 0 call_now"
  unfolding call_defs by (intro bounded_intros)+

lemma bounded_send [bounded_intros]: "bounded 1 (send c q)" "bounded 1 (send_removal c q)"
  unfolding send_def send_removal_def by (rule bounded_le, (rule bounded_intros)+, simp)+

lemma bounded_ReadCredentials [bounded_intros]: "bounded 1 (ReadCredentials p)"
  unfolding ReadCredentials_def by (rule bounded_le, (rule bounded_intros)+) simp

lemma bounded_ParseReference [bounded_intros]: "bounded 4 (ParseReference ref ns d p)"
  unfolding ParseReference_def parse_cluster_def cluster_credentials_def cluster_endpoint_def Let_def
  by (rule bounded_le, (rule bounded_intros)+) simp

lemma bounded_limits [bounded_intros]:
  "bounded 3 (reconcileVhostLimits c v new)" "bounded 3 (reconcileUserLimits c user name)"
  unfolding reconcileVhostLimits_def reconcileUserLimits_def getVhostLimits_def getUserLimits_def Let_def
  by (rule bounded_le, (rule bounded_intros)+, simp)+

lemma bounded_pointed_user [bounded_intros]: "bounded 1 (pointed_user ref ns)"
  unfolding pointed_user_def getUsernameFromUser_def by (rule bounded_le, (rule bounded_intros)+) simp

lemma bounded_user_pointer [bounded_intros]:
  "bounded a m \<Longrightarrow> bounded b m' \<Longrightarrow> (\<And>u. bounded c (f u)) \<Longrightarrow>
   bounded (max a (max b c)) (case x of ZeroUser \<Rightarrow> m | NilUser \<Rightarrow> m' | FoundUser u \<Rightarrow> f u)"
  by (cases x) (auto intro: bounded_max)

lemma bounded_adopt [bounded_intros]: "bounded 1 (adopt_permission user x)"
  unfolding adopt_permission_def Let_def by (rule bounded_le, (rule bounded_intros)+) simp

lemma bounded_finalizers [bounded_intros]: "bounded 1 (removeFinalizer x)" "bounded 1 (addFinalizerIfNeeded x)"
  unfolding removeFinalizer_def addFinalizerIfNeeded_def Let_def by (rule bounded_le, (rule bounded_intros)+, simp)+

lemma bounded_send_permission [bounded_intros]: "bounded 1 (send_permission c name x)"
  unfolding send_permission_def by (rule bounded_le, (rule bounded_intros)+) simp

lemma bounded_User_DeclareFunc: "bounded 10 (User_DeclareFunc c u)"
  unfolding User_DeclareFunc_def declareWithImportedCredentials_def declareWithGeneratedCredentials_def
    importCredentials_def getUserCredentials_def putUser_def declareCredentials_def generateCredentials_def
    random_string_def setUserStatus_def Let_def
  by (rule bounded_le, (rule bounded_intros)+) simp

lemma bounded_declare:
  "bounded 10 (declare_obj c obj)"
proof (cases obj)
  case (OUser u)
  show ?thesis unfolding OUser declare_obj.simps
    by (rule bounded_le, (rule bounded_intros bounded_User_DeclareFunc)+) simp
qed (simp; unfold Binding_DeclareFunc_def Exchange_DeclareFunc_def Queue_DeclareFunc_def Vhost_DeclareFunc_def
    SchemaReplication_DeclareFunc_def getUpstreamEndpoints_def Policy_DeclareFunc_def OperatorPolicy_DeclareFunc_def
    Federation_DeclareFunc_def Federation_getUri_def Shovel_DeclareFunc_def Shovel_getUris_def Permission_DeclareFunc_def
    TopicPermission_DeclareFunc_def Let_def; rule bounded_le, (rule bounded_intros)+, simp)+

lemma bounded_delete: "bounded 3 (delete_obj c obj)"
  by (cases obj; simp; unfold Binding_DeleteFunc_def findBindingInfo_def Exchange_DeleteFunc_def Queue_DeleteFunc_def
      quorum_check_def Vhost_DeleteFunc_def User_DeleteFunc_def Policy_DeleteFunc_def OperatorPolicy_DeleteFunc_def
      Federation_DeleteFunc_def Shovel_DeleteFunc_def SchemaReplication_DeleteFunc_def Permission_DeleteFunc_def
      TopicPermission_DeleteFunc_def revokePermissions_def clearTopicPermission_def Let_def;
      rule bounded_le, (rule bounded_intros)+, simp)


section \<open>The reconcilers\<close>

lemma bounded_funcs [bounded_intros]: "bounded 10 (DeclareFunc k c obj)" "bounded 3 (DeleteFunc k c obj)"
  unfolding DeclareFunc_def DeleteFunc_def SchemaReplication_DeleteFunc_def
  by (rule bounded_le, (rule bounded_intros bounded_declare bounded_delete)+, simp)+

lemma bounded_status [bounded_intros]: "bounded 1 (set_not_ready msg obj)" "bounded 1 (set_ready obj)"
  unfolding set_not_ready_def set_ready_def statusUpdate_def by (rule bounded_le, (rule bounded_intros)+, simp)+

lemma bounded_handle_error [bounded_intros]: "bounded 2 (handleRMQReferenceParseError obj err)"
  unfolding handleRMQReferenceParseError_def Let_def by (rule bounded_le, (rule bounded_intros)+) simp

lemma bounded_Reconcile:
  assumes "rf.uses k r"
  shows "bounded 19 (Reconcile r ns name)"
proof -
  have funs: "tr_DeclareFunc r = DeclareFunc k" "tr_DeleteFunc r = DeleteFunc k"
    using assms by (simp_all add: rf.uses_def)
  show ?thesis
    unfolding Reconcile_def reconcile_object_def extractSystemCertPool_def reconcile_delete_def reconcile_declare_def
      Let_def funs
    by (rule bounded_le, (rule bounded_intros)+) simp
qed


section \<open>Super streams\<close>

lemma bounded_create_or_update [bounded_intros]: "bounded 1 (create_or_update b x)"
  by (cases "(b, x)" rule: create_or_update.cases) (auto simp del: One_nat_def intro: bounded_simple bounded_le [OF bounded_simple(2)])

lemma bounded_superstream_status [bounded_intros]:
  "bounded 1 (update_superstream_status s)" "bounded 1 (superstream_not_ready msg s)" "bounded 1 (superstream_ready s)"
  unfolding superstream_not_ready_def superstream_ready_def SetReconcileSuccess_def update_superstream_status_def
  by (rule bounded_le, (rule bounded_intros)+, simp)+

lemma bounded_superstream_reference [bounded_intros]:
  "bounded 1 (getRabbitmqClusterReference ref ns)" "bounded 2 (utils_handleRMQReferenceParseError s e)"
  unfolding getRabbitmqClusterReference_def utils_handleRMQReferenceParseError_def removeFinalizer_superstream_def Let_def
  by (rule bounded_le, (rule bounded_intros)+, simp)+

lemma bounded_finish_superstream [bounded_intros]: "bounded 2 (finish_superstream s names)"
  unfolding finish_superstream_def by (rule bounded_le, (rule bounded_intros)+) simp

lemma bounded_reconcile_children: "bounded (length builders + 1) (reconcile_children s builders names)"
proof (induction builders arbitrary: names)
  case Nil
  show ?case unfolding reconcile_children.simps by (rule bounded_le, rule bounded_intros) simp
next
  case (Cons b bs)
  have "bounded (length bs + 1) (case x of OQueue q \<Rightarrow> reconcile_children s bs (f q) | _ \<Rightarrow> io_panic msg)" for x f msg
    by (cases x) (auto simp del: One_nat_def simp: Cons.IH [simplified] intro: bounded_le [OF bounded_simple(2)])
  note partition = this
  show ?case unfolding reconcile_children.simps by (rule bounded_le, (rule partition bounded_intros Cons.IH)+) simp
qed

lemma bounded_reconcile_superstream:
  "bounded (2 * nat (ss_Partitions (obj_Spec s)) + 4) (reconcile_superstream s ref)"
proof -
  have "bounded (2 * length keys + 4)
      (io_bind (reconcile_children s (superstream_builders s keys ref) [])
         (\<lambda>r. case r of Inl res \<Rightarrow> io_return res | Inr names \<Rightarrow> finish_superstream s names))" for keys
    by (rule bounded_le, (rule bounded_intros bounded_reconcile_children)+) (simp add: length_superstream_builders)
  note children = this [where keys = "superstream_keys s"]
  show ?thesis
  proof (cases "ss_RoutingKeys (obj_Spec s) \<noteq> [] \<and> int (length (ss_RoutingKeys (obj_Spec s))) \<noteq> ss_Partitions (obj_Spec s)")
    case False
    then have "length (superstream_keys s) = nat (ss_Partitions (obj_Spec s))"
      by (auto simp: superstream_keys_def generateRoutingKeys_def)
    with children have "bounded (2 * nat (ss_Partitions (obj_Spec s)) + 4)
      (io_bind (reconcile_children s (superstream_builders s (superstream_keys s) ref) [])
         (\<lambda>r. case r of Inl res \<Rightarrow> io_return res | Inr names \<Rightarrow> finish_superstream s names))" by simp
    then show ?thesis unfolding reconcile_superstream_def Let_def if_not_P [OF False] superstream_keys_def
      by - (rule bounded_le, (assumption | rule bounded_intros)+, simp)
  next
    case True
    show ?thesis unfolding reconcile_superstream_def Let_def if_P [OF True]
      by (rule bounded_le, (rule bounded_intros)+) simp
  qed
qed

lemma bounded_SuperStream_Reconcile:
  "\<exists>res es. SuperStream_Reconcile ns name n h = (res, h @ es) \<and>
     length es \<le> (case kube_superstream n h ns name of Inl e \<Rightarrow> 1 | Inr s \<Rightarrow> 2 * nat (ss_Partitions (obj_Spec s)) + 6)"
proof (cases "kube_superstream n h ns name")
  case (Inr s)
  have "bounded (1 + max 2 (2 * nat (ss_Partitions (obj_Spec s)) + 4))
      (io_bind (getRabbitmqClusterReference (ss_RabbitmqClusterReference (obj_Spec s)) (om_Namespace (obj_Meta s)))
         (\<lambda>r. case r of Inl err \<Rightarrow> utils_handleRMQReferenceParseError s (Some err)
                      | Inr ref \<Rightarrow> reconcile_superstream s ref))"
    by (rule bounded_intros bounded_reconcile_superstream)+
  then obtain r es where "io_bind (getRabbitmqClusterReference (ss_RabbitmqClusterReference (obj_Spec s)) (om_Namespace (obj_Meta s)))
         (\<lambda>r. case r of Inl err \<Rightarrow> utils_handleRMQReferenceParseError s (Some err)
                      | Inr ref \<Rightarrow> reconcile_superstream s ref) n (h @ [KubeGetSuperStream ns name]) =
       (r, (h @ [KubeGetSuperStream ns name]) @ es)" "length es \<le> 2 * nat (ss_Partitions (obj_Spec s)) + 5"
    unfolding bounded_def by fastforce
  then show ?thesis by (simp add: SuperStream_Reconcile_def Inr)
qed (simp add: SuperStream_Reconcile_def)


section \<open>Properties\<close>

text \<open>
  C33. Every run ends: whatever the API server, the broker and Vault answer, a run of any of the
  twelve reconcilers makes at most 19 calls, and a run for a super stream with \<open>k\<close> partitions at
  most \<open>2 k + 6\<close>.
\<close>

theorem runs_bounded:
  assumes "r \<in> set (topology_reconcilers d p)"
  shows "(\<exists>res es. Reconcile r ns name n h = (res, h @ es) \<and> length es \<le> 19) \<and>
    (\<exists>res es. SuperStream_Reconcile ns name n h = (res, h @ es) \<and>
       length es \<le> (case kube_superstream n h ns name of
                        Inl e \<Rightarrow> 1 | Inr s \<Rightarrow> 2 * nat (ss_Partitions (obj_Spec s)) + 6))"
  using bounded_Reconcile [OF topology_reconcilers_paired(3) [OF assms]] bounded_SuperStream_Reconcile
  by (simp add: bounded_def)

theorem runs_bounded_witness:
  "\<exists>res es. Reconcile (setup_Exchange ''d'' False) ''ns'' ''ex'' sample_env [] = (res, es) \<and> length es \<le> 19"
  using runs_bounded [of "setup_Exchange ''d'' False" "''d''" False "''ns''" "''ex''" sample_env "[]"]
  by (simp add: topology_reconcilers_def)

end
