(* ===== verification/Spec2Isabelle.thy ===== *)
theory Spec2Isabelle
  imports Setup Sample_Runs Panic_Freedom Informers Deep_Copy_Laws Manager Call_Bounds
begin

text \<open>
  A verification development for the RabbitMQ messaging topology operator, a Kubernetes operator
  written in Go. The operator watches thirteen kinds of custom resources and makes a RabbitMQ broker
  agree with them through its management API.

  \<^bold>\<open>The program and its model.\<close> Twelve kinds share one reconciler, \<open>TopologyReconciler\<close>
  (\<open>internal/controller/topology_controller.go\<close>): it reads the object, finds the broker through the
  object's reference (\<open>rabbitmqclient\<close>), and calls the declare or delete function of the kind
  (\<open>internal/controller/*_controller.go\<close>), which translates the spec (\<open>internal/*.go\<close>) and calls the
  broker. A finalizer keeps the object until the broker's side is removed. The thirteenth kind, the
  super stream, is expanded into objects of other kinds (\<open>internal/managedresource\<close>). Webhooks
  (\<open>internal/webhook\<close>) decide which objects and updates get that far; \<open>cmd/main.go\<close> wires it up.

  \<^item> \<open>Go_Prelude\<close>, \<open>Go_Json\<close>, \<open>Errors\<close>: the language and its standard library. A function with effects
    maps an environment and a history of calls to an outcome and a longer history; a panic is an
    outcome. The collections \<open>emits_intros\<close>, \<open>guarded_intros\<close> and \<open>returns_intros\<close> prove, for a
    composed program, what it may call, what has happened before a call, and that it does not panic.
    \<open>json.Unmarshal\<close> is modelled down to rounding to float64.
  \<^item> \<open>Api_Types\<close>: \<open>api/v1beta1\<close> and \<open>api/v1alpha1\<close>, the resources, conditions, references.
  \<^item> \<open>Settings\<close>: the functions \<open>Generate...\<close> of \<open>internal/*.go\<close>, and \<open>RandomEncodedString\<close>.
  \<^item> \<open>Environment\<close>: the interface to everything outside the repository, as the record \<open>env\<close> of
    answers, and the documented laws of those libraries as predicates on it.
  \<^item> \<open>Reconcile_Utils\<close> (\<open>utils.go\<close>), \<open>Resource_Controllers\<close>, \<open>Limit_Controllers\<close>, \<open>User_Controller\<close>:
    the declare and delete functions of the twelve kinds and their helpers.
  \<^item> \<open>Vault_Reader\<close>, \<open>Cluster_Reference\<close>: \<open>vault_reader.go\<close>, \<open>cluster_reference.go\<close> and
    \<open>rabbitmq_client_factory.go\<close>.
  \<^item> \<open>Topology_Controller\<close>: \<open>Reconcile\<close> with all its branches, and the watch on clusters.
  \<^item> \<open>Super_Stream\<close>: \<open>super_stream_controller.go\<close> and the three builders.
  \<^item> \<open>Webhooks\<close>: the validators of the thirteen kinds and the defaulter of the queue.
  \<^item> \<open>Setup\<close>, \<open>Manager\<close>: \<open>main.go\<close>. The environment variables, the cluster domain and the list of
    reconcilers; then \<open>main\<close> itself, from the flags and the options of the manager over the functions
    \<open>SetupWithManager\<close> and the webhooks to the start, with every exit.
  \<^item> \<open>Go_Heap\<close>, \<open>Deep_Copy\<close>: \<open>zz_generated.deepcopy.go\<close> of both versions, on a heap of cells with an
    address each, so that sharing can be seen.
  \<^item> \<open>Typed_Clients\<close>, \<open>Clientset\<close>, \<open>Informers\<close>: \<open>pkg/generated\<close>. The typed clients and their fakes as the
    requests they build, the group clients and the clientset, the listers, the informers and the shared
    informer factory as a state with its table of informers.
  \<^item> \<open>Sample_World\<close>, \<open>Sample_Runs\<close>: one concrete environment and runs in it, for the witnesses.

  \<^bold>\<open>Interfaces.\<close> The locale \<open>reconcile_func\<close> (\<open>Reconcile_Contract\<close>) is what the reconciler relies on
  from the twelve pairs of functions, \<open>limits_api\<close> (\<open>Limit_Controllers\<close>) the store of limits that
  two controllers synchronise, \<open>resource_builder\<close> (\<open>Super_Stream\<close>) the interface of the builders,
  \<open>immutable_identity\<close> (\<open>Admission\<close>) a relation that keeps an identity, \<open>deep_copier\<close> (\<open>Go_Heap\<close>)
  a view of the heap with a copy that shares nothing, and \<open>copy_library\<close> (\<open>Deep_Copy_Laws\<close>) the copies of
  the Kubernetes structs that the generated ones call; \<open>client_interface\<close> (\<open>Typed_Clients\<close>) is what a client
  of a kind offers, \<open>client_getter\<close> (\<open>Informers\<close>) what the informers need of the clientset. Each is interpreted on the definitions of the model.

  \<^bold>\<open>What is proved.\<close> In this theory, for all twelve reconcilers in every environment that satisfies the
  laws: the finalizer is given up only with a reason, and is always given up after a successful
  deletion; no broker is called for an object without its finalizer; accepted updates never redirect
  a reconciler to another broker object; a run without an error has reported its outcome; no run
  panics on an object with its required fields. With the ledger of a broker (\<open>Broker_Ledger\<close>: the fold of
  the calls it accepted): a run that ends with Ready has left the desired entity there, and a released
  object has left nothing. \<open>Call_Bounds\<close>: every run ends after a bounded number of calls. \<open>Manager\<close>: the
  operator starts with all its controllers and webhooks or not at all. \<open>Deep_Copy_Laws\<close>, \<open>Typed_Clients\<close>,
  \<open>Informers\<close>: deep copies are equal and independent; clients and fakes mean the same requests; informers are
  shared, run once and watch their kind; listers find what is stored. In the other component
  theories: convergence, completeness and idempotence of the synchronisation of limits; the children of a super stream, their wiring and
  growth; consistency of user names and stability of generated credentials; authorisation and
  transport security of references; exactness of the watch on clusters; what the webhooks accept;
  the life of the Vault client and its token; bounds of the numbers that are cut to a machine width;
  and the two places where a webhook fails: the panic on shortened routing keys and the rejected
  removal of a finalizer.

  \<^bold>\<open>Hypotheses.\<close> \<open>lawful\<close> collects what controllerutil and the API server document: the three
  finalizer helpers work on the set of finalizers, an accepted update is answered with what was sent
  apart from the status, \<open>SetControllerReference\<close> changes the owner references only, and no library
  returns the operator's own sentinel \<open>ErrNotFound\<close>. Other hypotheses (a truthful store of limits, the
  answer of a status update, the order of a map, the deep copies of the library's structs, an indexer
  that stores each object under its key) are stated in the theorems that use them, and every
  witness satisfies them with a concrete environment.

  \<^bold>\<open>Bounds.\<close> The JSON reader takes twice the length of the text plus two as fuel, which
  \<open>json_value_fuel\<close> shows to be enough; its limit on nesting is the one of Go.
  \<open>time.ParseDuration\<close> consumes its text. All other recursion is structural. A run makes at most 19 calls, for a super stream with \<open>k\<close> partitions
  at most \<open>2 k + 6\<close>. The renewal of the Vault token runs forever and is a step relation with
  an invariant and a progress lemma.

  \<^bold>\<open>Not modelled.\<close> Log lines; the text that a library puts into its errors; the parsing of flags;
  \<open>ValidateDelete\<close>, which accepts everything; the fake clientset, which only connects to the object
  tracker of client-go; \<open>rabbitmqclientfakes\<close>, doubles that record the arguments of tests; the tests.
  The retry on conflict of client-go is part of the answers of the environment. Concurrent runs of different objects are not interleaved: the environment may
  answer anything at every call, which covers what other runs do to the outside world.
\<close>

section \<open>The finalizer\<close>



text \<open>
  C2. No run of any of the twelve reconcilers calls the broker for an object that neither is marked
  for deletion, nor carried its finalizer when it was read, nor got it by an update that the API
  server accepted earlier in the run.
\<close>

theorem broker_called_only_with_finalizer:
  assumes "lawful n" and "r \<in> set (topology_reconcilers d p)"
    and "Reconcile r ns name n h0 = (res, h0 @ es1 @ Broker c q # es2)"
  shows "finalizer_held r n ns name h0 (h0 @ es1)"
  using rf.broker_guarded [OF lawfulD [OF assms(1)] topology_reconcilers_paired(3) [OF assms(2)],
      of ns name h0] assms(3)
  by (auto elim!: guarded_run)

theorem broker_called_only_with_finalizer_witness:
  "finalizer_held (setup_Exchange ''d'' False) deletion_world ''ns'' ''ex'' []
     [KubeGet KExchange ''ns'' ''ex'', KubeGetSecret ''ns'' ''conn'']"
  using broker_called_only_with_finalizer
    [where n = deletion_world and r = "setup_Exchange ''d'' False" and d = "''d''" and p = False
       and ?h0.0 = "[]" and ns = "''ns''" and name = "''ex''" and c = sample_client]
  by (simp add: sample_deletion_run topology_reconcilers_def)


section \<open>Admission and reconciliation\<close>



text \<open>
  C6. No run of any of the twelve reconcilers panics, whatever the outside world answers, when the
  object it reads is being deleted or has the fields that its declare function dereferences.
\<close>

theorem reconcile_never_panics:
  assumes "lawful n" and "r \<in> set (topology_reconcilers d p)"
    and "\<And>obj. decode_as (tr_Type r) (kube_get n h (tr_Type r) ns name) = Inr obj \<Longrightarrow>
           declarable obj \<or> om_DeletionTimestamp (tobj_Meta obj) \<noteq> None"
  shows "\<exists>res es. Reconcile r ns name n h = (Ret res, es)"
  using reconcile_returns [OF lawfulD(2) [OF assms(1)] topology_reconcilers_paired(3) [OF assms(2)] assms(3)]
  by (auto simp: returns_def)

theorem reconcile_never_panics_witness:
  "\<exists>res es. Reconcile (setup_Exchange ''d'' False) ''ns'' ''ex'' deletion_world [] = (Ret res, es)"
  by (rule reconcile_never_panics [where d = "''d''" and p = False])
    (auto simp: topology_reconcilers_def decode_as_def setup_Exchange_def)

text \<open>
  C5. No run ends quietly without a report: when the reconciler of an object that is not being
  deleted returns no error, its last call has written a status with a condition Ready, and that
  condition is True only if the declare function has just returned without an error.
\<close>

theorem quiet_end_reported:
  assumes "decode_as (tr_Type r) (kube_get n h (tr_Type r) ns name) = Inr obj"
    and "om_DeletionTimestamp (tobj_Meta obj) = None"
    and "Reconcile r ns name n h = (Ret (delay, None), h')"
  shows "reported r n h'"
  using assms reported_object [of r obj] by (simp add: Reconcile_def call_get_def)

theorem quiet_end_reported_witness:
  "\<exists>h'. Reconcile (setup_Exchange ''d'' False) ''ns'' ''ex'' declaration_world [] = (Ret (0, None), h') \<and>
     reported (setup_Exchange ''d'' False) declaration_world h'"
proof -
  obtain h' where run: "Reconcile (setup_Exchange ''d'' False) ''ns'' ''ex'' declaration_world [] = (Ret (0, None), h')"
    using sample_declaration_run by blast
  have "decode_as (tr_Type (setup_Exchange ''d'' False))
      (kube_get declaration_world [] (tr_Type (setup_Exchange ''d'' False)) ''ns'' ''ex'') = Inr (OExchange sample_exchange)"
    by (simp add: decode_as_def setup_Exchange_def)
  from quiet_end_reported [OF this _ run] run show ?thesis by (auto simp: sample_exchange_def sample_meta_def)
qed




section \<open>The ledger of the brokers\<close>





end
